(* ===== verification/Go_Prelude.thy ===== *)
theory Go_Prelude
  imports Main "HOL-Library.Word"
begin

text \<open>
  Shared ground of the development: Go's byte strings, fixed-width integers, decimal and
  hexadecimal formatting, the parts of the packages \<^verbatim>\<open>strings\<close>, \<^verbatim>\<open>strconv\<close> and
  \<^verbatim>\<open>encoding/binary\<close> the server uses, results with errors and panics, and iteration over maps.

  Conventions. A Go \<^verbatim>\<open>string\<close> or \<^verbatim>\<open>[]byte\<close> is a list of bytes, and a byte is Isabelle's
  8-bit \<^typ>\<open>char\<close>. \<^verbatim>\<open>uint8/16/32\<close> are words of that width. Go's \<^verbatim>\<open>int\<close> (64 bits on the
  server's platforms) is \<^typ>\<open>int\<close>; where a sum can leave the 64-bit range, the wrap-around is
  written out with \<open>wrap64\<close>. A Go map is a partial function; a loop over a map, whose order Go
  leaves open, takes the order as an extra argument.
\<close>

section \<open>Hint collections\<close>

named_theorems go_simps \<open>rewrite rules on Go strings, numbers and byte order\<close>

named_theorems go_defs \<open>small definitions that are unfolded in component proofs\<close>

section \<open>Types and results\<close>

type_synonym u8 = "8 word"
type_synonym u16 = "16 word"
type_synonym u32 = "32 word"

type_synonym bytes = string

text \<open>A call returns a value, returns an error, or panics (which nothing in the server recovers).\<close>

datatype ('e, 'a) outcome = Ok 'a | Fail 'e | Panic

fun bind_ok :: "('e, 'a) outcome \<Rightarrow> ('a \<Rightarrow> ('e, 'b) outcome) \<Rightarrow> ('e, 'b) outcome" where
  "bind_ok (Ok a) f = f a"
| "bind_ok (Fail e) f = Fail e"
| "bind_ok Panic f = Panic"

fun the_ok :: "('e, 'a) outcome \<Rightarrow> 'a" where
  "the_ok (Ok a) = a"
| "the_ok (Fail e) = undefined"
| "the_ok Panic = undefined"

lemma bind_ok_Panic_iff:
  "bind_ok r f = Panic \<longleftrightarrow> r = Panic \<or> (\<exists>x. r = Ok x \<and> f x = Panic)"
  by (cases r) auto

lemma bind_ok_Ok_iff: "bind_ok r f = Ok y \<longleftrightarrow> (\<exists>x. r = Ok x \<and> f x = Ok y)"
  by (cases r) auto

section \<open>Integers\<close>

text \<open>Two's-complement wrap-around of a 64-bit signed \<^verbatim>\<open>int\<close>.\<close>

definition wrap64 :: "int \<Rightarrow> int" where
  "wrap64 i = (i + 2 ^ 63) mod 2 ^ 64 - 2 ^ 63"

lemma wrap64_id [simp]: "- (2 ^ 63) \<le> i \<Longrightarrow> i < 2 ^ 63 \<Longrightarrow> wrap64 i = i"
  by (simp add: wrap64_def)

lemma wrap64_range: "- (2 ^ 63) \<le> wrap64 i \<and> wrap64 i < 2 ^ 63"
proof -
  have "0 \<le> (i + 2 ^ 63) mod 2 ^ 64" and "(i + 2 ^ 63) mod 2 ^ 64 < (2 ^ 64 :: int)"
    by simp_all
  then show ?thesis by (simp add: wrap64_def)
qed

section \<open>Byte order (encoding/binary)\<close>

text \<open>\<open>le_bytes k n\<close> are the low \<open>k\<close> bytes of \<open>n\<close>, least significant first.\<close>

fun le_bytes :: "nat \<Rightarrow> nat \<Rightarrow> bytes" where
  "le_bytes 0 n = []"
| "le_bytes (Suc k) n = char_of n # le_bytes k (n div 256)"

fun le_val :: "bytes \<Rightarrow> nat" where
  "le_val [] = 0"
| "le_val (c # cs) = of_char c + 256 * le_val cs"

definition be_val :: "bytes \<Rightarrow> nat" where
  "be_val s = le_val (rev s)"

lemma length_le_bytes [simp, go_simps]: "length (le_bytes k n) = k"
  by (induction k arbitrary: n) auto

lemma le_bytes_eq_Nil [simp]: "le_bytes k n = [] \<longleftrightarrow> k = 0"
  by (cases k) auto

lemma mod_mult_256: "n mod (256 * m) = n mod 256 + 256 * (n div 256 mod m)" for n m :: nat
  by (metis add.commute mod_mult2_eq)

lemma le_val_le_bytes [simp, go_simps]: "le_val (le_bytes k n) = n mod 256 ^ k"
  by (induction k arbitrary: n) (simp_all add: mod_mult_256)

lemma le_val_bound: "le_val s < 256 ^ length s"
proof (induction s)
  case (Cons c s)
  have "of_char c < (256 :: nat)" by (rule nat_of_char_less_256)
  moreover have "256 * le_val s + 256 \<le> 256 * 256 ^ length s" using Cons.IH by simp
  moreover have "256 ^ length (c # s) = (256 * 256 ^ length s :: nat)" by simp
  ultimately show ?case unfolding le_val.simps by linarith
qed simp

lemma char_of_add_256 [simp]: "char_of (of_char c + 256 * n) = c" for n :: nat
  by (metis char_of_char char_of_mod_256 mod_mult_self2)

lemma le_bytes_le_val [simp, go_simps]: "le_bytes (length s) (le_val s) = s"
  by (induction s) (auto simp: div_add1_eq)

text \<open>Fixed-width reads and writes.\<close>

definition le16 :: "u16 \<Rightarrow> bytes" where
  "le16 w = le_bytes 2 (unat w)"

definition le32 :: "u32 \<Rightarrow> bytes" where
  "le32 w = le_bytes 4 (unat w)"

definition u16le :: "bytes \<Rightarrow> u16" where
  "u16le s = word_of_nat (le_val s)"

definition u32le :: "bytes \<Rightarrow> u32" where
  "u32le s = word_of_nat (le_val s)"

definition u32be :: "bytes \<Rightarrow> u32" where
  "u32be s = word_of_nat (be_val s)"

lemma length_le16 [simp]: "length (le16 w) = 2"
  by (simp add: le16_def)

lemma length_le32 [simp]: "length (le32 w) = 4"
  by (simp add: le32_def)

lemma le16_not_Nil [simp]: "le16 w \<noteq> []" and le32_not_Nil [simp]: "le32 v \<noteq> []"
  by (simp_all add: le16_def le32_def)

lemma u16le_le16 [simp, go_simps]: "u16le (le16 w) = w"
  using unsigned_less [of w, where 'a = nat] by (simp add: u16le_def le16_def)

lemma u32le_le32 [simp, go_simps]: "u32le (le32 w) = w"
  using unsigned_less [of w, where 'a = nat] by (simp add: u32le_def le32_def)

lemma le32_u32le: "length s = 4 \<Longrightarrow> le32 (u32le s) = s"
proof -
  assume len: "length s = 4"
  then have "le_val s < 2 ^ 32" using le_val_bound [of s] by simp
  then have "unat (word_of_nat (le_val s) :: u32) = le_val s"
    by (simp add: unat_of_nat)
  then show ?thesis using le_bytes_le_val [of s] len by (simp add: le32_def u32le_def)
qed

lemma unat_word_of_nat_16 [simp]: "n < 65536 \<Longrightarrow> unat (word_of_nat n :: u16) = n"
  by (simp add: unat_of_nat)

lemma unat_word_of_nat_32 [simp]: "n < 4294967296 \<Longrightarrow> unat (word_of_nat n :: u32) = n"
  by (simp add: unat_of_nat)

end
