(* ===== verification/Go_Strings.thy ===== *)
theory Go_Strings
  imports Go_Prelude
begin

text \<open>
  The functions of Go's packages \<^verbatim>\<open>strings\<close>, \<^verbatim>\<open>strconv\<close> and \<^verbatim>\<open>fmt\<close> that the server calls,
  on byte strings: trimming, splitting, joining, cutting, replacing, case folding of ASCII,
  decimal and hexadecimal formatting, and the two integer parsers \<^verbatim>\<open>Atoi\<close> and \<^verbatim>\<open>ParseUint\<close>
  with their syntax and range errors. The lemmas are the round trips (\<^verbatim>\<open>Split\<close>/\<^verbatim>\<open>Join\<close>,
  \<^verbatim>\<open>Sprintf("%d")\<close>/\<^verbatim>\<open>Atoi\<close>) and the bounds that the components rely on.
\<close>

section \<open>Formatting integers\<close>

fun nat_dec :: "nat \<Rightarrow> string" where
  "nat_dec n = (if n < 10 then [char_of (48 + n)] else nat_dec (n div 10) @ [char_of (48 + n mod 10)])"

declare nat_dec.simps [simp del]

text \<open>\<^verbatim>\<open>fmt.Sprintf("%d", i)\<close> and \<^verbatim>\<open>strconv.Itoa\<close>.\<close>

definition fmt_d :: "int \<Rightarrow> string" where
  "fmt_d i = (if i < 0 then CHR ''-'' # nat_dec (nat (- i)) else nat_dec (nat i))"

definition fmt_u32 :: "u32 \<Rightarrow> string" where
  "fmt_u32 w = nat_dec (unat w)"

definition hex_digit :: "nat \<Rightarrow> char" where
  "hex_digit d = (if d < 10 then char_of (48 + d) else char_of (55 + d))"

text \<open>\<^verbatim>\<open>fmt.Sprintf("%X", n)\<close>: upper-case hexadecimal.\<close>

fun nat_hex :: "nat \<Rightarrow> string" where
  "nat_hex n = (if n < 16 then [hex_digit n] else nat_hex (n div 16) @ [hex_digit (n mod 16)])"

declare nat_hex.simps [simp del]

section \<open>Parsing integers\<close>

text \<open>The value of a hexadecimal digit of either case.\<close>

definition hex_val :: "char \<Rightarrow> nat option" where
  "hex_val c =
     (let n = of_char c in
      if 48 \<le> n \<and> n \<le> 57 then Some (n - 48)
      else if 65 \<le> n \<and> n \<le> 70 then Some (n - 55)
      else if 97 \<le> n \<and> n \<le> 102 then Some (n - 87)
      else None)"

definition is_digit :: "char \<Rightarrow> bool" where
  "is_digit c \<longleftrightarrow> 48 \<le> (of_char c :: nat) \<and> (of_char c :: nat) \<le> 57"

fun dec_val :: "nat \<Rightarrow> string \<Rightarrow> nat" where
  "dec_val a [] = a"
| "dec_val a (c # cs) = dec_val (10 * a + (of_char c - 48)) cs"

text \<open>
  \<^verbatim>\<open>strconv.ParseUint(s, 10, bits)\<close>: \<open>None\<close> is a syntax or range error. (None of the callers
  looks at the value of a failed call.)
\<close>

definition parse_uint :: "nat \<Rightarrow> string \<Rightarrow> nat option" where
  "parse_uint bits s =
     (if s = [] \<or> \<not> list_all is_digit s then None
      else let v = dec_val 0 s in if v < 2 ^ bits then Some v else None)"

text \<open>
  \<^verbatim>\<open>strconv.Atoi\<close>: the value and whether the error is nil. A syntax error gives 0; a range error
  gives the nearest 64-bit value, which some callers use because they ignore the error.
\<close>

definition atoi_abs :: "bool \<Rightarrow> string \<Rightarrow> int \<times> bool" where
  "atoi_abs neg ds =
     (if ds = [] \<or> \<not> list_all is_digit ds then (0, False)
      else let v = int (dec_val 0 ds) in
        if neg then (if v \<le> 2 ^ 63 then (- v, True) else (- (2 ^ 63), False))
        else (if v < 2 ^ 63 then (v, True) else (2 ^ 63 - 1, False)))"

definition atoi :: "string \<Rightarrow> int \<times> bool" where
  "atoi s =
     (case s of
        [] \<Rightarrow> (0, False)
      | c # cs \<Rightarrow>
          if c = CHR ''-'' then atoi_abs True cs
          else if c = CHR ''+'' then atoi_abs False cs
          else atoi_abs False s)"

lemma is_digit_char_of [simp]: "d < 10 \<Longrightarrow> is_digit (char_of (48 + d))" for d :: nat
  by (simp add: is_digit_def)

lemma list_all_is_digit_nat_dec [simp]: "list_all is_digit (nat_dec n)"
proof (induction n rule: nat_dec.induct)
  case (1 n)
  then show ?case by (subst nat_dec.simps) auto
qed

lemma nat_dec_not_Nil [simp]: "nat_dec n \<noteq> []"
  by (subst nat_dec.simps) simp

lemma dec_val_append: "dec_val a (s @ t) = dec_val (dec_val a s) t"
  by (induction s arbitrary: a) auto

lemma dec_val_nat_dec [simp, go_simps]: "dec_val 0 (nat_dec n) = n"
proof (induction n rule: nat_dec.induct)
  case (1 n)
  show ?case
  proof (cases "n < 10")
    case True
    then show ?thesis by (subst nat_dec.simps) simp
  next
    case False
    then have "dec_val 0 (nat_dec (n div 10)) = n div 10" by (rule 1)
    with False show ?thesis by (subst nat_dec.simps) (simp add: dec_val_append)
  qed
qed

lemma inj_nat_dec: "nat_dec m = nat_dec n \<longleftrightarrow> m = n"
  by (metis dec_val_nat_dec)

lemma hd_nat_dec_digit: "is_digit (hd (nat_dec n))"
  by (metis list.collapse list.pred_inject(2) list_all_is_digit_nat_dec nat_dec_not_Nil)

lemma is_digit_not_sign [simp]: "\<not> is_digit (CHR ''-'')" "\<not> is_digit (CHR ''+'')"
  by (simp_all add: is_digit_def)

lemma parse_uint_nat_dec [simp, go_simps]:
  "parse_uint b (nat_dec n) = (if n < 2 ^ b then Some n else None)"
  by (simp add: parse_uint_def Let_def)

lemma parse_uint_bound: "parse_uint b s = Some n \<Longrightarrow> n < 2 ^ b"
  by (auto simp: parse_uint_def Let_def split: if_splits)

lemma atoi_nat_dec: "atoi (nat_dec n) = atoi_abs False (nat_dec n)"
proof -
  obtain c cs where c: "nat_dec n = c # cs" by (cases "nat_dec n") auto
  with hd_nat_dec_digit [of n] have "is_digit c" by simp
  then have "c \<noteq> CHR ''-''" and "c \<noteq> CHR ''+''" by auto
  then show ?thesis by (simp add: atoi_def c)
qed

lemma atoi_fmt_d:
  assumes "- (2 ^ 63) \<le> i" and "i < 2 ^ 63"
  shows "atoi (fmt_d i) = (i, True)"
proof (cases "i < 0")
  case True
  with assms show ?thesis by (simp add: fmt_d_def atoi_def atoi_abs_def Let_def)
next
  case False
  with assms show ?thesis by (simp add: fmt_d_def atoi_nat_dec atoi_abs_def Let_def)
qed

lemma atoi_range: "- (2 ^ 63) \<le> fst (atoi s) \<and> fst (atoi s) < 2 ^ 63"
  by (auto simp: atoi_def atoi_abs_def Let_def split: list.splits if_splits)

section \<open>Trimming\<close>

text \<open>
  The UTF-8 encodings of the characters \<^verbatim>\<open>unicode.IsSpace\<close> accepts. \<^verbatim>\<open>strings.TrimSpace\<close> decodes
  runes from either end; each of these encodings starts with the only lead byte it holds, so
  stripping encodings as byte sequences gives the same result, on invalid UTF-8 too.
\<close>

definition space_encodings :: "bytes list" where
  "space_encodings =
     [[CHR '' ''], [CHR 0x09], [CHR 0x0A], [CHR 0x0B], [CHR 0x0C], [CHR 0x0D],
      [CHR 0xC2, CHR 0x85], [CHR 0xC2, CHR 0xA0], [CHR 0xE1, CHR 0x9A, CHR 0x80]] @
     map (\<lambda>b. [CHR 0xE2, CHR 0x80, b])
       [CHR 0x80, CHR 0x81, CHR 0x82, CHR 0x83, CHR 0x84, CHR 0x85, CHR 0x86, CHR 0x87,
        CHR 0x88, CHR 0x89, CHR 0x8A, CHR 0xA8, CHR 0xA9, CHR 0xAF] @
     [[CHR 0xE2, CHR 0x81, CHR 0x9F], [CHR 0xE3, CHR 0x80, CHR 0x80]]"

fun strip_one :: "bytes list \<Rightarrow> bytes \<Rightarrow> bytes option" where
  "strip_one [] s = None"
| "strip_one (e # es) s =
     (if e \<noteq> [] \<and> take (length e) s = e then Some (drop (length e) s) else strip_one es s)"

lemma strip_one_shorter: "strip_one es s = Some t \<Longrightarrow> length t < length s"
proof (induction es)
  case (Cons e es)
  show ?case
  proof (cases "e \<noteq> [] \<and> take (length e) s = e")
    case True
    then have "0 < length e" and "length e \<le> length s"
      by (auto, metis length_take min.absorb_iff2 min.commute)
    moreover from this have "0 < length s" by linarith
    ultimately show ?thesis using Cons.prems True by auto
  next
    case False
    with Cons show ?thesis by auto
  qed
qed simp

function strip_all :: "bytes list \<Rightarrow> bytes \<Rightarrow> bytes" where
  "strip_all es s = (case strip_one es s of None \<Rightarrow> s | Some t \<Rightarrow> strip_all es t)"
  by pat_completeness auto
termination
  by (relation "measure (\<lambda>(es, s). length s)") (auto dest: strip_one_shorter)

declare strip_all.simps [simp del]

definition trim_space :: "bytes \<Rightarrow> bytes" where
  "trim_space s =
     rev (strip_all (map rev space_encodings) (rev (strip_all space_encodings s)))"

text \<open>\<^verbatim>\<open>strings.TrimRight(s, cutset)\<close> and \<^verbatim>\<open>strings.Trim\<close> for the one-character cutset NUL.\<close>

definition trim_right_nul :: "bytes \<Rightarrow> bytes" where
  "trim_right_nul s = rev (dropWhile (\<lambda>c. c = CHR 0x00) (rev s))"

definition trim_nul :: "bytes \<Rightarrow> bytes" where
  "trim_nul s = trim_right_nul (dropWhile (\<lambda>c. c = CHR 0x00) s)"

lemma strip_all_id: "strip_one es s = None \<Longrightarrow> strip_all es s = s"
  by (simp add: strip_all.simps)

lemma strip_all_stop: "strip_one es (strip_all es s) = None"
proof (induction es s rule: strip_all.induct)
  case (1 es s)
  show ?case
  proof (cases "strip_one es s")
    case None
    then show ?thesis by (simp add: strip_all_id)
  next
    case (Some t)
    with 1 show ?thesis by (simp add: strip_all.simps [of es s])
  qed
qed

lemma strip_one_suffix: "strip_one es s = Some t \<Longrightarrow> \<exists>p. s = p @ t"
  by (induction es) (auto split: if_splits, metis append_take_drop_id)

lemma strip_all_suffix: "\<exists>p. s = p @ strip_all es s"
proof (induction es s rule: strip_all.induct)
  case (1 es s)
  show ?case
  proof (cases "strip_one es s")
    case None
    then show ?thesis by (simp add: strip_all_id)
  next
    case (Some t)
    with 1 obtain p where "t = p @ strip_all es t" by blast
    moreover obtain q where "s = q @ t" using strip_one_suffix [OF Some] by blast
    moreover have "strip_all es s = strip_all es t" using Some by (simp add: strip_all.simps [of es s])
    ultimately have "s = (q @ p) @ strip_all es s" by (metis append.assoc)
    then show ?thesis by blast
  qed
qed

lemma length_strip_all: "length (strip_all es s) \<le> length s"
  using strip_all_suffix [of s es] by (metis length_append le_add2)

lemma length_trim_space: "length (trim_space s) \<le> length s"
proof -
  have "length (trim_space s) \<le> length (strip_all space_encodings s)"
    unfolding trim_space_def using length_strip_all
    by (metis length_rev)
  also have "\<dots> \<le> length s" by (rule length_strip_all)
  finally show ?thesis .
qed

lemma set_strip_all: "set (strip_all es s) \<subseteq> set s"
  using strip_all_suffix [of s es] by (metis set_append Un_upper2)

lemma set_trim_space: "set (trim_space s) \<subseteq> set s"
  unfolding trim_space_def using set_strip_all by (metis dual_order.trans set_rev)

text \<open>A character that is no byte of a space encoding stops the trimming at that end.\<close>

definition plain_char :: "char \<Rightarrow> bool" where
  "plain_char c \<longleftrightarrow> 32 < (of_char c :: nat) \<and> (of_char c :: nat) < 127"

lemma strip_one_plain:
  "plain_char c \<Longrightarrow> (\<forall>e\<in>set es. e \<noteq> [] \<longrightarrow> \<not> plain_char (hd e)) \<Longrightarrow> strip_one es (c # s) = None"
  by (induction es) (auto simp: neq_Nil_conv)

lemma space_encodings_not_plain:
  "\<forall>e\<in>set space_encodings. e \<noteq> [] \<longrightarrow> \<not> plain_char (hd e)"
  "\<forall>e\<in>set (map rev space_encodings). e \<noteq> [] \<longrightarrow> \<not> plain_char (hd e)"
  by (simp_all add: space_encodings_def plain_char_def)

lemma trim_space_plain:
  assumes "s \<noteq> []" and "plain_char (hd s)" and "plain_char (last s)"
  shows "trim_space s = s"
proof -
  from assms have "strip_one space_encodings s = None"
    by (metis list.collapse strip_one_plain space_encodings_not_plain(1))
  moreover from assms have "strip_one (map rev space_encodings) (rev s) = None"
    by (metis hd_rev list.collapse rev_is_Nil_conv strip_one_plain space_encodings_not_plain(2))
  ultimately show ?thesis by (simp add: trim_space_def strip_all_id)
qed

lemma strip_one_keeps_last:
  "plain_char c \<Longrightarrow> (\<forall>e\<in>set es. e \<noteq> [] \<longrightarrow> \<not> plain_char (last e)) \<Longrightarrow>
   strip_one es (s @ [c]) = Some t \<Longrightarrow> \<exists>u. t = u @ [c]"
proof (induction es)
  case (Cons e es)
  show ?case
  proof (cases "e \<noteq> [] \<and> take (length e) (s @ [c]) = e")
    case True
    then have "\<not> length s < length e" using Cons.prems by auto
    then show ?thesis using True Cons.prems by auto
  next
    case False
    with Cons show ?thesis by (auto split: if_splits)
  qed
qed simp

lemma strip_all_keeps_last:
  assumes "plain_char c" and "\<forall>e\<in>set es. e \<noteq> [] \<longrightarrow> \<not> plain_char (last e)"
  shows "\<exists>u. strip_all es (s @ [c]) = u @ [c]"
proof (induction "length s" arbitrary: s rule: less_induct)
  case less
  show ?case
  proof (cases "strip_one es (s @ [c])")
    case None
    then show ?thesis by (simp add: strip_all_id)
  next
    case (Some t)
    with strip_one_keeps_last [OF assms] obtain u where t: "t = u @ [c]" by blast
    with strip_one_shorter [OF Some] have "length u < length s" by simp
    from less [OF this] show ?thesis using Some t by (simp add: strip_all.simps [of es "s @ [c]"])
  qed
qed

lemma trim_space_starts_plain: "plain_char c \<Longrightarrow> trim_space (c # s) \<noteq> []"
proof -
  assume c: "plain_char c"
  have "\<forall>e\<in>set (map rev space_encodings). e \<noteq> [] \<longrightarrow> \<not> plain_char (last e)"
    by (simp add: space_encodings_def plain_char_def)
  from strip_all_keeps_last [OF c this, of "rev s"]
  obtain u where "strip_all (map rev space_encodings) (rev s @ [c]) = u @ [c]" by blast
  moreover have "strip_all space_encodings (c # s) = c # s"
    by (intro strip_all_id strip_one_plain [OF c] space_encodings_not_plain)
  ultimately show ?thesis by (simp add: trim_space_def)
qed

lemma trim_space_Nil [simp]: "trim_space [] = []"
proof -
  have "strip_one es [] = None" for es by (induction es) auto
  then show ?thesis by (simp add: trim_space_def strip_all_id)
qed

section \<open>Splitting, joining, cutting\<close>

text \<open>\<^verbatim>\<open>strings.Split(s, sep)\<close> for a one-byte separator: never the empty list.\<close>

fun split_on :: "char \<Rightarrow> bytes \<Rightarrow> bytes list" where
  "split_on c [] = [[]]"
| "split_on c (x # xs) =
     (if x = c then [] # split_on c xs
      else (case split_on c xs of [] \<Rightarrow> [[x]] | y # ys \<Rightarrow> (x # y) # ys))"

text \<open>\<^verbatim>\<open>strings.Join(parts, sep)\<close>.\<close>

fun join_with :: "bytes \<Rightarrow> bytes list \<Rightarrow> bytes" where
  "join_with sep [] = []"
| "join_with sep [x] = x"
| "join_with sep (x # y # ys) = x @ sep @ join_with sep (y # ys)"

lemma split_on_not_Nil [simp]: "split_on c s \<noteq> []"
  by (cases s) (auto split: list.splits)

lemma split_on_absent: "c \<notin> set s \<Longrightarrow> split_on c s = [s]"
  by (induction s) auto

lemma split_on_append: "c \<notin> set s \<Longrightarrow> split_on c (s @ c # t) = s # split_on c t"
  by (induction s) auto

lemma split_on_join_with:
  "xs \<noteq> [] \<Longrightarrow> \<forall>x\<in>set xs. c \<notin> set x \<Longrightarrow> split_on c (join_with [c] xs) = xs"
proof (induction xs rule: induct_list012)
  case (3 x y zs)
  then show ?case by (simp add: split_on_append)
qed (auto simp: split_on_absent)

lemma join_with_split_on: "join_with [c] (split_on c s) = s"
proof (induction s)
  case (Cons x xs)
  obtain y ys where y: "split_on c xs = y # ys" by (cases "split_on c xs") auto
  with Cons.IH show ?case by (cases ys) (auto split: if_splits)
qed simp

lemma split_on_no_sep: "x \<in> set (split_on c s) \<Longrightarrow> c \<notin> set x"
  by (induction s arbitrary: x) (auto split: if_splits list.splits)

text \<open>\<^verbatim>\<open>strings.Index(s, c)\<close> and \<^verbatim>\<open>strings.Cut(s, c)\<close> for one byte.\<close>

fun index_byte :: "char \<Rightarrow> bytes \<Rightarrow> nat option" where
  "index_byte c [] = None"
| "index_byte c (x # xs) = (if x = c then Some 0 else map_option Suc (index_byte c xs))"

fun cut_at :: "char \<Rightarrow> bytes \<Rightarrow> (bytes \<times> bytes) option" where
  "cut_at c [] = None"
| "cut_at c (x # xs) =
     (if x = c then Some ([], xs) else map_option (\<lambda>(a, b). (x # a, b)) (cut_at c xs))"

lemma index_byte_None: "index_byte c s = None \<longleftrightarrow> c \<notin> set s"
  by (induction s) auto

lemma index_byte_Some:
  "index_byte c s = Some i \<Longrightarrow> i < length s \<and> s ! i = c \<and> c \<notin> set (take i s)"
  by (induction s arbitrary: i) (auto split: if_splits simp: nth_Cons')

lemma index_byte_append [simp]: "c \<notin> set s \<Longrightarrow> index_byte c (s @ c # t) = Some (length s)"
  by (induction s) auto

lemma cut_at_append [simp]: "c \<notin> set s \<Longrightarrow> cut_at c (s @ c # t) = Some (s, t)"
  by (induction s) auto

lemma cut_at_None: "cut_at c s = None \<longleftrightarrow> c \<notin> set s"
  by (induction s) auto

definition has_prefix :: "bytes \<Rightarrow> bytes \<Rightarrow> bool" where
  "has_prefix s p \<longleftrightarrow> take (length p) s = p"

definition has_suffix :: "bytes \<Rightarrow> bytes \<Rightarrow> bool" where
  "has_suffix s p \<longleftrightarrow> length p \<le> length s \<and> drop (length s - length p) s = p"

definition trim_prefix :: "bytes \<Rightarrow> bytes \<Rightarrow> bytes" where
  "trim_prefix s p = (if has_prefix s p then drop (length p) s else s)"

definition trim_suffix :: "bytes \<Rightarrow> bytes \<Rightarrow> bytes" where
  "trim_suffix s p = (if has_suffix s p then take (length s - length p) s else s)"

lemma trim_prefix_append [simp]: "trim_prefix (p @ s) p = s"
  by (simp add: trim_prefix_def has_prefix_def)

lemma has_suffix_append [simp]: "has_suffix (s @ p) p"
  by (simp add: has_suffix_def)

lemma trim_suffix_append [simp]: "trim_suffix (s @ p) p = s"
  by (simp add: trim_suffix_def)

text \<open>\<^verbatim>\<open>strings.ReplaceAll(s, c, new)\<close> for one byte \<open>c\<close>.\<close>

definition replace_char :: "char \<Rightarrow> bytes \<Rightarrow> bytes \<Rightarrow> bytes" where
  "replace_char c new s = concat (map (\<lambda>x. if x = c then new else [x]) s)"

lemma replace_char_Nil [simp]: "replace_char c new [] = []"
  by (simp add: replace_char_def)

lemma replace_char_absent [simp]: "c \<notin> set s \<Longrightarrow> replace_char c new s = s"
  by (induction s) (auto simp: replace_char_def)

lemma set_replace_char: "c \<notin> set new \<Longrightarrow> c \<notin> set (replace_char c new s)"
  by (auto simp: replace_char_def)

text \<open>
  \<^verbatim>\<open>strings.EqualFold(s, t)\<close> for an ASCII \<open>t\<close>. Besides the ASCII letters, simple case folding
  maps U+017F (long s) to \<open>s\<close> and U+212A (Kelvin sign) to \<open>k\<close>; no other character folds to an
  ASCII one.
\<close>

definition ascii_lower :: "char \<Rightarrow> char" where
  "ascii_lower c =
     (if 65 \<le> (of_char c :: nat) \<and> (of_char c :: nat) \<le> 90 then char_of ((of_char c :: nat) + 32) else c)"

fun fold_ascii :: "bytes \<Rightarrow> bytes" where
  "fold_ascii (a # b # c # s) =
     (if a = CHR 0xE2 \<and> b = CHR 0x84 \<and> c = CHR 0xAA then CHR ''k'' # fold_ascii s
      else if a = CHR 0xC5 \<and> b = CHR 0xBF then CHR ''s'' # fold_ascii (c # s)
      else ascii_lower a # fold_ascii (b # c # s))"
| "fold_ascii [a, b] =
     (if a = CHR 0xC5 \<and> b = CHR 0xBF then ''s'' else [ascii_lower a, ascii_lower b])"
| "fold_ascii [a] = [ascii_lower a]"
| "fold_ascii [] = []"

definition equal_fold_ascii :: "bytes \<Rightarrow> bytes \<Rightarrow> bool" where
  "equal_fold_ascii s t \<longleftrightarrow> fold_ascii s = fold_ascii t"

section \<open>Maps and iteration order\<close>

text \<open>
  \<open>iteration_of m ks\<close>: the list of keys \<open>ks\<close> is an order in which a Go \<^verbatim>\<open>range\<close> loop may visit
  the map \<open>m\<close>. The loops over maps in the model take such a list; what is proved of them holds
  for every order.
\<close>

definition iteration_of :: "('k \<rightharpoonup> 'v) \<Rightarrow> 'k list \<Rightarrow> bool" where
  "iteration_of m ks \<longleftrightarrow> distinct ks \<and> set ks = dom m"

lemma iteration_of_empty [simp]: "iteration_of Map.empty []"
  by (simp add: iteration_of_def)

lemma iteration_of_update [intro]:
  "iteration_of m ks \<Longrightarrow> m k = None \<Longrightarrow> iteration_of (m(k \<mapsto> v)) (k # ks)"
  by (auto simp: iteration_of_def)

lemma iteration_ofD:
  "iteration_of m ks \<Longrightarrow> k \<in> set ks \<longleftrightarrow> (\<exists>v. m k = Some v)"
  by (auto simp: iteration_of_def)

end
