(* ===== verification/Go_Float.thy ===== *)
theory Go_Float
  imports Complex_Main "HOL-Library.Log_Nat"
begin

text \<open>
  Go's \<^verbatim>\<open>float64\<close> where the server computes with it: a finite double is the rational number it
  denotes, and an operation is the exact operation followed by rounding to 53 significant bits, to
  nearest with ties to even. The model has no infinities, NaNs, subnormals or negative zero: the
  server divides only by values of at least 1 and its magnitudes stay far from both ends of the
  exponent range. The lemmas show that integers up to \<open>2 ^ 53\<close> are represented exactly, so sums and
  differences of counters are exact.
\<close>

type_synonym float64 = rat

definition exp2 :: "int \<Rightarrow> rat" where
  "exp2 k = (if 0 \<le> k then 2 ^ nat k else 1 / 2 ^ nat (- k))"

text \<open>Rounding to the nearest integer, ties to even.\<close>

definition round_even :: "rat \<Rightarrow> int" where
  "round_even x =
     (let f = floor x; d = x - of_int f in
      if d < 1 / 2 then f else if 1 / 2 < d then f + 1 else if even f then f else f + 1)"

text \<open>The binary exponent: \<open>exp2 e \<le> \<bar>r\<bar> < exp2 (e + 1)\<close>.\<close>

definition f64_exp :: "rat \<Rightarrow> int" where
  "f64_exp r =
     (case quotient_of (abs r) of (p, q) \<Rightarrow>
        let e0 = int (floorlog 2 (nat p)) - int (floorlog 2 (nat q))
        in if exp2 e0 \<le> abs r then e0 else e0 - 1)"

definition f64 :: "rat \<Rightarrow> float64" where
  "f64 r =
     (if r = 0 then 0
      else let s = exp2 (52 - f64_exp r) in of_int (round_even (r * s)) / s)"

definition f64_of_int :: "int \<Rightarrow> float64" where
  "f64_of_int i = f64 (of_int i)"

definition f64_add :: "float64 \<Rightarrow> float64 \<Rightarrow> float64" where
  "f64_add a b = f64 (a + b)"

definition f64_sub :: "float64 \<Rightarrow> float64 \<Rightarrow> float64" where
  "f64_sub a b = f64 (a - b)"

definition f64_mul :: "float64 \<Rightarrow> float64 \<Rightarrow> float64" where
  "f64_mul a b = f64 (a * b)"

definition f64_div :: "float64 \<Rightarrow> float64 \<Rightarrow> float64" where
  "f64_div a b = f64 (a / b)"

text \<open>Conversion to an integer type truncates towards zero.\<close>

definition f64_trunc :: "float64 \<Rightarrow> int" where
  "f64_trunc x = (if 0 \<le> x then floor x else - floor (- x))"

section \<open>Integers are exact\<close>

lemma exp2_pos [simp]: "0 < exp2 k"
  by (simp add: exp2_def)

lemma exp2_nat [simp]: "exp2 (int n) = 2 ^ n"
  by (simp add: exp2_def)

lemma round_even_of_int [simp]: "round_even (of_int n) = n"
  by (simp add: round_even_def)

lemma quotient_of_abs_int: "quotient_of (abs (of_int n)) = (abs n, 1)"
proof -
  have "quotient_of (Fract (abs n) 1) = (abs n, 1)" by (simp add: quotient_of_Fract)
  then show ?thesis by (simp flip: Fract_of_int_eq add: of_int_rat)
qed

lemma floorlog_2_1: "floorlog 2 (Suc 0) = 1"
  by (simp add: floorlog_def)

lemma floorlog_le_54:
  assumes "n \<noteq> 0" and "n \<le> 2 ^ 53"
  shows "floorlog 2 n \<le> 54"
proof -
  have "floorlog 2 n \<le> floorlog 2 (2 ^ 53)" using assms by (intro floorlog_mono) auto
  also have "floorlog 2 (2 ^ 53 :: nat) = 54" using floorlog_power [of 1 2 53] floorlog_2_1 by simp
  finally show ?thesis .
qed

lemma f64_exp_int:
  assumes "n \<noteq> 0" and "abs n \<le> 2 ^ 53"
  shows "f64_exp (of_int n) \<le> 52 \<or> f64_exp (of_int n) = 53 \<and> abs n = 2 ^ 53"
proof -
  let ?p = "nat (abs n)"
  define e0 where "e0 = int (floorlog 2 ?p) - 1"
  have p: "?p \<noteq> 0" "?p \<le> 2 ^ 53" using assms by (auto simp: nat_le_iff)
  then have e0: "e0 \<le> 53" using floorlog_le_54 [of ?p] by (simp add: e0_def)
  have exp: "f64_exp (of_int n) = (if exp2 e0 \<le> of_int (abs n) then e0 else e0 - 1)"
    by (simp add: f64_exp_def quotient_of_abs_int Let_def e0_def floorlog_2_1)
  show ?thesis
  proof (cases "exp2 e0 \<le> of_int (abs n) \<and> e0 = 53")
    case True
    then have "exp2 53 \<le> (of_int (abs n) :: rat)" by blast
    then have "(2 ^ 53 :: rat) \<le> of_int (abs n)" by (simp add: exp2_def)
    then have "2 ^ 53 \<le> abs n" using of_int_le_iff [where 'a = rat, of "2 ^ 53" "abs n"] by simp
    then show ?thesis using assms True exp by simp
  next
    case False
    then show ?thesis using exp e0 by auto
  qed
qed

lemma f64_of_int_exact:
  assumes "abs n \<le> 2 ^ 53"
  shows "f64_of_int n = of_int n"
proof (cases "n = 0")
  case True
  then show ?thesis by (simp add: f64_of_int_def f64_def)
next
  case False
  let ?e = "f64_exp (of_int n)" and ?s = "exp2 (52 - f64_exp (of_int n))"
  have "\<exists>m. (of_int n :: rat) * ?s = of_int m"
  proof (cases "?e \<le> 52")
    case True
    then have "?s = of_int (2 ^ nat (52 - ?e))" by (simp add: exp2_def)
    then show ?thesis by (metis of_int_mult)
  next
    case notle: False
    then have e: "?e = 53" and n: "abs n = 2 ^ 53" using f64_exp_int [OF False assms] by auto
    have s: "?s = 1 / 2" by (simp add: e exp2_def)
    have "n = 2 * 2 ^ 52 \<or> n = 2 * (- (2 ^ 52))" using n by auto
    then obtain k where k: "n = 2 * k" by blast
    have "(of_int n :: rat) * (1 / 2) = of_int k" using k by simp
    then show ?thesis unfolding s by blast
  qed
  then obtain m where m: "(of_int n :: rat) * ?s = of_int m" ..
  have "f64 (of_int n) = of_int m / ?s" using False m by (simp add: f64_def Let_def)
  also have "\<dots> = of_int n" using m [symmetric] exp2_pos [of "52 - ?e"] by (simp add: less_imp_neq [symmetric])
  finally show ?thesis by (simp add: f64_of_int_def)
qed

lemma f64_exact_int: "abs n \<le> 2 ^ 53 \<Longrightarrow> f64 (of_int n) = of_int n"
  using f64_of_int_exact [of n] by (simp add: f64_of_int_def)

lemma f64_add_int:
  "abs (a + b) \<le> 2 ^ 53 \<Longrightarrow> f64_add (of_int a) (of_int b) = of_int (a + b)"
  using f64_exact_int [of "a + b"] by (simp add: f64_add_def)

lemma f64_sub_int:
  "abs (a - b) \<le> 2 ^ 53 \<Longrightarrow> f64_sub (of_int a) (of_int b) = of_int (a - b)"
  using f64_exact_int [of "a - b"] by (simp add: f64_sub_def)

lemma f64_trunc_of_int [simp]: "f64_trunc (of_int n) = n"
  by (simp add: f64_trunc_def flip: of_int_minus)

end
