(* ===== verification/Config.thy ===== *)
theory Config
  imports Go_Strings Go_Float "HOL-Library.Multiset"
begin

text \<open>
  The configuration, \<^verbatim>\<open>internal/platform/config/config.go\<close>: the typed settings, the two file formats
  reduced to a flat map of strings, the defaults and the overrides from the environment. Opening
  the file, the YAML parser and the reader of environment variables are outside the repository:
  their results are arguments. Provider names are compared after \<^verbatim>\<open>strings.ToLower\<close>, modelled on
  ASCII names.
\<close>

section \<open>Settings\<close>

record provider_config =
  pc_Host :: string
  pc_Key :: string
  pc_ServerName :: string

record server_config =
  sv_Host :: string
  sv_Port :: int
  sv_HolePort :: int
  sv_HostName :: string

record log_config =
  lg_Format :: string
  lg_File :: string
  lg_AccessLog :: string
  lg_ErrorLog :: string

record metrics_config =
  mt_Addr :: string
  mt_ProbeAddr :: string

record gsc_config =
  gc_MaxFrameBytes :: u32

record game_config =
  gm_HoleInterval :: int
  gm_TableTimeout :: int
  gm_GetTblLogInterval :: int
  gm_ChatServer :: string
  gm_ServerTitle :: string
  gm_ShowStartedRooms :: bool
  gm_ProxyKey :: string
  gm_Templates :: string
  gm_LCNRanking :: string
  gm_GGCupFile :: string
  gm_ShowStartedRoomInfo :: bool

record irc_proxy_config =
  ip_Enabled :: bool
  ip_Listen :: string
  ip_Addr :: string

type_synonym providers = "string \<rightharpoonup> provider_config"

record config =
  cf_Server :: server_config
  cf_Log :: log_config
  cf_Metrics :: metrics_config
  cf_GSC :: gsc_config
  cf_Game :: game_config
  cf_IRCProxy :: irc_proxy_config
  cf_Providers :: providers

definition DefaultGSCMaxFrameBytes :: u32 where
  "DefaultGSCMaxFrameBytes = 4 * 1024 * 1024"

definition empty_provider :: provider_config where
  "empty_provider = \<lparr>pc_Host = [], pc_Key = [], pc_ServerName = []\<rparr>"

definition to_lower :: "string \<Rightarrow> string" where
  "to_lower s = map ascii_lower s"

text \<open>
  \<^verbatim>\<open>Provider\<close> returns a pointer into the map, allocating the entry on first use: a read gives the
  entry and the map with it, a write through the pointer updates the entry.
\<close>

definition provider_key :: "string \<Rightarrow> string" where
  "provider_key accType = to_lower (trim_space accType)"

definition Provider :: "string \<Rightarrow> providers \<Rightarrow> provider_config \<times> providers" where
  "Provider accType ps =
     (let k = provider_key accType in
      case ps k of None \<Rightarrow> (empty_provider, ps(k \<mapsto> empty_provider)) | Some p \<Rightarrow> (p, ps))"

definition Provider_set ::
  "string \<Rightarrow> (provider_config \<Rightarrow> provider_config) \<Rightarrow> providers \<Rightarrow> providers" where
  "Provider_set accType f ps =
     (case Provider accType ps of (p, ps') \<Rightarrow> ps'(provider_key accType \<mapsto> f p))"

text \<open>
  \<^verbatim>\<open>AuthConfig\<close> is the slice of the configuration the identity service is given. It shares the map of the
  configuration, so its entries are the entries of both. \<open>None\<close> is the nil receiver.
\<close>

record auth_config =
  au_Providers :: providers

definition AuthConfig_Provider :: "auth_config option \<Rightarrow> string \<Rightarrow> provider_config \<times> auth_config option" where
  "AuthConfig_Provider a accType =
     (case a of
        None \<Rightarrow> (empty_provider, None)
      | Some a \<Rightarrow>
          (let k = to_lower (trim_space accType)
           in case au_Providers a k of
                Some p \<Rightarrow> (p, Some a)
              | None \<Rightarrow> (empty_provider, Some (a\<lparr>au_Providers := (au_Providers a)(k \<mapsto> empty_provider)\<rparr>))))"

section \<open>Values\<close>

definition strOr :: "string \<Rightarrow> string \<Rightarrow> string" where
  "strOr v d = (if v = [] then d else v)"

definition intOr :: "string \<Rightarrow> int \<Rightarrow> int" where
  "intOr v d = (case atoi (trim_space v) of (n, ok) \<Rightarrow> if ok then n else d)"

definition uint32OrDefault :: "string \<Rightarrow> u32 \<Rightarrow> u32" where
  "uint32OrDefault v d =
     (case parse_uint 32 (trim_space v) of None \<Rightarrow> d | Some n \<Rightarrow> word_of_nat n)"

definition parseBoolish :: "string \<Rightarrow> bool" where
  "parseBoolish v =
     (to_lower (trim_space v) \<notin> set ['''', ''0'', ''false'', ''no'', ''off''])"

datatype yaml_value =
  YNull | YString string | YInt int | YUint nat | YFloat float64 | YBool bool | YOther string

fun toRawString :: "yaml_value \<Rightarrow> string" where
  "toRawString YNull = ''''"
| "toRawString (YString x) = trim_space x"
| "toRawString (YInt i) = fmt_d i"
| "toRawString (YUint n) = nat_dec n"
| "toRawString (YFloat x) = fmt_d (f64_trunc x)"
| "toRawString (YBool b) = (if b then ''1'' else ''0'')"
| "toRawString (YOther s) = trim_space s"

section \<open>From the flat map to the settings\<close>

type_synonym raw = "string \<rightharpoonup> string"

definition get :: "raw \<Rightarrow> string \<Rightarrow> string" where
  "get m k = (case m k of None \<Rightarrow> [] | Some v \<Rightarrow> v)"

text \<open>One turn of the loop over the map that collects the provider blocks.\<close>

definition lift_provider :: "string \<Rightarrow> string \<Rightarrow> providers \<Rightarrow> providers" where
  "lift_provider k v ps =
     (if has_suffix k ''_host'' then
        Provider_set (trim_suffix k ''_host'') (\<lambda>p. p\<lparr>pc_Host := v\<rparr>) ps
      else if has_suffix k ''_key'' \<and> k \<noteq> ''proxy_key'' then
        Provider_set (trim_suffix k ''_key'') (\<lambda>p. p\<lparr>pc_Key := v\<rparr>) ps
      else if has_suffix k ''_server_name'' then
        Provider_set (trim_suffix k ''_server_name'') (\<lambda>p. p\<lparr>pc_ServerName := v\<rparr>) ps
      else ps)"

definition configFromRaw :: "raw \<Rightarrow> string list \<Rightarrow> config" where
  "configFromRaw raw ks =
     \<lparr>cf_Server =
        \<lparr>sv_Host = strOr (get raw ''host'') ''localhost'', sv_Port = intOr (get raw ''port'') 34001,
         sv_HolePort = intOr (get raw ''hole_port'') 3708, sv_HostName = []\<rparr>,
      cf_Log =
        \<lparr>lg_Format = get raw ''log_format'', lg_File = get raw ''log_file'',
         lg_AccessLog = get raw ''access_log'', lg_ErrorLog = get raw ''error_log''\<rparr>,
      cf_Metrics = \<lparr>mt_Addr = get raw ''metrics_addr'', mt_ProbeAddr = get raw ''probe_addr''\<rparr>,
      cf_GSC =
        \<lparr>gc_MaxFrameBytes = uint32OrDefault (get raw ''gsc_max_frame_bytes'') DefaultGSCMaxFrameBytes\<rparr>,
      cf_Game =
        \<lparr>gm_HoleInterval = intOr (get raw ''hole_int'') 1000,
         gm_TableTimeout = intOr (get raw ''table_timeout'') 10000,
         gm_GetTblLogInterval = intOr (get raw ''gettbl_log_interval'') 1,
         gm_ChatServer = get raw ''chat_server'', gm_ServerTitle = get raw ''server_title'',
         gm_ShowStartedRooms = (intOr (get raw ''show_started_rooms'') 0 \<noteq> 0),
         gm_ProxyKey = get raw ''proxy_key'',
         gm_Templates = strOr (get raw ''templates'') ''./templates'',
         gm_LCNRanking = get raw ''lcn_ranking'', gm_GGCupFile = get raw ''gg_cup_file'',
         gm_ShowStartedRoomInfo = parseBoolish (get raw ''show_started_room_info'')\<rparr>,
      cf_IRCProxy =
        \<lparr>ip_Enabled = parseBoolish (get raw ''irc_proxy_enabled''),
         ip_Listen = strOr (get raw ''irc_proxy_listen'') '':6667'',
         ip_Addr = get raw ''irc_proxy_addr''\<rparr>,
      cf_Providers = fold (\<lambda>k. lift_provider k (get raw k)) ks Map.empty\<rparr>"

section \<open>The two file formats\<close>

text \<open>A line of the legacy format: comments, blank lines and lines without \<open>=\<close> are skipped.\<close>

definition legacy_line :: "string \<Rightarrow> raw \<Rightarrow> raw" where
  "legacy_line text raw =
     (let line = trim_space text in
      if line = [] \<or> has_prefix line ''#'' then raw
      else (case cut_at CHR ''='' line of
              None \<Rightarrow> raw
            | Some (k, v) \<Rightarrow> raw(trim_space k \<mapsto> trim_space v)))"

text \<open>
  The scanner yields the lines of the file and fails on one of 65536 bytes or more; \<open>None\<close> is a
  file that cannot be opened or read.
\<close>

definition loadLegacyConf :: "bytes option \<Rightarrow> raw option" where
  "loadLegacyConf file =
     (case file of
        None \<Rightarrow> None
      | Some content \<Rightarrow>
          (let lines = split_on (CHR 0x0A) content in
           if list_ex (\<lambda>l. 65536 \<le> length l) lines then None
           else Some (fold legacy_line lines Map.empty)))"

text \<open>The parsed YAML document is a map, ranged over in some order.\<close>

definition loadYAML :: "(bytes \<Rightarrow> (string \<times> yaml_value) list option) \<Rightarrow> bytes option \<Rightarrow> raw option" where
  "loadYAML yaml file =
     (case file of
        None \<Rightarrow> None
      | Some content \<Rightarrow>
          (case yaml content of
             None \<Rightarrow> None
           | Some kvs \<Rightarrow> Some (fold (\<lambda>(k, v) raw. raw(trim_space k \<mapsto> toRawString v)) kvs Map.empty)))"

section \<open>The environment\<close>

record env_config =
  en_HostName :: string
  en_ChatServer :: string
  en_ServerTitle :: string
  en_UDPKeepAliveInterval :: string
  en_LogFormat :: string
  en_LogFile :: string
  en_MetricsAddr :: string
  en_ProbeAddr :: string
  en_IRCProxyEnabled :: string
  en_IRCProxyListen :: string
  en_IRCProxyAddr :: string

definition unless_empty :: "string \<Rightarrow> ('a \<Rightarrow> 'a) \<Rightarrow> 'a \<Rightarrow> 'a" where
  "unless_empty v f x = (if v = [] then x else f x)"

definition ApplyEnv :: "env_config option \<Rightarrow> config \<Rightarrow> config" where
  "ApplyEnv eo c =
     (case eo of
        None \<Rightarrow> c
      | Some e \<Rightarrow>
          (let c1 = unless_empty (en_HostName e) (\<lambda>c.
                 c\<lparr>cf_Server := (cf_Server c)\<lparr>sv_HostName := en_HostName e\<rparr>,
                   cf_Game := (if gm_ChatServer (cf_Game c) = []
                     then (cf_Game c)\<lparr>gm_ChatServer := en_HostName e\<rparr> else cf_Game c)\<rparr>) c;
               c2 = unless_empty (en_ChatServer e) (\<lambda>c.
                 c\<lparr>cf_Game := (cf_Game c)\<lparr>gm_ChatServer := en_ChatServer e\<rparr>\<rparr>) c1;
               c3 = unless_empty (en_ServerTitle e) (\<lambda>c.
                 c\<lparr>cf_Game := (cf_Game c)\<lparr>gm_ServerTitle := en_ServerTitle e\<rparr>\<rparr>) c2;
               c4 = unless_empty (en_UDPKeepAliveInterval e) (\<lambda>c.
                 c\<lparr>cf_Game := (cf_Game c)\<lparr>gm_HoleInterval :=
                   intOr (en_UDPKeepAliveInterval e) (gm_HoleInterval (cf_Game c))\<rparr>\<rparr>) c3;
               c5 = unless_empty (en_LogFormat e) (\<lambda>c.
                 c\<lparr>cf_Log := (cf_Log c)\<lparr>lg_Format := en_LogFormat e\<rparr>\<rparr>) c4;
               c6 = unless_empty (en_LogFile e) (\<lambda>c.
                 c\<lparr>cf_Log := (cf_Log c)\<lparr>lg_File := en_LogFile e\<rparr>\<rparr>) c5;
               c7 = unless_empty (en_MetricsAddr e) (\<lambda>c.
                 c\<lparr>cf_Metrics := (cf_Metrics c)\<lparr>mt_Addr := en_MetricsAddr e\<rparr>\<rparr>) c6;
               c8 = unless_empty (en_ProbeAddr e) (\<lambda>c.
                 c\<lparr>cf_Metrics := (cf_Metrics c)\<lparr>mt_ProbeAddr := en_ProbeAddr e\<rparr>\<rparr>) c7;
               c9 = unless_empty (en_IRCProxyEnabled e) (\<lambda>c.
                 c\<lparr>cf_IRCProxy := (cf_IRCProxy c)\<lparr>ip_Enabled := parseBoolish (en_IRCProxyEnabled e)\<rparr>\<rparr>) c8;
               c10 = unless_empty (en_IRCProxyListen e) (\<lambda>c.
                 c\<lparr>cf_IRCProxy := (cf_IRCProxy c)\<lparr>ip_Listen := en_IRCProxyListen e\<rparr>\<rparr>) c9
           in unless_empty (en_IRCProxyAddr e) (\<lambda>c.
                 c\<lparr>cf_IRCProxy := (cf_IRCProxy c)\<lparr>ip_Addr := en_IRCProxyAddr e\<rparr>\<rparr>) c10))"

definition AuthConfig :: "config \<Rightarrow> auth_config" where
  "AuthConfig c = \<lparr>au_Providers = cf_Providers c\<rparr>"

definition WithEnvOverrides :: "env_config option \<Rightarrow> config \<Rightarrow> config" where
  "WithEnvOverrides env c = ApplyEnv env c"

lemma AuthConfig_Provider_shared:
  "AuthConfig_Provider (Some (AuthConfig c)) accType =
     (case Provider accType (cf_Providers c) of (p, ps) \<Rightarrow> (p, Some (AuthConfig (c\<lparr>cf_Providers := ps\<rparr>))))"
  by (simp add: AuthConfig_Provider_def AuthConfig_def Provider_def provider_key_def Let_def split: option.split)

text \<open>
  \<^verbatim>\<open>Load\<close> with the option of environment overrides on or off; \<open>ext\<close> is the extension of the path
  and \<open>order\<close> gives the order in which the flat map is ranged over.
\<close>

definition Load ::
  "(bytes \<Rightarrow> (string \<times> yaml_value) list option) \<Rightarrow> (raw \<Rightarrow> string list) \<Rightarrow> bool \<Rightarrow> env_config option \<Rightarrow>
    string \<Rightarrow> bytes option \<Rightarrow> config option" where
  "Load yaml order overrides env ext file =
     (case (if to_lower ext = ''.yaml'' \<or> to_lower ext = ''.yml'' then loadYAML yaml file
            else loadLegacyConf file) of
        None \<Rightarrow> None
      | Some raw \<Rightarrow>
          (let cfg = configFromRaw raw (order raw) in
           Some (if overrides then ApplyEnv env cfg else cfg)))"

section \<open>The order of the map does not matter\<close>

text \<open>Which entry and which field of the provider blocks a key writes.\<close>

definition block_of :: "string \<Rightarrow> (string \<times> nat) option" where
  "block_of k =
     (if has_suffix k ''_host'' then Some (provider_key (trim_suffix k ''_host''), 0)
      else if has_suffix k ''_key'' \<and> k \<noteq> ''proxy_key'' then Some (provider_key (trim_suffix k ''_key''), 1)
      else if has_suffix k ''_server_name'' then Some (provider_key (trim_suffix k ''_server_name''), 2)
      else None)"

definition set_field :: "nat \<Rightarrow> string \<Rightarrow> provider_config \<Rightarrow> provider_config" where
  "set_field i v p =
     (if i = 0 then p\<lparr>pc_Host := v\<rparr> else if i = 1 then p\<lparr>pc_Key := v\<rparr> else p\<lparr>pc_ServerName := v\<rparr>)"

definition write_block :: "string \<Rightarrow> nat \<Rightarrow> string \<Rightarrow> providers \<Rightarrow> providers" where
  "write_block k i v ps = ps(k \<mapsto> set_field i v (case ps k of None \<Rightarrow> empty_provider | Some p \<Rightarrow> p))"

lemma Provider_set_alt:
  "Provider_set a f ps =
     ps(provider_key a \<mapsto> f (case ps (provider_key a) of None \<Rightarrow> empty_provider | Some p \<Rightarrow> p))"
  by (simp add: Provider_set_def Provider_def Let_def split: option.split)

lemma lift_provider_alt:
  "lift_provider k v ps = (case block_of k of None \<Rightarrow> ps | Some (b, i) \<Rightarrow> write_block b i v ps)"
  by (simp add: lift_provider_def block_of_def write_block_def Provider_set_alt set_field_def)

lemma set_field_commute: "i < 3 \<Longrightarrow> j < 3 \<Longrightarrow> i \<noteq> j \<Longrightarrow> set_field i v (set_field j u p) = set_field j u (set_field i v p)"
  by (auto simp: set_field_def)

lemma write_block_commute:
  "i < 3 \<Longrightarrow> j < 3 \<Longrightarrow> (a, i) \<noteq> (b, j) \<Longrightarrow>
   write_block a i v (write_block b j u ps) = write_block b j u (write_block a i v ps)"
  by (cases "a = b") (auto simp: write_block_def set_field_commute fun_eq_iff split: option.split)

lemma block_of_field: "block_of k = Some (b, i) \<Longrightarrow> i < 3"
  by (auto simp: block_of_def split: if_splits)

lemma lift_provider_commute:
  assumes "block_of x \<noteq> None \<longrightarrow> block_of x \<noteq> block_of y"
  shows "lift_provider x v (lift_provider y u ps) = lift_provider y u (lift_provider x v ps)"
proof (cases "block_of x = None \<or> block_of y = None")
  case False
  then obtain a i b j where x: "block_of x = Some (a, i)" and y: "block_of y = Some (b, j)" by auto
  have "(a, i) \<noteq> (b, j)" using assms x y by auto
  from write_block_commute [OF block_of_field [OF x] block_of_field [OF y] this]
  show ?thesis by (simp add: lift_provider_alt x y)
qed (auto simp: lift_provider_alt split: option.splits)

definition blocks_distinct :: "raw \<Rightarrow> bool" where
  "blocks_distinct raw \<longleftrightarrow>
     (\<forall>k\<in>dom raw. \<forall>k'\<in>dom raw. k \<noteq> k' \<longrightarrow> block_of k \<noteq> None \<longrightarrow> block_of k \<noteq> block_of k')"

text \<open>
  C31. The configuration does not depend on the order in which Go ranges over the flat map, provided
  no two keys name the same field of the same provider up to case and surrounding space.
\<close>

theorem configFromRaw_order_irrelevant:
  assumes "iteration_of raw ks" and "iteration_of raw ks'" and "blocks_distinct raw"
  shows "configFromRaw raw ks = configFromRaw raw ks'"
proof -
  let ?f = "\<lambda>k. lift_provider k (get raw k)"
  have "fold ?f ks = fold ?f ks'"
  proof (rule fold_multiset_equiv)
    show "mset ks = mset ks'"
      using assms(1,2) by (intro iffD1 [OF set_eq_iff_mset_eq_distinct]) (auto simp: iteration_of_def)
    fix x y assume xy: "x \<in> set ks" "y \<in> set ks"
    show "?f x \<circ> ?f y = ?f y \<circ> ?f x"
    proof (cases "x = y")
      case False
      with xy assms have "block_of x \<noteq> None \<longrightarrow> block_of x \<noteq> block_of y"
        by (auto simp: blocks_distinct_def iteration_of_def)
      then show ?thesis
        using lift_provider_commute [of x y] by (simp add: fun_eq_iff)
    qed simp
  qed
  then show ?thesis by (simp add: configFromRaw_def)
qed

theorem configFromRaw_order_irrelevant_witness:
  "configFromRaw [''lcn_host'' \<mapsto> ''a'', ''lcn_key'' \<mapsto> ''k''] [''lcn_host'', ''lcn_key''] =
   configFromRaw [''lcn_host'' \<mapsto> ''a'', ''lcn_key'' \<mapsto> ''k''] [''lcn_key'', ''lcn_host'']"
proof -
  have b: "block_of ''lcn_host'' \<noteq> block_of ''lcn_key''" by code_simp
  show ?thesis
    by (rule configFromRaw_order_irrelevant) (use b in \<open>auto simp: iteration_of_def blocks_distinct_def\<close>)
qed

end
