(* ===== verification/Domain.thy ===== *)
theory Domain
  imports Go_Strings Go_Float
begin

text \<open>
  The domain types of \<^verbatim>\<open>internal/domain\<close>: rooms, players, match statistics, sessions and accounts,
  field by field, and the world the application services act on: a heap of rooms, a heap of
  players and a repository of pointers into them.

  A \<^verbatim>\<open>*lobby.Room\<close> or \<^verbatim>\<open>*player.Player\<close> is a reference, a number; \<open>None\<close> is the nil pointer where
  the code can hold one. The zero \<^verbatim>\<open>time.Time\<close> is 0 and an instant is its distance from it in
  nanoseconds. The maps inside a room are created with it and never nil.
\<close>

type_synonym rref = nat
type_synonym pref = nat
type_synonym time = int

section \<open>Accounts and sessions\<close>

datatype account_type = AccountTypeGuest | AccountTypeLCN | AccountTypeOther string

text \<open>The Go type is a string with two named constants; any other string is \<open>AccountTypeOther\<close>.\<close>

fun account_type_string :: "account_type \<Rightarrow> string" where
  "account_type_string AccountTypeGuest = ''''"
| "account_type_string AccountTypeLCN = ''LCN''"
| "account_type_string (AccountTypeOther s) = s"

definition account_type_of :: "string \<Rightarrow> account_type" where
  "account_type_of s =
     (if s = '''' then AccountTypeGuest else if s = ''LCN'' then AccountTypeLCN
      else AccountTypeOther s)"

lemma account_type_string_of [simp]: "account_type_string (account_type_of s) = s"
  by (simp add: account_type_of_def)

record account_info =
  ac_Type :: account_type
  ac_ID :: string
  ac_Login :: string
  ac_Profile :: string

definition IsAuthenticated :: "account_info option \<Rightarrow> bool" where
  "IsAuthenticated a =
     (case a of None \<Rightarrow> False
      | Some a \<Rightarrow> ac_Type a \<noteq> AccountTypeGuest \<and> ac_Login a \<noteq> '''')"

record session =
  ss_Account :: "account_info option"
  ss_PlayerID :: u32
  ss_Nick :: string
  ss_WindowW :: int
  ss_WindowH :: int
  ss_Dev :: bool
  ss_RoomID :: u32
  ss_AliveAt :: time

definition new_session :: session where
  "new_session =
     \<lparr>ss_Account = None, ss_PlayerID = 0, ss_Nick = [], ss_WindowW = 0, ss_WindowH = 0,
      ss_Dev = False, ss_RoomID = 0, ss_AliveAt = 0\<rparr>"

section \<open>Match statistics\<close>

datatype stat_rejection =
  StatApplied | StatRejectShortBuffer | StatRejectPlayerMismatch | StatRejectTickAhead

record endgame_event =
  eg_GameID :: int
  eg_PlayerID :: u32
  eg_Result :: string
  eg_Nick :: string
  eg_Own :: string
  eg_Title :: string

record player_stat =
  ps_Time :: u32
  ps_PC :: u8
  ps_PlayerID :: u32
  ps_Status :: u8
  ps_Scores :: u32
  ps_RealScores :: int
  ps_Population :: u32
  ps_Wood :: u32
  ps_Gold :: u32
  ps_Stone :: u32
  ps_Food :: u32
  ps_Iron :: u32
  ps_Coal :: u32
  ps_Peasants :: u32
  ps_Units :: u32
  ps_Population2 :: u32
  ps_Casuality :: int
  ps_ChangeWood :: float64
  ps_ChangeStone :: float64
  ps_ChangeFood :: float64
  ps_ChangeGold :: float64
  ps_ChangeIron :: float64
  ps_ChangeCoal :: float64
  ps_ChangePeas :: float64
  ps_ChangeUnits :: float64
  ps_ChangePop2 :: float64

record player_stat_cycle =
  sc_Peasants :: u32
  sc_Units :: u32
  sc_Scores :: int

record stat_history_point =
  hp_Change :: float64
  hp_Time :: u32
  hp_Interval :: u32

definition zero_cycle :: player_stat_cycle where
  "zero_cycle = \<lparr>sc_Peasants = 0, sc_Units = 0, sc_Scores = 0\<rparr>"

section \<open>Players and rooms\<close>

text \<open>
  \<open>pl_StatHistory\<close> and \<open>pl_StatSum\<close> are maps with zero values for absent keys; \<open>None\<close> is the nil map.
\<close>

record player =
  pl_ID :: u32
  pl_Nick :: string
  pl_ConnectedAt :: time
  pl_ExitedAt :: time
  pl_AccountType :: string
  pl_AccountLogin :: string
  pl_AccountID :: string
  pl_AccountProfile :: string
  pl_TimeTick :: u32
  pl_Nation :: u32
  pl_Theam :: u32
  pl_Color :: u32
  pl_Zombie :: bool
  pl_Stat :: "player_stat option"
  pl_StatCycle :: player_stat_cycle
  pl_StatHistory :: "(string \<rightharpoonup> stat_history_point list) option"
  pl_StatSum :: "(string \<rightharpoonup> float64) option"

record room =
  rm_ID :: u32
  rm_Title :: string
  rm_HostID :: u32
  rm_HostAddr :: string
  rm_HostAddrInt :: u32
  rm_Ver :: u8
  rm_Level :: int
  rm_Password :: string
  rm_MaxPlayers :: int
  rm_PlayersCount :: int
  rm_Players :: "u32 \<rightharpoonup> pref option"
  rm_PlayersTime :: "u32 \<rightharpoonup> time"
  rm_Started :: bool
  rm_StartedAt :: time
  rm_StartPlayers :: int
  rm_CtlSum :: u32
  rm_Row :: "string list"
  rm_Ctime :: time
  rm_Map :: string
  rm_SaveFrom :: int
  rm_TimeTick :: u32
  rm_StartedUsers :: "pref list"

definition zero_player :: player where
  "zero_player =
     \<lparr>pl_ID = 0, pl_Nick = [], pl_ConnectedAt = 0, pl_ExitedAt = 0, pl_AccountType = [],
      pl_AccountLogin = [], pl_AccountID = [], pl_AccountProfile = [], pl_TimeTick = 0,
      pl_Nation = 0, pl_Theam = 0, pl_Color = 0, pl_Zombie = False, pl_Stat = None,
      pl_StatCycle = zero_cycle, pl_StatHistory = None, pl_StatSum = None\<rparr>"

definition zero_room :: room where
  "zero_room =
     \<lparr>rm_ID = 0, rm_Title = [], rm_HostID = 0, rm_HostAddr = [], rm_HostAddrInt = 0, rm_Ver = 0,
      rm_Level = 0, rm_Password = [], rm_MaxPlayers = 0, rm_PlayersCount = 0,
      rm_Players = Map.empty, rm_PlayersTime = Map.empty, rm_Started = False, rm_StartedAt = 0,
      rm_StartPlayers = 0, rm_CtlSum = 0, rm_Row = [], rm_Ctime = 0, rm_Map = [],
      rm_SaveFrom = 0, rm_TimeTick = 0, rm_StartedUsers = []\<rparr>"

section \<open>The world\<close>

record 's world =
  rooms_heap :: "rref \<Rightarrow> room"
  next_rref :: rref
  players_heap :: "pref \<Rightarrow> player"
  next_pref :: pref
  repo :: 's

definition set_room :: "rref \<Rightarrow> room \<Rightarrow> 's world \<Rightarrow> 's world" where
  "set_room p r w = w\<lparr>rooms_heap := (rooms_heap w)(p := r)\<rparr>"

definition set_player :: "pref \<Rightarrow> player \<Rightarrow> 's world \<Rightarrow> 's world" where
  "set_player q pl w = w\<lparr>players_heap := (players_heap w)(q := pl)\<rparr>"

definition set_repo :: "('s \<Rightarrow> 's) \<Rightarrow> 's world \<Rightarrow> 's world" where
  "set_repo f w = w\<lparr>repo := f (repo w)\<rparr>"

text \<open>Allocation of a room or a player: \<^verbatim>\<open>&lobby.Room{...}\<close>, \<^verbatim>\<open>&player.Player{...}\<close>.\<close>

definition alloc_room :: "room \<Rightarrow> 's world \<Rightarrow> rref \<times> 's world" where
  "alloc_room r w =
     (next_rref w,
      w\<lparr>rooms_heap := (rooms_heap w)(next_rref w := r), next_rref := Suc (next_rref w)\<rparr>)"

definition alloc_player :: "player \<Rightarrow> 's world \<Rightarrow> pref \<times> 's world" where
  "alloc_player pl w =
     (next_pref w,
      w\<lparr>players_heap := (players_heap w)(next_pref w := pl), next_pref := Suc (next_pref w)\<rparr>)"

text \<open>The same world with another representation of the repository.\<close>

definition map_world :: "('s \<Rightarrow> 't) \<Rightarrow> 's world \<Rightarrow> 't world" where
  "map_world f w =
     \<lparr>rooms_heap = rooms_heap w, next_rref = next_rref w, players_heap = players_heap w,
      next_pref = next_pref w, repo = f (repo w)\<rparr>"

lemmas world_defs [go_defs] = set_room_def set_player_def set_repo_def alloc_room_def alloc_player_def

lemma world_select [simp]:
  "rooms_heap (set_room p r w) = (rooms_heap w)(p := r)"
  "next_rref (set_room p r w) = next_rref w"
  "players_heap (set_room p r w) = players_heap w"
  "next_pref (set_room p r w) = next_pref w"
  "repo (set_room p r w) = repo w"
  "rooms_heap (set_player q pl w) = rooms_heap w"
  "next_rref (set_player q pl w) = next_rref w"
  "players_heap (set_player q pl w) = (players_heap w)(q := pl)"
  "next_pref (set_player q pl w) = next_pref w"
  "repo (set_player q pl w) = repo w"
  "rooms_heap (set_repo f w) = rooms_heap w"
  "next_rref (set_repo f w) = next_rref w"
  "players_heap (set_repo f w) = players_heap w"
  "next_pref (set_repo f w) = next_pref w"
  "repo (set_repo f w) = f (repo w)"
  by (simp_all add: set_room_def set_player_def set_repo_def)

lemma map_world_select [simp]:
  "rooms_heap (map_world f w) = rooms_heap w"
  "next_rref (map_world f w) = next_rref w"
  "players_heap (map_world f w) = players_heap w"
  "next_pref (map_world f w) = next_pref w"
  "repo (map_world f w) = f (repo w)"
  by (simp_all add: map_world_def)

lemma map_world_set [simp]:
  "map_world f (set_room p r w) = set_room p r (map_world f w)"
  "map_world f (set_player q pl w) = set_player q pl (map_world f w)"
  by (simp_all add: map_world_def set_room_def set_player_def)

lemma map_world_set_repo [simp]:
  "f (g (repo w)) = h (f (repo w)) \<Longrightarrow> map_world f (set_repo g w) = set_repo h (map_world f w)"
  by (simp add: map_world_def set_repo_def)

lemma map_world_alloc [simp]:
  "map_prod id (map_world f) (alloc_room r w) = alloc_room r (map_world f w)"
  "map_prod id (map_world f) (alloc_player pl w) = alloc_player pl (map_world f w)"
  by (simp_all add: map_world_def alloc_room_def alloc_player_def)

end
