(* ===== verification/Identity.thy ===== *)
theory Identity
  imports Config Domain
begin

text \<open>
  Accounts and nicks, \<^verbatim>\<open>internal/app/identity\<close>: validation of nicks (nick.go), the logon at an
  account server (service.go) and the decision of the \<^verbatim>\<open>try_enter\<close> route (enterflow.go). The HTTP
  exchange and the JSON decoder are arguments: \<open>http\<close> takes the endpoint, the form and the headers
  and gives the status and the body, or \<open>None\<close> when the request fails; \<open>json\<close> gives the fields the
  code decodes, the id already formatted with \<^verbatim>\<open>%v\<close>.
\<close>

section \<open>Nicks (nick.go)\<close>

definition MaxNickLen :: nat where
  "MaxNickLen = 25"

datatype nick_error = NickOK | NickEmpty | NickBadCharacter | NickStartsWithDigit | NickStartsWithDash

fun Message :: "nick_error \<Rightarrow> string" where
  "Message NickEmpty = ''Enter nick''"
| "Message NickBadCharacter = ''Bad character in nick. Nick can contain only a-z,A-Z,0-9,[]_-''"
| "Message NickStartsWithDigit = ''Bad character in nick. Nick can't start with numerical digit''"
| "Message NickStartsWithDash = ''Bad character in nick. Nick can't start with -''"
| "Message NickOK = ''''"

text \<open>The character class \<^verbatim>\<open>[\[\]_\w-]\<close>, the same as the one the sanitiser keeps.\<close>

definition nick_char :: "char \<Rightarrow> bool" where
  "nick_char c \<longleftrightarrow>
     c = CHR ''['' \<or> c = CHR '']'' \<or> c = CHR ''_'' \<or> c = CHR ''-'' \<or> is_digit c \<or>
     (97 \<le> (of_char c :: nat) \<and> (of_char c :: nat) \<le> 122) \<or>
     (65 \<le> (of_char c :: nat) \<and> (of_char c :: nat) \<le> 90)"

definition ValidateNick :: "string \<Rightarrow> nick_error" where
  "ValidateNick nick =
     (if nick = [] then NickEmpty
      else if \<not> list_all nick_char nick then NickBadCharacter
      else if has_prefix nick ''-'' then NickStartsWithDash
      else if is_digit (hd nick) then NickStartsWithDigit
      else NickOK)"

definition TruncateNick :: "string \<Rightarrow> string" where
  "TruncateNick nick = (if MaxNickLen < length nick then take MaxNickLen nick else nick)"

text \<open>The loop ranges over runes; the characters it keeps are ASCII, one byte each.\<close>

definition SanitizeAccountNick :: "string \<Rightarrow> string" where
  "SanitizeAccountNick nick =
     (let out = filter nick_char nick in
      if out = [] then ''player'' else if is_digit (hd out) then CHR ''_'' # out else out)"

section \<open>Logon (service.go)\<close>

record account =
  at_Type :: string
  at_Login :: string
  at_ID :: string
  at_Profile :: string

record auth_request =
  aq_LoginType :: string
  aq_Login :: string
  aq_Password :: string
  aq_ClientIP :: string

datatype auth_error =
  ErrProviderUnreachable string | ErrBadCredentials | ErrProviderMisconfigured string

fun auth_error_text :: "auth_error \<Rightarrow> string" where
  "auth_error_text (ErrProviderUnreachable n) = ''account provider unreachable: '' @ n"
| "auth_error_text ErrBadCredentials = ''incorrect login or password''"
| "auth_error_text (ErrProviderMisconfigured n) = ''account provider misconfigured: '' @ n"

type_synonym form = "(string \<times> string) list"
type_synonym http_client = "string \<Rightarrow> form \<Rightarrow> (string \<times> string) list \<Rightarrow> (int \<times> bytes) option"

record login_payload =
  lp_Success :: bool
  lp_ID :: string
  lp_Profile :: string

definition endpoint_of :: "string \<Rightarrow> string" where
  "endpoint_of host = ''http://'' @ host @ ''/api/server.php''"

text \<open>
  A non-2xx status, a failed request and a body that is not the expected JSON count as unreachable.
  Looking a provider up can add an empty entry to the map, which no lookup distinguishes from a
  missing one, so the map is not returned.
\<close>

definition Authenticate ::
  "http_client \<Rightarrow> (bytes \<Rightarrow> login_payload option) \<Rightarrow> providers \<Rightarrow> auth_request \<Rightarrow> auth_error + account"
  where
  "Authenticate http json ps req =
     (let prov = fst (Provider (aq_LoginType req) ps);
          host = pc_Host prov; secret = pc_Key prov;
          serverName = (if pc_ServerName prov = [] then host else pc_ServerName prov)
      in
        if host = [] \<or> secret = [] then Inl (ErrProviderMisconfigured serverName)
        else
          (case http (endpoint_of host)
                  [(''action'', ''logon''), (''key'', secret), (''login'', aq_Login req),
                   (''password'', aq_Password req)]
                  [(''Content-Type'', ''application/x-www-form-urlencoded''),
                   (''X-Client-IP'', aq_ClientIP req)] of
             None \<Rightarrow> Inl (ErrProviderUnreachable serverName)
           | Some (status, raw) \<Rightarrow>
               if status < 200 \<or> 300 \<le> status then Inl (ErrProviderUnreachable serverName)
               else (case json raw of
                   None \<Rightarrow> Inl (ErrProviderUnreachable serverName)
                 | Some payload \<Rightarrow>
                     if \<not> lp_Success payload then Inl ErrBadCredentials
                     else
                       let lcnHost = pc_Host (fst (Provider ''LCN'' ps)) in
                       Inr \<lparr>at_Type = aq_LoginType req, at_Login = aq_Login req, at_ID = lp_ID payload,
                            at_Profile =
                              (if aq_LoginType req = ''LCN'' \<and> lcnHost \<noteq> []
                               then ''http://'' @ lcnHost @ ''/lang_redir.php?path=player.php?plid='' @ lp_ID payload
                               else lp_Profile payload)\<rparr>)))"

text \<open>The request \<^verbatim>\<open>PostAccountAction\<close> sends, if it sends one; \<open>data\<close> is the encoded payload.\<close>

record account_action =
  aa_Endpoint :: string
  aa_Form :: form
  aa_Headers :: "(string \<times> string) list"

definition PostAccountAction ::
  "providers \<Rightarrow> int \<Rightarrow> string \<Rightarrow> string \<Rightarrow> string \<Rightarrow> string \<Rightarrow> string option \<Rightarrow> account_action option" where
  "PostAccountAction ps now accountType accountID clientIP action data =
     (if accountType = [] \<or> accountID = [] then None
      else
        let prov = fst (Provider (to_lower accountType) ps); host = pc_Host prov; key = pc_Key prov in
        if host = [] \<or> key = [] then None
        else Some \<lparr>aa_Endpoint = endpoint_of host,
          aa_Form = [(''account_id'', accountID), (''action'', action)] @
            (case data of None \<Rightarrow> [] | Some d \<Rightarrow> [(''data'', d)]) @
            [(''key'', key), (''time'', fmt_d now)],
          aa_Headers = [(''Content-Type'', ''application/x-www-form-urlencoded''),
            (''User-Agent'', ''my-server.example bot''), (''X-Client-IP'', clientIP)]\<rparr>)"

section \<open>The decision of try\_enter (enterflow.go)\<close>

datatype enter_kind = EnterRender | EnterRenderErrorPage | EnterSuccess

datatype enter_error =
  ErrEnterMissingNick string | ErrEnterMissingPassword string | ErrEnterAuthFailed string
| ErrEnterIllegalNick string

record enter_decision =
  ed_Kind :: enter_kind
  ed_LoginType :: string
  ed_Message :: string
  ed_LoggedIn :: string
  ed_Nick :: string
  ed_ID :: string
  ed_Account :: "account_info option"
  ed_DevFlag :: "bool option"
  ed_SetHeight :: int
  ed_ClearAccount :: bool
  ed_RunPostAccountAction :: bool
  ed_Err :: "enter_error option"

record enter_request =
  er_Nick :: string
  er_LoginType :: string
  er_Password :: string
  er_Reset :: bool
  er_LoggedIn :: bool
  er_HeightStr :: string
  er_CurrentAcc :: "account_info option"
  er_ClientIP :: string

definition ParseEnterRequest ::
  "(string \<rightharpoonup> string) \<Rightarrow> account_info option \<Rightarrow> string \<Rightarrow> enter_request" where
  "ParseEnterRequest p currentAcc clientIP =
     \<lparr>er_Nick = trim_space (get p ''NICK''), er_LoginType = trim_space (get p ''TYPE''),
      er_Password = trim_space (get p ''PASSWORD''), er_Reset = (get p ''RESET'' \<noteq> []),
      er_LoggedIn = (get p ''LOGGED_IN'' \<noteq> []), er_HeightStr = trim_space (get p ''HEIGHT''),
      er_CurrentAcc = currentAcc, er_ClientIP = clientIP\<rparr>"

definition stripDevSuffix :: "string \<Rightarrow> string \<times> bool" where
  "stripDevSuffix nick =
     (if has_suffix nick ''#dev4231'' then (trim_suffix nick ''#dev4231'', True) else (nick, False))"

fun authErrMessage :: "auth_error \<Rightarrow> string" where
  "authErrMessage (ErrProviderUnreachable n) = ''problem with '' @ n @ '' server''"
| "authErrMessage ErrBadCredentials = ''incorrect login or password''"
| "authErrMessage (ErrProviderMisconfigured n) = ''problem with '' @ n @ '' server''"

definition no_decision :: enter_decision where
  "no_decision =
     \<lparr>ed_Kind = EnterRender, ed_LoginType = [], ed_Message = [], ed_LoggedIn = [], ed_Nick = [],
      ed_ID = [], ed_Account = None, ed_DevFlag = None, ed_SetHeight = 0, ed_ClearAccount = False,
      ed_RunPostAccountAction = False, ed_Err = None\<rparr>"

text \<open>The three branches after the reset: an account of before, an account server, a guest.\<close>

definition enter_logged_in :: "enter_request \<Rightarrow> enter_decision \<Rightarrow> enter_decision" where
  "enter_logged_in req d =
     (case er_CurrentAcc req of
        Some acc \<Rightarrow>
          if ac_Login acc \<noteq> []
          then d\<lparr>ed_Kind := EnterSuccess, ed_Account := Some acc,
                 ed_Nick := SanitizeAccountNick (ac_Login acc), ed_RunPostAccountAction := True\<rparr>
          else d\<lparr>ed_Kind := EnterRender\<rparr>
      | None \<Rightarrow> d\<lparr>ed_Kind := EnterRender\<rparr>)"

definition enter_account ::
  "(auth_request \<Rightarrow> auth_error + account) \<Rightarrow> string \<Rightarrow> enter_request \<Rightarrow> enter_decision \<Rightarrow> enter_decision" where
  "enter_account auth nick req d =
     (if nick = []
      then d\<lparr>ed_Kind := EnterRender, ed_LoginType := er_LoginType req, ed_Message := ''enter nick'',
             ed_Err := Some (ErrEnterMissingNick (er_LoginType req))\<rparr>
      else if er_Password req = []
      then d\<lparr>ed_Kind := EnterRender, ed_LoginType := er_LoginType req,
             ed_Message := ''enter password'',
             ed_Err := Some (ErrEnterMissingPassword (er_LoginType req))\<rparr>
      else
        (case auth \<lparr>aq_LoginType = er_LoginType req, aq_Login = nick,
                    aq_Password = er_Password req, aq_ClientIP = er_ClientIP req\<rparr> of
           Inl err \<Rightarrow>
             d\<lparr>ed_Kind := EnterRender, ed_LoginType := er_LoginType req,
               ed_Message := authErrMessage err,
               ed_Err := Some (ErrEnterAuthFailed (authErrMessage err))\<rparr>
         | Inr acc \<Rightarrow>
             d\<lparr>ed_Kind := EnterSuccess,
               ed_Account := Some \<lparr>ac_Type = account_type_of (at_Type acc), ac_ID = at_ID acc,
                                   ac_Login = at_Login acc, ac_Profile = at_Profile acc\<rparr>,
               ed_Nick := SanitizeAccountNick (at_Login acc)\<rparr>))"

definition enter_guest :: "string \<Rightarrow> enter_request \<Rightarrow> enter_decision \<Rightarrow> enter_decision" where
  "enter_guest nick req d0 =
     (let d = (case atoi (er_HeightStr req) of (h, ok) \<Rightarrow> if ok then d0\<lparr>ed_SetHeight := h\<rparr> else d0);
          nerr = ValidateNick nick
      in if nerr \<noteq> NickOK
         then d\<lparr>ed_Kind := EnterRenderErrorPage, ed_Message := Message nerr,
                ed_Err := Some (ErrEnterIllegalNick (Message nerr))\<rparr>
         else d\<lparr>ed_Kind := EnterSuccess, ed_Nick := TruncateNick nick\<rparr>)"

definition TryEnterDecide ::
  "(auth_request \<Rightarrow> auth_error + account) \<Rightarrow> enter_request \<Rightarrow> enter_decision" where
  "TryEnterDecide auth req =
     (case stripDevSuffix (er_Nick req) of (nick, isDev) \<Rightarrow>
        let d = no_decision\<lparr>ed_DevFlag := Some isDev\<rparr> in
        if er_Reset req then d\<lparr>ed_Kind := EnterRender, ed_ClearAccount := True\<rparr>
        else if er_LoggedIn req then enter_logged_in req d
        else if er_LoginType req = ''LCN'' \<or> er_LoginType req = ''WCL'' then enter_account auth nick req d
        else enter_guest nick req d)"

section \<open>Properties\<close>

lemma ValidateNick_OK:
  "ValidateNick n = NickOK \<longleftrightarrow>
   n \<noteq> [] \<and> list_all nick_char n \<and> hd n \<noteq> CHR ''-'' \<and> \<not> is_digit (hd n)"
  by (cases n) (auto simp: ValidateNick_def has_prefix_def)

lemma nick_char_player: "list_all nick_char ''player''" "\<not> is_digit CHR ''p''"
  by (simp_all add: nick_char_def is_digit_def)

lemma Sanitize_chars:
  "SanitizeAccountNick n \<noteq> [] \<and> list_all nick_char (SanitizeAccountNick n) \<and>
   \<not> is_digit (hd (SanitizeAccountNick n))"
  using nick_char_player
  by (auto simp: SanitizeAccountNick_def Let_def list_all_iff nick_char_def is_digit_def)

lemma TruncateNick_valid:
  "ValidateNick n = NickOK \<Longrightarrow> ValidateNick (TruncateNick n) = NickOK \<and> length (TruncateNick n) \<le> MaxNickLen"
  by (auto simp: ValidateNick_OK TruncateNick_def MaxNickLen_def list_all_iff dest: in_set_takeD)

lemma enter_branches:
  assumes "ed_Kind d = EnterRender" and "ed_Account d = None"
  shows "ed_Kind (enter_logged_in req d) = EnterSuccess \<Longrightarrow>
      \<exists>acc. ed_Account (enter_logged_in req d) = Some acc \<and> ed_Nick (enter_logged_in req d) = SanitizeAccountNick (ac_Login acc)"
    and "ed_Kind (enter_account auth n req d) = EnterSuccess \<Longrightarrow>
      \<exists>acc. ed_Account (enter_account auth n req d) = Some acc \<and> ed_Nick (enter_account auth n req d) = SanitizeAccountNick (ac_Login acc)"
    and "ed_Kind (enter_guest n req d) = EnterSuccess \<Longrightarrow>
      ValidateNick n = NickOK \<and> ed_Nick (enter_guest n req d) = TruncateNick n"
    and "ed_Account (enter_logged_in req d) = Some a \<Longrightarrow> er_CurrentAcc req = Some a \<and> ac_Login a \<noteq> []"
    and "ed_Account (enter_account auth n req d) = Some a \<Longrightarrow>
      \<exists>b. auth \<lparr>aq_LoginType = er_LoginType req, aq_Login = n,
               aq_Password = er_Password req, aq_ClientIP = er_ClientIP req\<rparr> = Inr b \<and>
          a = \<lparr>ac_Type = account_type_of (at_Type b), ac_ID = at_ID b, ac_Login = at_Login b,
               ac_Profile = at_Profile b\<rparr>"
    and "ed_Account (enter_guest n req d) = None"
  using assms
  by (auto simp: enter_logged_in_def enter_account_def enter_guest_def Let_def
      split: option.splits sum.splits if_splits prod.splits)

lemma no_decision_select [simp]:
  "ed_Kind (no_decision\<lparr>ed_DevFlag := v\<rparr>) = EnterRender" "ed_Account (no_decision\<lparr>ed_DevFlag := v\<rparr>) = None"
  by (simp_all add: no_decision_def)

lemma TryEnterDecide_success:
  assumes "ed_Kind (TryEnterDecide auth req) = EnterSuccess"
  shows "(ed_Account (TryEnterDecide auth req) \<noteq> None \<and> (\<exists>l. ed_Nick (TryEnterDecide auth req) = SanitizeAccountNick l)) \<or>
    (\<exists>n. ValidateNick n = NickOK \<and> ed_Nick (TryEnterDecide auth req) = TruncateNick n)"
proof -
  obtain n dev where s: "stripDevSuffix (er_Nick req) = (n, dev)" by force
  let ?d = "no_decision\<lparr>ed_DevFlag := Some dev\<rparr>"
  note b = enter_branches [of ?d, OF no_decision_select]
  consider "TryEnterDecide auth req = ?d\<lparr>ed_Kind := EnterRender, ed_ClearAccount := True\<rparr>"
    | "TryEnterDecide auth req = enter_logged_in req ?d" | "TryEnterDecide auth req = enter_account auth n req ?d"
    | "TryEnterDecide auth req = enter_guest n req ?d"
    by (simp add: TryEnterDecide_def s Let_def) meson
  then show ?thesis
  proof cases
    case 2 then show ?thesis using b(1) [of req] assms by auto
  next
    case 3 then show ?thesis using b(2) [of auth n req] assms by auto
  next
    case 4 then show ?thesis using b(3) [of n req] assms by auto
  qed (use assms in simp)
qed

text \<open>
  C23. Whoever is admitted gets a usable nick: not empty, only letters, digits, brackets, underscore
  and dash, not starting with a digit. A guest's nick is moreover valid and at most 25 bytes long.
\<close>

theorem TryEnterDecide_nick:
  assumes "ed_Kind (TryEnterDecide auth req) = EnterSuccess"
  shows "let n = ed_Nick (TryEnterDecide auth req) in
    n \<noteq> [] \<and> list_all nick_char n \<and> \<not> is_digit (hd n) \<and>
    (ed_Account (TryEnterDecide auth req) = None \<longrightarrow> ValidateNick n = NickOK \<and> length n \<le> MaxNickLen)"
  using TryEnterDecide_success [OF assms]
proof (elim disjE conjE exE)
  fix l assume "ed_Account (TryEnterDecide auth req) \<noteq> None"
    and "ed_Nick (TryEnterDecide auth req) = SanitizeAccountNick l"
  then show ?thesis using Sanitize_chars [of l] by (auto simp: Let_def)
next
  fix n assume "ValidateNick n = NickOK" and n: "ed_Nick (TryEnterDecide auth req) = TruncateNick n"
  from TruncateNick_valid [OF this(1)] show ?thesis by (simp add: Let_def n ValidateNick_OK)
qed

theorem TryEnterDecide_nick_witness:
  "ed_Nick (TryEnterDecide (\<lambda>_. Inl ErrBadCredentials)
     (ParseEnterRequest [''NICK'' \<mapsto> ''ann''] None ''10.0.0.1'')) \<noteq> []"
proof -
  have "ed_Kind (TryEnterDecide (\<lambda>_. Inl ErrBadCredentials)
     (ParseEnterRequest [''NICK'' \<mapsto> ''ann''] None ''10.0.0.1'')) = EnterSuccess" by code_simp
  from TryEnterDecide_nick [OF this] show ?thesis by (simp add: Let_def)
qed

lemma TryEnterDecide_account:
  assumes "ed_Account (TryEnterDecide auth req) = Some acc"
  shows "\<not> er_Reset req \<and>
    (if er_LoggedIn req then er_CurrentAcc req = Some acc \<and> ac_Login acc \<noteq> []
     else er_LoginType req \<in> {''LCN'', ''WCL''} \<and>
       (\<exists>a. auth \<lparr>aq_LoginType = er_LoginType req, aq_Login = fst (stripDevSuffix (er_Nick req)),
                aq_Password = er_Password req, aq_ClientIP = er_ClientIP req\<rparr> = Inr a \<and>
            acc = \<lparr>ac_Type = account_type_of (at_Type a), ac_ID = at_ID a, ac_Login = at_Login a,
                   ac_Profile = at_Profile a\<rparr>))"
proof -
  obtain n dev where s: "stripDevSuffix (er_Nick req) = (n, dev)" by force
  let ?d = "no_decision\<lparr>ed_DevFlag := Some dev\<rparr>"
  note b = enter_branches [of ?d, OF no_decision_select]
  show ?thesis
    using assms b(4) [of req acc] b(5) [of auth n req acc] b(6) [of n req]
    by (auto simp: TryEnterDecide_def s Let_def no_decision_def split: if_splits)
qed

lemma Authenticate_Inr:
  assumes "Authenticate http json ps req = Inr a"
  shows "\<exists>host status raw payload form headers.
    host = pc_Host (fst (Provider (aq_LoginType req) ps)) \<and> host \<noteq> [] \<and>
    http (endpoint_of host) form headers = Some (status, raw) \<and>
    (''login'', aq_Login req) \<in> set form \<and> (''password'', aq_Password req) \<in> set form \<and>
    200 \<le> status \<and> status < 300 \<and> json raw = Some payload \<and> lp_Success payload \<and>
    at_Type a = aq_LoginType req \<and> at_ID a = lp_ID payload \<and> at_Login a = aq_Login req"
proof -
  let ?host = "pc_Host (fst (Provider (aq_LoginType req) ps))"
  let ?form = "[(''action'', ''logon''), (''key'', pc_Key (fst (Provider (aq_LoginType req) ps))),
      (''login'', aq_Login req), (''password'', aq_Password req)]"
  let ?headers = "[(''Content-Type'', ''application/x-www-form-urlencoded''), (''X-Client-IP'', aq_ClientIP req)]"
  obtain status raw where h: "?host \<noteq> []" "http (endpoint_of ?host) ?form ?headers = Some (status, raw)"
    using assms by (auto simp: Authenticate_def Let_def split: option.splits if_splits)
  then have ok: "200 \<le> status" "status < 300"
    using assms by (auto simp: Authenticate_def Let_def split: option.splits if_splits)
  from h ok assms obtain payload where "json raw = Some payload" "lp_Success payload"
    "at_Type a = aq_LoginType req" "at_ID a = lp_ID payload" "at_Login a = aq_Login req"
    by (auto simp: Authenticate_def Let_def split: option.splits if_splits)
  moreover have "(''login'', aq_Login req) \<in> set ?form" "(''password'', aq_Password req) \<in> set ?form" by simp_all
  ultimately show ?thesis using h ok by blast
qed

text \<open>
  C21. An account is attached to a session only if it was there already, with a login and on an
  explicit request to continue with it, or if the account server of the requested type accepted the
  login and the password of the request: then type and login are those of the request, and the
  provider's answer was a 2xx response that reports success.
\<close>

theorem account_only_if_authenticated:
  assumes "ed_Account (TryEnterDecide (Authenticate http json ps) req) = Some acc"
  shows "\<not> er_Reset req \<and>
    (if er_LoggedIn req then er_CurrentAcc req = Some acc \<and> ac_Login acc \<noteq> []
     else \<exists>host status raw payload form headers.
       er_LoginType req \<in> {''LCN'', ''WCL''} \<and> host = pc_Host (fst (Provider (er_LoginType req) ps)) \<and>
       host \<noteq> [] \<and> http (endpoint_of host) form headers = Some (status, raw) \<and>
       (''login'', fst (stripDevSuffix (er_Nick req))) \<in> set form \<and>
       (''password'', er_Password req) \<in> set form \<and>
       200 \<le> status \<and> status < 300 \<and> json raw = Some payload \<and> lp_Success payload \<and>
       account_type_string (ac_Type acc) = er_LoginType req \<and> ac_ID acc = lp_ID payload \<and>
       ac_Login acc = fst (stripDevSuffix (er_Nick req)))"
proof -
  note acc = TryEnterDecide_account [OF assms]
  show ?thesis
  proof (cases "er_LoggedIn req")
    case False
    with acc obtain a where t: "er_LoginType req \<in> {''LCN'', ''WCL''}"
      and a: "Authenticate http json ps \<lparr>aq_LoginType = er_LoginType req,
        aq_Login = fst (stripDevSuffix (er_Nick req)), aq_Password = er_Password req, aq_ClientIP = er_ClientIP req\<rparr> = Inr a"
      and fields: "ac_Type acc = account_type_of (at_Type a)" "ac_ID acc = at_ID a" "ac_Login acc = at_Login a"
      by auto
    from Authenticate_Inr [OF a] t False acc show ?thesis by (simp add: fields)
  qed (use acc in simp)
qed

theorem account_only_if_authenticated_witness:
  "\<exists>host status raw payload form headers.
     host = ''acc.example'' \<and> (\<lambda>_ _ _. Some (200, ''{}'')) (endpoint_of host) form headers = Some (status, raw) \<and>
     (''password'', ''pw'') \<in> set form \<and> (200 :: int) \<le> status \<and>
     (\<lambda>_. Some \<lparr>lp_Success = True, lp_ID = ''7'', lp_Profile = []\<rparr>) (raw :: string) = Some payload \<and> lp_Success payload"
proof -
  let ?http = "\<lambda>_ _ _. Some (200, ''{}'')"
    and ?json = "\<lambda>_. Some \<lparr>lp_Success = True, lp_ID = ''7'', lp_Profile = []\<rparr>"
    and ?ps = "[''lcn'' \<mapsto> \<lparr>pc_Host = ''acc.example'', pc_Key = ''k'', pc_ServerName = []\<rparr>]"
    and ?req = "\<lparr>er_Nick = ''ann'', er_LoginType = ''LCN'', er_Password = ''pw'', er_Reset = False,
      er_LoggedIn = False, er_HeightStr = [], er_CurrentAcc = None, er_ClientIP = []\<rparr>"
  have lcn: "provider_key ''LCN'' = ''lcn''" by code_simp
  have prov: "pc_Host (fst (Provider ''LCN'' ?ps)) = ''acc.example''" "pc_Key (fst (Provider ''LCN'' ?ps)) = ''k''"
    by (simp_all add: Provider_def lcn)
  have strip: "stripDevSuffix ''ann'' = (''ann'', False)" by code_simp
  obtain acc where "ed_Account (TryEnterDecide (Authenticate ?http ?json ?ps) ?req) = Some acc"
    by (simp add: TryEnterDecide_def strip enter_account_def Authenticate_def prov Let_def)
  from account_only_if_authenticated [OF this] show ?thesis by (auto simp: prov)
qed

text \<open>
  The sanitised login of an account is a valid nick exactly when its first usable character is
  not a dash; a login such as \<open>-ann\<close> gives a nick that the validation of guests rejects.
\<close>

theorem sanitized_nick_valid_iff:
  "ValidateNick (SanitizeAccountNick n) = NickOK \<longleftrightarrow>
     take 1 (filter nick_char n) \<noteq> ''-''"
proof -
  have "hd ''player'' \<noteq> CHR ''-''" by simp
  then show ?thesis
    using Sanitize_chars [of n] unfolding ValidateNick_OK
    by (cases "filter nick_char n") (auto simp: SanitizeAccountNick_def Let_def is_digit_def split: if_splits)
qed

end
