(* ===== verification/Rooms_Repo.thy ===== *)
theory Rooms_Repo
  imports Domain
begin

text \<open>
  The room repository: the interface \<^verbatim>\<open>Repository\<close> of \<^verbatim>\<open>internal/app/lobby/service.go\<close> as a record
  of operations, its contract as the locale \<open>room_repository\<close> (each operation acts on three finite
  maps, by id, by player and by control sum, and on a counter), the server's store
  \<^verbatim>\<open>internal/adapter/rooms\<close> and the in-memory repository of \<^verbatim>\<open>internal/app/lobby/repository.go\<close>,
  both proved to satisfy the contract by an interpretation.

  An operation that takes a room takes the pointer together with the room it points to, because
  the code reads the key to index under from the room. Mutexes only serialise the operations; what
  the state keeps of them is the set of ids that have a lock.
\<close>

section \<open>The interface\<close>

record 's repository =
  FindByID :: "u32 \<Rightarrow> 's \<Rightarrow> rref option \<times> bool"
  FindByHost :: "u32 \<Rightarrow> 's \<Rightarrow> rref option \<times> bool"
  FindBySum :: "u32 \<Rightarrow> 's \<Rightarrow> rref option \<times> bool"
  IndexByID :: "(rref \<times> room) option \<Rightarrow> 's \<Rightarrow> 's"
  IndexByHost :: "u32 \<Rightarrow> (rref \<times> room) option \<Rightarrow> 's \<Rightarrow> 's"
  IndexBySum :: "(rref \<times> room) option \<Rightarrow> 's \<Rightarrow> 's"
  UnindexByID :: "u32 \<Rightarrow> 's \<Rightarrow> 's"
  UnindexByHost :: "u32 \<Rightarrow> 's \<Rightarrow> 's"
  UnindexBySum :: "u32 \<Rightarrow> 's \<Rightarrow> 's"
  NextRoomID :: "'s \<Rightarrow> u32 \<times> 's"
  RoomMu :: "u32 \<Rightarrow> 's \<Rightarrow> 's"

text \<open>The pointer a find returns when it succeeds with a room: the test \<^verbatim>\<open>!ok || r == nil\<close>.\<close>

definition found :: "rref option \<times> bool \<Rightarrow> rref option" where
  "found res = (case res of (r, ok) \<Rightarrow> if ok then r else None)"

definition look :: "('k \<rightharpoonup> rref) \<Rightarrow> 'k \<Rightarrow> rref option \<times> bool" where
  "look m k = (m k, m k \<noteq> None)"

lemma found_look [simp]: "found (look m k) = m k"
  by (simp add: found_def look_def)

section \<open>The contract\<close>

record room_index =
  ix_id :: "u32 \<rightharpoonup> rref"
  ix_host :: "u32 \<rightharpoonup> rref"
  ix_sum :: "u32 \<rightharpoonup> rref"
  ix_last :: u32

definition empty_index :: room_index where
  "empty_index = \<lparr>ix_id = Map.empty, ix_host = Map.empty, ix_sum = Map.empty, ix_last = 0\<rparr>"

text \<open>The abstract operations, themselves a repository.\<close>

definition index_repo :: "room_index repository" where
  "index_repo =
     \<lparr>FindByID = (\<lambda>i x. look (ix_id x) i),
      FindByHost = (\<lambda>i x. look (ix_host x) i),
      FindBySum = (\<lambda>c x. look (ix_sum x) c),
      IndexByID = (\<lambda>r x. case r of None \<Rightarrow> x
        | Some (p, rm) \<Rightarrow> x\<lparr>ix_id := (ix_id x)(rm_ID rm \<mapsto> p)\<rparr>),
      IndexByHost = (\<lambda>i r x. case r of None \<Rightarrow> x
        | Some (p, rm) \<Rightarrow> x\<lparr>ix_host := (ix_host x)(i \<mapsto> p)\<rparr>),
      IndexBySum = (\<lambda>r x. case r of None \<Rightarrow> x
        | Some (p, rm) \<Rightarrow> x\<lparr>ix_sum := (ix_sum x)(rm_CtlSum rm \<mapsto> p)\<rparr>),
      UnindexByID = (\<lambda>i x. x\<lparr>ix_id := (ix_id x)(i := None)\<rparr>),
      UnindexByHost = (\<lambda>i x. x\<lparr>ix_host := (ix_host x)(i := None)\<rparr>),
      UnindexBySum = (\<lambda>c x. x\<lparr>ix_sum := (ix_sum x)(c := None)\<rparr>),
      NextRoomID = (\<lambda>x. (ix_last x + 1, x\<lparr>ix_last := ix_last x + 1\<rparr>)),
      RoomMu = (\<lambda>i x. x)\<rparr>"

locale room_repository =
  fixes R :: "'s repository"
    and abs :: "'s \<Rightarrow> room_index"
  assumes find_id: "FindByID R i s = look (ix_id (abs s)) i"
    and find_host: "found (FindByHost R i s) = ix_host (abs s) i"
    and find_sum: "FindBySum R c s = look (ix_sum (abs s)) c"
    and index_id: "abs (IndexByID R (Some pr) s) = IndexByID index_repo (Some pr) (abs s)"
    and index_host: "abs (IndexByHost R i (Some pr) s) = IndexByHost index_repo i (Some pr) (abs s)"
    and index_sum: "abs (IndexBySum R (Some pr) s) = IndexBySum index_repo (Some pr) (abs s)"
    and unindex_id: "abs (UnindexByID R i s) = UnindexByID index_repo i (abs s)"
    and unindex_host: "abs (UnindexByHost R i s) = UnindexByHost index_repo i (abs s)"
    and unindex_sum: "abs (UnindexBySum R c s) = UnindexBySum index_repo c (abs s)"
    and next_id: "map_prod id abs (NextRoomID R s) = NextRoomID index_repo (abs s)"
    and room_mu: "abs (RoomMu R i s) = abs s"
begin

lemmas abs_simps =
  find_id find_host find_sum index_id index_host index_sum unindex_id unindex_host unindex_sum room_mu

lemma next_id_fst: "fst (NextRoomID R s) = ix_last (abs s) + 1"
  using next_id [of s] by (cases "NextRoomID R s") (auto simp: index_repo_def)

lemma next_id_snd: "abs (snd (NextRoomID R s)) = snd (NextRoomID index_repo (abs s))"
  using next_id [of s] by (cases "NextRoomID R s") (auto simp: index_repo_def)

lemma find_after_index_host: "found (FindByHost R j (IndexByHost R i (Some (p, r)) s)) =
    (if j = i then Some p else found (FindByHost R j s))"
  by (simp add: find_host index_host) (simp add: index_repo_def)

lemma find_after_unindex_id: "FindByID R j (UnindexByID R i s) =
    (if j = i then (None, False) else FindByID R j s)"
  by (simp add: find_id unindex_id) (simp add: index_repo_def look_def)

end

lemma index_repo_sel [simp]:
  "FindByID index_repo i x = look (ix_id x) i"
  "FindByHost index_repo i x = look (ix_host x) i"
  "FindBySum index_repo c x = look (ix_sum x) c"
  "IndexByID index_repo (Some (p, rm)) x = x\<lparr>ix_id := (ix_id x)(rm_ID rm \<mapsto> p)\<rparr>"
  "IndexByHost index_repo i (Some (p, rm)) x = x\<lparr>ix_host := (ix_host x)(i \<mapsto> p)\<rparr>"
  "IndexBySum index_repo (Some (p, rm)) x = x\<lparr>ix_sum := (ix_sum x)(rm_CtlSum rm \<mapsto> p)\<rparr>"
  "UnindexByID index_repo i x = x\<lparr>ix_id := (ix_id x)(i := None)\<rparr>"
  "UnindexByHost index_repo i x = x\<lparr>ix_host := (ix_host x)(i := None)\<rparr>"
  "UnindexBySum index_repo c x = x\<lparr>ix_sum := (ix_sum x)(c := None)\<rparr>"
  "NextRoomID index_repo x = (ix_last x + 1, x\<lparr>ix_last := ix_last x + 1\<rparr>)"
  "RoomMu index_repo i x = x"
  by (simp_all add: index_repo_def)

interpretation spec: room_repository index_repo "\<lambda>x. x"
  by unfold_locales (auto simp: map_prod_def)

section \<open>The server's store\<close>

text \<open>
  \<open>players\<close> and \<open>roomsByPID\<close> may hold nil: \<^verbatim>\<open>IndexRoomByHost\<close> is the one index operation without a
  nil guard. A player is stored as its pointer together with nothing else, as in the code.
\<close>

record store =
  lastPlayerID :: u32
  lastRoomID :: u32
  players :: "u32 \<rightharpoonup> pref"
  roomsByID :: "u32 \<rightharpoonup> rref"
  roomsByPID :: "u32 \<rightharpoonup> rref option"
  roomsBySum :: "u32 \<rightharpoonup> rref"
  roomLocks :: "u32 set"

definition NewStore :: store where
  "NewStore =
     \<lparr>lastPlayerID = 0, lastRoomID = 0, players = Map.empty, roomsByID = Map.empty,
      roomsByPID = Map.empty, roomsBySum = Map.empty, roomLocks = {}\<rparr>"

definition Store_RoomMu :: "u32 \<Rightarrow> store \<Rightarrow> store" where
  "Store_RoomMu i s = (if i \<in> roomLocks s then s else s\<lparr>roomLocks := insert i (roomLocks s)\<rparr>)"

definition NextPlayerID :: "store \<Rightarrow> u32 \<times> store" where
  "NextPlayerID s = (let s' = s\<lparr>lastPlayerID := lastPlayerID s + 1\<rparr> in (lastPlayerID s', s'))"

definition Store_NextRoomID :: "store \<Rightarrow> u32 \<times> store" where
  "Store_NextRoomID s = (let s' = s\<lparr>lastRoomID := lastRoomID s + 1\<rparr> in (lastRoomID s', s'))"

definition SetLastPlayerID :: "u32 \<Rightarrow> store \<Rightarrow> store" where
  "SetLastPlayerID v s = s\<lparr>lastPlayerID := v\<rparr>"

definition SetLastRoomID :: "u32 \<Rightarrow> store \<Rightarrow> store" where
  "SetLastRoomID v s = s\<lparr>lastRoomID := v\<rparr>"

definition SetPlayer :: "(pref \<times> player) option \<Rightarrow> store \<Rightarrow> store" where
  "SetPlayer p s =
     (case p of None \<Rightarrow> s | Some (q, pl) \<Rightarrow> s\<lparr>players := (players s)(pl_ID pl \<mapsto> q)\<rparr>)"

definition GetPlayer :: "u32 \<Rightarrow> store \<Rightarrow> pref option" where
  "GetPlayer i s = players s i"

definition FindPlayer :: "u32 \<Rightarrow> store \<Rightarrow> pref option \<times> bool" where
  "FindPlayer i s = (players s i, players s i \<noteq> None)"

definition DeletePlayer :: "u32 \<Rightarrow> store \<Rightarrow> store" where
  "DeletePlayer i s = s\<lparr>players := (players s)(i := None)\<rparr>"

text \<open>The snapshots range over a map, in an order the caller of the model supplies.\<close>

definition AllPlayers :: "u32 list \<Rightarrow> store \<Rightarrow> pref list" where
  "AllPlayers ks s = map (\<lambda>k. the (players s k)) ks"

definition IndexRoomByID :: "(rref \<times> room) option \<Rightarrow> store \<Rightarrow> store" where
  "IndexRoomByID r s =
     (case r of None \<Rightarrow> s | Some (p, rm) \<Rightarrow> s\<lparr>roomsByID := (roomsByID s)(rm_ID rm \<mapsto> p)\<rparr>)"

definition IndexRoomByHost :: "u32 \<Rightarrow> (rref \<times> room) option \<Rightarrow> store \<Rightarrow> store" where
  "IndexRoomByHost pid r s = s\<lparr>roomsByPID := (roomsByPID s)(pid \<mapsto> map_option fst r)\<rparr>"

definition IndexRoomBySum :: "(rref \<times> room) option \<Rightarrow> store \<Rightarrow> store" where
  "IndexRoomBySum r s =
     (case r of None \<Rightarrow> s | Some (p, rm) \<Rightarrow> s\<lparr>roomsBySum := (roomsBySum s)(rm_CtlSum rm \<mapsto> p)\<rparr>)"

definition GetRoom :: "u32 \<Rightarrow> store \<Rightarrow> rref option" where
  "GetRoom i s = roomsByID s i"

definition FindRoom :: "u32 \<Rightarrow> store \<Rightarrow> rref option \<times> bool" where
  "FindRoom i s = (roomsByID s i, roomsByID s i \<noteq> None)"

definition GetRoomByHost :: "u32 \<Rightarrow> store \<Rightarrow> rref option" where
  "GetRoomByHost pid s = (case roomsByPID s pid of None \<Rightarrow> None | Some r \<Rightarrow> r)"

definition FindRoomByHost :: "u32 \<Rightarrow> store \<Rightarrow> rref option \<times> bool" where
  "FindRoomByHost pid s =
     (case roomsByPID s pid of None \<Rightarrow> (None, False) | Some r \<Rightarrow> (r, True))"

definition GetRoomBySum :: "u32 \<Rightarrow> store \<Rightarrow> rref option" where
  "GetRoomBySum c s = roomsBySum s c"

definition FindRoomBySum :: "u32 \<Rightarrow> store \<Rightarrow> rref option \<times> bool" where
  "FindRoomBySum c s = (roomsBySum s c, roomsBySum s c \<noteq> None)"

definition UnindexRoomByID :: "u32 \<Rightarrow> store \<Rightarrow> store" where
  "UnindexRoomByID i s = s\<lparr>roomsByID := (roomsByID s)(i := None)\<rparr>"

definition UnindexRoomByHost :: "u32 \<Rightarrow> store \<Rightarrow> store" where
  "UnindexRoomByHost pid s = s\<lparr>roomsByPID := (roomsByPID s)(pid := None)\<rparr>"

definition UnindexRoomBySum :: "u32 \<Rightarrow> store \<Rightarrow> store" where
  "UnindexRoomBySum c s = s\<lparr>roomsBySum := (roomsBySum s)(c := None)\<rparr>"

definition AllRooms :: "u32 list \<Rightarrow> store \<Rightarrow> rref list" where
  "AllRooms ks s = map (\<lambda>k. the (roomsByID s k)) ks"

text \<open>\<^verbatim>\<open>WithRoom\<close>: the callback runs under the room's lock with the room of that id, or nil.\<close>

definition WithRoom ::
  "u32 \<Rightarrow> (rref option \<Rightarrow> store world \<Rightarrow> 'e option \<times> store world) \<Rightarrow> store world \<Rightarrow>
    'e option \<times> store world" where
  "WithRoom i fn w =
     (let w' = set_repo (Store_RoomMu i) w in fn (GetRoom i (repo w')) w')"

text \<open>
  \<^verbatim>\<open>WithRoomRead\<close> takes the read lock of the room instead; the error is the callback's. \<open>fn\<close> only looks: it
  is handed the state and returns none. The rest of the store are its counters and other names of the
  operations above.
\<close>

definition WithRoomRead ::
  "u32 \<Rightarrow> (rref option \<Rightarrow> store world \<Rightarrow> 'e option) \<Rightarrow> store world \<Rightarrow> 'e option \<times> store world" where
  "WithRoomRead i fn w =
     (let w' = set_repo (Store_RoomMu i) w in (fn (GetRoom i (repo w')) w', w'))"

definition LastPlayerID :: "store \<Rightarrow> u32" where
  "LastPlayerID s = lastPlayerID s"

definition LastRoomID :: "store \<Rightarrow> u32" where
  "LastRoomID s = lastRoomID s"

definition UpsertPlayer :: "(pref \<times> player) option \<Rightarrow> store \<Rightarrow> store" where
  "UpsertPlayer = SetPlayer"

definition PlayerByID :: "u32 \<Rightarrow> store \<Rightarrow> pref option \<times> bool" where
  "PlayerByID = FindPlayer"

definition RoomByID :: "u32 \<Rightarrow> store \<Rightarrow> rref option \<times> bool" where
  "RoomByID = FindRoom"

definition RoomByPlayerID :: "u32 \<Rightarrow> store \<Rightarrow> rref option \<times> bool" where
  "RoomByPlayerID = FindRoomByHost"

section \<open>The adapter of the store\<close>

definition RoomRepoAdapter :: "store repository" where
  "RoomRepoAdapter =
     \<lparr>FindByID = FindRoom, FindByHost = FindRoomByHost, FindBySum = FindRoomBySum,
      IndexByID = IndexRoomByID, IndexByHost = IndexRoomByHost, IndexBySum = IndexRoomBySum,
      UnindexByID = UnindexRoomByID, UnindexByHost = UnindexRoomByHost,
      UnindexBySum = UnindexRoomBySum, NextRoomID = Store_NextRoomID, RoomMu = Store_RoomMu\<rparr>"

definition store_index :: "store \<Rightarrow> room_index" where
  "store_index s =
     \<lparr>ix_id = roomsByID s,
      ix_host = (\<lambda>i. case roomsByPID s i of None \<Rightarrow> None | Some r \<Rightarrow> r),
      ix_sum = roomsBySum s, ix_last = lastRoomID s\<rparr>"

lemmas store_ops [go_defs] =
  Store_RoomMu_def Store_NextRoomID_def NextPlayerID_def SetPlayer_def GetPlayer_def FindPlayer_def
  DeletePlayer_def IndexRoomByID_def IndexRoomByHost_def IndexRoomBySum_def GetRoom_def FindRoom_def
  GetRoomByHost_def FindRoomByHost_def GetRoomBySum_def FindRoomBySum_def UnindexRoomByID_def
  UnindexRoomByHost_def UnindexRoomBySum_def

interpretation rooms: room_repository RoomRepoAdapter store_index
  by unfold_locales
    (auto simp: RoomRepoAdapter_def store_index_def store_ops look_def found_def Let_def
      fun_eq_iff split: option.splits)

section \<open>The in-memory repository\<close>

record memory_repository =
  mr_byID :: "u32 \<rightharpoonup> rref"
  mr_byHost :: "u32 \<rightharpoonup> rref"
  mr_bySum :: "u32 \<rightharpoonup> rref"
  mr_nextID :: u32
  mr_roomLocks :: "u32 set"

definition NewMemoryRepository :: memory_repository where
  "NewMemoryRepository =
     \<lparr>mr_byID = Map.empty, mr_byHost = Map.empty, mr_bySum = Map.empty, mr_nextID = 0,
      mr_roomLocks = {}\<rparr>"

definition MemoryRepository :: "memory_repository repository" where
  "MemoryRepository =
     \<lparr>FindByID = (\<lambda>i m. (mr_byID m i, mr_byID m i \<noteq> None)),
      FindByHost = (\<lambda>i m. (mr_byHost m i, mr_byHost m i \<noteq> None)),
      FindBySum = (\<lambda>c m. (mr_bySum m c, mr_bySum m c \<noteq> None)),
      IndexByID = (\<lambda>r m. case r of None \<Rightarrow> m
        | Some (p, rm) \<Rightarrow> m\<lparr>mr_byID := (mr_byID m)(rm_ID rm \<mapsto> p)\<rparr>),
      IndexByHost = (\<lambda>i r m. case r of None \<Rightarrow> m
        | Some (p, rm) \<Rightarrow> m\<lparr>mr_byHost := (mr_byHost m)(i \<mapsto> p)\<rparr>),
      IndexBySum = (\<lambda>r m. case r of None \<Rightarrow> m
        | Some (p, rm) \<Rightarrow> m\<lparr>mr_bySum := (mr_bySum m)(rm_CtlSum rm \<mapsto> p)\<rparr>),
      UnindexByID = (\<lambda>i m. m\<lparr>mr_byID := (mr_byID m)(i := None)\<rparr>),
      UnindexByHost = (\<lambda>i m. m\<lparr>mr_byHost := (mr_byHost m)(i := None)\<rparr>),
      UnindexBySum = (\<lambda>c m. m\<lparr>mr_bySum := (mr_bySum m)(c := None)\<rparr>),
      NextRoomID = (\<lambda>m. let m' = m\<lparr>mr_nextID := mr_nextID m + 1\<rparr> in (mr_nextID m', m')),
      RoomMu = (\<lambda>i m. if i \<in> mr_roomLocks m then m
        else m\<lparr>mr_roomLocks := insert i (mr_roomLocks m)\<rparr>)\<rparr>"

definition memory_index :: "memory_repository \<Rightarrow> room_index" where
  "memory_index m =
     \<lparr>ix_id = mr_byID m, ix_host = mr_byHost m, ix_sum = mr_bySum m, ix_last = mr_nextID m\<rparr>"

interpretation memory: room_repository MemoryRepository memory_index
  by unfold_locales
    (auto simp: MemoryRepository_def memory_index_def look_def found_def Let_def)

section \<open>Properties\<close>

text \<open>
  The server's store implements the repository contract: every operation of the adapter has on
  the three indexes and the id counter exactly the effect of the corresponding operation on finite
  maps, and lookups return what the maps hold.
\<close>

theorem store_refines_index:
  "FindByID RoomRepoAdapter i s = look (ix_id (store_index s)) i \<and>
   found (FindByHost RoomRepoAdapter i s) = ix_host (store_index s) i \<and>
   FindBySum RoomRepoAdapter i s = look (ix_sum (store_index s)) i \<and>
   store_index (IndexByID RoomRepoAdapter (Some pr) s) = IndexByID index_repo (Some pr) (store_index s) \<and>
   store_index (IndexByHost RoomRepoAdapter i (Some pr) s) =
     IndexByHost index_repo i (Some pr) (store_index s) \<and>
   store_index (IndexBySum RoomRepoAdapter (Some pr) s) = IndexBySum index_repo (Some pr) (store_index s) \<and>
   store_index (UnindexByID RoomRepoAdapter i s) = UnindexByID index_repo i (store_index s) \<and>
   store_index (UnindexByHost RoomRepoAdapter i s) = UnindexByHost index_repo i (store_index s) \<and>
   store_index (UnindexBySum RoomRepoAdapter i s) = UnindexBySum index_repo i (store_index s) \<and>
   map_prod id store_index (NextRoomID RoomRepoAdapter s) = NextRoomID index_repo (store_index s)"
  by (simp only: rooms.abs_simps rooms.next_id simp_thms)

end
