(* ===== verification/Control_Sum.thy ===== *)
theory Control_Sum
  imports Go_Strings
begin

unbundle bit_operations_syntax

text \<open>
  The control sum of a room's row, \<^verbatim>\<open>controlSum\<close> in \<^verbatim>\<open>internal/app/lobby/leave.go\<close> and its copy
  \<^verbatim>\<open>RoomControlSum\<close> in \<^verbatim>\<open>internal/adapter/rooms/state.go\<close>: a checksum in 32-bit arithmetic that
  reduces its two accumulators only once per chunk of 5552 bytes. It is proved equal to the
  specification of Adler-32 over natural numbers, so no intermediate sum ever wraps around.
\<close>

section \<open>The code's loops\<close>

definition cs_mod :: u32 where
  "cs_mod = 0xFFF1"

definition cs_chunk :: nat where
  "cs_chunk = 5552"

text \<open>The inner loop over the bytes of one chunk.\<close>

fun sum_bytes :: "u32 \<Rightarrow> u32 \<Rightarrow> bytes \<Rightarrow> u32 \<times> u32" where
  "sum_bytes v1 v2 [] = (v1, v2)"
| "sum_bytes v1 v2 (c # s) =
     (let v1' = v1 + word_of_nat (of_char c) in sum_bytes v1' (v2 + v1') s)"

text \<open>The outer loop over the chunks.\<close>

function sum_chunks :: "u32 \<Rightarrow> u32 \<Rightarrow> bytes \<Rightarrow> u32 \<times> u32" where
  "sum_chunks v1 v2 s =
     (if s = [] then (v1, v2)
      else case sum_bytes v1 v2 (take cs_chunk s) of
        (a, b) \<Rightarrow> sum_chunks (a mod cs_mod) (b mod cs_mod) (drop cs_chunk s))"
  by pat_completeness auto
termination
  by (relation "measure (\<lambda>(_, _, s). length s)") (auto simp: cs_chunk_def)

declare sum_chunks.simps [simp del]

definition controlSum :: "bytes list \<Rightarrow> u32" where
  "controlSum row =
     (case sum_chunks 1 0 (join_with [] row) of (v1, v2) \<Rightarrow> (push_bit 16 v2) OR v1)"

definition RoomControlSum :: "bytes list \<Rightarrow> u32" where
  "RoomControlSum row =
     (case sum_chunks 1 0 (join_with [] row) of (v1, v2) \<Rightarrow> (push_bit 16 v2) OR v1)"

section \<open>Specification: Adler-32\<close>

definition adler_base :: nat where
  "adler_base = 65521"

definition adler_a :: "bytes \<Rightarrow> nat" where
  "adler_a s = (1 + sum_list (map of_char s)) mod adler_base"

text \<open>The sum of the successive values of the first sum, before reduction.\<close>

fun adler_trail :: "nat \<Rightarrow> bytes \<Rightarrow> nat" where
  "adler_trail a [] = 0"
| "adler_trail a (c # s) = (a + of_char c) + adler_trail (a + of_char c) s"

definition adler_b :: "bytes \<Rightarrow> nat" where
  "adler_b s = adler_trail 1 s mod adler_base"

definition adler32 :: "bytes \<Rightarrow> nat" where
  "adler32 s = 65536 * adler_b s + adler_a s"

section \<open>The word loops compute the sums\<close>

lemma join_with_Nil: "join_with [] xs = concat xs"
  by (induction xs rule: induct_list012) auto

lemma sum_bytes_nat:
  "sum_bytes (word_of_nat a) (word_of_nat b) s =
     (word_of_nat (a + sum_list (map of_char s)), word_of_nat (b + adler_trail a s))"
proof (induction s arbitrary: a b)
  case (Cons c s)
  have "sum_bytes (word_of_nat a) (word_of_nat b) (c # s) =
      sum_bytes (word_of_nat (a + of_char c)) (word_of_nat (b + (a + of_char c))) s"
    by (simp add: Let_def)
  then show ?case unfolding Cons.IH by (simp add: ac_simps)
qed simp

lemma sum_list_bytes_le: "sum_list (map of_char s) \<le> 255 * length (s :: bytes)"
proof (induction s)
  case (Cons c s)
  have "of_char c < (256 :: nat)" by (rule nat_of_char_less_256)
  with Cons.IH show ?case by (simp del: nat_of_char_less_256)
qed simp

lemma adler_trail_le: "2 * adler_trail a s \<le> 2 * length s * a + 255 * length s * (length s + 1)"
proof (induction s arbitrary: a)
  case (Cons c s)
  let ?n = "length s"
  have c: "of_char c \<le> (255 :: nat)" using nat_of_char_less_256 [of c] by linarith
  have "2 * adler_trail a (c # s) \<le>
      2 * (a + of_char c) + (2 * ?n * (a + of_char c) + 255 * ?n * (?n + 1))"
    using Cons.IH [of "a + of_char c"] by simp
  also have "\<dots> = 2 * (?n + 1) * a + (2 * (?n + 1) * of_char c + 255 * ?n * (?n + 1))"
    by (simp add: algebra_simps)
  also have "\<dots> \<le> 2 * (?n + 1) * a + (2 * (?n + 1) * 255 + 255 * ?n * (?n + 1))"
    using mult_le_mono2 [OF c, of "2 * (?n + 1)"] by simp
  also have "\<dots> = 2 * length (c # s) * a + 255 * length (c # s) * (length (c # s) + 1)"
    by (simp add: algebra_simps)
  finally show ?case .
qed simp

lemma adler_trail_append:
  "adler_trail a (s @ t) = adler_trail a s + adler_trail (a + sum_list (map of_char s)) t"
  by (induction s arbitrary: a) (auto simp: ac_simps)

lemma adler_trail_mod:
  "(b mod adler_base + adler_trail (a mod adler_base) s) mod adler_base =
   (b + adler_trail a s) mod adler_base"
proof (induction s arbitrary: a b)
  case (Cons c s)
  let ?m = adler_base
  have "(b mod ?m + adler_trail (a mod ?m) (c # s)) mod ?m =
      (b mod ?m + (a mod ?m + of_char c) + adler_trail (a mod ?m + of_char c) s) mod ?m"
    by (simp add: ac_simps)
  also have "\<dots> = ((b mod ?m + (a mod ?m + of_char c)) mod ?m +
      adler_trail ((a mod ?m + of_char c) mod ?m) s) mod ?m"
    by (rule Cons.IH [symmetric])
  also have "\<dots> = ((b + (a + of_char c)) mod ?m + adler_trail ((a + of_char c) mod ?m) s) mod ?m"
    by (metis (no_types, opaque_lifting) mod_add_eq mod_add_left_eq)
  also have "\<dots> = (b + (a + of_char c) + adler_trail (a + of_char c) s) mod ?m"
    by (rule Cons.IH)
  finally show ?case by (simp add: ac_simps)
qed simp

lemma word_of_nat_mod:
  "x < 2 ^ 32 \<Longrightarrow> (word_of_nat x :: u32) mod cs_mod = word_of_nat (x mod adler_base)"
  by (rule word_unat_eq_iff [THEN iffD2])
     (simp add: unat_mod cs_mod_def adler_base_def unat_of_nat)

text \<open>
  The bound behind the chunk size: from reduced accumulators, 5552 bytes of value at most 255 keep
  both sums below \<open>2 ^ 32\<close>.
\<close>

lemma chunk_no_overflow:
  assumes "a < adler_base" and "b < adler_base" and "length s \<le> cs_chunk"
  shows "a + sum_list (map of_char s) < 2 ^ 32" and "b + adler_trail a s < 2 ^ 32"
proof -
  have n: "length s \<le> 5552" using assms by (simp add: cs_chunk_def)
  have a: "a \<le> 65520" and b: "b \<le> 65520" using assms by (simp_all add: adler_base_def)
  have "sum_list (map of_char s) \<le> (255 * 5552 :: nat)"
    using sum_list_bytes_le [of s] n by linarith
  then show "a + sum_list (map of_char s) < 2 ^ 32" using a by simp
  have "2 * length s * a \<le> 2 * 5552 * 65520" using n a by (intro mult_le_mono) auto
  moreover have "255 * length s * (length s + 1) \<le> 255 * 5552 * (5552 + 1)"
    using n by (intro mult_le_mono) auto
  ultimately have "2 * adler_trail a s \<le> 2 * 5552 * 65520 + 255 * 5552 * (5552 + 1)"
    using adler_trail_le [of a s] by linarith
  then show "b + adler_trail a s < 2 ^ 32" using b by simp
qed

lemma sum_chunks_adler:
  "a < adler_base \<Longrightarrow> b < adler_base \<Longrightarrow>
   sum_chunks (word_of_nat a) (word_of_nat b) s =
     (word_of_nat ((a + sum_list (map of_char s)) mod adler_base),
      word_of_nat ((b + adler_trail a s) mod adler_base))"
proof (induction "length s" arbitrary: a b s rule: less_induct)
  case less
  show ?case
  proof (cases "s = []")
    case True
    then show ?thesis using less.prems by (simp add: sum_chunks.simps)
  next
    case False
    let ?t = "take cs_chunk s" and ?d = "drop cs_chunk s" and ?m = adler_base
    let ?a = "a + sum_list (map of_char ?t)" and ?b = "b + adler_trail a ?t"
    have bounds: "?a < 2 ^ 32" "?b < 2 ^ 32"
      using chunk_no_overflow [OF less.prems, of ?t] by simp_all
    have "sum_chunks (word_of_nat a) (word_of_nat b) s =
        sum_chunks (word_of_nat (?a mod ?m)) (word_of_nat (?b mod ?m)) ?d"
      using False bounds
      by (simp add: sum_chunks.simps [of "word_of_nat a" "word_of_nat b" s] sum_bytes_nat
          word_of_nat_mod del: of_nat_add)
    also have "\<dots> = (word_of_nat ((?a mod ?m + sum_list (map of_char ?d)) mod ?m),
        word_of_nat ((?b mod ?m + adler_trail (?a mod ?m) ?d) mod ?m))"
      using False by (intro less.hyps) (auto simp: cs_chunk_def adler_base_def)
    also have "(?a mod ?m + sum_list (map of_char ?d)) mod ?m = (a + sum_list (map of_char s)) mod ?m"
      by (metis (no_types, lifting) add.assoc append_take_drop_id map_append mod_add_left_eq
          sum_list_append)
    also have "(?b mod ?m + adler_trail (?a mod ?m) ?d) mod ?m = (b + adler_trail a s) mod ?m"
      unfolding adler_trail_mod using adler_trail_append [of a ?t ?d] by (simp add: ac_simps)
    finally show ?thesis .
  qed
qed

lemma or_push_bit_16:
  assumes "a < 65536" and "b < 65536"
  shows "unat (push_bit 16 (word_of_nat b :: u32) OR word_of_nat a) = 65536 * b + a"
proof -
  have "bit (word_of_nat a :: u32) n \<Longrightarrow> n < 16" for n
  proof (rule ccontr)
    assume "bit (word_of_nat a :: u32) n" and "\<not> n < 16"
    then have "bit (unat (word_of_nat a :: u32)) n" and "16 \<le> n"
      by (auto simp: bit_unsigned_iff)
    then have "bit a n" using assms by simp
    have "a < 2 ^ n" using assms \<open>16 \<le> n\<close> power_increasing [of 16 n "2 :: nat"] by simp
    with \<open>bit a n\<close> show False by (simp add: bit_iff_odd)
  qed
  then have "push_bit 16 (word_of_nat b :: u32) OR word_of_nat a = push_bit 16 (word_of_nat b) + word_of_nat a"
    by (intro disjunctive_add [symmetric]) (force simp: bit_push_bit_iff)
  also have "\<dots> = word_of_nat (65536 * b + a)"
    by (simp add: push_bit_eq_mult)
  finally show ?thesis using assms by (simp del: of_nat_add of_nat_mult)
qed

section \<open>Properties\<close>

text \<open>
  C17. \<^verbatim>\<open>controlSum\<close> is Adler-32 of the concatenated row, for every row: reducing once per 5552
  bytes in 32-bit arithmetic loses nothing. The copy in the room store computes the same function.
\<close>

theorem controlSum_is_adler32:
  "unat (controlSum row) = adler32 (concat row) \<and> RoomControlSum row = controlSum row"
proof -
  have "sum_chunks 1 0 (concat row) = (word_of_nat (adler_a (concat row)), word_of_nat (adler_b (concat row)))"
    using sum_chunks_adler [of 1 0 "concat row"]
    by (simp add: adler_a_def adler_b_def adler_base_def del: of_nat_add)
  moreover have "adler_a (concat row) < 65536" and "adler_b (concat row) < 65536"
    by (auto simp: adler_a_def adler_b_def adler_base_def intro: less_trans [OF mod_less_divisor])
  ultimately have "unat (controlSum row) = adler32 (concat row)"
    using or_push_bit_16 [of "adler_a (concat row)" "adler_b (concat row)"]
    by (simp add: controlSum_def adler32_def join_with_Nil)
  then show ?thesis by (simp add: controlSum_def RoomControlSum_def)
qed

end
