(* ===== verification/Lobby.thy ===== *)
theory Lobby
  imports Rooms_Repo Control_Sum
begin

text \<open>
  The lobby service, \<^verbatim>\<open>internal/app/lobby\<close>: creating, joining, leaving and starting rooms, title and
  level rules. Every operation takes the repository it works on, as the service holds the interface,
  the instant the clock shows during the call, and the world; it returns the new world. The nil
  guards on the service itself are not modelled, since the server builds the service with a
  repository; those on rooms and players are.
\<close>

section \<open>Titles and levels\<close>

definition MaxTitleLen :: nat where
  "MaxTitleLen = 60"

text \<open>The bytes 0x00 to 0x1F and 0x7F.\<close>

definition title_control_byte :: "char \<Rightarrow> bool" where
  "title_control_byte c \<longleftrightarrow> (of_char c :: nat) < 32 \<or> (of_char c :: nat) = 127"

definition ValidateTitle :: "string \<Rightarrow> bool" where
  "ValidateTitle raw =
     (if trim_space raw = [] then False
      else if list_ex title_control_byte raw then False
      else True)"

definition NormalizeTitle :: "string \<Rightarrow> string" where
  "NormalizeTitle raw =
     trim_space (if MaxTitleLen < length raw then take MaxTitleLen raw else raw)"

definition LevelLabel :: "int \<Rightarrow> string" where
  "LevelLabel level =
     (if level = 1 then ''Easy'' else if level = 2 then ''Normal''
      else if level = 3 then ''Hard'' else ''For all'')"

section \<open>The players column\<close>

definition players_cell :: "int \<Rightarrow> int \<Rightarrow> string" where
  "players_cell n m = fmt_d n @ ''/'' @ fmt_d m"

definition players_idx :: "nat \<Rightarrow> nat" where
  "players_idx len = (if len < 4 then len - 1 else len - 4)"

definition setPlayersColumn :: "string list \<Rightarrow> int \<Rightarrow> int \<Rightarrow> string list" where
  "setPlayersColumn row playersCount maxPlayers =
     (if row = [] then row
      else row[players_idx (length row) := players_cell playersCount maxPlayers])"

section \<open>Create and RegisterNew\<close>

record create_params =
  cp_Host :: "pref option"
  cp_HostAddr :: string
  cp_HostAddrInt :: u32
  cp_Ver :: u8
  cp_Title :: string
  cp_Password :: string
  cp_MaxPlayers :: int
  cp_Level :: int
  cp_Row :: "string list"

definition host_id :: "pref option \<Rightarrow> 's world \<Rightarrow> u32" where
  "host_id h w = (case h of None \<Rightarrow> 0 | Some q \<Rightarrow> pl_ID (players_heap w q))"

text \<open>The three index calls that end both constructors.\<close>

definition index_new :: "'s repository \<Rightarrow> u32 \<Rightarrow> rref \<Rightarrow> room \<Rightarrow> 's world \<Rightarrow> 's world" where
  "index_new R hostID p r w =
     set_repo (IndexBySum R (Some (p, r)))
       (set_repo (IndexByHost R hostID (Some (p, r)))
         (set_repo (IndexByID R (Some (p, r))) w))"

definition Create :: "'s repository \<Rightarrow> time \<Rightarrow> create_params \<Rightarrow> 's world \<Rightarrow> rref \<times> 's world" where
  "Create R now c w =
     (let (rid, s) = NextRoomID R (repo w);
          w1 = w\<lparr>repo := s\<rparr>;
          hostID = host_id (cp_Host c) w1;
          r = zero_room\<lparr>rm_ID := rid, rm_Title := cp_Title c, rm_HostID := hostID,
                rm_HostAddr := cp_HostAddr c, rm_HostAddrInt := cp_HostAddrInt c,
                rm_Ver := cp_Ver c, rm_Level := cp_Level c, rm_Password := cp_Password c,
                rm_MaxPlayers := cp_MaxPlayers c, rm_PlayersCount := 1,
                rm_Players := [hostID \<mapsto> cp_Host c], rm_PlayersTime := [hostID \<mapsto> now],
                rm_Row := cp_Row c, rm_CtlSum := controlSum (cp_Row c), rm_Ctime := now\<rparr>;
          (p, w2) = alloc_room r w1
      in (p, index_new R hostID p r w2))"

record register_new_params =
  rp_Host :: "pref option"
  rp_HostAddr :: string
  rp_HostAddrInt :: u32
  rp_Ver :: u8
  rp_Title :: string
  rp_Password :: string
  rp_MaxPlayers :: int
  rp_Level :: int
  rp_LevelLabel :: string
  rp_LockMark :: string
  rp_NickStr :: string
  rp_VEType :: string
  rp_IsAC :: bool

text \<open>The row a new room is listed with: the cells of the room table, in order.\<close>

definition new_row :: "u32 \<Rightarrow> register_new_params \<Rightarrow> string list" where
  "new_row rid c =
     [fmt_u32 rid, rp_LockMark c, rp_Title c, rp_NickStr c]
     @ (if rp_IsAC c then [rp_VEType c] else [])
     @ [rp_LevelLabel c, fmt_d 1 @ ''/'' @ fmt_d (rp_MaxPlayers c), nat_dec (unat (rp_Ver c)),
        fmt_u32 (rp_HostAddrInt c), CHR ''0'' # nat_hex (unat (0xFFFFFFFF - rid))]"

definition new_room :: "time \<Rightarrow> u32 \<Rightarrow> u32 \<Rightarrow> register_new_params \<Rightarrow> room" where
  "new_room now rid hostID c =
     (let row = new_row rid c in
      zero_room\<lparr>rm_ID := rid, rm_Title := rp_Title c, rm_HostID := hostID,
        rm_HostAddr := rp_HostAddr c, rm_HostAddrInt := rp_HostAddrInt c, rm_Ver := rp_Ver c,
        rm_Level := rp_Level c, rm_Password := rp_Password c,
        rm_MaxPlayers := rp_MaxPlayers c, rm_PlayersCount := 1,
        rm_Players := [hostID \<mapsto> rp_Host c], rm_PlayersTime := [hostID \<mapsto> now],
        rm_Row := row, rm_CtlSum := controlSum row, rm_Ctime := now\<rparr>)"

definition RegisterNew ::
  "'s repository \<Rightarrow> time \<Rightarrow> register_new_params \<Rightarrow> 's world \<Rightarrow> rref \<times> 's world" where
  "RegisterNew R now c w =
     (let (rid, s) = NextRoomID R (repo w);
          w1 = w\<lparr>repo := s\<rparr>;
          hostID = host_id (rp_Host c) w1;
          r = new_room now rid hostID c;
          (p, w2) = alloc_room r w1
      in (p, index_new R hostID p r w2))"

section \<open>Join\<close>

definition join_room :: "time \<Rightarrow> u32 \<Rightarrow> pref \<Rightarrow> room \<Rightarrow> room" where
  "join_room now pid q r =
     (let r1 = r\<lparr>rm_Players := (rm_Players r)(pid \<mapsto> Some q),
                 rm_PlayersTime := (rm_PlayersTime r)(pid \<mapsto> now),
                 rm_PlayersCount := rm_PlayersCount r + 1\<rparr>;
          r2 = r1\<lparr>rm_Row := setPlayersColumn (rm_Row r1) (rm_PlayersCount r1) (rm_MaxPlayers r1)\<rparr>
      in r2\<lparr>rm_CtlSum := controlSum (rm_Row r2)\<rparr>)"

definition Join ::
  "'s repository \<Rightarrow> time \<Rightarrow> rref option \<Rightarrow> pref option \<Rightarrow> 's world \<Rightarrow> 's world" where
  "Join R now ro po w =
     (case (ro, po) of
        (Some p, Some q) \<Rightarrow>
          (let r = rooms_heap w p;
               pid = pl_ID (players_heap w q);
               r' = join_room now pid q r;
               w1 = set_repo (UnindexBySum R (rm_CtlSum r)) w;
               w2 = set_room p r' w1;
               w3 = set_repo (IndexByHost R pid (Some (p, r'))) w2
           in set_repo (IndexBySum R (Some (p, r'))) w3)
      | _ \<Rightarrow> w)"

section \<open>Leave\<close>

text \<open>
  The room after a member left: in a started room the member stays listed, in one that has not
  started the member and the players column go.
\<close>

definition leave_room :: "u32 \<Rightarrow> room \<Rightarrow> room" where
  "leave_room pid r =
     (let r1 = r\<lparr>rm_PlayersCount := rm_PlayersCount r - 1\<rparr>;
          r2 = (if rm_Started r1 then r1
                else r1\<lparr>rm_Players := (rm_Players r1)(pid := None),
                        rm_PlayersTime := (rm_PlayersTime r1)(pid := None),
                        rm_Row := setPlayersColumn (rm_Row r1) (rm_PlayersCount r1) (rm_MaxPlayers r1)\<rparr>)
      in r2\<lparr>rm_CtlSum := controlSum (rm_Row r2)\<rparr>)"

definition mark_exited :: "time \<Rightarrow> u32 \<Rightarrow> room \<Rightarrow> 's world \<Rightarrow> 's world" where
  "mark_exited now pid r w =
     (if rm_Started r
      then (case rm_Players r pid of
              Some (Some q) \<Rightarrow> set_player q ((players_heap w q)\<lparr>pl_ExitedAt := now\<rparr>) w
            | _ \<Rightarrow> w)
      else w)"

definition should_delete :: "u32 \<Rightarrow> room \<Rightarrow> bool" where
  "should_delete pid r =
     (if rm_Started r then rm_PlayersCount r \<le> 0
      else rm_HostID r = pid \<or> rm_PlayersCount r \<le> 0)"

definition Leave ::
  "'s repository \<Rightarrow> time \<Rightarrow> u32 \<Rightarrow> 's world \<Rightarrow> (rref option \<times> bool) \<times> 's world" where
  "Leave R now playerID w =
     (case found (FindByHost R playerID (repo w)) of
        None \<Rightarrow> ((None, False), w)
      | Some p \<Rightarrow>
          (let r = rooms_heap w p;
               w1 = set_repo (RoomMu R (rm_ID r)) w;
               oldCtl = rm_CtlSum r;
               w2 = set_repo (UnindexByHost R playerID) w1;
               w3 = mark_exited now playerID r w2;
               r' = leave_room playerID r;
               w4 = set_repo (UnindexBySum R oldCtl) (set_room p r' w3)
           in if should_delete playerID r'
              then ((Some p, True),
                    set_repo (UnindexBySum R (rm_CtlSum r')) (set_repo (UnindexByID R (rm_ID r')) w4))
              else ((Some p, False), set_repo (IndexBySum R (Some (p, r'))) w4)))"

section \<open>MarkStarted\<close>

text \<open>The first submatch of \<^verbatim>\<open>^sav:\[(\d+)\]$\<close>, if the whole string matches.\<close>

definition sav_submatch :: "string \<Rightarrow> string option" where
  "sav_submatch s =
     (let d = butlast (drop 5 s) in
      if has_prefix s ''sav:['' \<and> has_suffix s '']'' \<and> 6 < length s \<and> list_all is_digit d
      then Some d else None)"

definition sav_from :: "string \<Rightarrow> int" where
  "sav_from sav =
     (case sav_submatch sav of
        None \<Rightarrow> 0
      | Some d \<Rightarrow> (case atoi d of (v, ok) \<Rightarrow> if ok then v else 0))"

definition started_mark :: string where
  "started_mark = CHR 0x7F # ''0018''"

definition started_row :: "string list \<Rightarrow> string list" where
  "started_row row =
     (let row1 = (if 1 < length row then row[1 := started_mark] else row)
      in if row1 \<noteq> [] \<and> last row1 \<noteq> []
         then row1[length row1 - 1 := CHR ''1'' # tl (last row1)]
         else row1)"

definition start_room :: "time \<Rightarrow> string \<Rightarrow> string \<Rightarrow> room \<Rightarrow> room" where
  "start_room now sav mapName r =
     (let r1 = r\<lparr>rm_Started := True, rm_StartedAt := now, rm_StartPlayers := rm_PlayersCount r,
                 rm_Map := mapName, rm_SaveFrom := sav_from sav, rm_Row := started_row (rm_Row r)\<rparr>
      in r1\<lparr>rm_CtlSum := controlSum (rm_Row r1)\<rparr>)"

definition MarkStarted ::
  "'s repository \<Rightarrow> time \<Rightarrow> rref option \<Rightarrow> string \<Rightarrow> string \<Rightarrow> 's world \<Rightarrow> 's world" where
  "MarkStarted R now ro sav mapName w =
     (case ro of
        None \<Rightarrow> w
      | Some p \<Rightarrow>
          (let r = rooms_heap w p;
               r' = start_room now sav mapName r;
               w1 = set_repo (UnindexBySum R (rm_CtlSum r)) w;
               w2 = set_room p r' w1
           in set_repo (IndexBySum R (Some (p, r'))) w2))"

section \<open>Pass-throughs\<close>

definition Service_FindByID :: "'s repository \<Rightarrow> u32 \<Rightarrow> 's world \<Rightarrow> rref option \<times> bool" where
  "Service_FindByID R i w = FindByID R i (repo w)"

definition Service_FindByHost :: "'s repository \<Rightarrow> u32 \<Rightarrow> 's world \<Rightarrow> rref option \<times> bool" where
  "Service_FindByHost R i w = FindByHost R i (repo w)"

definition Service_NextID :: "'s repository \<Rightarrow> 's world \<Rightarrow> u32 \<times> 's world" where
  "Service_NextID R w = (case NextRoomID R (repo w) of (i, s) \<Rightarrow> (i, w\<lparr>repo := s\<rparr>))"

end
