(* ===== verification/Match.thy ===== *)
theory Match
  imports Lobby
begin

text \<open>
  The match service, \<^verbatim>\<open>internal/app/match\<close>: decoding the 42-byte statistics payload, applying it to
  a player (16-bit counters unwrapped by cycles, rolling totals over a window of samples), the start
  payload of a host, the players of a started room and the end of a game.
\<close>

section \<open>Statistics payload (service.go)\<close>

definition slice :: "nat \<Rightarrow> nat \<Rightarrow> bytes \<Rightarrow> bytes" where
  "slice i j s = take (j - i) (drop i s)"

definition raw_u8 :: "bytes \<Rightarrow> nat \<Rightarrow> u8" where
  "raw_u8 raw i = word_of_nat (of_char (raw ! i))"

definition raw_u16 :: "bytes \<Rightarrow> nat \<Rightarrow> u32" where
  "raw_u16 raw i = word_of_nat (unat (u16le (slice i (i + 2) raw)))"

definition raw_u32 :: "bytes \<Rightarrow> nat \<Rightarrow> u32" where
  "raw_u32 raw i = u32le (slice i (i + 4) raw)"

definition zero_stat :: player_stat where
  "zero_stat =
     \<lparr>ps_Time = 0, ps_PC = 0, ps_PlayerID = 0, ps_Status = 0, ps_Scores = 0, ps_RealScores = 0,
      ps_Population = 0, ps_Wood = 0, ps_Gold = 0, ps_Stone = 0, ps_Food = 0, ps_Iron = 0,
      ps_Coal = 0, ps_Peasants = 0, ps_Units = 0, ps_Population2 = 0, ps_Casuality = 0,
      ps_ChangeWood = 0, ps_ChangeStone = 0, ps_ChangeFood = 0, ps_ChangeGold = 0,
      ps_ChangeIron = 0, ps_ChangeCoal = 0, ps_ChangePeas = 0, ps_ChangeUnits = 0,
      ps_ChangePop2 = 0\<rparr>"

definition DecodeStat :: "bytes \<Rightarrow> player_stat option" where
  "DecodeStat raw =
     (if length raw < 42 then None
      else Some (zero_stat
        \<lparr>ps_Time := raw_u32 raw 0, ps_PC := raw_u8 raw 4, ps_PlayerID := raw_u32 raw 5,
         ps_Status := raw_u8 raw 9, ps_Scores := raw_u16 raw 10, ps_Population := raw_u16 raw 12,
         ps_Wood := raw_u32 raw 14, ps_Gold := raw_u32 raw 18, ps_Stone := raw_u32 raw 22,
         ps_Food := raw_u32 raw 26, ps_Iron := raw_u32 raw 30, ps_Coal := raw_u32 raw 34,
         ps_Peasants := raw_u16 raw 38, ps_Units := raw_u16 raw 40\<rparr>))"

definition OldStat :: "player_stat option \<Rightarrow> player_stat \<Rightarrow> player_stat" where
  "OldStat prev cur =
     (case prev of
        Some p \<Rightarrow> p
      | None \<Rightarrow> zero_stat
          \<lparr>ps_Time := 0, ps_PC := ps_PC cur, ps_PlayerID := ps_PlayerID cur,
           ps_Status := ps_Status cur, ps_Scores := ps_Scores cur,
           ps_Population := ps_Population cur, ps_Wood := ps_Wood cur, ps_Gold := ps_Gold cur,
           ps_Stone := ps_Stone cur, ps_Food := ps_Food cur, ps_Iron := ps_Iron cur,
           ps_Coal := ps_Coal cur, ps_Peasants := ps_Peasants cur, ps_Units := ps_Units cur,
           ps_Population2 := ps_Units cur + ps_Peasants cur, ps_Casuality := 0\<rparr>)"

definition AbsI64 :: "int \<Rightarrow> int" where
  "AbsI64 v = f64_trunc (abs (f64_of_int v))"

definition DiffU32 :: "u32 \<Rightarrow> u32 \<Rightarrow> int" where
  "DiffU32 cur prev = uint cur - uint prev"

definition EndgameResult :: "int \<Rightarrow> string" where
  "EndgameResult code =
     (if code = 1 then ''loose'' else if code = 2 then ''win'' else if code = 5 then ''disconnect''
      else ''?'' @ fmt_d code @ ''?'')"

section \<open>Applying a sample (update\_stat.go)\<close>

text \<open>The two tables of the rolling series.\<close>

definition window :: "string \<Rightarrow> u32" where
  "window name =
     (if name = ''wood'' then 60 * 25 else if name = ''stone'' then 60 * 25
      else if name = ''food'' then 120 * 25 else if name = ''peasants'' then 600
      else if name = ''units'' then 1000 else if name = ''population2'' then 1000 else 0)"

definition coef :: "string \<Rightarrow> float64" where
  "coef name =
     (if name = ''wood'' then 25 / 2 else if name = ''stone'' then 25 / 2
      else if name = ''food'' then 25 / 2 else if name = ''peasants'' then 200
      else if name = ''units'' then 50 else if name = ''population2'' then 50 else 0)"

definition get_or :: "'v \<Rightarrow> ('k \<rightharpoonup> 'v) \<Rightarrow> 'k \<Rightarrow> 'v" where
  "get_or d m k = (case m k of None \<Rightarrow> d | Some v \<Rightarrow> v)"

text \<open>The loop that drops the samples before the cutoff from the series and from its sum.\<close>

fun drop_old :: "u32 \<Rightarrow> float64 \<Rightarrow> stat_history_point list \<Rightarrow> float64 \<times> stat_history_point list" where
  "drop_old cutoff sm [] = (sm, [])"
| "drop_old cutoff sm (h # hs) =
     (if hp_Time h < cutoff then drop_old cutoff (f64_sub sm (hp_Change h)) hs else (sm, h # hs))"

definition rate :: "u32 \<Rightarrow> float64 \<Rightarrow> float64 \<Rightarrow> stat_history_point list \<Rightarrow> float64" where
  "rate now c sm hs =
     (case hs of
        [] \<Rightarrow> 0
      | first # _ \<Rightarrow>
          (let denom = f64_of_int (uint (now - (hp_Time first - hp_Interval first)));
               denom = (if denom \<le> 0 then 1 else denom)
           in f64_mul (f64_div sm denom) c))"

text \<open>\<^verbatim>\<open>updateRolling\<close>: the new rate of the series, and the player with the series and its sum.\<close>

definition updateRolling ::
  "u32 \<Rightarrow> u32 \<Rightarrow> string \<Rightarrow> u32 \<Rightarrow> u32 \<Rightarrow> player \<Rightarrow> float64 \<times> player" where
  "updateRolling now interval name cur prev pl =
     (let key = ''change_'' @ name; skey = ''sum_'' @ name;
          hist = the (pl_StatHistory pl); totals = the (pl_StatSum pl);
          change = f64_of_int (DiffU32 cur prev);
          hs = get_or [] hist key @ [\<lparr>hp_Change = change, hp_Time = now, hp_Interval = interval\<rparr>];
          sm = f64_add (get_or 0 totals skey) change;
          (sm', hs') = drop_old (now - window name) sm hs
      in (rate now (coef name) sm' hs',
          pl\<lparr>pl_StatHistory := Some (hist(key \<mapsto> hs')), pl_StatSum := Some (totals(skey \<mapsto> sm'))\<rparr>))"

text \<open>The nil maps are replaced by empty ones before the series are updated.\<close>

definition init_series :: "player \<Rightarrow> player" where
  "init_series pl =
     pl\<lparr>pl_StatHistory := Some (case pl_StatHistory pl of None \<Rightarrow> Map.empty | Some m \<Rightarrow> m),
        pl_StatSum := Some (case pl_StatSum pl of None \<Rightarrow> Map.empty | Some m \<Rightarrow> m)\<rparr>"

text \<open>A 16-bit counter continued beyond 65535: the cycle it is in and its full value.\<close>

definition unwrap16 :: "u32 \<Rightarrow> u32 \<Rightarrow> u32 \<Rightarrow> u32 \<times> u32" where
  "unwrap16 cur old cyc =
     (let cyc' = (if cur < old - cyc * 0x10000 then cyc + 1 else cyc) in (cyc', cur + cyc' * 0x10000))"

text \<open>The score, which can also fall: its cycle is signed.\<close>

definition unwrap_scores :: "u32 \<Rightarrow> u32 \<Rightarrow> int \<Rightarrow> int \<times> int" where
  "unwrap_scores cur old cyc =
     (let change = uint cur - uint old;
          cyc' = (if AbsI64 change > 0x7FFF then (if 0 < change then cyc - 1 else cyc + 1) else cyc)
      in (cyc', cyc' * 0x10000 + uint cur))"

definition flat_rate :: "u32 \<Rightarrow> u32 \<Rightarrow> float64 \<Rightarrow> float64" where
  "flat_rate cur prev intervalF =
     f64_div (f64_mul (f64_div (f64_of_int (DiffU32 cur prev)) intervalF) 25) 2"

text \<open>\<^verbatim>\<open>int64\<close> of a \<^verbatim>\<open>uint32\<close> difference: the subtraction wraps before it is widened.\<close>

definition casuality_change :: "player_stat \<Rightarrow> player_stat \<Rightarrow> int" where
  "casuality_change stat old =
     uint (ps_Population2 stat - ps_Population2 old) - uint (ps_Population stat - ps_Population old)"

text \<open>The first started team mate other than the player: where its colour is inherited from.\<close>

fun find_mate :: "player \<Rightarrow> player list \<Rightarrow> player option" where
  "find_mate pl [] = None"
| "find_mate pl (s # ss) =
     (if pl_ID s \<noteq> pl_ID pl \<and> pl_Theam s = pl_Theam pl then Some s else find_mate pl ss)"

definition inherit_color :: "player_stat \<Rightarrow> player list \<Rightarrow> player \<Rightarrow> player" where
  "inherit_color stat started pl =
     (if pl_Stat pl = None \<and> ps_Scores stat = 0 \<and> ps_Population stat = 0
      then (case find_mate pl started of
              None \<Rightarrow> pl
            | Some s \<Rightarrow> pl\<lparr>pl_Zombie := True, pl_Color := pl_Color s\<rparr>)
      else pl)"

text \<open>The counters of the sample, continued by the player's cycles.\<close>

definition apply_counters :: "player_stat \<Rightarrow> player_stat \<Rightarrow> player \<Rightarrow> player_stat \<times> player" where
  "apply_counters old stat pl =
     (let cyc = pl_StatCycle pl;
          (cp, peasants) = unwrap16 (ps_Peasants stat) (ps_Peasants old) (sc_Peasants cyc);
          (cu, units) = unwrap16 (ps_Units stat) (ps_Units old) (sc_Units cyc);
          (cs, real) = unwrap_scores (ps_Scores stat) (ps_Scores old) (sc_Scores cyc)
      in (stat\<lparr>ps_Peasants := peasants, ps_Units := units, ps_RealScores := real,
               ps_Population2 := units + peasants\<rparr>,
          pl\<lparr>pl_StatCycle := \<lparr>sc_Peasants = cp, sc_Units = cu, sc_Scores = cs\<rparr>\<rparr>))"

definition apply_rates :: "player_stat \<Rightarrow> player_stat \<Rightarrow> player \<Rightarrow> player_stat \<times> player" where
  "apply_rates old stat pl =
     (let now = ps_Time stat;
          interval = (if now - pl_TimeTick pl = 0 then 1 else now - pl_TimeTick pl);
          intervalF = f64_of_int (uint interval);
          pl0 = init_series pl;
          (wood, pl1) = updateRolling now interval ''wood'' (ps_Wood stat) (ps_Wood old) pl0;
          (food, pl2) = updateRolling now interval ''food'' (ps_Food stat) (ps_Food old) pl1;
          (stone, pl3) = updateRolling now interval ''stone'' (ps_Stone stat) (ps_Stone old) pl2;
          (peas, pl4) = updateRolling now interval ''peasants'' (ps_Peasants stat) (ps_Peasants old) pl3;
          (units, pl5) = updateRolling now interval ''units'' (ps_Units stat) (ps_Units old) pl4;
          (pop2, pl6) = updateRolling now interval ''population2'' (ps_Population2 stat) (ps_Population2 old) pl5
      in (stat\<lparr>ps_ChangeGold := flat_rate (ps_Gold stat) (ps_Gold old) intervalF,
               ps_ChangeIron := flat_rate (ps_Iron stat) (ps_Iron old) intervalF,
               ps_ChangeCoal := flat_rate (ps_Coal stat) (ps_Coal old) intervalF,
               ps_ChangeWood := wood, ps_ChangeFood := food, ps_ChangeStone := stone,
               ps_ChangePeas := peas, ps_ChangeUnits := units, ps_ChangePop2 := pop2\<rparr>, pl6))"

text \<open>Everything \<^verbatim>\<open>UpdateStat\<close> does to the player once the sample is accepted.\<close>

definition apply_stat :: "player_stat \<Rightarrow> player list \<Rightarrow> player \<Rightarrow> player" where
  "apply_stat stat started pl =
     (let old = OldStat (pl_Stat pl) stat;
          pl1 = inherit_color stat started pl;
          (stat1, pl2) = apply_counters old stat pl1;
          (stat2, pl3) = apply_rates old stat1 pl2;
          stat3 = stat2\<lparr>ps_Casuality := ps_Casuality old + casuality_change stat2 old\<rparr>
      in pl3\<lparr>pl_TimeTick := ps_Time stat3, pl_Stat := Some stat3\<rparr>)"

definition raise_tick :: "u32 \<Rightarrow> room \<Rightarrow> room" where
  "raise_tick t r = (if rm_TimeTick r < t then r\<lparr>rm_TimeTick := t\<rparr> else r)"

definition UpdateStat ::
  "pref option \<Rightarrow> rref option \<Rightarrow> bytes \<Rightarrow> 's world \<Rightarrow> stat_rejection \<times> 's world" where
  "UpdateStat po ro raw w =
     (case (po, ro) of
        (Some q, Some p) \<Rightarrow>
          (case DecodeStat raw of
             None \<Rightarrow> (StatRejectShortBuffer, w)
           | Some stat \<Rightarrow>
               (let pl = players_heap w q in
                if ps_PlayerID stat \<noteq> pl_ID pl then (StatRejectPlayerMismatch, w)
                else
                  let w1 = set_room p (raise_tick (ps_Time stat) (rooms_heap w p)) w in
                  if ps_Time stat < pl_TimeTick pl then (StatRejectTickAhead, w1)
                  else (StatApplied,
                    set_player q
                      (apply_stat stat (map (players_heap w) (rm_StartedUsers (rooms_heap w p))) pl) w1)))
      | _ \<Rightarrow> (StatRejectShortBuffer, w))"

section \<open>Integer arguments (start\_payload.go)\<close>

text \<open>The leftmost match of \<^verbatim>\<open>-?\d+\<close>, digits taken greedily; the empty string if there is none.\<close>

fun first_int :: "string \<Rightarrow> string" where
  "first_int [] = []"
| "first_int (c # s) =
     (if is_digit c then c # takeWhile is_digit s
      else if c = CHR ''-'' \<and> s \<noteq> [] \<and> is_digit (hd s) then c # takeWhile is_digit s
      else first_int s)"

definition IntArg :: "string \<Rightarrow> int \<times> bool" where
  "IntArg s0 =
     (let s = trim_right_nul (trim_space s0); m = first_int s
      in if m = [] then (0, False) else atoi m)"

text \<open>\<^verbatim>\<open>uint32(int32(n))\<close> and \<^verbatim>\<open>uint32(n)\<close> of an \<^verbatim>\<open>int\<close> keep the low 32 bits.\<close>

definition low32 :: "int \<Rightarrow> u32" where
  "low32 n = word_of_int n"

section \<open>The account payload of a start\<close>

text \<open>Seconds since 1970 of an instant counted in nanoseconds from the zero \<^verbatim>\<open>time.Time\<close>.\<close>

definition unix_time :: "time \<Rightarrow> int" where
  "unix_time t = t div 1000000000 - 62135596800"

record post_account =
  pa_type :: string
  pa_profile :: "string option"
  pa_id :: "string option"

record post_known =
  pk_nick :: string
  pk_connected_at :: int
  pk_account :: "post_account option"

text \<open>One entry of \<open>players\<close>; a player the server does not know is posted as lost.\<close>

record post_player =
  pp_id :: int
  pp_nation :: int
  pp_theam :: int
  pp_color :: int
  pp_known :: "post_known option"

record start_payload =
  sp_id :: int
  sp_title :: string
  sp_max_players :: int
  sp_players_count :: int
  sp_level :: int
  sp_ctime :: int
  sp_map :: string
  sp_save_from :: "int option"
  sp_players :: "post_player list"

definition non_empty :: "string \<Rightarrow> string option" where
  "non_empty s = (if s = [] then None else Some s)"

definition known_player :: "player \<Rightarrow> post_known" where
  "known_player pl =
     \<lparr>pk_nick = pl_Nick pl, pk_connected_at = unix_time (pl_ConnectedAt pl),
      pk_account = (if pl_AccountType pl = [] then None
        else Some \<lparr>pa_type = pl_AccountType pl, pa_profile = non_empty (pl_AccountProfile pl),
                   pa_id = non_empty (pl_AccountID pl)\<rparr>)\<rparr>"

text \<open>
  The loop over the tail of the arguments in groups of four, while fewer than \<open>n\<close> players are
  collected; a group with an unreadable number is skipped.
\<close>

fun post_players ::
  "int \<Rightarrow> (u32 \<Rightarrow> player option) \<Rightarrow> nat \<Rightarrow> string list \<Rightarrow> post_player list" where
  "post_players n get k (a # b # c # d # raw) =
     (if int k < n
      then (case (IntArg a, IntArg b, IntArg c, IntArg d) of
              ((pid, ok1), (nation, ok2), (theam, ok3), (color, ok4)) \<Rightarrow>
                if ok1 \<and> ok2 \<and> ok3 \<and> ok4
                then \<lparr>pp_id = uint (low32 pid), pp_nation = nation, pp_theam = theam, pp_color = color,
                      pp_known = map_option known_player (get (low32 pid))\<rparr>
                     # post_players n get (Suc k) raw
                else post_players n get k raw)
      else [])"
| "post_players n get k _ = []"

definition save_token :: "string \<Rightarrow> int option" where
  "save_token sav =
     (case sav_submatch sav of
        None \<Rightarrow> None
      | Some d \<Rightarrow> (case atoi d of (v, ok) \<Rightarrow> if ok then Some v else None))"

text \<open>
  \<^verbatim>\<open>make([]map[string]any, 0, playersCount)\<close> panics when the capacity exceeds what the runtime can
  address; that limit is the parameter \<open>make_limit\<close>. \<open>Ok None\<close> is the nil payload.
\<close>

definition BuildStartAccountPayload ::
  "int \<Rightarrow> room option \<Rightarrow> string list \<Rightarrow> string \<Rightarrow> string \<Rightarrow> (u32 \<Rightarrow> player option) \<Rightarrow>
    (unit, start_payload option) outcome" where
  "BuildStartAccountPayload make_limit ro args sav mapName getPlayer =
     (case ro of
        None \<Rightarrow> Ok None
      | Some r \<Rightarrow>
          if length args < 3 then Ok None
          else (case IntArg (args ! 2) of (playersCount, ok) \<Rightarrow>
            if \<not> ok \<or> playersCount \<le> 0 then Ok None
            else if make_limit < playersCount then Panic
            else Ok (Some
              \<lparr>sp_id = uint (rm_ID r), sp_title = rm_Title r, sp_max_players = rm_MaxPlayers r,
               sp_players_count = rm_PlayersCount r, sp_level = rm_Level r,
               sp_ctime = unix_time (rm_Ctime r), sp_map = mapName,
               sp_save_from = save_token sav,
               sp_players = post_players playersCount getPlayer 0 (drop 3 args)\<rparr>)))"

section \<open>The players of a started room (started\_users.go)\<close>

definition set_team :: "int \<Rightarrow> int \<Rightarrow> int \<Rightarrow> player \<Rightarrow> player" where
  "set_team nation theam color pl =
     pl\<lparr>pl_Nation := low32 nation, pl_Theam := low32 theam, pl_Color := low32 color\<rparr>"

fun started_loop ::
  "int \<Rightarrow> room \<Rightarrow> string list \<Rightarrow> pref list \<Rightarrow> 's world \<Rightarrow> pref list \<times> 's world" where
  "started_loop n r (a # b # c # d # raw) acc w =
     (if int (length acc) < n
      then (case (IntArg a, IntArg b, IntArg c, IntArg d) of
              ((pid, ok1), (nation, ok2), (theam, ok3), (color, ok4)) \<Rightarrow>
                if ok1 \<and> ok2 \<and> ok3 \<and> ok4
                then (case rm_Players r (low32 pid) of
                        Some (Some q) \<Rightarrow>
                          started_loop n r raw (acc @ [q])
                            (set_player q (set_team nation theam color (players_heap w q)) w)
                      | _ \<Rightarrow> started_loop n r raw acc w)
                else started_loop n r raw acc w)
      else (acc, w))"
| "started_loop n r _ acc w = (acc, w)"

definition ApplyStartedUsers :: "rref option \<Rightarrow> string list \<Rightarrow> 's world \<Rightarrow> 's world" where
  "ApplyStartedUsers ro args w =
     (case ro of
        None \<Rightarrow> w
      | Some p \<Rightarrow>
          if length args < 3 then w
          else (case IntArg (args ! 2) of (count, ok) \<Rightarrow>
            if \<not> ok \<or> count \<le> 0 then w
            else (case started_loop count (rooms_heap w p) (drop 3 args) [] w of
              (users, w') \<Rightarrow> set_room p ((rooms_heap w' p)\<lparr>rm_StartedUsers := users\<rparr>) w')))"

section \<open>The end of a game (endgame.go)\<close>

text \<open>The errors of the three numbers are ignored; a number out of range counts as the nearest one.\<close>

definition ParseEndgame ::
  "string list \<Rightarrow> u32 \<Rightarrow> (u32 \<Rightarrow> player option) \<Rightarrow> (u32 \<Rightarrow> room option) \<Rightarrow> endgame_event option" where
  "ParseEndgame args connID getPlayer getRoom =
     (if length args < 3 then None
      else
        let gameID = fst (IntArg (args ! 0)); playerInt = fst (IntArg (args ! 1));
            resultCode = fst (IntArg (args ! 2)); playerU32 = low32 playerInt;
            nick = (case getPlayer playerU32 of None \<Rightarrow> ''.'' | Some pl \<Rightarrow> pl_Nick pl);
            room = getRoom (low32 gameID);
            own = (case room of None \<Rightarrow> [] | Some r \<Rightarrow>
              if connID \<noteq> 0 \<and> rm_HostID r = connID then ''his '' else []);
            title = (case room of None \<Rightarrow> [] | Some r \<Rightarrow> CHR '' '' # rm_Title r)
        in Some \<lparr>eg_GameID = gameID, eg_PlayerID = playerU32, eg_Result = EndgameResult resultCode,
                eg_Nick = nick, eg_Own = own, eg_Title = title\<rparr>)"

end
