(* ===== verification/Runtime.thy ===== *)
theory Runtime
  imports Domain
begin

text \<open>
  What the server keeps at run time besides rooms: the expiring key-value store
  (\<^verbatim>\<open>adapter/kvmemory/storage.go\<close>), the UDP endpoint discovery that fills it
  (\<^verbatim>\<open>adapter/stun/stun.go\<close>), and the alive timers and sessions
  (\<^verbatim>\<open>app/connectivity/manager.go\<close>, \<^verbatim>\<open>store.go\<close>).

  The locale \<open>key_value\<close> states what the readers and writers of the store rely on; it is
  interpreted on the in-memory store, and the endpoint discovery is verified against it.
  An instant is a positive number of nanoseconds; \<^verbatim>\<open>time.Now()\<close> is an argument.
\<close>

section \<open>The expiring store (kvmemory/storage.go)\<close>

datatype storage_error = ErrStorageClosed | ErrKeyNotFound

record storage_record =
  rc_value :: string
  rc_expiresAt :: time

record runtime_storage =
  rs_closed :: bool
  rs_records :: "string \<rightharpoonup> storage_record"

definition NewRuntimeStorage :: runtime_storage where
  "NewRuntimeStorage = \<lparr>rs_closed = False, rs_records = Map.empty\<rparr>"

definition expired :: "time \<Rightarrow> storage_record \<Rightarrow> bool" where
  "expired now r \<longleftrightarrow> rc_expiresAt r \<noteq> 0 \<and> rc_expiresAt r < now"

text \<open>The receiver is a pointer: \<open>None\<close> is the nil store.\<close>

definition Storage_Get ::
  "time \<Rightarrow> string \<Rightarrow> runtime_storage option \<Rightarrow> (storage_error + string) \<times> runtime_storage option" where
  "Storage_Get now k so =
     (case so of
        None \<Rightarrow> (Inl ErrStorageClosed, None)
      | Some s \<Rightarrow>
          if rs_closed s then (Inl ErrStorageClosed, Some s)
          else (case rs_records s k of
              None \<Rightarrow> (Inl ErrKeyNotFound, Some s)
            | Some r \<Rightarrow>
                if expired now r
                then (Inl ErrKeyNotFound, Some (s\<lparr>rs_records := (rs_records s)(k := None)\<rparr>))
                else (Inr (rc_value r), Some s)))"

definition SetPX ::
  "time \<Rightarrow> string \<Rightarrow> string \<Rightarrow> int \<Rightarrow> runtime_storage option \<Rightarrow> storage_error option \<times> runtime_storage option" where
  "SetPX now k v px so =
     (case so of
        None \<Rightarrow> (Some ErrStorageClosed, None)
      | Some s \<Rightarrow>
          if rs_closed s then (Some ErrStorageClosed, Some s)
          else
            let r = \<lparr>rc_value = v, rc_expiresAt = (if 0 < px then now + px else 0)\<rparr>
            in (None, Some (s\<lparr>rs_records := (rs_records s)(k \<mapsto> r)\<rparr>)))"

definition Ping :: "runtime_storage option \<Rightarrow> storage_error option" where
  "Ping so =
     (case so of None \<Rightarrow> Some ErrStorageClosed
      | Some s \<Rightarrow> if rs_closed s then Some ErrStorageClosed else None)"

text \<open>The contract: \<open>live s t k\<close> is what a reader finds under \<open>k\<close> at time \<open>t\<close>.\<close>

locale key_value =
  fixes get :: "time \<Rightarrow> string \<Rightarrow> 's \<Rightarrow> (storage_error + string) \<times> 's"
    and put :: "time \<Rightarrow> string \<Rightarrow> string \<Rightarrow> int \<Rightarrow> 's \<Rightarrow> storage_error option \<times> 's"
    and usable :: "'s \<Rightarrow> bool"
    and live :: "'s \<Rightarrow> time \<Rightarrow> string \<Rightarrow> string option"
  assumes get_live: "usable s \<Longrightarrow>
      fst (get t k s) = (case live s t k of None \<Rightarrow> Inl ErrKeyNotFound | Some v \<Rightarrow> Inr v)"
    and get_usable: "usable s \<Longrightarrow> usable (snd (get t k s))"
    and get_keeps: "usable s \<Longrightarrow> t \<le> t' \<Longrightarrow> live (snd (get t k s)) t' k' = live s t' k'"
    and put_usable: "usable s \<Longrightarrow> usable (snd (put t k v px s))"
    and put_ok: "usable s \<Longrightarrow> fst (put t k v px s) = None"
    and put_live: "usable s \<Longrightarrow> 0 < t \<Longrightarrow> live (snd (put t k v px s)) t' k' =
      (if k' = k then if px \<le> 0 \<or> t' \<le> t + px then Some v else None else live s t' k')"

definition storage_open :: "runtime_storage option \<Rightarrow> bool" where
  "storage_open so = (case so of None \<Rightarrow> False | Some s \<Rightarrow> \<not> rs_closed s)"

definition storage_live :: "runtime_storage option \<Rightarrow> time \<Rightarrow> string \<Rightarrow> string option" where
  "storage_live so t k =
     (case so of None \<Rightarrow> None
      | Some s \<Rightarrow> (case rs_records s k of None \<Rightarrow> None
          | Some r \<Rightarrow> if expired t r then None else Some (rc_value r)))"

interpretation kv: key_value Storage_Get SetPX storage_open storage_live
  by unfold_locales
    (auto simp: Storage_Get_def SetPX_def storage_open_def storage_live_def expired_def Let_def
      split: option.splits)

lemma storage_open_New [simp]: "storage_open (Some NewRuntimeStorage)"
  by (simp add: storage_open_def NewRuntimeStorage_def)

lemma storage_live_New [simp]: "storage_live (Some NewRuntimeStorage) t k = None"
  by (simp add: storage_live_def NewRuntimeStorage_def)

section \<open>Endpoint discovery (stun.go)\<close>

record packet =
  pk_Tag :: string
  pk_Version :: u8
  pk_PlayerID :: u32
  pk_AccessKey :: string

definition ParsePacket :: "bytes \<Rightarrow> packet option" where
  "ParsePacket b =
     (if length b < 25 then None
      else Some \<lparr>pk_Tag = take 4 b, pk_Version = word_of_nat (of_char (b ! 4)),
        pk_PlayerID = u32be (take 4 (drop 5 b)),
        pk_AccessKey = trim_right_nul (take 16 (drop 9 b))\<rparr>)"

text \<open>
  \<^verbatim>\<open>time.Duration(float64(keepAliveMs)*1.5) * time.Millisecond\<close>. The conversion to an integer is
  exact below \<open>2 ^ 63\<close>; the multiplication wraps around.
\<close>

definition keep_alive_ttl :: "int \<Rightarrow> int" where
  "keep_alive_ttl keepAliveMs =
     wrap64 (f64_trunc (f64_mul (f64_of_int keepAliveMs) (3 / 2)) * 1000000)"

text \<open>The sender of a datagram, and the JSON object stored for it, written by \<^verbatim>\<open>json.Marshal\<close>.\<close>

type_synonym endpoint = "string \<times> int"
type_synonym endpoint_json = "endpoint \<Rightarrow> u8 \<Rightarrow> string \<Rightarrow> string"

definition supported :: "packet \<Rightarrow> bool" where
  "supported pk \<longleftrightarrow> pk_Tag pk = ''CSHP'' \<and> pk_Version pk = 1"

text \<open>
  One round of the loop of \<^verbatim>\<open>ServeUDP\<close>: the datagram is cut to the 512 bytes of the buffer, and the
  first component is what is written back.
\<close>

definition serve_datagram ::
  "(time \<Rightarrow> string \<Rightarrow> string \<Rightarrow> int \<Rightarrow> 's \<Rightarrow> storage_error option \<times> 's) \<Rightarrow> endpoint_json \<Rightarrow> int \<Rightarrow>
   time \<Rightarrow> endpoint \<Rightarrow> bytes \<Rightarrow> 's \<Rightarrow> bytes option \<times> 's" where
  "serve_datagram put json keepAliveMs now remote dgram s =
     (case ParsePacket (take 512 dgram) of
        None \<Rightarrow> (None, s)
      | Some pk \<Rightarrow>
          if \<not> supported pk then (None, s)
          else
            (case put now (fmt_u32 (pk_PlayerID pk)) (json remote (pk_Version pk) (pk_AccessKey pk))
                (keep_alive_ttl keepAliveMs) s of
               (Some e, s') \<Rightarrow> (None, s')
             | (None, s') \<Rightarrow> (Some ''ok'', s')))"

text \<open>The store as it is used: datagrams arrive and handlers look keys up, in any order.\<close>

datatype kv_event = Datagram time endpoint bytes | Lookup time string

fun event_time :: "kv_event \<Rightarrow> time" where
  "event_time (Datagram now _ _) = now"
| "event_time (Lookup now _) = now"

fun kv_step ::
  "(time \<Rightarrow> string \<Rightarrow> 's \<Rightarrow> (storage_error + string) \<times> 's) \<Rightarrow>
   (time \<Rightarrow> string \<Rightarrow> string \<Rightarrow> int \<Rightarrow> 's \<Rightarrow> storage_error option \<times> 's) \<Rightarrow> endpoint_json \<Rightarrow> int \<Rightarrow>
   kv_event \<Rightarrow> 's \<Rightarrow> 's" where
  "kv_step get put json ms (Datagram now remote dgram) s = snd (serve_datagram put json ms now remote dgram s)"
| "kv_step get put json ms (Lookup now k) s = snd (get now k s)"

text \<open>What a player's last accepted datagram announces: when it came, and the JSON stored for it.\<close>

fun announces :: "endpoint_json \<Rightarrow> u32 \<Rightarrow> kv_event \<Rightarrow> (time \<times> string) option" where
  "announces json pid (Datagram now remote dgram) =
     (case ParsePacket (take 512 dgram) of
        None \<Rightarrow> None
      | Some pk \<Rightarrow>
          if supported pk \<and> pk_PlayerID pk = pid
          then Some (now, json remote (pk_Version pk) (pk_AccessKey pk)) else None)"
| "announces json pid (Lookup now k) = None"

definition visible :: "int \<Rightarrow> time \<Rightarrow> time \<times> string \<Rightarrow> string option" where
  "visible ms t a =
     (if keep_alive_ttl ms \<le> 0 \<or> t \<le> fst a + keep_alive_ttl ms then Some (snd a) else None)"

fun last_announced :: "endpoint_json \<Rightarrow> u32 \<Rightarrow> kv_event list \<Rightarrow> (time \<times> string) option" where
  "last_announced json pid [] = None"
| "last_announced json pid (e # es) =
     (case last_announced json pid es of Some a \<Rightarrow> Some a | None \<Rightarrow> announces json pid e)"

lemma fmt_u32_inj [simp]: "fmt_u32 a = fmt_u32 b \<longleftrightarrow> a = b"
  by (simp add: fmt_u32_def inj_nat_dec word_unat_eq_iff)

lemma snd_serve_datagram:
  "snd (serve_datagram put json ms now remote dgram s) =
    (case ParsePacket (take 512 dgram) of
       None \<Rightarrow> s
     | Some pk \<Rightarrow>
         if supported pk
         then snd (put now (fmt_u32 (pk_PlayerID pk)) (json remote (pk_Version pk) (pk_AccessKey pk))
           (keep_alive_ttl ms) s)
         else s)"
  by (auto simp: serve_datagram_def split: option.splits prod.splits)

context key_value
begin

lemma kv_step_usable: "usable s \<Longrightarrow> usable (kv_step get put json ms e s)"
proof (cases e)
  case (Datagram now remote dgram)
  moreover assume "usable s"
  ultimately show ?thesis
    using put_usable by (simp add: snd_serve_datagram split: option.splits)
qed (simp add: get_usable)

lemma serve_live:
  assumes "usable s" and "0 < now"
  shows "live (snd (serve_datagram put json ms now remote dgram s)) t (fmt_u32 pid) =
    (case announces json pid (Datagram now remote dgram) of
       Some a \<Rightarrow> visible ms t a | None \<Rightarrow> live s t (fmt_u32 pid))"
proof (cases "ParsePacket (take 512 dgram)")
  case (Some pk)
  then show ?thesis
    by (auto simp: snd_serve_datagram visible_def put_live [OF assms])
qed (simp add: snd_serve_datagram)

lemma kv_step_live:
  assumes "usable s" and "0 < event_time e" and "event_time e \<le> t"
  shows "live (kv_step get put json ms e s) t (fmt_u32 pid) =
    (case announces json pid e of Some a \<Rightarrow> visible ms t a | None \<Rightarrow> live s t (fmt_u32 pid))"
  using assms serve_live get_keeps by (cases e) auto

lemma fold_kv_live:
  assumes "usable s" and "\<forall>e\<in>set es. 0 < event_time e \<and> event_time e \<le> t"
  shows "usable (fold (kv_step get put json ms) es s) \<and>
    live (fold (kv_step get put json ms) es s) t (fmt_u32 pid) =
      (case last_announced json pid es of Some a \<Rightarrow> visible ms t a | None \<Rightarrow> live s t (fmt_u32 pid))"
  using assms
proof (induction es arbitrary: s)
  case (Cons e es)
  from Cons.IH [of "kv_step get put json ms e s"] Cons.prems
  show ?case by (simp add: kv_step_usable kv_step_live split: option.splits)
qed simp

lemma lookup_last_announced:
  assumes "usable s" and "live s t (fmt_u32 pid) = None" and "\<forall>e\<in>set es. 0 < event_time e \<and> event_time e \<le> t"
  shows "fst (get t (fmt_u32 pid) (fold (kv_step get put json ms) es s)) =
    (case Option.bind (last_announced json pid es) (visible ms t) of
       Some v \<Rightarrow> Inr v | None \<Rightarrow> Inl ErrKeyNotFound)"
  using fold_kv_live [OF assms(1,3), of json ms pid] assms(2)
  by (simp add: get_live split: option.splits)

end

text \<open>
  C32. A lookup of a player in the store finds the endpoint of the last accepted datagram of that
  player, for one and a half keep-alive intervals after it came, whatever other datagrams and
  lookups happened before; malformed and unsupported datagrams change nothing. When the interval
  rounds to nothing the endpoint never expires.
\<close>

theorem last_endpoint_found:
  assumes "\<forall>e\<in>set es. 0 < event_time e \<and> event_time e \<le> t"
  shows "fst (Storage_Get t (fmt_u32 pid) (fold (kv_step Storage_Get SetPX json ms) es (Some NewRuntimeStorage))) =
    (case last_announced json pid es of
       Some (now, v) \<Rightarrow> if keep_alive_ttl ms \<le> 0 \<or> t \<le> now + keep_alive_ttl ms then Inr v else Inl ErrKeyNotFound
     | None \<Rightarrow> Inl ErrKeyNotFound)"
  using kv.lookup_last_announced [OF storage_open_New storage_live_New assms]
  by (simp add: visible_def split: option.splits prod.splits)

text \<open>A datagram of player 7 is found for 30 seconds with the default keep-alive interval.\<close>

lemma keep_alive_ttl_even:
  assumes "abs k \<le> 2 ^ 40"
  shows "keep_alive_ttl (2 * k) = k * 3000000"
proof -
  have "f64_of_int (2 * k) = of_int (2 * k)" by (rule f64_of_int_exact) (use assms in simp)
  then have "f64_mul (f64_of_int (2 * k)) (3 / 2) = f64 (of_int (3 * k))" by (simp add: f64_mul_def)
  also have "\<dots> = of_int (3 * k)" by (rule f64_exact_int) (use assms in simp)
  finally show ?thesis
    using assms by (simp only: keep_alive_ttl_def f64_trunc_of_int) (subst wrap64_id, auto)
qed

lemma demo_ttl: "keep_alive_ttl 20000 = 30000000000"
  using keep_alive_ttl_even [of 10000] by simp

definition demo_dgram :: bytes where
  "demo_dgram = ''CSHP'' @ [CHR 0x01, CHR 0x00, CHR 0x00, CHR 0x00, CHR 0x07] @ replicate 16 (CHR ''k'')"

lemma demo_packet:
  "ParsePacket (take 512 demo_dgram) =
    Some \<lparr>pk_Tag = ''CSHP'', pk_Version = 1, pk_PlayerID = 7, pk_AccessKey = replicate 16 (CHR ''k'')\<rparr>"
  by code_simp

lemma demo_announces:
  "announces json 7 (Datagram 1 r demo_dgram) = Some (1, json r 1 (replicate 16 (CHR ''k'')))"
  by (simp only: announces.simps demo_packet option.case) (simp add: supported_def)

theorem last_endpoint_found_witness:
  "\<forall>json. fst (Storage_Get 30000000001 (fmt_u32 7) (fold (kv_step Storage_Get SetPX json 20000)
      [Datagram 1 (''1.2.3.4'', 99) demo_dgram, Lookup 2 ''7'', Datagram 3 (''5.6.7.8'', 1) ''CSHP'']
      (Some NewRuntimeStorage))) = Inr (json (''1.2.3.4'', 99) 1 (replicate 16 (CHR ''k'')))"
proof
  fix json
  let ?es = "[Datagram 1 (''1.2.3.4'', 99) demo_dgram, Lookup 2 ''7'', Datagram 3 (''5.6.7.8'', 1) ''CSHP'']"
  have times: "\<forall>e\<in>set ?es. 0 < event_time e \<and> event_time e \<le> 30000000001" by simp
  have none: "announces json 7 (Datagram 3 (''5.6.7.8'', 1) ''CSHP'') = None"
    "announces json 7 (Lookup 2 ''7'') = None"
    by (simp_all add: ParsePacket_def)
  have "last_announced json 7 ?es = Some (1, json (''1.2.3.4'', 99) 1 (replicate 16 (CHR ''k'')))"
    by (simp only: last_announced.simps demo_announces none option.case)
  then show "fst (Storage_Get 30000000001 (fmt_u32 7) (fold (kv_step Storage_Get SetPX json 20000)
      ?es (Some NewRuntimeStorage))) = Inr (json (''1.2.3.4'', 99) 1 (replicate 16 (CHR ''k'')))"
    using last_endpoint_found [OF times, of 7 json 20000] by (simp add: demo_ttl)
qed

section \<open>Alive timers and the session registry (connectivity)\<close>

text \<open>
  A timer is the instant at which it runs its callback; the callback of every timer is \<^verbatim>\<open>notAlive\<close>
  of the same player. A connection is a reference.
\<close>

type_synonym cref = nat

record manager =
  mg_timers :: "u32 \<rightharpoonup> time"
  mg_byID :: "u32 \<rightharpoonup> cref"
  mg_ttl :: int

definition NewManager :: "int \<Rightarrow> manager" where
  "NewManager ttl =
     \<lparr>mg_timers = Map.empty, mg_byID = Map.empty,
      mg_ttl = (if ttl \<le> 0 then 150 * 1000000000 else ttl)\<rparr>"

definition TTL :: "manager \<Rightarrow> int" where
  "TTL m = mg_ttl m"

definition ArmTimer :: "time \<Rightarrow> u32 \<Rightarrow> manager \<Rightarrow> manager" where
  "ArmTimer now pid m = m\<lparr>mg_timers := (mg_timers m)(pid \<mapsto> now + mg_ttl m)\<rparr>"

definition ClearTimer :: "u32 \<Rightarrow> manager \<Rightarrow> manager" where
  "ClearTimer pid m = m\<lparr>mg_timers := (mg_timers m)(pid := None)\<rparr>"

definition Register :: "u32 \<Rightarrow> cref \<Rightarrow> manager \<Rightarrow> manager" where
  "Register pid c m = m\<lparr>mg_byID := (mg_byID m)(pid \<mapsto> c)\<rparr>"

definition Unregister :: "u32 \<Rightarrow> manager \<Rightarrow> manager" where
  "Unregister pid m = m\<lparr>mg_byID := (mg_byID m)(pid := None)\<rparr>"

definition Conn :: "u32 \<Rightarrow> manager \<Rightarrow> cref option" where
  "Conn pid m = mg_byID m pid"

definition HasTimer :: "u32 \<Rightarrow> manager \<Rightarrow> bool" where
  "HasTimer pid m \<longleftrightarrow> mg_timers m pid \<noteq> None"

definition SetTTL :: "int \<Rightarrow> manager \<Rightarrow> manager" where
  "SetTTL d m = (if d \<le> 0 then m else m\<lparr>mg_ttl := d\<rparr>)"

lemmas manager_defs [go_defs] = ArmTimer_def ClearTimer_def Register_def Unregister_def

end
