(* ===== verification/Wire.thy ===== *)
theory Wire
  imports Go_Strings
begin

text \<open>
  The GSC wire codec, package \<^verbatim>\<open>internal/transport/gsc\<close>: commands and command sets in their text
  form (\<^verbatim>\<open>command.go\<close>, \<^verbatim>\<open>commandset.go\<close>), command sets in their binary form, and the compressed
  frame with its 12-byte header (\<^verbatim>\<open>stream.go\<close>). The text form and the binary form are proved to
  round-trip, the exact inputs on which the binary reader deviates from its writer are characterised,
  and so is the header on which the frame reader panics.

  Not in the model: the \<^verbatim>\<open>sync.Pool\<close> buffers (an allocation cache) and compression, which is the
  pair of parameters \<open>deflate\<close> and \<open>inflate\<close>.
\<close>

section \<open>Types (types.go)\<close>

record gsc_command =
  Name :: bytes
  Args :: "bytes list"

type_synonym command_set = "gsc_command list"

record gsc_stream =
  Num :: u16
  Lang :: u8
  Ver :: u8
  CmdSet :: command_set

datatype wire_error =
    ErrEOF
  | ErrUnexpectedEOF
  | ErrNameTooLong bytes
  | ErrInvalidSize u32
  | ErrWrongStreamLen nat u32
  | ErrTooLarge u32
  | ErrZlib

section \<open>Text form of commands (command.go)\<close>

definition encode_byte :: "char \<Rightarrow> bytes" where
  "encode_byte c =
     (if c = CHR 0x5C then [CHR 0x5C, CHR ''5'', CHR ''C'']
      else if c = CHR ''&'' then [CHR 0x5C, CHR ''2'', CHR ''6'']
      else if c = CHR ''|'' then [CHR 0x5C, CHR ''7'', CHR ''C'']
      else if c = CHR 0x00 then [CHR 0x5C, CHR ''0'', CHR ''0'']
      else [c])"

definition encodeArg :: "bytes \<Rightarrow> bytes" where
  "encodeArg arg = concat (map encode_byte arg)"

fun decodeArg :: "bytes \<Rightarrow> bytes" where
  "decodeArg [] = []"
| "decodeArg (c # s) =
     (case s of
        a # b # t \<Rightarrow>
          (if c = CHR 0x5C then
             (case (hex_val a, hex_val b) of
                (Some m, Some n) \<Rightarrow> char_of (16 * m + n) # decodeArg t
              | _ \<Rightarrow> c # decodeArg s)
           else c # decodeArg s)
      | _ \<Rightarrow> c # decodeArg s)"

definition CommandFromString :: "bytes \<Rightarrow> gsc_command" where
  "CommandFromString s =
     (let parts = split_on (CHR ''&'') s
      in \<lparr>Name = hd parts, Args = map decodeArg (tl parts)\<rparr>)"

definition Command_String :: "gsc_command \<Rightarrow> bytes" where
  "Command_String c = join_with ''&'' (Name c # map encodeArg (Args c))"

definition Command_Validate :: "gsc_command \<Rightarrow> bool" where
  "Command_Validate c \<longleftrightarrow> Name c \<noteq> []"

section \<open>Text form of command sets (commandset.go)\<close>

definition CommandSetFromString :: "bytes \<Rightarrow> command_set" where
  "CommandSetFromString s = map CommandFromString (split_on (CHR ''|'') (trim_prefix s ''GW|''))"

definition CommandSet_String :: "command_set \<Rightarrow> bytes" where
  "CommandSet_String cs = ''GW|'' @ join_with ''|'' (map Command_String cs)"

subsection \<open>Lemmas on the text form\<close>

lemma decodeArg_plain: "c \<noteq> CHR 0x5C \<Longrightarrow> decodeArg (c # s) = c # decodeArg s"
  by (simp split: list.splits)

lemma decodeArg_escape:
  "decodeArg (CHR 0x5C # CHR ''5'' # CHR ''C'' # t) = CHR 0x5C # decodeArg t"
  "decodeArg (CHR 0x5C # CHR ''2'' # CHR ''6'' # t) = CHR ''&'' # decodeArg t"
  "decodeArg (CHR 0x5C # CHR ''7'' # CHR ''C'' # t) = CHR ''|'' # decodeArg t"
  "decodeArg (CHR 0x5C # CHR ''0'' # CHR ''0'' # t) = CHR 0x00 # decodeArg t"
  by (simp_all add: hex_val_def char_of_eq_iff)

lemma decodeArg_encode_byte: "decodeArg (encode_byte c @ s) = c # decodeArg s"
  by (cases "c \<in> {CHR 0x5C, CHR ''&'', CHR ''|'', CHR 0x00}")
     (auto simp: encode_byte_def decodeArg_escape decodeArg_plain simp del: decodeArg.simps)

lemma decodeArg_encodeArg: "decodeArg (encodeArg arg) = arg"
proof (induction arg)
  case (Cons c arg)
  have "encodeArg (c # arg) = encode_byte c @ encodeArg arg" by (simp add: encodeArg_def)
  with Cons.IH show ?case by (simp add: decodeArg_encode_byte)
qed (simp add: encodeArg_def)

lemma encode_byte_clean:
  "CHR ''&'' \<notin> set (encode_byte c)" "CHR ''|'' \<notin> set (encode_byte c)"
  "CHR 0x00 \<notin> set (encode_byte c)"
  by (simp_all add: encode_byte_def)

lemma encodeArg_clean:
  "CHR ''&'' \<notin> set (encodeArg s)" "CHR ''|'' \<notin> set (encodeArg s)"
  "CHR 0x00 \<notin> set (encodeArg s)"
  by (simp_all add: encodeArg_def encode_byte_clean)

text \<open>Names are not escaped, so the text form is only faithful for names without separators.\<close>

definition text_name :: "bytes \<Rightarrow> bool" where
  "text_name n \<longleftrightarrow> CHR ''&'' \<notin> set n \<and> CHR ''|'' \<notin> set n"

lemma set_join_with: "set (join_with sep xs) \<subseteq> set sep \<union> \<Union> (set ` set xs)"
  by (induction xs rule: induct_list012) auto

lemma CommandFromString_String:
  "CHR ''&'' \<notin> set (Name c) \<Longrightarrow> CommandFromString (Command_String c) = c"
  by (simp add: CommandFromString_def Command_String_def split_on_join_with encodeArg_clean
      decodeArg_encodeArg comp_def)

lemma Command_String_no_bar: "text_name (Name c) \<Longrightarrow> CHR ''|'' \<notin> set (Command_String c)"
  using set_join_with [of "''&''" "Name c # map encodeArg (Args c)"] encodeArg_clean(2)
  by (fastforce simp: Command_String_def text_name_def)

section \<open>Reading from a byte slice (bytes.Reader, encoding/binary)\<close>

text \<open>
  The state of a \<^verbatim>\<open>bytes.Reader\<close> is what is left to read. \<^verbatim>\<open>binary.Read\<close> of a fixed-size value
  goes through \<^verbatim>\<open>io.ReadFull\<close>: end of input before the first byte is \<^verbatim>\<open>EOF\<close>, later it is
  \<^verbatim>\<open>ErrUnexpectedEOF\<close>. A plain \<^verbatim>\<open>r.Read(buf)\<close> is different: it fails only when nothing at all is
  left, even for an empty \<^verbatim>\<open>buf\<close>, and otherwise copies what there is; the rest of the freshly made
  buffer stays zero.
\<close>

type_synonym 'a read_result = "(wire_error, 'a \<times> bytes) outcome"

definition read_full :: "nat \<Rightarrow> bytes \<Rightarrow> bytes read_result" where
  "read_full n s =
     (if n = 0 then Ok ([], s)
      else if s = [] then Fail ErrEOF
      else if length s < n then Fail ErrUnexpectedEOF
      else Ok (take n s, drop n s))"

definition read_byte :: "bytes \<Rightarrow> char read_result" where
  "read_byte s = (case s of [] \<Rightarrow> Fail ErrEOF | c # t \<Rightarrow> Ok (c, t))"

definition read_into :: "nat \<Rightarrow> bytes \<Rightarrow> bytes read_result" where
  "read_into n s =
     (if s = [] then Fail ErrEOF
      else Ok (take n s @ replicate (n - length s) (CHR 0x00), drop n s))"

text \<open>The counted loops \<^verbatim>\<open>for i := 0; i < n; i++\<close> that append what one read gives.\<close>

fun read_list :: "(bytes \<Rightarrow> 'a read_result) \<Rightarrow> nat \<Rightarrow> bytes \<Rightarrow> 'a list read_result" where
  "read_list rd 0 s = Ok ([], s)"
| "read_list rd (Suc n) s =
     bind_ok (rd s) (\<lambda>(x, t). bind_ok (read_list rd n t) (\<lambda>(xs, u). Ok (x # xs, u)))"

section \<open>Binary form of command sets (commandset.go)\<close>

definition marshal_arg :: "bytes \<Rightarrow> bytes" where
  "marshal_arg a = le32 (word_of_nat (length a)) @ a"

definition marshal_command :: "gsc_command \<Rightarrow> bytes" where
  "marshal_command c =
     char_of (length (Name c)) # Name c @ le16 (word_of_nat (length (Args c))) @
     concat (map marshal_arg (Args c))"

fun marshal_commands :: "command_set \<Rightarrow> (wire_error, bytes) outcome" where
  "marshal_commands [] = Ok []"
| "marshal_commands (c # cs) =
     (if 255 < length (Name c) then Fail (ErrNameTooLong (Name c))
      else bind_ok (marshal_commands cs) (\<lambda>b. Ok (marshal_command c @ b)))"

definition CommandSet_MarshalBinary :: "command_set \<Rightarrow> (wire_error, bytes) outcome" where
  "CommandSet_MarshalBinary cs =
     bind_ok (marshal_commands cs) (\<lambda>b. Ok (le16 (word_of_nat (length cs)) @ b))"

definition unmarshal_arg :: "bytes \<Rightarrow> bytes read_result" where
  "unmarshal_arg s = bind_ok (read_full 4 s) (\<lambda>(ln, t). read_into (unat (u32le ln)) t)"

definition unmarshal_command :: "bytes \<Rightarrow> gsc_command read_result" where
  "unmarshal_command s =
     bind_ok (read_byte s) (\<lambda>(nLen, t).
     bind_ok (read_into (of_char nLen) t) (\<lambda>(name, u).
     bind_ok (read_full 2 u) (\<lambda>(argc, v).
     bind_ok (read_list unmarshal_arg (unat (u16le argc)) v) (\<lambda>(args, w).
     Ok (\<lparr>Name = name, Args = args\<rparr>, w)))))"

definition CommandSet_UnmarshalBinary :: "bytes \<Rightarrow> (wire_error, command_set) outcome" where
  "CommandSet_UnmarshalBinary b =
     bind_ok (read_full 2 b) (\<lambda>(count, s).
     bind_ok (read_list unmarshal_command (unat (u16le count)) s) (\<lambda>(cs, _). Ok cs))"

section \<open>Counted lists of framed items\<close>

text \<open>
  Both levels of the binary form are counted lists: an item is written by \<open>enc\<close> and read back by
  \<open>rd\<close>. Whether an item reads back can depend on what follows it, so the law has a side condition
  \<open>good x rest\<close>; \<open>good_list\<close> says it for every item of a list, each followed by the encoding of
  the later ones.
\<close>

fun good_list :: "('a \<Rightarrow> bytes) \<Rightarrow> ('a \<Rightarrow> bytes \<Rightarrow> bool) \<Rightarrow> 'a list \<Rightarrow> bytes \<Rightarrow> bool" where
  "good_list enc good [] rest \<longleftrightarrow> True"
| "good_list enc good (x # xs) rest \<longleftrightarrow>
     good x (concat (map enc xs) @ rest) \<and> good_list enc good xs rest"

locale framed_item =
  fixes enc :: "'a \<Rightarrow> bytes"
    and rd :: "bytes \<Rightarrow> 'a read_result"
    and good :: "'a \<Rightarrow> bytes \<Rightarrow> bool"
  assumes rd_enc: "good x rest \<Longrightarrow> rd (enc x @ rest) = Ok (x, rest)"
begin

lemma read_list_enc:
  "good_list enc good xs rest \<Longrightarrow>
   read_list rd (length xs) (concat (map enc xs) @ rest) = Ok (xs, rest)"
  by (induction xs) (simp_all add: rd_enc)

lemma read_list_enc_fail:
  assumes "good_list enc good xs (enc x @ rest)" and "rd (enc x @ rest) = Fail e"
  shows "read_list rd (length xs + Suc n) (concat (map enc xs) @ enc x @ rest) = Fail e"
  using assms(1)
proof (induction xs)
  case Nil
  then show ?case by (simp add: assms(2))
next
  case (Cons y ys)
  then show ?case by (simp add: rd_enc [of y "concat (map enc ys) @ enc x @ rest"])
qed

lemma good_list_all: "(\<And>x r. x \<in> set xs \<Longrightarrow> r \<noteq> [] \<Longrightarrow> good x r) \<Longrightarrow> rest \<noteq> [] \<Longrightarrow>
    good_list enc good xs rest"
  by (induction xs) auto

lemma good_list_snoc:
  "good_list enc good (xs @ [x]) rest \<longleftrightarrow>
   good_list enc good xs (enc x @ rest) \<and> good x rest"
  by (induction xs) auto

end

subsection \<open>Arguments and commands are framed items\<close>

lemma read_full_append [simp]: "length a = n \<Longrightarrow> 0 < n \<Longrightarrow> read_full n (a @ rest) = Ok (a, rest)"
  by (auto simp: read_full_def)

lemma read_into_append [simp]:
  "read_into (length a) (a @ rest) = (if a = [] \<and> rest = [] then Fail ErrEOF else Ok (a, rest))"
  by (simp add: read_into_def)

definition good_arg :: "bytes \<Rightarrow> bytes \<Rightarrow> bool" where
  "good_arg a rest \<longleftrightarrow> length a < 2 ^ 32 \<and> (a \<noteq> [] \<or> rest \<noteq> [])"

definition good_command :: "gsc_command \<Rightarrow> bytes \<Rightarrow> bool" where
  "good_command c rest \<longleftrightarrow>
     length (Name c) \<le> 255 \<and> length (Args c) < 2 ^ 16 \<and>
     good_list marshal_arg good_arg (Args c) rest"

lemma marshal_arg_not_Nil [simp]: "marshal_arg a \<noteq> []"
  by (simp add: marshal_arg_def)

lemma marshal_command_not_Nil [simp]: "marshal_command c \<noteq> []"
  by (simp add: marshal_command_def)

lemma unmarshal_arg_marshal:
  "length a < 2 ^ 32 \<Longrightarrow> unmarshal_arg (marshal_arg a @ rest) =
     (if a = [] \<and> rest = [] then Fail ErrEOF else Ok (a, rest))"
  by (simp add: unmarshal_arg_def marshal_arg_def)

interpretation arg_item: framed_item marshal_arg unmarshal_arg good_arg
  by unfold_locales (auto simp: good_arg_def unmarshal_arg_marshal)

text \<open>What is left for the argument loop once name and count of a command have been read.\<close>

lemma unmarshal_command_head:
  assumes "length (Name c) \<le> 255" and "length (Args c) < 2 ^ 16"
  shows "unmarshal_command (marshal_command c @ rest) =
    bind_ok (read_list unmarshal_arg (length (Args c)) (concat (map marshal_arg (Args c)) @ rest))
      (\<lambda>(args, w). Ok (\<lparr>Name = Name c, Args = args\<rparr>, w))"
  using assms by (simp add: unmarshal_command_def marshal_command_def read_byte_def)

interpretation command_item: framed_item marshal_command unmarshal_command good_command
proof
  fix c rest
  assume good: "good_command c rest"
  then have "read_list unmarshal_arg (length (Args c))
      (concat (map marshal_arg (Args c)) @ rest) = Ok (Args c, rest)"
    by (simp add: good_command_def arg_item.read_list_enc)
  then show "unmarshal_command (marshal_command c @ rest) = Ok (c, rest)"
    using good by (simp add: good_command_def unmarshal_command_head)
qed

subsection \<open>The round trip of the binary form\<close>

text \<open>
  \<open>fits cs\<close>: the counts and lengths fit the 8-, 16- and 32-bit fields they are written to.
  \<open>closes cs\<close>: the last argument of the last command is not the empty string.
\<close>

definition fits_command :: "gsc_command \<Rightarrow> bool" where
  "fits_command c \<longleftrightarrow>
     length (Name c) \<le> 255 \<and> length (Args c) < 2 ^ 16 \<and> (\<forall>a\<in>set (Args c). length a < 2 ^ 32)"

definition fits :: "command_set \<Rightarrow> bool" where
  "fits cs \<longleftrightarrow> length cs < 2 ^ 16 \<and> (\<forall>c\<in>set cs. fits_command c)"

definition closes :: "command_set \<Rightarrow> bool" where
  "closes cs \<longleftrightarrow> cs = [] \<or> Args (last cs) = [] \<or> last (Args (last cs)) \<noteq> []"

lemma good_args:
  assumes "fits_command c" and "rest \<noteq> [] \<or> Args c = [] \<or> last (Args c) \<noteq> []"
  shows "good_list marshal_arg good_arg (Args c) rest"
proof (cases "rest = []")
  case False
  then show ?thesis using assms(1)
    by (intro arg_item.good_list_all) (auto simp: good_arg_def fits_command_def)
next
  case True
  show ?thesis
  proof (cases "Args c" rule: rev_cases)
    case Nil
    then show ?thesis by simp
  next
    case (snoc as a)
    then have "good_list marshal_arg good_arg as (marshal_arg a @ rest)" using assms(1)
      by (intro arg_item.good_list_all) (auto simp: good_arg_def fits_command_def)
    then show ?thesis using assms True snoc
      by (simp add: arg_item.good_list_snoc) (auto simp: good_arg_def fits_command_def)
  qed
qed

lemma good_commandI: "fits_command c \<Longrightarrow> rest \<noteq> [] \<or> closes [c] \<Longrightarrow> good_command c rest"
  using good_args [of c rest] by (auto simp: good_command_def closes_def fits_command_def)

lemma marshal_commands_fits:
  "\<forall>c\<in>set cs. fits_command c \<Longrightarrow> marshal_commands cs = Ok (concat (map marshal_command cs))"
  by (induction cs) (auto simp: fits_command_def)

lemma unmarshal_marshal_commands:
  "length cs < 2 ^ 16 \<Longrightarrow>
   CommandSet_UnmarshalBinary (le16 (word_of_nat (length cs)) @ b) =
     bind_ok (read_list unmarshal_command (length cs) b) (\<lambda>(cs, _). Ok cs)"
  by (simp add: CommandSet_UnmarshalBinary_def)

lemma read_list_commands:
  assumes "\<forall>c\<in>set cs. fits_command c" and "closes cs"
  shows "read_list unmarshal_command (length cs) (concat (map marshal_command cs)) = Ok (cs, [])"
proof (cases cs rule: rev_cases)
  case Nil
  then show ?thesis by simp
next
  case (snoc ds d)
  have "good_list marshal_command good_command ds (marshal_command d @ [])"
    using assms snoc by (intro command_item.good_list_all) (auto intro: good_commandI)
  moreover have "good_command d []"
    using assms snoc by (intro good_commandI) (auto simp: closes_def)
  ultimately have "good_list marshal_command good_command cs []"
    by (simp add: snoc command_item.good_list_snoc)
  then show ?thesis using command_item.read_list_enc [of cs "[]"] by simp
qed

lemma unmarshal_open_command:
  assumes "fits_command c" and "Args c \<noteq> []" and "last (Args c) = []"
  shows "unmarshal_command (marshal_command c) = Fail ErrEOF"
proof -
  obtain as where as: "Args c = as @ [[]]" using assms by (metis append_butlast_last_id)
  have "good_list marshal_arg good_arg as (marshal_arg [] @ [])"
    using assms as by (intro arg_item.good_list_all) (auto simp: good_arg_def fits_command_def)
  moreover have "unmarshal_arg (marshal_arg [] @ []) = Fail ErrEOF"
    using unmarshal_arg_marshal [of "[]" "[]"] by simp
  ultimately have "read_list unmarshal_arg (length as + Suc 0)
      (concat (map marshal_arg as) @ marshal_arg [] @ []) = Fail ErrEOF"
    by (rule arg_item.read_list_enc_fail)
  then show ?thesis using unmarshal_command_head [of c "[]"] assms as
    by (simp add: fits_command_def)
qed

lemma read_list_commands_open:
  assumes "\<forall>c\<in>set cs. fits_command c" and "\<not> closes cs"
  shows "read_list unmarshal_command (length cs) (concat (map marshal_command cs)) = Fail ErrEOF"
proof (cases cs rule: rev_cases)
  case Nil
  then show ?thesis using assms by (simp add: closes_def)
next
  case (snoc ds d)
  have "good_list marshal_command good_command ds (marshal_command d @ [])"
    using assms snoc by (intro command_item.good_list_all) (auto intro: good_commandI)
  moreover have "unmarshal_command (marshal_command d @ []) = Fail ErrEOF"
    using unmarshal_open_command [of d] assms snoc by (simp add: closes_def)
  ultimately have "read_list unmarshal_command (length ds + Suc 0)
      (concat (map marshal_command ds) @ marshal_command d @ []) = Fail ErrEOF"
    by (rule command_item.read_list_enc_fail)
  then show ?thesis using snoc by simp
qed

section \<open>Frames (stream.go)\<close>

text \<open>
  A frame is a 12-byte header (number, language, version, frame size, payload size) and the
  compressed binary form of a command set. Compression is a parameter: \<open>deflate\<close> is what
  \<^verbatim>\<open>zlib.Writer\<close> produces for a payload, \<open>inflate\<close> what reading a \<^verbatim>\<open>zlib.Reader\<close> to the end gives,
  an error or the payload. The one documented fact used of them is that the reader undoes the writer.
\<close>

definition headerSize :: nat where
  "headerSize = 12"

definition u8_char :: "u8 \<Rightarrow> char" where
  "u8_char w = char_of (unat w)"

definition char_u8 :: "char \<Rightarrow> u8" where
  "char_u8 c = word_of_nat (of_char c)"

definition Stream_MarshalBinary ::
    "(bytes \<Rightarrow> bytes) \<Rightarrow> gsc_stream \<Rightarrow> (wire_error, bytes) outcome" where
  "Stream_MarshalBinary deflate s =
     bind_ok (CommandSet_MarshalBinary (CmdSet s)) (\<lambda>cmdsetBin.
       let compressed = deflate cmdsetBin;
           size = word_of_nat (length compressed + headerSize);
           payloadLen = word_of_nat (length cmdsetBin)
       in Ok (le16 (Num s) @ [u8_char (Lang s), u8_char (Ver s)] @ le32 size @ le32 payloadLen @
              compressed))"

definition Stream_UnmarshalBinary ::
    "(bytes \<Rightarrow> (wire_error, bytes) outcome) \<Rightarrow> bytes \<Rightarrow> (wire_error, gsc_stream) outcome" where
  "Stream_UnmarshalBinary inflate b =
     (if length b < headerSize then Fail ErrUnexpectedEOF
      else
        let num = u16le (take 2 b);
            lang = char_u8 (b ! 2);
            ver = char_u8 (b ! 3);
            size = u32le (take 4 (drop 4 b));
            payloadLen = u32le (take 4 (drop 8 b))
        in
          if unat size < headerSize \<or> length b < unat size then Fail (ErrInvalidSize size)
          else bind_ok (inflate (take (unat size - headerSize) (drop headerSize b))) (\<lambda>payload.
            if (word_of_nat (length payload) :: u32) \<noteq> payloadLen
            then Fail (ErrWrongStreamLen (length payload) payloadLen)
            else bind_ok (CommandSet_UnmarshalBinary payload) (\<lambda>cs.
              Ok \<lparr>Num = num, Lang = lang, Ver = ver, CmdSet = cs\<rparr>)))"

text \<open>
  \<^verbatim>\<open>ReadFrom\<close> on a connection whose remaining input, up to the end of the connection, is \<open>inp\<close>; the
  second component of the result is what is left unread. \<^verbatim>\<open>full[headerSize:]\<close> panics when the
  buffer, which has the size the header claims, is shorter than the header.
\<close>

definition ReadFrom ::
    "(bytes \<Rightarrow> (wire_error, bytes) outcome) \<Rightarrow> u32 \<Rightarrow> bytes \<Rightarrow> (wire_error, gsc_stream \<times> bytes) outcome"
  where
  "ReadFrom inflate maxSize inp =
     bind_ok (read_full headerSize inp) (\<lambda>(head, rest).
       let size = u32le (take 4 (drop 4 head)) in
       if 0 < maxSize \<and> maxSize < size then Fail (ErrTooLarge size)
       else if unat size < headerSize then Panic
       else bind_ok (read_full (unat size - headerSize) rest) (\<lambda>(body, left).
         bind_ok (Stream_UnmarshalBinary inflate (head @ body)) (\<lambda>s. Ok (s, left))))"

lemma char_u8_u8_char [simp]: "char_u8 (u8_char w) = w"
  using unsigned_less [of w, where 'a = nat] by (simp add: char_u8_def u8_char_def)

lemma unat_le16_take [simp]: "take 2 (le16 w @ s) = le16 w"
  by simp

lemma read_full_app: "length a = n \<Longrightarrow> n = 0 \<or> a \<noteq> [] \<Longrightarrow> read_full n (a @ rest) = Ok (a, rest)"
  by (cases "n = 0") (simp_all add: read_full_def)

lemma read_full_Ok: "read_full n s = Ok (a, r) \<Longrightarrow> length a = n \<and> s = a @ r"
  by (auto simp: read_full_def split: if_splits)

lemma read_full_not_Panic [simp]: "read_full n s \<noteq> Panic"
  by (simp add: read_full_def)

lemma Stream_UnmarshalBinary_parts:
  assumes "unat sz = length z + headerSize"
  shows "Stream_UnmarshalBinary inflate
      ((le16 num @ [u8_char lang, u8_char ver] @ le32 sz @ le32 plen) @ z) =
    bind_ok (inflate z) (\<lambda>payload.
      if (word_of_nat (length payload) :: u32) \<noteq> plen
      then Fail (ErrWrongStreamLen (length payload) plen)
      else bind_ok (CommandSet_UnmarshalBinary payload) (\<lambda>cs.
        Ok \<lparr>Num = num, Lang = lang, Ver = ver, CmdSet = cs\<rparr>))"
  using assms
  by (simp add: Stream_UnmarshalBinary_def headerSize_def nth_append Let_def)

text \<open>The binary reader reports errors, it never panics.\<close>

lemma read_byte_not_Panic [simp]: "read_byte s \<noteq> Panic"
  by (simp add: read_byte_def split: list.splits)

lemma read_into_not_Panic [simp]: "read_into n s \<noteq> Panic"
  by (simp add: read_into_def)

lemma read_list_not_Panic: "(\<And>s. rd s \<noteq> Panic) \<Longrightarrow> read_list rd n s \<noteq> Panic"
  by (induction n arbitrary: s) (auto simp: bind_ok_Panic_iff)

lemma unmarshal_arg_not_Panic: "unmarshal_arg s \<noteq> Panic"
  by (simp add: unmarshal_arg_def bind_ok_Panic_iff)

lemma unmarshal_command_not_Panic: "unmarshal_command s \<noteq> Panic"
  by (simp add: unmarshal_command_def bind_ok_Panic_iff read_list_not_Panic unmarshal_arg_not_Panic)

lemma CommandSet_UnmarshalBinary_not_Panic: "CommandSet_UnmarshalBinary b \<noteq> Panic"
  by (auto simp: CommandSet_UnmarshalBinary_def bind_ok_Panic_iff read_list_not_Panic
      unmarshal_command_not_Panic)

lemma Stream_UnmarshalBinary_not_Panic:
  "(\<And>z. inflate z \<noteq> Panic) \<Longrightarrow> Stream_UnmarshalBinary inflate b \<noteq> Panic"
  by (simp add: Stream_UnmarshalBinary_def Let_def bind_ok_Panic_iff
      CommandSet_UnmarshalBinary_not_Panic)

section \<open>Properties\<close>

text \<open>
  The text form round-trips: parsing what \<^verbatim>\<open>CommandSet.String\<close> prints gives the command set
  back, whatever bytes the arguments hold (the separators and NUL included), for every non-empty set
  whose names contain neither separator.
\<close>

theorem CommandSet_text_roundtrip:
  assumes "cs \<noteq> []" and "\<forall>c\<in>set cs. text_name (Name c)"
  shows "CommandSetFromString (CommandSet_String cs) = cs"
proof -
  have "split_on (CHR ''|'') (join_with ''|'' (map Command_String cs)) = map Command_String cs"
    using assms by (intro split_on_join_with) (auto simp: Command_String_no_bar)
  moreover have "map (CommandFromString \<circ> Command_String) cs = cs"
    using assms by (intro map_idI) (simp add: CommandFromString_String text_name_def)
  ultimately show ?thesis
    unfolding CommandSetFromString_def CommandSet_String_def trim_prefix_append by simp
qed

theorem CommandSet_text_roundtrip_witness:
  "CommandSetFromString (CommandSet_String [\<lparr>Name = ''LW_show'', Args = [''a&b|c'', [CHR 0x00]]\<rparr>])
     = [\<lparr>Name = ''LW_show'', Args = [''a&b|c'', [CHR 0x00]]\<rparr>]"
  by (rule CommandSet_text_roundtrip) (simp_all add: text_name_def)

lemma binary_roundtrip:
  assumes "fits cs"
  shows "bind_ok (CommandSet_MarshalBinary cs) CommandSet_UnmarshalBinary =
    (if closes cs then Ok cs else Fail ErrEOF)"
proof -
  have len: "length cs < 2 ^ 16" and all: "\<forall>c\<in>set cs. fits_command c"
    using assms by (auto simp: fits_def)
  have "CommandSet_MarshalBinary cs =
      Ok (le16 (word_of_nat (length cs)) @ concat (map marshal_command cs))"
    by (simp add: CommandSet_MarshalBinary_def marshal_commands_fits all)
  then show ?thesis
    using read_list_commands [OF all] read_list_commands_open [OF all]
    by (simp add: unmarshal_marshal_commands [OF len])
qed

text \<open>
  C20. The binary form, exactly: a command set whose counts and lengths fit their fields reads back
  as itself, except when the last argument of the last command is empty. Then
  \<^verbatim>\<open>CommandSet.UnmarshalBinary\<close> fails with \<^verbatim>\<open>EOF\<close>, because \<^verbatim>\<open>bytes.Reader.Read\<close> at the end of the
  input fails even for an empty buffer.
\<close>

theorem CommandSet_binary_roundtrip:
  assumes "fits cs"
  shows "bind_ok (CommandSet_MarshalBinary cs) CommandSet_UnmarshalBinary =
    (if closes cs then Ok cs else Fail ErrEOF)"
  by (rule binary_roundtrip [OF assms])

theorem CommandSet_binary_roundtrip_witness:
  "bind_ok (CommandSet_MarshalBinary [\<lparr>Name = ''login'', Args = [''win'', []]\<rparr>])
     CommandSet_UnmarshalBinary = Fail ErrEOF"
proof -
  have "fits [\<lparr>Name = ''login'', Args = [''win'', []]\<rparr>]" by (simp add: fits_def fits_command_def)
  from CommandSet_binary_roundtrip [OF this] show ?thesis by (simp add: closes_def)
qed

text \<open>
  An argument cut short by the end of the payload is accepted: the missing bytes are replaced
  by NULs instead of the \<^verbatim>\<open>unexpected EOF\<close> the fixed-size fields report.
\<close>

theorem unmarshal_arg_pads_short_input:
  assumes "a \<noteq> []" and "length a < n" and "n < 2 ^ 32"
  shows "unmarshal_arg (le32 (word_of_nat n) @ a) = Ok (a @ replicate (n - length a) (CHR 0x00), [])"
  using assms by (simp add: unmarshal_arg_def read_into_def)

theorem unmarshal_arg_pads_short_input_witness:
  "unmarshal_arg (le32 (word_of_nat 5) @ ''ab'') = Ok (''ab'' @ replicate 3 (CHR 0x00), [])"
  using unmarshal_arg_pads_short_input [of "''ab''" 5] by simp

text \<open>
  C8. Framing: reading from a connection that starts with a marshalled stream gives that stream
  back and leaves exactly what followed it, provided compression is undone by decompression, the counts
  and lengths fit their fields and the frame fits its size field and does not exceed the configured
  maximum; except that a stream whose last command ends in an empty argument is refused with \<^verbatim>\<open>EOF\<close>.
\<close>

theorem ReadFrom_MarshalBinary:
  assumes zlib: "\<And>x. inflate (deflate x) = Ok x"
    and bin: "Stream_MarshalBinary deflate s = Ok b"
    and "fits (CmdSet s)"
    and "length b < 2 ^ 32" and max: "maxSize = 0 \<or> length b \<le> unat maxSize"
  shows "ReadFrom inflate maxSize (b @ rest) = (if closes (CmdSet s) then Ok (s, rest) else Fail ErrEOF)"
proof -
  obtain p where p: "CommandSet_MarshalBinary (CmdSet s) = Ok p"
    using bin by (cases "CommandSet_MarshalBinary (CmdSet s)") (auto simp: Stream_MarshalBinary_def)
  define z sz plen where "z = deflate p"
    and "sz = (word_of_nat (length z + headerSize) :: u32)"
    and "plen = (word_of_nat (length p) :: u32)"
  define head where
    "head = le16 (Num s) @ [u8_char (Lang s), u8_char (Ver s)] @ le32 sz @ le32 plen"
  have b: "b = head @ z"
    using bin by (simp add: Stream_MarshalBinary_def p Let_def head_def z_def sz_def plen_def)
  have head: "length head = headerSize" by (simp add: head_def headerSize_def)
  have "length z + headerSize < 4294967296" using assms(4) by (simp add: b head)
  then have sz: "unat sz = length z + headerSize"
    unfolding sz_def by (rule unat_word_of_nat_32)
  have unm: "CommandSet_UnmarshalBinary p = (if closes (CmdSet s) then Ok (CmdSet s) else Fail ErrEOF)"
    using binary_roundtrip [OF assms(3)] p by simp
  have "Stream_UnmarshalBinary inflate (head @ z) = (if closes (CmdSet s) then Ok s else Fail ErrEOF)"
    unfolding head_def Stream_UnmarshalBinary_parts [OF sz]
    by (simp add: zlib unm z_def plen_def)
  moreover have "read_full headerSize (head @ z @ rest) = Ok (head, z @ rest)"
    by (rule read_full_app) (use head in \<open>auto simp: headerSize_def\<close>)
  moreover have "read_full (length z) (z @ rest) = Ok (z, rest)"
    by (rule read_full_app) auto
  moreover have "\<not> (0 < maxSize \<and> maxSize < sz)"
    using max sz by (auto simp: word_less_nat_alt b head)
  moreover have "u32le (take 4 (drop 4 head)) = sz" by (simp add: head_def)
  ultimately show ?thesis
    by (simp add: ReadFrom_def Let_def b sz)
qed

theorem ReadFrom_MarshalBinary_witness:
  "(let s = \<lparr>Num = 7, Lang = 0, Ver = 2, CmdSet = [\<lparr>Name = ''echo'', Args = [''hi'']\<rparr>]\<rparr>
    in ReadFrom Ok 4096 (the_ok (Stream_MarshalBinary (\<lambda>x. x) s) @ ''next'') = Ok (s, ''next'')) \<and>
   (let s = \<lparr>Num = 7, Lang = 0, Ver = 2, CmdSet = [\<lparr>Name = ''echo'', Args = [[]]\<rparr>]\<rparr>
    in ReadFrom Ok 4096 (the_ok (Stream_MarshalBinary (\<lambda>x. x) s) @ ''next'') = Fail ErrEOF)"
proof -
  have "ReadFrom Ok 4096 (the_ok (Stream_MarshalBinary (\<lambda>x. x) s) @ ''next'') =
      (if a \<noteq> [] then Ok (s, ''next'') else Fail ErrEOF)"
    if s: "s = \<lparr>Num = 7, Lang = 0, Ver = 2, CmdSet = [\<lparr>Name = ''echo'', Args = [a]\<rparr>]\<rparr>"
      and a: "a = [] \<or> a = ''hi''" for s a
  proof -
    let ?b = "the_ok (Stream_MarshalBinary (\<lambda>x. x) s)"
    have bin: "Stream_MarshalBinary (\<lambda>x. x) s = Ok ?b"
      and short: "length ?b < 2 ^ 32" "(4096 :: u32) = 0 \<or> length ?b \<le> unat (4096 :: u32)"
      using a by (auto simp: s Stream_MarshalBinary_def CommandSet_MarshalBinary_def Let_def marshal_command_def
          marshal_arg_def)
    have "fits (CmdSet s)" and "closes (CmdSet s) \<longleftrightarrow> a \<noteq> []"
      using a by (auto simp: s fits_def fits_command_def closes_def)
    then show ?thesis
      using ReadFrom_MarshalBinary [where deflate = "\<lambda>x. x" and inflate = Ok, OF refl bin _ short] by simp
  qed
  then show ?thesis by (simp add: Let_def)
qed

text \<open>
  C29. The frame reader panics on exactly one kind of input: a complete 12-byte header, within the
  size limit, whose size field is less than 12. Any other input gives a stream or an error.
\<close>

theorem ReadFrom_Panic_iff:
  assumes "\<And>z. inflate z \<noteq> Panic"
  shows "ReadFrom inflate maxSize inp = Panic \<longleftrightarrow>
    headerSize \<le> length inp \<and> unat (u32le (take 4 (drop 4 inp))) < headerSize \<and>
    (maxSize = 0 \<or> u32le (take 4 (drop 4 inp)) \<le> maxSize)"
proof (cases "headerSize \<le> length inp")
  case False
  then show ?thesis by (auto simp: ReadFrom_def read_full_def headerSize_def)
next
  case True
  then have hd: "read_full headerSize inp = Ok (take headerSize inp, drop headerSize inp)"
    by (auto simp: read_full_def headerSize_def)
  have "take 4 (drop 4 (take headerSize inp)) = take 4 (drop 4 inp)"
    by (simp add: headerSize_def drop_take)
  then show ?thesis
    using True Stream_UnmarshalBinary_not_Panic [OF assms]
    by (auto simp: ReadFrom_def hd Let_def bind_ok_Panic_iff word_gt_0)
qed

theorem ReadFrom_Panic_iff_witness:
  "ReadFrom Ok 4194304 (replicate 12 (CHR 0x00)) = (Panic :: (wire_error, gsc_stream \<times> bytes) outcome)"
proof (subst ReadFrom_Panic_iff)
  show "(Ok z :: (wire_error, bytes) outcome) \<noteq> Panic" for z by simp
  show "headerSize \<le> length (replicate 12 (CHR 0x00)) \<and>
      unat (u32le (take 4 (drop 4 (replicate 12 (CHR 0x00))))) < headerSize \<and>
      ((4194304 :: u32) = 0 \<or> u32le (take 4 (drop 4 (replicate 12 (CHR 0x00)))) \<le> 4194304)"
    by code_simp
qed

lemma ReadFrom_frame:
  assumes "ReadFrom inflate maxSize inp = Ok (s, left)"
  shows "\<exists>frame. inp = frame @ left \<and> length frame = unat (u32le (take 4 (drop 4 inp))) \<and>
    headerSize \<le> length frame \<and> (maxSize \<noteq> 0 \<longrightarrow> length frame \<le> unat maxSize)"
proof -
  obtain head rest body where
    h: "read_full headerSize inp = Ok (head, rest)" and
    lim: "\<not> (0 < maxSize \<and> maxSize < u32le (take 4 (drop 4 head)))" and
    sz: "\<not> unat (u32le (take 4 (drop 4 head))) < headerSize" and
    body: "read_full (unat (u32le (take 4 (drop 4 head))) - headerSize) rest = Ok (body, left)"
    using assms by (auto simp: ReadFrom_def Let_def bind_ok_Ok_iff split: if_splits)
  from read_full_Ok [OF h] read_full_Ok [OF body]
  have inp: "inp = (head @ body) @ left" and len: "length head = headerSize"
    and blen: "length body = unat (u32le (take 4 (drop 4 head))) - headerSize" by simp_all
  have t: "take 4 (drop 4 inp) = take 4 (drop 4 head)"
    using inp len by (simp add: headerSize_def)
  have fl: "length (head @ body) = unat (u32le (take 4 (drop 4 inp)))"
    unfolding t using len blen sz by simp
  have "headerSize \<le> unat (u32le (take 4 (drop 4 inp)))" unfolding t using sz by simp
  moreover have "maxSize \<noteq> 0 \<longrightarrow> unat (u32le (take 4 (drop 4 inp))) \<le> unat maxSize"
    unfolding t using lim by (auto simp: word_gt_0 not_less word_le_nat_alt)
  ultimately show ?thesis using inp fl by (intro exI [of _ "head @ body"]) (simp only: simp_thms)
qed

text \<open>
  A frame that is accepted consumed exactly the bytes its size field announces, and no more than
  the configured maximum: what is left is the input without its first \<open>size\<close> bytes.
\<close>

theorem ReadFrom_consumes_frame:
  assumes "ReadFrom inflate maxSize inp = Ok (s, left)"
  shows "\<exists>frame. inp = frame @ left \<and> length frame = unat (u32le (take 4 (drop 4 inp))) \<and>
    headerSize \<le> length frame \<and> (maxSize \<noteq> 0 \<longrightarrow> length frame \<le> unat maxSize)"
  using ReadFrom_frame [OF assms] .

theorem ReadFrom_consumes_frame_witness:
  "\<exists>frame. le32 0 @ le32 14 @ le32 2 @ [CHR 0x00, CHR 0x00] @ ''x'' = frame @ ''x'' \<and>
    length frame = 14 \<and> headerSize \<le> length frame \<and> length frame \<le> 100"
proof -
  have "ReadFrom Ok 100 (le32 0 @ le32 14 @ le32 2 @ [CHR 0x00, CHR 0x00] @ ''x'') =
      Ok (\<lparr>Num = 0, Lang = 0, Ver = 0, CmdSet = []\<rparr>, ''x'')"
    by code_simp
  from ReadFrom_consumes_frame [OF this] have "\<exists>frame.
      le32 0 @ le32 14 @ le32 2 @ [CHR 0x00, CHR 0x00] @ ''x'' = frame @ ''x'' \<and>
      length frame = 14 \<and> headerSize \<le> length frame \<and> length frame \<le> unat (100 :: u32)"
    by (simp add: drop_eq_Nil)
  then show ?thesis by simp
qed

end
