(* ===== verification/Go_Json.thy ===== *)
theory Go_Json
  imports Go_Strings Go_Float
begin

text \<open>
  The values \<^verbatim>\<open>encoding/json\<close> decodes into \<^verbatim>\<open>any\<close>: a number is always a \<^verbatim>\<open>float64\<close>, an object a map.
  A decoder is a parameter wherever one is used: \<open>None\<close> is a decoding error, \<open>Some None\<close> the nil map
  a JSON \<^verbatim>\<open>null\<close> leaves behind.
\<close>

datatype json =
  JNull | JBool bool | JNum float64 | JStr string | JArr "json list" | JObj "string \<Rightarrow> json option"

type_synonym jobject = "string \<rightharpoonup> json"
type_synonym json_decoder = "bytes \<Rightarrow> jobject option option"

text \<open>\<^verbatim>\<open>m[k]\<close> for a map of interfaces: nil for an absent key.\<close>

definition field :: "jobject \<Rightarrow> string \<Rightarrow> json" where
  "field m k = (case m k of None \<Rightarrow> JNull | Some v \<Rightarrow> v)"

text \<open>Failed type assertions give the zero value: a nil map, a nil slice.\<close>

fun as_object :: "json \<Rightarrow> jobject option" where
  "as_object (JObj m) = Some m"
| "as_object _ = None"

fun as_array :: "json \<Rightarrow> json list option" where
  "as_array (JArr xs) = Some xs"
| "as_array _ = None"

definition nil_map :: "jobject option \<Rightarrow> jobject" where
  "nil_map m = (case m of None \<Rightarrow> Map.empty | Some m \<Rightarrow> m)"

definition nil_slice :: "'a list option \<Rightarrow> 'a list" where
  "nil_slice xs = (case xs of None \<Rightarrow> [] | Some xs \<Rightarrow> xs)"

text \<open>
  \<^verbatim>\<open>fmt.Sprintf("%v", v)\<close>. The shortest decimal form of a float and the printed form of composite
  values is the parameter \<open>fv\<close>.
\<close>

definition sprint :: "(json \<Rightarrow> string) \<Rightarrow> json \<Rightarrow> string" where
  "sprint fv v =
     (case v of
        JNull \<Rightarrow> ''<nil>''
      | JBool b \<Rightarrow> if b then ''true'' else ''false''
      | JStr s \<Rightarrow> s
      | _ \<Rightarrow> fv v)"

end
