(* ===== verification/Render.thy ===== *)
theory Render
  imports Domain Wire Lobby Go_Json
begin

text \<open>
  What the server shows: the commands that carry a body (\<^verbatim>\<open>render/builders.go\<close>), the view models
  that templates are filled from (\<^verbatim>\<open>view.go\<close>, \<^verbatim>\<open>room_view.go\<close>), and the bodies that are built without
  a template (\<^verbatim>\<open>user_details.go\<close>, \<^verbatim>\<open>ggcup.go\<close>, \<^verbatim>\<open>time_interval.go\<close>, \<^verbatim>\<open>cml.go\<close>).

  Reading and executing a template is a parameter \<^verbatim>\<open>render ver name view\<close> of the routes that use it:
  the template files and Go's \<^verbatim>\<open>text/template\<close> are outside the model.
\<close>

section \<open>Commands (builders.go)\<close>

definition ShowCmd :: "string \<Rightarrow> gsc_command" where
  "ShowCmd body = \<lparr>Name = ''LW_show'', Args = [body]\<rparr>"

definition Show :: "string \<Rightarrow> gsc_command list" where
  "Show body = [ShowCmd body]"

definition Echo_cmds :: "string list \<Rightarrow> gsc_command list" where
  "Echo_cmds args = [\<lparr>Name = ''LW_echo'', Args = args\<rparr>]"

definition Time_cmds :: "string \<Rightarrow> string \<Rightarrow> gsc_command list" where
  "Time_cmds delay action = [\<lparr>Name = ''LW_time'', Args = [delay, action]\<rparr>]"

definition Alert :: "string \<Rightarrow> string \<Rightarrow> gsc_command list" where
  "Alert header message = [\<lparr>Name = ''alert_dgl'', Args = [header, message]\<rparr>]"

section \<open>Time intervals and escaping (time\_interval.go, cml.go)\<close>

definition TimeIntervalFromElapsedSec :: "int \<Rightarrow> string" where
  "TimeIntervalFromElapsedSec secs =
     (let t = max 0 secs;
          d = t div 86400; t = t mod 86400;
          h = t div 3600; t = t mod 3600;
          m = t div 60; s = t mod 60;
          parts = (if 0 < d then [fmt_d d @ ''d''] else []) @ (if 0 < h then [fmt_d h @ ''h''] else [])
      in
        if 0 < d then join_with '' '' parts
        else
          let parts = parts @ (if 0 < m then [fmt_d m @ ''m''] else []) in
          if 0 < h \<or> 10 \<le> m then join_with '' '' parts
          else
            let parts = parts @ (if 0 < s then [fmt_d s @ ''s''] else []) in
            if parts \<noteq> [] then join_with '' '' parts else ''0s'')"

definition CMLSafe :: "string \<Rightarrow> string" where
  "CMLSafe v =
     replace_char (CHR 0x0D) '' '' (replace_char (CHR 0x0A) '' '' (replace_char (CHR 0x22) [CHR 0x27] v))"

section \<open>Clock (package time)\<close>

text \<open>
  \<^verbatim>\<open>time.Since\<close> saturates; \<^verbatim>\<open>Duration.Seconds\<close> is a float, truncated by the conversion.
\<close>

definition since :: "time \<Rightarrow> time \<Rightarrow> int" where
  "since now t = max (- (2 ^ 63)) (min (2 ^ 63 - 1) (now - t))"

definition quot_rem :: "int \<Rightarrow> int \<Rightarrow> int \<times> int" where
  "quot_rem a b = (let q = (if 0 \<le> a then a div b else - ((- a) div b)) in (q, a - q * b))"

definition Seconds :: "int \<Rightarrow> float64" where
  "Seconds d =
     (let (sec, nsec) = quot_rem d 1000000000
      in f64_add (f64_of_int sec) (f64_div (f64_of_int nsec) 1000000000))"

definition elapsed :: "time \<Rightarrow> time \<Rightarrow> int" where
  "elapsed now t = f64_trunc (Seconds (since now t))"

text \<open>
  \<^verbatim>\<open>t.UTC().Format("2006-01-02 15:04:05 UTC")\<close>: the civil date of an instant at or after year 1 in
  the Gregorian calendar.
\<close>

definition year_day :: "int \<Rightarrow> int \<times> int" where
  "year_day days =
     (let n400 = days div 146097; d = days mod 146097;
          n100 = min 3 (d div 36524); d = d - 36524 * n100;
          n4 = d div 1461; d = d mod 1461;
          n1 = min 3 (d div 365)
      in (400 * n400 + 100 * n100 + 4 * n4 + n1 + 1, d - 365 * n1))"

definition leap :: "int \<Rightarrow> bool" where
  "leap y \<longleftrightarrow> 4 dvd y \<and> (\<not> 100 dvd y \<or> 400 dvd y)"

fun month_day :: "int \<Rightarrow> int list \<Rightarrow> int \<Rightarrow> int \<times> int" where
  "month_day m (l # ls) d = (if d < l then (m, d + 1) else month_day (m + 1) ls (d - l))"
| "month_day m [] d = (m, d + 1)"

definition month_lengths :: "int \<Rightarrow> int list" where
  "month_lengths y = [31, if leap y then 29 else 28, 31, 30, 31, 30, 31, 31, 30, 31, 30, 31]"

definition pad :: "nat \<Rightarrow> int \<Rightarrow> string" where
  "pad n i = replicate (n - length (fmt_d i)) (CHR ''0'') @ fmt_d i"

definition format_utc :: "time \<Rightarrow> string" where
  "format_utc t =
     (let secs = t div 1000000000; days = secs div 86400; sod = secs mod 86400;
          (y, yd) = year_day days; (m, d) = month_day 1 (month_lengths y) yd
      in pad 4 y @ ''-'' @ pad 2 m @ ''-'' @ pad 2 d @ '' '' @ pad 2 (sod div 3600) @ '':'' @
         pad 2 (sod mod 3600 div 60) @ '':'' @ pad 2 (sod mod 60) @ '' UTC'')"

section \<open>View models (view.go)\<close>

record room_player_view = rpv_Nick :: string

record room_view =
  rv_ID :: u32
  rv_Title :: string
  rv_HostID :: u32
  rv_HostNick :: string
  rv_HostAddr :: string
  rv_HostAddrInt :: u32
  rv_Level :: int
  rv_Started :: bool
  rv_StartPlayers :: int
  rv_PlayersCount :: int
  rv_MaxPlayers :: int
  rv_Map :: string
  rv_AI :: bool
  rv_Password :: string
  rv_Backto :: string
  rv_HasExited :: bool
  rv_CtimeFormatted :: string
  rv_Time :: string
  rv_ActivePlayers :: "string list"
  rv_ExitedPlayers :: "string list"
  rv_Players :: "u32 \<rightharpoonup> room_player_view"

record started_player_stat_view =
  sps_RealScores :: int
  sps_Population :: u32
  sps_Population2 :: u32
  sps_Casuality :: u32
  sps_Wood :: u32
  sps_Food :: u32
  sps_Stone :: u32
  sps_Gold :: u32
  sps_Iron :: u32
  sps_Coal :: u32
  sps_Peasants :: u32
  sps_Units :: u32
  sps_ChangeWood :: string
  sps_ChangeFood :: string
  sps_ChangeStone :: string
  sps_ChangeGold :: string
  sps_ChangeIron :: string
  sps_ChangeCoal :: string
  sps_ChangePop2 :: string
  sps_ChangePeas :: string
  sps_ChangeUnits :: string
  sps_ChangeCoalRes :: string

record started_player_view =
  spv_Nick :: string
  spv_Color :: u32
  spv_Theam :: u32
  spv_Nation :: u32
  spv_Zombie :: bool
  spv_Exited :: bool
  spv_YOff :: int
  spv_Stat :: "started_player_stat_view option"

record started_room_view =
  srv_ID :: u32
  srv_Title :: string
  srv_Map :: string
  srv_Level :: int
  srv_RoomTime :: string
  srv_TimeTickSecs :: u32
  srv_SmallColW :: int
  srv_LargeColW :: int
  srv_Page :: string
  srv_Res :: string
  srv_Players :: "started_player_view option list"

record ggcup_supporter_view =
  gsv_Nick :: string
  gsv_Amount :: string
  gsv_URL :: string

record ggcup_view =
  ggv_ID :: string
  ggv_WoInfo :: bool
  ggv_Started :: bool
  ggv_PlayersCount :: string
  ggv_PlayersCountLen :: int
  ggv_PrizeFund :: string
  ggv_PrizeFundLen :: int
  ggv_BoxHeight :: int
  ggv_Supporters :: "ggcup_supporter_view list"

record account_view =
  av_Type :: string
  av_Profile :: string
  av_HasPlace :: bool
  av_Place :: int

record player_view =
  plv_ID :: u32
  plv_Nick :: string
  plv_BoxHeight :: int
  plv_LastLabelRef :: string
  plv_ConnectedAtFormatted :: string
  plv_Account :: "account_view option"
  plv_Room :: "room_view option"

record view =
  vw_ID :: string
  vw_Type :: string
  vw_LoggedIn :: bool
  vw_Password :: string
  vw_Nick :: string
  vw_Nickname :: string
  vw_ChatServer :: string
  vw_ServerName :: string
  vw_Header :: string
  vw_Text :: string
  vw_OkText :: string
  vw_Error :: string
  vw_ErrorText :: string
  vw_Command :: string
  vw_Ver :: string
  vw_WindowSize :: string
  vw_Height :: int
  vw_BottomHeight :: int
  vw_ServerTitle :: string
  vw_TableTimeout :: int
  vw_StartAt :: string
  vw_Dev :: bool
  vw_ShowStarted :: bool
  vw_IP :: string
  vw_Port :: int
  vw_HoleHost :: string
  vw_HoleInt :: int
  vw_HolePort :: int
  vw_PlayerID :: string
  vw_MaxPl :: int
  vw_Name :: string
  vw_Room :: "room_view option"
  vw_StartedRoom :: "started_room_view option"
  vw_GGCup :: "ggcup_view option"
  vw_Player :: "player_view option"

definition zero_view :: view where
  "zero_view =
     \<lparr>vw_ID = [], vw_Type = [], vw_LoggedIn = False, vw_Password = [], vw_Nick = [], vw_Nickname = [],
      vw_ChatServer = [], vw_ServerName = [], vw_Header = [], vw_Text = [], vw_OkText = [],
      vw_Error = [], vw_ErrorText = [], vw_Command = [], vw_Ver = [], vw_WindowSize = [],
      vw_Height = 0, vw_BottomHeight = 0, vw_ServerTitle = [], vw_TableTimeout = 0, vw_StartAt = [],
      vw_Dev = False, vw_ShowStarted = False, vw_IP = [], vw_Port = 0, vw_HoleHost = [],
      vw_HoleInt = 0, vw_HolePort = 0, vw_PlayerID = [], vw_MaxPl = 0, vw_Name = [], vw_Room = None,
      vw_StartedRoom = None, vw_GGCup = None, vw_Player = None\<rparr>"

definition zero_stat_view :: started_player_stat_view where
  "zero_stat_view =
     \<lparr>sps_RealScores = 0, sps_Population = 0, sps_Population2 = 0, sps_Casuality = 0, sps_Wood = 0,
      sps_Food = 0, sps_Stone = 0, sps_Gold = 0, sps_Iron = 0, sps_Coal = 0, sps_Peasants = 0,
      sps_Units = 0, sps_ChangeWood = [], sps_ChangeFood = [], sps_ChangeStone = [],
      sps_ChangeGold = [], sps_ChangeIron = [], sps_ChangeCoal = [], sps_ChangePop2 = [],
      sps_ChangePeas = [], sps_ChangeUnits = [], sps_ChangeCoalRes = []\<rparr>"

text \<open>Executing template \<open>name\<close> for protocol version \<open>ver\<close>.\<close>

type_synonym renderer = "u8 \<Rightarrow> string \<Rightarrow> view \<Rightarrow> string"

definition IsAC :: "u8 \<Rightarrow> bool" where
  "IsAC ver \<longleftrightarrow> ver = 3 \<or> ver = 8 \<or> ver = 10"

section \<open>Rooms (room\_view.go)\<close>

text \<open>
  \<open>ks\<close> is the order in which the join times are visited. The sort is by time only, so players who
  joined at the same instant are listed in an order that depends on \<open>ks\<close>.
\<close>

definition player_at :: "room \<Rightarrow> u32 \<Rightarrow> pref option" where
  "player_at r pid = (case rm_Players r pid of None \<Rightarrow> None | Some p \<Rightarrow> p)"

definition StartedPlayerNames :: "(pref \<Rightarrow> player) \<Rightarrow> u32 list \<Rightarrow> room \<Rightarrow> string list \<times> string list" where
  "StartedPlayerNames ph ks r =
     (let ordered = sort_key (\<lambda>i. the (rm_PlayersTime r i)) ks;
          pls = map (\<lambda>q. ph q) (map the (filter (\<lambda>p. p \<noteq> None) (map (player_at r) ordered)))
      in (map pl_Nick (filter (\<lambda>pl. pl_ExitedAt pl = 0) pls),
          map pl_Nick (filter (\<lambda>pl. pl_ExitedAt pl \<noteq> 0) pls)))"

definition RoomTimeInterval :: "time \<Rightarrow> room \<Rightarrow> string" where
  "RoomTimeInterval now r =
     TimeIntervalFromElapsedSec
       (elapsed now (if rm_Started r \<and> rm_StartedAt r \<noteq> 0 then rm_StartedAt r else rm_Ctime r))"

definition BuildRoomView :: "(pref \<Rightarrow> player) \<Rightarrow> u32 list \<Rightarrow> time \<Rightarrow> room \<Rightarrow> string \<Rightarrow> room_view" where
  "BuildRoomView ph ks now r backto =
     (let (active, exited) = StartedPlayerNames ph ks r in
      \<lparr>rv_ID = rm_ID r, rv_Title = rm_Title r, rv_HostID = rm_HostID r,
       rv_HostNick = (case player_at r (rm_HostID r) of None \<Rightarrow> [] | Some q \<Rightarrow> pl_Nick (ph q)),
       rv_HostAddr = rm_HostAddr r, rv_HostAddrInt = rm_HostAddrInt r, rv_Level = rm_Level r,
       rv_Started = rm_Started r, rv_StartPlayers = rm_StartPlayers r,
       rv_PlayersCount = rm_PlayersCount r, rv_MaxPlayers = rm_MaxPlayers r, rv_Map = rm_Map r,
       rv_AI = False, rv_Password = rm_Password r, rv_Backto = backto, rv_HasExited = (exited \<noteq> []),
       rv_CtimeFormatted = format_utc (rm_Ctime r), rv_Time = RoomTimeInterval now r,
       rv_ActivePlayers = active, rv_ExitedPlayers = exited,
       rv_Players = (\<lambda>i. map_option (\<lambda>q. \<lparr>rpv_Nick = pl_Nick (ph q)\<rparr>) (player_at r i))\<rparr>)"

text \<open>
  The conversion of the tick count to 32 bits truncates the float and drops the high bits, as the
  compiler does on 64-bit machines.
\<close>

definition started_player :: "player \<Rightarrow> started_player_view" where
  "started_player pl =
     \<lparr>spv_Nick = pl_Nick pl, spv_Color = pl_Color pl, spv_Theam = pl_Theam pl,
      spv_Nation = pl_Nation pl, spv_Zombie = pl_Zombie pl, spv_Exited = (pl_ExitedAt pl \<noteq> 0),
      spv_YOff = 0,
      spv_Stat = map_option (\<lambda>st. zero_stat_view\<lparr>sps_RealScores := ps_RealScores st,
        sps_Population := ps_Population st\<rparr>) (pl_Stat pl)\<rparr>"

definition BuildStartedRoomView ::
  "(pref \<Rightarrow> player) \<Rightarrow> time \<Rightarrow> room \<Rightarrow> string \<Rightarrow> string \<Rightarrow> started_room_view" where
  "BuildStartedRoomView ph now r page res =
     (let roomTicks =
            (if rm_TimeTick r = 0 \<and> rm_StartedAt r \<noteq> 0
             then word_of_int (f64_trunc (f64_mul (Seconds (since now (rm_StartedAt r))) 25))
             else rm_TimeTick r)
      in \<lparr>srv_ID = rm_ID r, srv_Title = rm_Title r, srv_Map = rm_Map r, srv_Level = rm_Level r,
          srv_RoomTime = RoomTimeInterval now r, srv_TimeTickSecs = roomTicks div 25,
          srv_SmallColW = 49, srv_LargeColW = 54, srv_Page = (if page = [] then ''1'' else page),
          srv_Res = res,
          srv_Players = map (\<lambda>q. Some (started_player (ph q))) (rm_StartedUsers r)\<rparr>)"

section \<open>Dialogs built in code (user\_details.go, ggcup.go)\<close>

definition ln :: "string \<Rightarrow> string" where
  "ln s = s @ [CHR 0x0A]"

definition quoted :: "string \<Rightarrow> string" where
  "quoted s = [CHR 0x22] @ s @ [CHR 0x22]"

record user_details_player =
  up_ID :: u32
  up_Nick :: string
  up_ConnectedAt :: time
  up_AccountType :: string
  up_AccountLogin :: string
  up_AccountID :: string
  up_AccountProfile :: string

record user_details_room =
  ur_ID :: u32
  ur_Title :: string

definition details_head :: "bool \<Rightarrow> user_details_player \<Rightarrow> string \<Rightarrow> string list" where
  "details_head dev p connectedAgo =
     [''<NGDLG>'', ''#exec(LW_lockbox&%LBX)'', ''#exec(LW_enb&0&%RMLST)'',
      ''#ebox[%B](x:210,y:40,w:360,h:160)'', ''#pan[%MPN](%B[x:0,y:0,w:100%,h:100%],8)'',
      ''#font(WF,WF,WF)'', ''#ctxt[%TIT](%B[x:0,y:6,w:100%,h:30],{},'' @ quoted ''Player Info'' @ '')''] @
     (if dev then [''#rtxt(%B[x:280,y:6,w:70,h:30],{},'' @ quoted (''#'' @ fmt_u32 (up_ID p)) @ '')''] else []) @
     [''#font(WF,WF,WF)'', ''#txt[%L_NAME](%B[x:20,y:48,w:100,h:100],{},'' @ quoted ''Nick'' @ '')'',
      ''#font(YF,YF,YF)'', ''#txt(%B[x:105,y:48,w:200,h:100],{},'' @ quoted (CMLSafe (up_Nick p)) @ '')'',
      ''#font(WF,YF,WF)'', ''#txt[%L_CTIME](%B[x:20,y:74,w:100,h:100],{},'' @ quoted ''Connected at'' @ '')'',
      ''#font(YF,WF,WF)'',
      ''#txt(%B[x:105,y:74,w:240,h:100],{},'' @
        quoted (format_utc (up_ConnectedAt p) @ '' ('' @ connectedAgo @ '' ago)'') @ '')'']"

definition lcn_place :: "user_details_player \<Rightarrow> (string \<rightharpoonup> int) option \<Rightarrow> int option" where
  "lcn_place p lcnPlaceByID =
     (if equal_fold_ascii (up_AccountType p) ''LCN'' \<and> up_AccountID p \<noteq> []
      then Option.bind lcnPlaceByID (\<lambda>m. m (up_AccountID p)) else None)"

text \<open>The account lines, and how far down they move the next one.\<close>

definition details_account ::
  "user_details_player \<Rightarrow> (string \<rightharpoonup> int) option \<Rightarrow> string list \<times> int" where
  "details_account p lcnPlaceByID =
     (if up_AccountType p = [] then ([], 100)
      else
        ([''#font(WF,WF,WF)'', ''#txt(%B[x:20,y:100,w:100,h:100],{},'' @ quoted ''Logon with'' @ '')'',
          (if up_AccountProfile p \<noteq> []
           then ''#btn(%B[x:105,y:100,w:120,h:24],{GW|url&'' @ CMLSafe (up_AccountProfile p) @
             ''&from=user_details},'' @ quoted (CMLSafe (up_AccountType p)) @ '')''
           else ''#txt(%B[x:105,y:100,w:120,h:24],{},'' @ quoted (CMLSafe (up_AccountType p)) @ '')'')] @
         (case lcn_place p lcnPlaceByID of None \<Rightarrow> []
          | Some place \<Rightarrow>
              [''#font(YF,YF,YF)'', ''#txt(%B[x:20,y:126,w:100,h:100],{},'' @ quoted ''Place:'' @ '')'',
               ''#font(WF,WF,WF)'', ''#txt(%B[x:105,y:126,w:100,h:100],{},'' @ quoted (fmt_d place) @ '')'']),
         if lcn_place p lcnPlaceByID = None then 126 else 152))"

definition details_room :: "user_details_room option \<Rightarrow> int \<Rightarrow> string list" where
  "details_room ro y =
     (case ro of None \<Rightarrow> []
      | Some rr \<Rightarrow>
         [''#font(WF,WF,WF)'', ''#txt(%B[x:20,y:'' @ fmt_d y @ '',w:100,h:100],{},'' @ quoted ''Room'' @ '')'',
          ''#font(YF,WF,WF)'',
          ''#txt(%B[x:105,y:'' @ fmt_d y @ '',w:220,h:24],{},'' @ quoted (CMLSafe (ur_Title rr)) @ '')'',
          ''#btn(%B[x:105,y:'' @ fmt_d (y + 20) @
            '',w:44,h:24],{GW|open&join_game.dcml&ASTATE=<%ASTATE>^VE_RID='' @ fmt_u32 (ur_ID rr) @
            ''^BACKTO=user_details},'' @ quoted ''join'' @ '')'',
          ''#btn(%B[x:151,y:'' @ fmt_d (y + 20) @
            '',w:44,h:24],{GW|open&room_info_dgl.dcml&ASTATE=<%ASTATE>^VE_RID='' @ fmt_u32 (ur_ID rr) @
            ''^BACKTO=user_details},'' @ quoted ''info'' @ '')''])"

definition details_lines ::
  "bool \<Rightarrow> user_details_player \<Rightarrow> user_details_room option \<Rightarrow> (string \<rightharpoonup> int) option \<Rightarrow> string \<Rightarrow> string list" where
  "details_lines dev p ro lcnPlaceByID connectedAgo =
     (let (acc, y) = details_account p lcnPlaceByID
      in details_head dev p connectedAgo @ acc @ details_room ro y @
         [''#font(YF,WF,RF)'',
          ''#sbtn[%B_RGST](%B[xc:50%,y:100%+8,w:160,h:24],{LW_file&Internet/Cash/cancel.cml},'' @
            quoted ''Close'' @ '')'',
          ''<NGDLG>''])"

definition UserDetailsBody ::
  "bool \<Rightarrow> user_details_player \<Rightarrow> user_details_room option \<Rightarrow> (string \<rightharpoonup> int) option \<Rightarrow> string \<Rightarrow> string" where
  "UserDetailsBody dev p ro lcnPlaceByID connectedAgo =
     concat (map ln (details_lines dev p ro lcnPlaceByID connectedAgo))"

definition GGCupThanksBoxHeight :: "int \<Rightarrow> int" where
  "GGCupThanksBoxHeight n = (if n \<le> 9 then 280 else if 17 < n then 55 + (17 + 1) * 25 else 55 + n * 25)"

text \<open>\<open>pf\<close> is \<^verbatim>\<open>strconv.ParseFloat\<close>.\<close>

definition SupporterAmountString :: "(json \<Rightarrow> string) \<Rightarrow> (string \<Rightarrow> float64 option) \<Rightarrow> json \<Rightarrow> string" where
  "SupporterAmountString fv pf v =
     (case v of
        JNum t \<Rightarrow> fmt_d (f64_trunc t)
      | _ \<Rightarrow>
          let s = trim_space (sprint fv v) in
          if s = [] then ''0'' else (case pf s of Some f \<Rightarrow> fmt_d (f64_trunc f) | None \<Rightarrow> s))"

definition supporter_rows ::
  "(json \<Rightarrow> string) \<Rightarrow> (string \<Rightarrow> float64 option) \<Rightarrow> int \<Rightarrow> jobject \<Rightarrow> string" where
  "supporter_rows fv pf yoff s =
     ln ''#font(YF,YF,YF)'' @
     ln (''#txt(%B[x:20,y:'' @ fmt_d (yoff + 3) @ '',w:100%,h:25],{},'' @
       quoted (CMLSafe (sprint fv (field s ''nick''))) @ '')'') @
     ln ''#font(WF,WF,WF)'' @
     ln (''#rtxt(%B[x:100%-204,y:'' @ fmt_d (yoff + 3) @ '',w:100,h:25],{},'' @
       quoted (SupporterAmountString fv pf (field s ''amount'') @ '' RUB '') @ '')'') @
     ln (''#btn(%B[x:230,y:'' @ fmt_d yoff @ '',w:72,h:25],{GW|url&'' @
       CMLSafe (sprint fv (field s ''url'')) @ ''},'' @ quoted ''profile'' @ '')'')"

text \<open>At most 17 rows are printed; \<open>more\<close> rows are announced by one line.\<close>

fun supporter_list ::
  "(json \<Rightarrow> string) \<Rightarrow> (string \<Rightarrow> float64 option) \<Rightarrow> nat \<Rightarrow> nat \<Rightarrow> int \<Rightarrow> jobject list \<Rightarrow> string" where
  "supporter_list fv pf n i yoff [] = []"
| "supporter_list fv pf n i yoff (s # ss) =
     (if 17 < n \<and> i = 17 then
        ln ''#font(YF,YF,YF)'' @
        ln (''#txt(%B[x:20,y:'' @ fmt_d (yoff + 3) @ '',w:100%,h:25],{},'' @ quoted ''and more...'' @ '')'')
      else supporter_rows fv pf yoff s @ supporter_list fv pf n (Suc i) (yoff + 25) ss)"

definition GGCupThanksBody ::
  "(json \<Rightarrow> string) \<Rightarrow> (string \<Rightarrow> float64 option) \<Rightarrow> jobject list \<Rightarrow> string" where
  "GGCupThanksBody fv pf ss =
     ln ''<NGDLG>'' @ ln ''#exec(LW_lockbox&%LBX)'' @ ln ''#exec(LW_enb&0&%RMLST)'' @
     ln (''#ebox[%B](x:215,y:10,w:320,h:'' @ fmt_d (GGCupThanksBoxHeight (int (length ss))) @ '')'') @
     ln ''#pan[%MPN](%B[x:0,y:0,w:100%,h:100%],8)'' @ ln ''#font(WF,WF,WF)'' @
     ln (''#ctxt[%TIT](%B[x:0,y:6,w:100%,h:30],{},'' @ quoted ''Thanks for'' @ '')'') @ ln [] @
     supporter_list fv pf (length ss) 0 43 ss @
     ln [] @ ln ''#font(YF,WF,RF)'' @
     ln (''#sbtn[%B_RGST](%B[xc:50%,y:100%+8,w:160,h:24],{LW_file&Internet/Cash/cancel.cml},'' @
       quoted ''Ok'' @ '')'') @
     ln ''<NGDLG>''"

end
