(* ===== verification/Ranking.thy ===== *)
theory Ranking
  imports Render
begin

text \<open>
  The ranking cache (\<^verbatim>\<open>app/ranking/service.go\<close>): two JSON files, read again when their modification
  time changes, the index of places by account id, and the summary of the cup for the start page.

  The file system is a parameter: what \<^verbatim>\<open>os.Stat\<close> and \<^verbatim>\<open>os.ReadFile\<close> find under a path. The JSON
  decoder and the printed form of floats and composite values are parameters too.
\<close>

record file_system =
  fs_mtime :: "string \<rightharpoonup> int"
  fs_read :: "string \<rightharpoonup> bytes"

record ranking_cache =
  lcnMTime :: int
  lcnData :: "jobject option"
  lcnPlaceByID :: "(string \<rightharpoonup> int) option"
  ggCupMTime :: int
  ggCupData :: "jobject option"

definition NewCache :: ranking_cache where
  "NewCache =
     \<lparr>lcnMTime = 0, lcnData = None, lcnPlaceByID = None, ggCupMTime = 0, ggCupData = None\<rparr>"

text \<open>The index: rows that are not objects read as objects without fields.\<close>

definition row_of :: "json \<Rightarrow> jobject" where
  "row_of r = nil_map (as_object r)"

definition place_of :: "json \<Rightarrow> int" where
  "place_of v = (case v of JNum f \<Rightarrow> f64_trunc f | _ \<Rightarrow> 0)"

fun places :: "(json \<Rightarrow> string) \<Rightarrow> (string \<rightharpoonup> int) \<Rightarrow> json list \<Rightarrow> (string \<rightharpoonup> int)" where
  "places fv m [] = m"
| "places fv m (r # rs) =
     (let k = sprint fv (field (row_of r) ''id'')
      in places fv (if k \<noteq> [] then m(k \<mapsto> place_of (field (row_of r) ''place'')) else m) rs)"

definition place_index :: "(json \<Rightarrow> string) \<Rightarrow> jobject \<Rightarrow> (string \<rightharpoonup> int) option" where
  "place_index fv payload =
     (case as_object (field payload ''ranking'') of
        None \<Rightarrow> None
      | Some rk \<Rightarrow>
          (case as_array (field rk ''total'') of
             None \<Rightarrow> None
           | Some rows \<Rightarrow> Some (places fv Map.empty rows)))"

definition LoadLCN ::
  "(json \<Rightarrow> string) \<Rightarrow> json_decoder \<Rightarrow> file_system \<Rightarrow> string \<Rightarrow> ranking_cache \<Rightarrow>
    jobject option \<times> ranking_cache" where
  "LoadLCN fv json fs rawPath c =
     (let path = trim_space rawPath in
      if path = [] then (None, c)
      else
        (case fs_mtime fs path of
           None \<Rightarrow> (None, c)
         | Some mtime \<Rightarrow>
             if lcnData c \<noteq> None \<and> lcnMTime c = mtime then (lcnData c, c)
             else
               (case fs_read fs path of
                  None \<Rightarrow> (None, c)
                | Some raw \<Rightarrow>
                    (case json raw of
                       None \<Rightarrow> (None, c)
                     | Some payload \<Rightarrow>
                         (payload, c\<lparr>lcnPlaceByID := place_index fv (nil_map payload),
                            lcnMTime := mtime, lcnData := payload\<rparr>)))))"

definition wo_info :: "jobject option" where
  "wo_info = Some [''wo_info'' \<mapsto> JBool True]"

definition LoadGGCup ::
  "json_decoder \<Rightarrow> file_system \<Rightarrow> string \<Rightarrow> ranking_cache \<Rightarrow> jobject option \<times> ranking_cache" where
  "LoadGGCup json fs rawPath c =
     (let path = trim_space rawPath in
      if path = [] then (None, c)
      else
        (case fs_mtime fs path of
           None \<Rightarrow> (wo_info, c\<lparr>ggCupData := wo_info\<rparr>)
         | Some mtime \<Rightarrow>
             if ggCupData c \<noteq> None \<and> ggCupMTime c = mtime then (ggCupData c, c)
             else
               (let bad = (wo_info, c\<lparr>ggCupMTime := mtime, ggCupData := wo_info\<rparr>) in
                case fs_read fs path of
                  None \<Rightarrow> bad
                | Some raw \<Rightarrow>
                    if raw = [] then bad
                    else (case json raw of
                        None \<Rightarrow> bad
                      | Some payload \<Rightarrow> (payload, c\<lparr>ggCupMTime := mtime, ggCupData := payload\<rparr>)))))"

section \<open>The cup on the start page\<close>

definition boolFromAny :: "(json \<Rightarrow> string) \<Rightarrow> json \<Rightarrow> bool" where
  "boolFromAny fv v =
     (case v of
        JBool b \<Rightarrow> b
      | JStr s \<Rightarrow> s \<noteq> [] \<and> s \<noteq> ''0'' \<and> s \<noteq> ''false''
      | JNum f \<Rightarrow> f \<noteq> 0
      | JNull \<Rightarrow> False
      | _ \<Rightarrow> (let s = trim_space (sprint fv v) in s \<noteq> [] \<and> s \<noteq> ''0'' \<and> s \<noteq> ''false''))"

text \<open>\<open>ff\<close> is \<^verbatim>\<open>strconv.FormatFloat(t, 'f', -1, 64)\<close>.\<close>

definition anyToStringVar :: "(json \<Rightarrow> string) \<Rightarrow> (float64 \<Rightarrow> string) \<Rightarrow> json \<Rightarrow> string" where
  "anyToStringVar fv ff v =
     (case v of
        JStr s \<Rightarrow> s
      | JBool b \<Rightarrow> if b then ''1'' else ''0''
      | JNum t \<Rightarrow> if t = of_int (f64_trunc t) then fmt_d (f64_trunc t) else ff t
      | _ \<Rightarrow> trim_space (sprint fv v))"

definition BuildGGCupView ::
  "(json \<Rightarrow> string) \<Rightarrow> (float64 \<Rightarrow> string) \<Rightarrow> jobject option \<Rightarrow> ggcup_view option" where
  "BuildGGCupView fv ff gg =
     (case gg of
        None \<Rightarrow> None
      | Some m \<Rightarrow>
          let str = (\<lambda>k. case m k of None \<Rightarrow> [] | Some s \<Rightarrow> anyToStringVar fv ff s)
          in Some \<lparr>ggv_ID = str ''id'', ggv_WoInfo = boolFromAny fv (field m ''wo_info''),
               ggv_Started = boolFromAny fv (field m ''started''),
               ggv_PlayersCount = str ''players_count'',
               ggv_PlayersCountLen = int (length (str ''players_count'')),
               ggv_PrizeFund = str ''prize_fund'', ggv_PrizeFundLen = int (length (str ''prize_fund'')),
               ggv_BoxHeight = 0, ggv_Supporters = []\<rparr>)"

section \<open>Properties\<close>

text \<open>The cached index is the index of the cached ranking.\<close>

definition cache_ok :: "(json \<Rightarrow> string) \<Rightarrow> ranking_cache \<Rightarrow> bool" where
  "cache_ok fv c \<longleftrightarrow> (case lcnData c of None \<Rightarrow> True | Some d \<Rightarrow> lcnPlaceByID c = place_index fv d)"

datatype ranking_request = RequestLCN file_system string | RequestGGCup file_system string

fun ranking_step ::
  "(json \<Rightarrow> string) \<Rightarrow> json_decoder \<Rightarrow> ranking_request \<Rightarrow> ranking_cache \<Rightarrow> ranking_cache" where
  "ranking_step fv json (RequestLCN fs p) c = snd (LoadLCN fv json fs p c)"
| "ranking_step fv json (RequestGGCup fs p) c = snd (LoadGGCup json fs p c)"

lemma LoadGGCup_keeps_lcn:
  "lcnData (snd (LoadGGCup json fs p c)) = lcnData c"
  "lcnPlaceByID (snd (LoadGGCup json fs p c)) = lcnPlaceByID c"
  by (simp_all add: LoadGGCup_def Let_def split: option.splits)

lemma LoadLCN_cache_ok: "cache_ok fv c \<Longrightarrow> cache_ok fv (snd (LoadLCN fv json fs p c))"
  by (simp add: LoadLCN_def cache_ok_def nil_map_def Let_def split: option.splits)

lemma ranking_step_ok: "cache_ok fv c \<Longrightarrow> cache_ok fv (ranking_step fv json e c)"
  by (cases e) (simp add: LoadLCN_cache_ok, simp add: cache_ok_def LoadGGCup_keeps_lcn split: option.splits)

lemma ranking_run_ok: "cache_ok fv c \<Longrightarrow> cache_ok fv (fold (ranking_step fv json) es c)"
  by (induction es arbitrary: c) (simp_all add: ranking_step_ok)

lemma cache_ok_New [simp]: "cache_ok fv NewCache"
  by (simp add: cache_ok_def NewCache_def)

lemma LoadLCN_data:
  "fst (LoadLCN fv json fs p c) = Some d \<Longrightarrow> lcnData (snd (LoadLCN fv json fs p c)) = Some d"
  by (auto simp: LoadLCN_def Let_def split: option.splits if_splits)

text \<open>
  C33. Whatever files were loaded before, a player's place read after a successful load of the ranking
  is the place in the ranking that was returned: the index and the data never come from different
  versions of the file.
\<close>

theorem places_match_ranking:
  assumes "fst (LoadLCN fv json fs p (fold (ranking_step fv json) es NewCache)) = Some d"
  shows "lcnPlaceByID (snd (LoadLCN fv json fs p (fold (ranking_step fv json) es NewCache))) =
    place_index fv d"
proof -
  let ?c = "fold (ranking_step fv json) es NewCache"
  have "cache_ok fv (snd (LoadLCN fv json fs p ?c))"
    by (intro LoadLCN_cache_ok ranking_run_ok) simp
  with LoadLCN_data [OF assms] show ?thesis by (simp add: cache_ok_def)
qed

definition demo_files :: file_system where
  "demo_files = \<lparr>fs_mtime = (\<lambda>_. Some 5), fs_read = (\<lambda>_. Some ''{}'')\<rparr>"

theorem places_match_ranking_witness:
  "\<forall>fv. lcnPlaceByID (snd (LoadLCN fv (\<lambda>_. Some (Some (\<lambda>_. Some (JObj (\<lambda>_. Some (JArr []))))))
      demo_files ''f'' NewCache)) = Some Map.empty"
proof
  fix fv
  let ?d = "(\<lambda>_. Some (JObj (\<lambda>_. Some (JArr []))))"
  have t: "trim_space ''f'' = ''f''" by code_simp
  have "fst (LoadLCN fv (\<lambda>_. Some (Some ?d)) demo_files ''f'' (fold (ranking_step fv (\<lambda>_. Some (Some ?d))) [] NewCache)) =
      Some ?d"
    by (simp add: LoadLCN_def t demo_files_def NewCache_def)
  from places_match_ranking [OF this]
  show "lcnPlaceByID (snd (LoadLCN fv (\<lambda>_. Some (Some ?d)) demo_files ''f'' NewCache)) = Some Map.empty"
    by (simp add: place_index_def field_def)
qed

text \<open>
  When the cup file disappears for a while and comes back unchanged, the cup stays unavailable:
  the modification time of the file that was lost is kept with the placeholder, so the file that came
  back counts as already loaded. It is read again only after its modification time changes.
\<close>

theorem cup_stays_unavailable:
  assumes "trim_space p \<noteq> []" and "fs_mtime gone (trim_space p) = None"
    and "fs_mtime fs (trim_space p) = Some m" and "fs_mtime back (trim_space p) = Some m'"
    and "fst (LoadGGCup json fs p c) \<noteq> None"
  shows "fst (LoadGGCup json back p
      (snd (LoadGGCup json gone p (snd (LoadGGCup json fs p c))))) =
    (if m' = m then wo_info
     else fst (LoadGGCup json back p NewCache))"
proof -
  let ?c1 = "snd (LoadGGCup json fs p c)"
  have m: "ggCupMTime ?c1 = m"
    using assms by (auto simp: LoadGGCup_def Let_def split: option.splits if_splits)
  have gone: "snd (LoadGGCup json gone p ?c1) = ?c1\<lparr>ggCupData := wo_info\<rparr>"
    using assms by (simp add: LoadGGCup_def)
  have "wo_info \<noteq> None" by (simp add: wo_info_def)
  then show ?thesis
    unfolding gone using m assms(1,4) by (simp add: LoadGGCup_def Let_def NewCache_def split: option.splits)
qed

theorem cup_stays_unavailable_witness:
  "\<forall>d. fst (LoadGGCup (\<lambda>_. Some (Some d)) demo_files ''f''
      (snd (LoadGGCup (\<lambda>_. Some (Some d)) (demo_files\<lparr>fs_mtime := Map.empty\<rparr>) ''f''
        (snd (LoadGGCup (\<lambda>_. Some (Some d)) demo_files ''f'' NewCache))))) = wo_info"
proof
  fix d
  have t: "trim_space ''f'' = ''f''" by code_simp
  have "fst (LoadGGCup (\<lambda>_. Some (Some d)) demo_files ''f'' NewCache) \<noteq> None"
    by (simp add: LoadGGCup_def t demo_files_def NewCache_def)
  from cup_stays_unavailable [OF _ _ _ _ this, of "demo_files\<lparr>fs_mtime := Map.empty\<rparr>" 5 demo_files 5]
  show "fst (LoadGGCup (\<lambda>_. Some (Some d)) demo_files ''f''
      (snd (LoadGGCup (\<lambda>_. Some (Some d)) (demo_files\<lparr>fs_mtime := Map.empty\<rparr>) ''f''
        (snd (LoadGGCup (\<lambda>_. Some (Some d)) demo_files ''f'' NewCache))))) = wo_info"
    by (simp add: t demo_files_def)
qed

end
