(* ===== verification/Go_Net.thy ===== *)
theory Go_Net
  imports Go_Strings
begin

text \<open>
  IP addresses as Go's \<^verbatim>\<open>net\<close> package reads and prints them: \<^verbatim>\<open>net.ParseIP\<close> on dotted IPv4 and on
  IPv6 text, \<^verbatim>\<open>IP.To4\<close>, and the dotted form of \<^verbatim>\<open>IP.String\<close>. The connection and the \<^verbatim>\<open>proxy\<close>
  command turn the address of a client into a 32-bit number with them.
\<close>

section \<open>Dotted form\<close>

definition octet :: "string \<Rightarrow> nat option" where
  "octet s =
     (if s = [] \<or> \<not> list_all is_digit s \<or> (hd s = CHR ''0'' \<and> tl s \<noteq> []) \<or> 255 < dec_val 0 s then None
      else Some (dec_val 0 s))"

definition parse_ipv4 :: "string \<Rightarrow> nat list option" where
  "parse_ipv4 s =
     (let fs = map octet (split_on (CHR ''.'') s)
      in if length fs = 4 \<and> None \<notin> set fs then Some (map the fs) else None)"

definition dotted :: "nat list \<Rightarrow> string" where
  "dotted bs = join_with ''.'' (map nat_dec bs)"

section \<open>IPv6 text\<close>

fun hex_group :: "nat \<Rightarrow> string \<Rightarrow> nat \<times> nat \<times> string" where
  "hex_group acc [] = (0, acc, [])"
| "hex_group acc (c # s) =
     (case hex_val c of
        None \<Rightarrow> (0, acc, c # s)
      | Some d \<Rightarrow> (let (n, v, t) = hex_group (16 * acc + d) s in (Suc n, v, t)))"

text \<open>
  The loop of the parser over at most eight groups: the bytes read so far, the position of the
  ellipsis, and what is left of the text. The result is the bytes, the ellipsis and the text not
  used, or \<open>None\<close> for an error.
\<close>

fun ipv6_groups :: "nat \<Rightarrow> nat list \<Rightarrow> nat option \<Rightarrow> string \<Rightarrow> (nat list \<times> nat option \<times> string) option" where
  "ipv6_groups 0 bs e s = Some (bs, e, s)"
| "ipv6_groups (Suc k) bs e s =
     (if 16 \<le> length bs then Some (bs, e, s)
      else
        (case hex_group 0 s of (n, v, t) \<Rightarrow>
           if n = 0 \<or> 4 < n then None
           else if t \<noteq> [] \<and> hd t = CHR ''.'' then
             (if e = None \<and> length bs \<noteq> 12 \<or> 12 < length bs then None
              else (case parse_ipv4 s of None \<Rightarrow> None | Some q \<Rightarrow> Some (bs @ q, e, [])))
           else
             let bs' = bs @ [v div 256, v mod 256] in
             if t = [] then Some (bs', e, [])
             else if hd t \<noteq> CHR '':'' \<or> tl t = [] then None
             else if hd (tl t) = CHR '':'' then
               (if e \<noteq> None then None
                else if tl (tl t) = [] then Some (bs', Some (length bs'), [])
                else ipv6_groups k bs' (Some (length bs')) (tl (tl t)))
             else ipv6_groups k bs' e (tl t)))"

definition parse_ipv6 :: "string \<Rightarrow> nat list option" where
  "parse_ipv6 s =
     (if s = ''::'' then Some (replicate 16 0)
      else
        (case (if take 2 s = ''::'' then ipv6_groups 9 [] (Some 0) (drop 2 s) else ipv6_groups 9 [] None s) of
           None \<Rightarrow> None
         | Some (bs, e, t) \<Rightarrow>
             if t \<noteq> [] then None
             else (case e of
                 None \<Rightarrow> if length bs < 16 then None else Some bs
               | Some p \<Rightarrow>
                   if length bs < 16 then Some (take p bs @ replicate (16 - length bs) 0 @ drop p bs)
                   else None)))"

section \<open>ParseIP and To4\<close>

text \<open>A zone (\<^verbatim>\<open>%eth0\<close>) makes \<^verbatim>\<open>net.ParseIP\<close> fail.\<close>

fun first_mark :: "string \<Rightarrow> char option" where
  "first_mark [] = None"
| "first_mark (c # s) = (if c \<in> {CHR ''.'', CHR '':'', CHR ''%''} then Some c else first_mark s)"

definition ParseIP :: "string \<Rightarrow> nat list option" where
  "ParseIP s =
     (case first_mark s of
        Some c \<Rightarrow>
          if c = CHR ''.'' then
            map_option (\<lambda>q. replicate 10 0 @ [255, 255] @ q) (parse_ipv4 s)
          else if c = CHR '':'' \<and> CHR ''%'' \<notin> set s then parse_ipv6 s
          else None
      | None \<Rightarrow> None)"

definition To4 :: "nat list \<Rightarrow> nat list option" where
  "To4 ip = (if take 12 ip = replicate 10 0 @ [255, 255] then Some (drop 12 ip) else None)"

definition ip4 :: "string \<Rightarrow> nat list option" where
  "ip4 s = Option.bind (ParseIP s) To4"

text \<open>\<^verbatim>\<open>binary.LittleEndian.Uint32(ip)\<close> of the four bytes.\<close>

definition ip_int :: "nat list \<Rightarrow> u32" where
  "ip_int q = u32le (map char_of q)"

lemma length_parse_ipv4: "parse_ipv4 s = Some q \<Longrightarrow> length q = 4"
  by (auto simp: parse_ipv4_def Let_def split: if_splits)

lemma octet_bound: "octet s = Some n \<Longrightarrow> n < 256"
  by (auto simp: octet_def split: if_splits)

lemma octet_nat_dec: "n < 256 \<Longrightarrow> octet (nat_dec n) = Some n"
proof -
  assume n: "n < 256"
  have "hd (nat_dec n) = CHR ''0'' \<Longrightarrow> tl (nat_dec n) = []"
  proof -
    assume z: "hd (nat_dec n) = CHR ''0''"
    show ?thesis
    proof (cases "n < 10")
      case True
      then show ?thesis by (subst nat_dec.simps) simp
    next
      case False
      have "list_all (\<lambda>i. hd (nat_dec i) \<noteq> CHR ''0'') [10..<256]" by code_simp
      moreover have "n \<in> set [10..<256]" unfolding set_upt using n False by simp
      ultimately have "hd (nat_dec n) \<noteq> CHR ''0''" unfolding list_all_iff by (rule bspec)
      with z show ?thesis by simp
    qed
  qed
  then show "octet (nat_dec n) = Some n" using n by (auto simp: octet_def)
qed

lemma nat_dec_no_dot: "CHR ''.'' \<notin> set (nat_dec n)"
proof
  assume "CHR ''.'' \<in> set (nat_dec n)"
  then have "is_digit (CHR ''.'')" using list_all_is_digit_nat_dec [of n] by (auto simp: list_all_iff)
  then show False by (simp add: is_digit_def)
qed

lemma parse_dotted:
  assumes "length bs = 4" and "\<forall>b\<in>set bs. b < 256"
  shows "parse_ipv4 (dotted bs) = Some bs"
proof -
  have "split_on (CHR ''.'') (dotted bs) = map nat_dec bs"
    using assms(1) nat_dec_no_dot by (auto simp: dotted_def intro!: split_on_join_with)
  moreover have "map octet (map nat_dec bs) = map Some bs"
    using assms(2) by (simp add: octet_nat_dec)
  ultimately show ?thesis using assms(1)
    by (simp only: parse_ipv4_def Let_def) (auto simp: comp_def)
qed

end
