(* ===== verification/Server_State.thy ===== *)
theory Server_State
  imports Identity Match Runtime Ranking Go_Net
begin

text \<open>
  The state a request handler acts on: the connections (\<^verbatim>\<open>transport/tconn\<close>), the store of players and
  rooms, the alive timers, the key-value store and the ranking cache, put together as the
  \<^verbatim>\<open>Controller\<close> of \<^verbatim>\<open>app/gsc/dispatcher.go\<close> does, with the parts of the controller that are not
  commands: alive timers (\<^verbatim>\<open>controller_alive.go\<close>), leaving (\<^verbatim>\<open>controller_room.go\<close>) and account actions
  (\<^verbatim>\<open>controller_auth.go\<close>).

  A connection is a reference into \<open>st_conns\<close>; its session is reached through it only. Handlers are
  functions of the environment \<open>env\<close>: the configuration, the clock, the order in which maps are
  visited, and the outside world (HTTP, files, JSON, templates).
\<close>

section \<open>Connections (conn.go)\<close>

record connection =
  cn_ID :: nat
  cn_IP :: string
  cn_Port :: int
  cn_IntIP :: u32
  cn_Ctime :: time
  cn_Session :: "session option"
  cn_closed :: bool

text \<open>
  A new connection, from the host and port of its remote address (\<^verbatim>\<open>net.SplitHostPort\<close> of what
  \<^verbatim>\<open>RemoteAddr\<close> prints); \<open>closed\<close> is the cancelled context.
\<close>

definition NewConnection :: "nat \<Rightarrow> time \<Rightarrow> string \<Rightarrow> string \<Rightarrow> connection" where
  "NewConnection seq now host portStr =
     \<lparr>cn_ID = seq, cn_IP = host, cn_Port = fst (atoi portStr),
      cn_IntIP = (case ip4 host of None \<Rightarrow> 0 | Some q \<Rightarrow> ip_int q),
      cn_Ctime = now, cn_Session = Some new_session, cn_closed = False\<rparr>"

definition IsClosed :: "connection \<Rightarrow> bool" where
  "IsClosed c = cn_closed c"

definition Cancel :: "connection \<Rightarrow> connection" where
  "Cancel c = c\<lparr>cn_closed := True\<rparr>"

section \<open>Results of handlers\<close>

datatype handler_error =
    ErrURLNoArg
  | ErrProxyInvalidArgs string
  | ErrProxyUnauthorized
  | ErrEndgameBadArgs
  | ErrGETTBLBadArgs
  | ErrStartNoSession
  | ErrStartNotHost
  | ErrStatsBadArgs
  | ErrStatsUnknownRoom u32
  | ErrStatsNotInRoom
  | ErrStatsNoSession
  | ErrAlreadyInRoom u32
  | ErrSessionExpired
  | ErrIllegalRoomTitle
  | ErrInvalidRoomID string
  | ErrRoomNotFound u32
  | ErrRoomStarted u32
  | ErrRoomFull u32
  | ErrBadRoomPassword u32
  | ErrJoinPlayerNoRoom u32
  | ErrInvalidPlayerArg string
  | ErrPlayerNotFound u32
  | ErrResizeBadHeight string
  | ErrGGCupUnavailable
  | ErrLCNRankingUnavailable
  | ErrUsersListUnimplemented
  | ErrEnter enter_error
  | ErrUnknownCommand string
  | ErrUnknownOpenRoute string

record handle_result =
  hr_Commands :: "gsc_command list"
  hr_HasResponse :: bool
  hr_Err :: "handler_error option"

definition respond :: "gsc_command list \<Rightarrow> handle_result" where
  "respond cmds = \<lparr>hr_Commands = cmds, hr_HasResponse = True, hr_Err = None\<rparr>"

definition silent :: handle_result where
  "silent = \<lparr>hr_Commands = [], hr_HasResponse = False, hr_Err = None\<rparr>"

definition silent_err :: "handler_error \<Rightarrow> handle_result" where
  "silent_err e = \<lparr>hr_Commands = [], hr_HasResponse = False, hr_Err = Some e\<rparr>"

section \<open>The controller's state\<close>

record server =
  st_world :: "store world"
  st_session :: manager
  st_storage :: "runtime_storage option"
  st_ranking :: ranking_cache
  st_conns :: "cref \<Rightarrow> connection"
  st_posts :: "account_action list"

text \<open>
  \<open>ev_Order A\<close> is the order in which \<^verbatim>\<open>range\<close> visits a map with the keys \<open>A\<close>. \<open>ev_MakeLimit\<close> is the
  largest capacity \<^verbatim>\<open>make\<close> accepts. \<open>ev_RemoteJson\<close> decodes the endpoint stored for a host.
\<close>

record env =
  ev_Config :: config
  ev_Now :: time
  ev_Order :: "u32 set \<Rightarrow> u32 list"
  ev_Render :: renderer
  ev_Http :: http_client
  ev_LoginJson :: "bytes \<Rightarrow> login_payload option"
  ev_PayloadJson :: "start_payload \<Rightarrow> string option"
  ev_RemoteJson :: "string \<Rightarrow> endpoint option"
  ev_Files :: file_system
  ev_RankingJson :: json_decoder
  ev_Sprint :: "json \<Rightarrow> string"
  ev_FormatFloat :: "float64 \<Rightarrow> string"
  ev_ParseFloat :: "string \<Rightarrow> float64 option"
  ev_MakeLimit :: int

abbreviation ev_Game :: "env \<Rightarrow> game_config" where
  "ev_Game e \<equiv> cf_Game (ev_Config e)"

abbreviation ev_Server :: "env \<Rightarrow> server_config" where
  "ev_Server e \<equiv> cf_Server (ev_Config e)"

abbreviation ev_Providers :: "env \<Rightarrow> providers" where
  "ev_Providers e \<equiv> cf_Providers (ev_Config e)"

definition NewController :: server where
  "NewController =
     \<lparr>st_world = \<lparr>rooms_heap = (\<lambda>_. zero_room), next_rref = 0, players_heap = (\<lambda>_. zero_player),
        next_pref = 0, repo = NewStore\<rparr>,
      st_session = NewManager (150 * 1000000000), st_storage = Some NewRuntimeStorage,
      st_ranking = NewCache, st_conns = (\<lambda>_. NewConnection 0 0 [] []), st_posts = []\<rparr>"

section \<open>Access to the parts\<close>

definition conn_of :: "cref \<Rightarrow> server \<Rightarrow> connection" where
  "conn_of c st = st_conns st c"

definition set_conn :: "cref \<Rightarrow> connection \<Rightarrow> server \<Rightarrow> server" where
  "set_conn c k st = st\<lparr>st_conns := (st_conns st)(c := k)\<rparr>"

definition session_of :: "cref \<Rightarrow> server \<Rightarrow> session option" where
  "session_of c st = cn_Session (conn_of c st)"

definition set_session :: "cref \<Rightarrow> session \<Rightarrow> server \<Rightarrow> server" where
  "set_session c s st = set_conn c ((conn_of c st)\<lparr>cn_Session := Some s\<rparr>) st"

definition on_world :: "(store world \<Rightarrow> store world) \<Rightarrow> server \<Rightarrow> server" where
  "on_world f st = st\<lparr>st_world := f (st_world st)\<rparr>"

definition on_session :: "(manager \<Rightarrow> manager) \<Rightarrow> server \<Rightarrow> server" where
  "on_session f st = st\<lparr>st_session := f (st_session st)\<rparr>"

abbreviation store_of :: "server \<Rightarrow> store" where
  "store_of st \<equiv> repo (st_world st)"

abbreviation room_at :: "server \<Rightarrow> rref \<Rightarrow> room" where
  "room_at st p \<equiv> rooms_heap (st_world st) p"

text \<open>The player id of a session, 0 without one.\<close>

definition player_id :: "cref \<Rightarrow> server \<Rightarrow> u32" where
  "player_id c st = (case session_of c st of None \<Rightarrow> 0 | Some s \<Rightarrow> ss_PlayerID s)"

text \<open>\<^verbatim>\<open>ensureSession\<close>: the session of the connection, created when there is none.\<close>

definition ensureSession :: "cref \<Rightarrow> server \<Rightarrow> session \<times> server" where
  "ensureSession c st =
     (case session_of c st of
        Some s \<Rightarrow> (s, st)
      | None \<Rightarrow> (new_session, set_session c new_session st))"

lemma server_select [simp]:
  "st_world (on_world f st) = f (st_world st)"
  "st_session (on_world f st) = st_session st"
  "st_storage (on_world f st) = st_storage st"
  "st_conns (on_world f st) = st_conns st"
  "st_posts (on_world f st) = st_posts st"
  "st_world (on_session g st) = st_world st"
  "st_session (on_session g st) = g (st_session st)"
  "st_storage (on_session g st) = st_storage st"
  "st_conns (on_session g st) = st_conns st"
  "st_posts (on_session g st) = st_posts st"
  "st_world (set_conn c k st) = st_world st"
  "st_session (set_conn c k st) = st_session st"
  "st_storage (set_conn c k st) = st_storage st"
  "st_posts (set_conn c k st) = st_posts st"
  "st_conns (set_conn c k st) = (st_conns st)(c := k)"
  by (simp_all add: on_world_def on_session_def set_conn_def)

lemma session_select [simp]:
  "st_world (set_session c s st) = st_world st"
  "st_session (set_session c s st) = st_session st"
  "st_storage (set_session c s st) = st_storage st"
  "session_of c (set_session c s st) = Some s"
  "session_of c (on_world f st) = session_of c st"
  "session_of c (on_session g st) = session_of c st"
  "conn_of c (on_world f st) = conn_of c st"
  "conn_of c (on_session g st) = conn_of c st"
  "conn_of c (set_conn c k st) = k"
  by (simp_all add: set_session_def session_of_def conn_of_def)

lemma ensureSession_select [simp]:
  "st_world (snd (ensureSession c st)) = st_world st"
  "st_session (snd (ensureSession c st)) = st_session st"
  "st_storage (snd (ensureSession c st)) = st_storage st"
  by (simp_all add: ensureSession_def split: option.splits)

section \<open>Alive timers (controller\_alive.go)\<close>

definition armAliveTimer :: "env \<Rightarrow> u32 \<Rightarrow> server \<Rightarrow> server" where
  "armAliveTimer e playerID st = on_session (ArmTimer (ev_Now e) playerID) st"

definition clearAliveTimer :: "u32 \<Rightarrow> server \<Rightarrow> server" where
  "clearAliveTimer playerID st = on_session (ClearTimer playerID) st"

definition refreshAlive :: "env \<Rightarrow> cref \<Rightarrow> server \<Rightarrow> server" where
  "refreshAlive e c st =
     (case ensureSession c st of (s, st1) \<Rightarrow>
        let st2 = set_session c (s\<lparr>ss_AliveAt := ev_Now e\<rparr>) st1 in
        if ss_PlayerID s = 0 then st2 else armAliveTimer e (ss_PlayerID s) st2)"

section \<open>Leaving (controller\_room.go)\<close>

definition leaveRoomByID :: "env \<Rightarrow> u32 \<Rightarrow> server \<Rightarrow> server" where
  "leaveRoomByID e playerID st =
     on_world (\<lambda>w. snd (Leave RoomRepoAdapter (ev_Now e) playerID w)) (clearAliveTimer playerID st)"

definition leaveRoom :: "env \<Rightarrow> cref \<Rightarrow> server \<Rightarrow> server" where
  "leaveRoom e c st = (if player_id c st = 0 then st else leaveRoomByID e (player_id c st) st)"

definition notAlive :: "env \<Rightarrow> u32 \<Rightarrow> server \<Rightarrow> server" where
  "notAlive e playerID st = on_session (Unregister playerID) (leaveRoomByID e playerID st)"

definition OnDisconnect :: "env \<Rightarrow> cref \<Rightarrow> server \<Rightarrow> server" where
  "OnDisconnect e c st =
     (let i = player_id c st in
      if i = 0 then st
      else
        let st1 = clearAliveTimer i st;
            st2 = on_session (Unregister i) st1;
            st3 = leaveRoomByID e i st2
        in on_world (set_repo (DeletePlayer i)) st3)"

section \<open>Account actions (controller\_auth.go)\<close>

definition postAccountAction :: "env \<Rightarrow> cref \<Rightarrow> string \<Rightarrow> start_payload option \<Rightarrow> server \<Rightarrow> server" where
  "postAccountAction e c action payload st =
     (case Option.bind (session_of c st) ss_Account of
        None \<Rightarrow> st
      | Some acc \<Rightarrow>
          (case PostAccountAction (ev_Providers e) (unix_time (ev_Now e))
              (account_type_string (ac_Type acc)) (ac_ID acc) (cn_IP (conn_of c st)) action
              (Option.bind payload (ev_PayloadJson e)) of
             None \<Rightarrow> st
           | Some post \<Rightarrow> st\<lparr>st_posts := st_posts st @ [post]\<rparr>))"

lemma controller_world [simp]:
  "st_world (armAliveTimer e i st) = st_world st"
  "st_world (clearAliveTimer i st) = st_world st"
  "st_world (leaveRoomByID e i st) = snd (Leave RoomRepoAdapter (ev_Now e) i (st_world st))"
  "st_world (notAlive e i st) = snd (Leave RoomRepoAdapter (ev_Now e) i (st_world st))"
  by (simp_all add: armAliveTimer_def clearAliveTimer_def leaveRoomByID_def notAlive_def)

lemma refreshAlive_world [simp]: "st_world (refreshAlive e c st) = st_world st"
proof (cases "ensureSession c st")
  case (Pair s st1)
  then have "st_world st1 = st_world st" using ensureSession_select(1) [of c st] by simp
  then show ?thesis by (simp add: refreshAlive_def Pair Let_def)
qed

lemma postAccountAction_select [simp]:
  "st_world (postAccountAction e c a p st) = st_world st"
  "st_session (postAccountAction e c a p st) = st_session st"
  "st_conns (postAccountAction e c a p st) = st_conns st"
  by (simp_all add: postAccountAction_def split: option.splits)

end
