(* ===== verification/Commands.thy ===== *)
theory Commands
  imports Server_State
begin

text \<open>
  The command handlers of \<^verbatim>\<open>app/gsc/commands\<close>, one definition per \<^verbatim>\<open>Handle\<close> method: what the handler
  answers and the state it leaves. The routes behind \<^verbatim>\<open>open\<close> and \<^verbatim>\<open>go\<close> are the parameter \<open>dispatch\<close>,
  the interface \<^verbatim>\<open>RouteDispatcher\<close> of the source; \<^verbatim>\<open>Dispatcher\<close> supplies them.

  Only \<^verbatim>\<open>start\<close> can panic, so only it returns an \<open>outcome\<close>.
\<close>

section \<open>login, echo, url (simple.go)\<close>

definition Login_Handle :: handle_result where
  "Login_Handle = respond (Show '':GW|open&enter.dcml'')"

definition Echo_Handle :: "string list \<Rightarrow> handle_result" where
  "Echo_Handle args = respond (Echo_cmds args)"

definition URL_Handle :: "string list \<Rightarrow> handle_result" where
  "URL_Handle args =
     (case args of [] \<Rightarrow> silent_err ErrURLNoArg | a # _ \<Rightarrow> respond (Time_cmds ''0'' (''open:'' @ a)))"

section \<open>proxy (proxy.go)\<close>

definition Proxy_Handle :: "string \<Rightarrow> cref \<Rightarrow> string list \<Rightarrow> server \<Rightarrow> handle_result \<times> server" where
  "Proxy_Handle key c args st =
     (let k = conn_of c st;
          reject = (\<lambda>err. (silent_err err, set_conn c (Cancel k) st))
      in
        if length args < 3 then reject (ErrProxyInvalidArgs ''missing ip/port/key'')
        else if key = [] \<or> args ! 2 \<noteq> key then reject ErrProxyUnauthorized
        else
          (case ip4 (trim_space (args ! 0)) of
             None \<Rightarrow> reject (ErrProxyInvalidArgs ''bad ip'')
           | Some ip \<Rightarrow>
               (case atoi (trim_space (args ! 1)) of (portNum, ok) \<Rightarrow>
                  if \<not> ok \<or> portNum \<le> 0 \<or> 0xFFFF \<le> portNum
                  then reject (ErrProxyInvalidArgs ''bad port'')
                  else (silent, set_conn c (k\<lparr>cn_IP := dotted ip, cn_IntIP := ip_int ip,
                         cn_Port := portNum\<rparr>) st))))"

section \<open>leave, alive, endgame (leave.go, alive.go, endgame.go)\<close>

definition Leave_Handle :: "env \<Rightarrow> cref \<Rightarrow> server \<Rightarrow> handle_result \<times> server" where
  "Leave_Handle e c st =
     (let i = player_id c st in
      if i = 0 then (silent, st)
      else
        let st1 = on_session (ClearTimer i) st
        in (silent, on_world (\<lambda>w. snd (Leave RoomRepoAdapter (ev_Now e) i w)) st1))"

definition Alive_Handle :: "env \<Rightarrow> cref \<Rightarrow> server \<Rightarrow> handle_result \<times> server" where
  "Alive_Handle e c st = (silent, refreshAlive e c st)"

definition lookup_player :: "server \<Rightarrow> u32 \<Rightarrow> player option" where
  "lookup_player st i = map_option (players_heap (st_world st)) (GetPlayer i (store_of st))"

definition lookup_room :: "server \<Rightarrow> u32 \<Rightarrow> room option" where
  "lookup_room st i = map_option (room_at st) (GetRoom i (store_of st))"

text \<open>The event of an \<^verbatim>\<open>endgame\<close> is logged only.\<close>

definition Endgame_Handle :: "cref \<Rightarrow> string list \<Rightarrow> server \<Rightarrow> handle_result \<times> server" where
  "Endgame_Handle c args st =
     (case ParseEndgame args (player_id c st) (lookup_player st) (lookup_room st) of
        None \<Rightarrow> (silent_err ErrEndgameBadArgs, st)
      | Some ev \<Rightarrow> (silent, st))"

section \<open>GETTBL (gettbl.go)\<close>

fun unpackU32LE :: "bytes \<Rightarrow> u32 list" where
  "unpackU32LE (a # b # c # d # s) = u32le [a, b, c, d] # unpackU32LE s"
| "unpackU32LE _ = []"

definition packU32LE :: "u32 list \<Rightarrow> bytes" where
  "packU32LE v = concat (map le32 v)"

definition hide_started :: "bool \<Rightarrow> cref \<Rightarrow> server \<Rightarrow> bool" where
  "hide_started showStarted c st =
     ((case session_of c st of None \<Rightarrow> True | Some s \<Rightarrow> \<not> ss_Dev s) \<and> \<not> showStarted)"

text \<open>The sums the client has to drop, and the rooms it does not know yet.\<close>

definition gettbl_dropped :: "bool \<Rightarrow> u32 list \<Rightarrow> server \<Rightarrow> u32 list" where
  "gettbl_dropped hide wanted st =
     filter (\<lambda>c. case GetRoomBySum c (store_of st) of
         None \<Rightarrow> True | Some p \<Rightarrow> hide \<and> rm_Started (room_at st p)) wanted"

definition gettbl_rooms :: "env \<Rightarrow> bool \<Rightarrow> bytes \<Rightarrow> u8 \<Rightarrow> u32 list \<Rightarrow> server \<Rightarrow> room list" where
  "gettbl_rooms e hide name ver wanted st =
     filter (\<lambda>r. \<not> (hide \<and> rm_Started r) \<and>
         equal_fold_ascii name (''ROOMS_V'' @ nat_dec (unat ver)) \<and> rm_CtlSum r \<notin> set wanted)
       (map (room_at st) (AllRooms (ev_Order e (dom (roomsByID (store_of st)))) (store_of st)))"

definition GETTBL_Handle ::
  "env \<Rightarrow> cref \<Rightarrow> gsc_stream \<Rightarrow> string list \<Rightarrow> server \<Rightarrow> handle_result" where
  "GETTBL_Handle e c req args st =
     (if length args < 3
      then \<lparr>hr_Commands = [], hr_HasResponse = True, hr_Err = Some ErrGETTBLBadArgs\<rparr>
      else
        let name = trim_nul (args ! 0);
            wanted = unpackU32LE (args ! 2);
            hide = hide_started (gm_ShowStartedRooms (ev_Game e)) c st;
            dropped = gettbl_dropped hide wanted st;
            rows = map rm_Row (gettbl_rooms e hide name (Ver req) wanted st)
        in respond
          [\<lparr>Name = ''LW_dtbl'', Args = [name @ [CHR 0x00], packU32LE dropped]\<rparr>,
           \<lparr>Name = ''LW_tbl'', Args = [name @ [CHR 0x00], nat_dec (length rows)] @ concat rows\<rparr>])"

section \<open>start (start.go)\<close>

definition start_arg :: "string list \<Rightarrow> nat \<Rightarrow> string" where
  "start_arg args i = (if i < length args then trim_right_nul (args ! i) else [])"

definition arm_all :: "env \<Rightarrow> u32 list \<Rightarrow> server \<Rightarrow> server" where
  "arm_all e ids st = fold (armAliveTimer e) ids st"

definition Start_Handle ::
  "env \<Rightarrow> cref \<Rightarrow> string list \<Rightarrow> server \<Rightarrow> (unit, handle_result \<times> server) outcome" where
  "Start_Handle e c args st =
     (let i = player_id c st in
      if i = 0 then Ok (silent_err ErrStartNoSession, st)
      else
        (case GetRoomByHost i (store_of st) of
           None \<Rightarrow> Ok (silent_err ErrStartNotHost, st)
         | Some p \<Rightarrow>
             let sav = start_arg args 0; mapName = start_arg args 1;
                 st1 = on_world (MarkStarted RoomRepoAdapter (ev_Now e) (Some p) sav mapName) st;
                 st2 = arm_all e (ev_Order e (dom (rm_Players (room_at st1 p)))) st1;
                 st3 = (if i = rm_HostID (room_at st2 p)
                        then on_world (ApplyStartedUsers (Some p) args) st2 else st2)
             in
               (case BuildStartAccountPayload (ev_MakeLimit e) (Some (room_at st3 p)) args sav mapName
                   (lookup_player st3) of
                  Panic \<Rightarrow> Panic
                | Fail u \<Rightarrow> Ok (silent, st3)
                | Ok None \<Rightarrow> Ok (silent, st3)
                | Ok (Some payload) \<Rightarrow> Ok (silent, postAccountAction e c ''start'' (Some payload) st3))))"

section \<open>stats (stats.go)\<close>

definition Stats_Handle :: "env \<Rightarrow> cref \<Rightarrow> string list \<Rightarrow> server \<Rightarrow> handle_result \<times> server" where
  "Stats_Handle e c args st0 =
     (let st = refreshAlive e c st0 in
      if length args < 2 then (silent_err ErrStatsBadArgs, st)
      else
        (case IntArg (args ! 1) of (n, ok) \<Rightarrow>
           if \<not> ok then (silent_err ErrStatsBadArgs, st)
           else
             (case GetRoom (low32 n) (store_of st) of
                None \<Rightarrow> (silent_err (ErrStatsUnknownRoom (low32 n)), st)
              | Some p \<Rightarrow>
                  let i = player_id c st in
                  if i = 0 then (silent_err ErrStatsNoSession, st)
                  else
                    let st1 = on_world (set_repo (Store_RoomMu (low32 n))) st in
                    (case player_at (room_at st1 p) i of
                       None \<Rightarrow> (silent_err ErrStatsNotInRoom, st1)
                     | Some q \<Rightarrow>
                         (silent, on_world (\<lambda>w. snd (UpdateStat (Some q) (Some p) (args ! 0) w)) st1)))))"

section \<open>open and go (route\_open.go)\<close>

type_synonym params = "string \<rightharpoonup> string"
type_synonym route_result = "(gsc_command list \<times> handler_error option) \<times> server"
type_synonym dispatch = "string \<Rightarrow> params \<Rightarrow> server \<Rightarrow> route_result"

definition isOpenParamKeyByte :: "char \<Rightarrow> bool" where
  "isOpenParamKeyByte b =
     (let n = of_char b :: nat in
      65 \<le> n \<and> n \<le> 90 \<or> 97 \<le> n \<and> n \<le> 122 \<or> 48 \<le> n \<and> n \<le> 57 \<or> b = CHR ''_'')"

text \<open>Does a key and an equals sign follow here?\<close>

definition key_follows :: "string \<Rightarrow> bool" where
  "key_follows s = (case dropWhile isOpenParamKeyByte s of [] \<Rightarrow> False | b # _ \<Rightarrow> b = CHR ''='')"

text \<open>The value up to the separator of the next pair, and the text from that pair on.\<close>

fun next_pair :: "string \<Rightarrow> (string \<times> string) option" where
  "next_pair [] = None"
| "next_pair (c # s) =
     (if c = CHR ''^'' \<and> key_follows s then Some ([], s)
      else map_option (\<lambda>(v, t). (c # v, t)) (next_pair s))"

lemma length_next_pair: "next_pair s = Some (v, t) \<Longrightarrow> length v + length t < length s"
  by (induction s arbitrary: v t) (auto split: if_splits)

lemma length_cut_at: "cut_at c s = Some (k, r) \<Longrightarrow> length k + length r < length s"
  by (induction s arbitrary: k r) (auto split: if_splits option.splits)

function open_params :: "string \<Rightarrow> params \<Rightarrow> params" where
  "open_params ps m =
     (case cut_at (CHR ''='') ps of
        None \<Rightarrow> m
      | Some (key, rest) \<Rightarrow>
          if key = [] then m
          else (case next_pair rest of
              None \<Rightarrow> m(key \<mapsto> rest)
            | Some (v, t) \<Rightarrow> open_params t (m(key \<mapsto> v))))"
  by pat_completeness auto
termination
  by (relation "measure (\<lambda>(ps, m). length ps)") (auto dest!: length_next_pair length_cut_at)

declare open_params.simps [simp del]

definition ParseOpenParams :: "string \<Rightarrow> params" where
  "ParseOpenParams ps = open_params ps Map.empty"

definition no_nul :: "string \<Rightarrow> string" where
  "no_nul s = replace_char (CHR 0x00) [] s"

definition Open_Handle :: "dispatch \<Rightarrow> string list \<Rightarrow> server \<Rightarrow> handle_result \<times> server" where
  "Open_Handle dispatch args st =
     (case args of
        [] \<Rightarrow> (respond [], st)
      | a # others \<Rightarrow>
          let url = trim_suffix (trim_space (no_nul a)) ''.dcml'';
              params = (case others of [] \<Rightarrow> Map.empty | b # _ \<Rightarrow> ParseOpenParams (no_nul b))
          in (case dispatch url params st of ((cmds, err), st') \<Rightarrow>
                (\<lparr>hr_Commands = cmds, hr_HasResponse = True, hr_Err = err\<rparr>, st')))"

fun go_params :: "string list \<Rightarrow> params \<Rightarrow> params" where
  "go_params [] m = m"
| "go_params (a # as) m =
     (case cut_at (CHR ''='') a of
        Some (k, v) \<Rightarrow> go_params as (m(k \<mapsto> v))
      | None \<Rightarrow>
          if has_suffix a '':='' \<and> as \<noteq> [] then go_params (tl as) (m(trim_suffix a '':='' \<mapsto> hd as))
          else go_params as m)"

definition Go_Handle :: "dispatch \<Rightarrow> string list \<Rightarrow> server \<Rightarrow> handle_result \<times> server" where
  "Go_Handle dispatch args st =
     (case args of
        [] \<Rightarrow> (respond [], st)
      | method # others \<Rightarrow>
          (case dispatch method (go_params others Map.empty) st of ((cmds, err), st') \<Rightarrow>
             (\<lparr>hr_Commands = cmds, hr_HasResponse = True, hr_Err = err\<rparr>, st')))"

end
