(* ===== verification/Routes.thy ===== *)
theory Routes
  imports Commands
begin

text \<open>
  The open routes of \<^verbatim>\<open>app/gsc/routes\<close>, one definition per route: the commands and the error it
  returns and the state it leaves. The dependencies a route can be built without are all present in
  the server, so the nil checks on them are not branches of the model; a missing request is
  (\<^verbatim>\<open>join_game.go\<close> and \<^verbatim>\<open>room_info.go\<close> default the protocol version to 2).
\<close>

section \<open>Rendering (routes.go, resize.go)\<close>

definition render_show :: "env \<Rightarrow> u8 \<Rightarrow> string \<Rightarrow> view \<Rightarrow> gsc_command list" where
  "render_show e ver name v = Show (ev_Render e ver name v)"

definition renderAlert :: "env \<Rightarrow> u8 \<Rightarrow> string \<Rightarrow> string \<Rightarrow> gsc_command list" where
  "renderAlert e ver header txt =
     render_show e ver ''alert_dgl.tmpl'' (zero_view\<lparr>vw_Header := header, vw_Text := txt\<rparr>)"

definition WindowSize :: "session option \<Rightarrow> string" where
  "WindowSize so =
     (case so of None \<Rightarrow> ''small'' | Some s \<Rightarrow> if 366 < ss_WindowH s then ''large'' else ''small'')"

definition ver_text :: "u8 \<Rightarrow> string" where
  "ver_text ver = nat_dec (unat ver)"

definition text_lines :: "string list \<Rightarrow> string" where
  "text_lines ls = join_with [CHR 0x0A] ls"

definition already_in_room :: string where
  "already_in_room = text_lines
     [''You can not create or join room!'', ''You are already participate in some room'',
      ''Please disconnect from that room first to create a new one'']"

definition ng_dialog :: "gsc_command list" where
  "ng_dialog = Show (text_lines [''<NGDLG>'', ''<NGDLG>''])"

text \<open>The client's claim that it is in no room: \<^verbatim>\<open>ASTATE\<close> is neither empty nor 0.\<close>

definition astate_free :: "params \<Rightarrow> bool" where
  "astate_free p \<longleftrightarrow> get p ''ASTATE'' \<noteq> [] \<and> get p ''ASTATE'' \<noteq> ''0''"

section \<open>enter and try\_enter (enter.go, try\_enter.go)\<close>

definition RenderEnter ::
  "env \<Rightarrow> gsc_stream \<Rightarrow> string \<Rightarrow> string \<Rightarrow> string \<Rightarrow> string \<Rightarrow> string \<Rightarrow> gsc_command list" where
  "RenderEnter e req loginType errText loggedIn nick i =
     render_show e (Ver req) ''enter.tmpl''
       (zero_view\<lparr>vw_Type := loginType, vw_Error := errText, vw_LoggedIn := (loggedIn = ''1''),
         vw_Nick := nick, vw_Nickname := nick, vw_ID := i, vw_ChatServer := gm_ChatServer (ev_Game e),
         vw_ServerTitle := gm_ServerTitle (ev_Game e), vw_TableTimeout := gm_TableTimeout (ev_Game e),
         vw_Ver := ver_text (Ver req), vw_ServerName := sv_HostName (ev_Server e)\<rparr>)"

definition Enter :: "env \<Rightarrow> cref \<Rightarrow> gsc_stream \<Rightarrow> params \<Rightarrow> server \<Rightarrow> route_result" where
  "Enter e c req p st =
     (case Option.bind (session_of c st) ss_Account of
        Some acc \<Rightarrow>
          if account_type_string (ac_Type acc) \<noteq> []
          then ((RenderEnter e req (account_type_string (ac_Type acc)) [] ''1'' (ac_Login acc) (ac_ID acc), None), st)
          else ((RenderEnter e req (get p ''TYPE'') [] [] [] [], None), st)
      | None \<Rightarrow> ((RenderEnter e req (get p ''TYPE'') [] [] [] [], None), st))"

text \<open>The player a connection enters with, under its id.\<close>

definition entered_player :: "u32 \<Rightarrow> string \<Rightarrow> time \<Rightarrow> account_info option \<Rightarrow> player" where
  "entered_player i nick ctime ao =
     (let pl = zero_player\<lparr>pl_ID := i, pl_Nick := nick, pl_ConnectedAt := ctime\<rparr> in
      case ao of
        None \<Rightarrow> pl
      | Some acc \<Rightarrow> pl\<lparr>pl_AccountType := account_type_string (ac_Type acc),
          pl_AccountLogin := ac_Login acc, pl_AccountID := ac_ID acc,
          pl_AccountProfile := ac_Profile acc\<rparr>)"

definition upsert_new :: "player \<Rightarrow> server \<Rightarrow> server" where
  "upsert_new pl st =
     on_world (\<lambda>w. case alloc_player pl w of (q, w') \<Rightarrow> set_repo (SetPlayer (Some (q, pl))) w') st"

definition successEnter ::
  "env \<Rightarrow> cref \<Rightarrow> gsc_stream \<Rightarrow> string \<Rightarrow> server \<Rightarrow> gsc_command list \<times> server" where
  "successEnter e c req nick st0 =
     (case ensureSession c st0 of (sess, st) \<Rightarrow>
        let (i, st1) =
              (if 0 < ss_PlayerID sess then (ss_PlayerID sess, leaveRoomByID e (ss_PlayerID sess) st)
               else (case NextPlayerID (store_of st) of (i, s) \<Rightarrow>
                   (i, on_world (\<lambda>w. w\<lparr>repo := s\<rparr>) st)));
            st2 = upsert_new (entered_player i nick (cn_Ctime (conn_of c st1)) (ss_Account sess)) st1;
            st3 = set_session c (sess\<lparr>ss_PlayerID := i, ss_Nick := nick\<rparr>) st2;
            st4 = on_session (Register i c) st3
        in (render_show e (Ver req) ''ok_enter.tmpl''
              (zero_view\<lparr>vw_Nick := nick, vw_Nickname := nick, vw_ID := fmt_u32 i,
                vw_ChatServer := gm_ChatServer (ev_Game e), vw_WindowSize := WindowSize (session_of c st4),
                vw_Ver := ver_text (Ver req)\<rparr>), st4))"

definition apply_decision :: "enter_decision \<Rightarrow> session \<Rightarrow> session" where
  "apply_decision d s =
     (let s1 = (case ed_DevFlag d of None \<Rightarrow> s | Some b \<Rightarrow> s\<lparr>ss_Dev := b\<rparr>);
          s2 = (if ed_SetHeight d \<noteq> 0 then s1\<lparr>ss_WindowH := ed_SetHeight d\<rparr> else s1)
      in if ed_ClearAccount d then s2\<lparr>ss_Account := None\<rparr> else s2)"

definition TryEnter :: "env \<Rightarrow> cref \<Rightarrow> gsc_stream \<Rightarrow> params \<Rightarrow> server \<Rightarrow> route_result" where
  "TryEnter e c req p st0 =
     (case ensureSession c st0 of (s, st) \<Rightarrow>
        let d = TryEnterDecide (Authenticate (ev_Http e) (ev_LoginJson e) (ev_Providers e))
              (ParseEnterRequest p (ss_Account s) (cn_IP (conn_of c st)));
            s1 = apply_decision d s;
            err = map_option ErrEnter (ed_Err d)
        in (case ed_Kind d of
              EnterRender \<Rightarrow>
                ((RenderEnter e req (ed_LoginType d) (ed_Message d) [] [] [], err), set_session c s1 st)
            | EnterRenderErrorPage \<Rightarrow>
                ((render_show e (Ver req) ''error_enter.tmpl'' (zero_view\<lparr>vw_Text := ed_Message d\<rparr>), err),
                 set_session c s1 st)
            | EnterSuccess \<Rightarrow>
                let s2 = (case ed_Account d of None \<Rightarrow> s1 | Some acc \<Rightarrow> s1\<lparr>ss_Account := Some acc\<rparr>);
                    st1 = set_session c s2 st;
                    st2 = (if ed_RunPostAccountAction d then postAccountAction e c ''enter'' None st1 else st1)
                in (case successEnter e c req (ed_Nick d) st2 of (cmds, st3) \<Rightarrow> ((cmds, err), st3))))"

section \<open>Rooms (reg\_new\_room.go, join\_game.go, room\_info.go, join\_player.go)\<close>

definition reg_max_players :: "params \<Rightarrow> int" where
  "reg_max_players p = (case atoi (get p ''VE_MAX_PL'') of (v, ok) \<Rightarrow> if ok then wrap64 (v + 2) else 8)"

definition reg_level :: "params \<Rightarrow> int" where
  "reg_level p = (case atoi (get p ''VE_LEVEL'') of (v, ok) \<Rightarrow> if ok then v else 0)"

definition reg_params :: "env \<Rightarrow> connection \<Rightarrow> session \<Rightarrow> gsc_stream \<Rightarrow> params \<Rightarrow> pref option \<Rightarrow> register_new_params" where
  "reg_params e k s req p host =
     \<lparr>rp_Host = host, rp_HostAddr = cn_IP k, rp_HostAddrInt = cn_IntIP k, rp_Ver = Ver req,
      rp_Title = NormalizeTitle (get p ''VE_TITLE''), rp_Password = get p ''VE_PASSWD'',
      rp_MaxPlayers = reg_max_players p, rp_Level = reg_level p, rp_LevelLabel = LevelLabel (reg_level p),
      rp_LockMark = (if get p ''VE_PASSWD'' \<noteq> [] then ''#'' else []), rp_NickStr = ss_Nick s,
      rp_VEType = get p ''VE_TYPE'', rp_IsAC = IsAC (Ver req)\<rparr>"

definition RegNewRoom :: "env \<Rightarrow> cref \<Rightarrow> gsc_stream \<Rightarrow> params \<Rightarrow> server \<Rightarrow> route_result" where
  "RegNewRoom e c req p st =
     (if \<not> astate_free p
      then ((renderAlert e (Ver req) ''Error'' already_in_room, Some (ErrAlreadyInRoom (player_id c st))), st)
      else
        (case session_of c st of
           None \<Rightarrow> ((renderAlert e (Ver req) ''Error'' ''Your was disconnected from the server. Enter again.'',
               Some ErrSessionExpired), st)
         | Some s \<Rightarrow>
             if ss_PlayerID s = 0 \<or> ss_Nick s = []
             then ((renderAlert e (Ver req) ''Error'' ''Your was disconnected from the server. Enter again.'',
               Some ErrSessionExpired), st)
             else if \<not> ValidateTitle (get p ''VE_TITLE'')
             then ((render_show e (Ver req) ''confirm_dgl.tmpl''
                 (zero_view\<lparr>vw_Header := ''Error'',
                   vw_Text := text_lines [''Illegal title!'', ''Press Edit button to check title''],
                   vw_OkText := ''Edit'', vw_Height := 180,
                   vw_Command := ''GW|open&new_room_dgl.dcml&ASTATE=<%ASTATE>''\<rparr>),
               Some ErrIllegalRoomTitle), st)
             else
               let i = ss_PlayerID s;
                   st1 = leaveRoomByID e i st;
                   hostName = (if sv_HostName (ev_Server e) = [] then cn_IP (conn_of c st1)
                     else sv_HostName (ev_Server e));
                   rp = reg_params e (conn_of c st1) s req p (GetPlayer i (store_of st1));
                   (r, w) = RegisterNew RoomRepoAdapter (ev_Now e) rp (st_world st1);
                   st2 = armAliveTimer e i (st1\<lparr>st_world := w\<rparr>);
                   gameID = (if get p ''VE_TYPE'' \<noteq> [] then ''HB'' else []) @ fmt_u32 (rm_ID (room_at st2 r))
               in ((render_show e (Ver req) ''reg_new_room.tmpl''
                     (zero_view\<lparr>vw_PlayerID := fmt_u32 i, vw_HolePort := sv_HolePort (ev_Server e),
                       vw_HoleHost := hostName, vw_HoleInt := gm_HoleInterval (ev_Game e), vw_ID := gameID,
                       vw_Name := rp_Title rp, vw_MaxPl := rp_MaxPlayers rp\<rparr>), None), st2)))"

definition req_ver :: "gsc_stream option \<Rightarrow> u8" where
  "req_ver req = (case req of None \<Rightarrow> 2 | Some r \<Rightarrow> Ver r)"

text \<open>The address to join: what the host announced by UDP, or where its connection came from.\<close>

definition join_endpoint :: "env \<Rightarrow> room \<Rightarrow> server \<Rightarrow> endpoint \<times> server" where
  "join_endpoint e r st =
     (case Storage_Get (ev_Now e) (fmt_u32 (rm_HostID r)) (st_storage st) of
        (Inl _, kv) \<Rightarrow> ((rm_HostAddr r, 0), st\<lparr>st_storage := kv\<rparr>)
      | (Inr raw, kv) \<Rightarrow>
          (case ev_RemoteJson e raw of
             None \<Rightarrow> ((rm_HostAddr r, 0), st\<lparr>st_storage := kv\<rparr>)
           | Some remote \<Rightarrow> (remote, st\<lparr>st_storage := kv\<rparr>)))"

definition join_room_checked :: "env \<Rightarrow> cref \<Rightarrow> u32 \<Rightarrow> rref \<Rightarrow> server \<Rightarrow> route_result" where
  "join_room_checked e c i r st =
     (let st1 = leaveRoomByID e i st;
          st2 = on_world (Join RoomRepoAdapter (ev_Now e) (Some r) (GetPlayer i (store_of st1))) st1;
          rm = room_at st2 r;
          ((ip, port), st3) = join_endpoint e rm st2
      in ((render_show e (rm_Ver rm) ''join_room.tmpl''
            (zero_view\<lparr>vw_ID := fmt_u32 (rm_ID rm), vw_MaxPl := rm_MaxPlayers rm, vw_Name := rm_Title rm,
              vw_IP := ip, vw_Port := port\<rparr>), None), st3))"

definition JoinGame :: "env \<Rightarrow> cref \<Rightarrow> gsc_stream option \<Rightarrow> params \<Rightarrow> server \<Rightarrow> route_result" where
  "JoinGame e c req p st =
     (let reqVer = req_ver req; nick = (case session_of c st of None \<Rightarrow> [] | Some s \<Rightarrow> ss_Nick s) in
      if \<not> astate_free p
      then ((renderAlert e reqVer ''Error'' already_in_room, Some (ErrAlreadyInRoom (player_id c st))), st)
      else if player_id c st = 0 \<or> trim_space nick = []
      then ((renderAlert e reqVer ''Error'' ''Your was disconnected from the server. Enter again.'',
          Some ErrSessionExpired), st)
      else
        (case parse_uint 32 (trim_space (get p ''VE_RID'')) of
           None \<Rightarrow> ((ng_dialog, Some (ErrInvalidRoomID (get p ''VE_RID''))), st)
         | Some rid \<Rightarrow>
             (case GetRoom (word_of_nat rid) (store_of st) of
                None \<Rightarrow> ((renderAlert e reqVer ''Error'' (text_lines [''You can not join this room!'', ''The room is closed'']),
                    Some (ErrRoomNotFound (word_of_nat rid))), st)
              | Some r \<Rightarrow>
                  let rm = room_at st r in
                  if rm_Started rm
                  then ((renderAlert e (rm_Ver rm) ''Error''
                      (text_lines [''You can not join this room!'', ''The game has already started'']),
                    Some (ErrRoomStarted (rm_ID rm))), st)
                  else if rm_MaxPlayers rm \<le> rm_PlayersCount rm
                  then ((renderAlert e (rm_Ver rm) ''Error''
                      (text_lines [''You can not join this room!'', ''The room is full'']),
                    Some (ErrRoomFull (rm_ID rm))), st)
                  else if rm_Password rm \<noteq> [] \<and> get p ''VE_PASSWD'' \<noteq> rm_Password rm
                  then ((render_show e (rm_Ver rm) ''confirm_password_dgl.tmpl''
                      (zero_view\<lparr>vw_ID := fmt_u32 (rm_ID rm)\<rparr>),
                    Some (ErrBadRoomPassword (rm_ID rm))), st)
                  else join_room_checked e c (player_id c st) r st)))"

definition normalizePage :: "string \<Rightarrow> string" where
  "normalizePage v =
     (let s = trim_space v in
      if s = [] then ''1''
      else if parse_uint 64 s = None then ''1''
      else if s \<noteq> ''1'' \<and> s \<noteq> ''2'' \<and> s \<noteq> ''3'' then ''1'' else s)"

definition normalizeRes :: "string \<Rightarrow> string" where
  "normalizeRes v =
     (let s = trim_space v in if s = [] then ''0'' else if parse_uint 64 s = None then ''0'' else s)"

definition RoomInfo :: "env \<Rightarrow> cref \<Rightarrow> gsc_stream option \<Rightarrow> params \<Rightarrow> server \<Rightarrow> route_result" where
  "RoomInfo e c req p st =
     (case parse_uint 32 (get p ''VE_RID'') of
        None \<Rightarrow> ((ng_dialog, Some (ErrInvalidRoomID (get p ''VE_RID''))), st)
      | Some rid \<Rightarrow>
          (case GetRoom (word_of_nat rid) (store_of st) of
             None \<Rightarrow> ((renderAlert e (req_ver req) ''Error'' ''The room is closed'',
                 Some (ErrRoomNotFound (word_of_nat rid))), st)
           | Some r \<Rightarrow>
               let rm = room_at st r; ph = players_heap (st_world st);
                   ks = ev_Order e (dom (rm_PlayersTime rm));
                   backto = (if get p ''BACKTO'' = ''user_details'' \<and> player_id c st \<noteq> 0
                     then ''open&user_details.dcml&ID='' @ fmt_u32 (player_id c st) else []);
                   dev = (case session_of c st of None \<Rightarrow> False | Some s \<Rightarrow> ss_Dev s);
                   v = zero_view\<lparr>vw_Dev := dev, vw_Room := Some (BuildRoomView ph ks (ev_Now e) rm backto)\<rparr>
               in
                 if rm_Started rm \<and> (dev \<or> gm_ShowStartedRoomInfo (ev_Game e))
                 then ((render_show e (rm_Ver rm)
                     (if get p ''part'' = ''statcols'' then ''started_room_info/statcols.tmpl''
                      else ''started_room_info.tmpl'')
                     (v\<lparr>vw_StartedRoom := Some (BuildStartedRoomView ph (ev_Now e) rm
                        (normalizePage (get p ''page'')) (normalizeRes (get p ''res'')))\<rparr>), None), st)
                 else ((render_show e (rm_Ver rm) ''room_info_dgl.tmpl'' v, None), st)))"

definition JoinPlayer :: "env \<Rightarrow> cref \<Rightarrow> params \<Rightarrow> server \<Rightarrow> route_result" where
  "JoinPlayer e c p st =
     (if player_id c st \<noteq> 0 \<and> snd (Service_FindByHost RoomRepoAdapter (player_id c st) (st_world st))
      then (([], None), st)
      else
        (case parse_uint 32 (trim_space (get p ''VE_PLAYER'')) of
           None \<Rightarrow> (([], Some (ErrInvalidPlayerArg (trim_space (get p ''VE_PLAYER'')))), st)
         | Some j \<Rightarrow>
             (case found (Service_FindByHost RoomRepoAdapter (word_of_nat j) (st_world st)) of
                None \<Rightarrow> (([], Some (ErrJoinPlayerNoRoom (word_of_nat j))), st)
              | Some r \<Rightarrow>
                  let rm = room_at st r in
                  if rm_Started rm
                  then ((renderAlert e (rm_Ver rm) ''Error'' ''Game alredy started'',
                      Some (ErrRoomStarted (rm_ID rm))), st)
                  else RoomInfo e c (Some \<lparr>Num = 0, Lang = 0, Ver = rm_Ver rm, CmdSet = []\<rparr>)
                    [''VE_RID'' \<mapsto> fmt_u32 (rm_ID rm)] st)))"

section \<open>Start page, window size, dialogs (startup.go, resize.go, new\_room\_dialog.go, users\_list.go)\<close>

definition load_cup :: "env \<Rightarrow> server \<Rightarrow> jobject option \<times> server" where
  "load_cup e st =
     (case LoadGGCup (ev_RankingJson e) (ev_Files e) (gm_GGCupFile (ev_Game e)) (st_ranking st) of
        (gg, c) \<Rightarrow> (gg, st\<lparr>st_ranking := c\<rparr>))"

definition load_lcn :: "env \<Rightarrow> server \<Rightarrow> jobject option \<times> server" where
  "load_lcn e st =
     (case LoadLCN (ev_Sprint e) (ev_RankingJson e) (ev_Files e) (gm_LCNRanking (ev_Game e)) (st_ranking st) of
        (rk, c) \<Rightarrow> (rk, st\<lparr>st_ranking := c\<rparr>))"

definition Startup :: "env \<Rightarrow> cref \<Rightarrow> gsc_stream \<Rightarrow> server \<Rightarrow> route_result" where
  "Startup e c req st =
     (case load_cup e st of (gg, st1) \<Rightarrow>
        ((render_show e (Ver req) ''startup.tmpl''
            (zero_view\<lparr>vw_WindowSize := WindowSize (session_of c st), vw_ChatServer := gm_ChatServer (ev_Game e),
              vw_ServerTitle := gm_ServerTitle (ev_Game e), vw_TableTimeout := gm_TableTimeout (ev_Game e),
              vw_Ver := ver_text (Ver req), vw_BottomHeight := 32,
              vw_GGCup := BuildGGCupView (ev_Sprint e) (ev_FormatFloat e) gg\<rparr>), None), st1))"

definition Resize :: "cref \<Rightarrow> params \<Rightarrow> server \<Rightarrow> route_result" where
  "Resize c p st =
     (let raw = trim_space (get p ''height'') in
      case atoi raw of (height, ok) \<Rightarrow>
        let st1 = (if ok then (case ensureSession c st of (s, st') \<Rightarrow>
                     set_session c (s\<lparr>ss_WindowH := height\<rparr>) st') else st);
            err = (if raw \<noteq> [] \<and> \<not> ok then Some (ErrResizeBadHeight raw) else None)
        in ((Show (text_lines (if WindowSize (session_of c st1) = ''large''
               then [''<RESIZE>'', ''#large'', ''<RESIZE>''] else [''<RESIZE>'', ''<RESIZE>''])), err), st1))"

definition NewRoomDialog :: "env \<Rightarrow> gsc_stream \<Rightarrow> params \<Rightarrow> server \<Rightarrow> route_result" where
  "NewRoomDialog e req p st =
     (if \<not> astate_free p
      then ((renderAlert e (Ver req) ''Error'' already_in_room, Some (ErrAlreadyInRoom 0)), st)
      else ((render_show e (Ver req) ''new_room_dgl.tmpl'' zero_view, None), st))"

definition UsersList :: "env \<Rightarrow> gsc_stream \<Rightarrow> server \<Rightarrow> route_result" where
  "UsersList e req st =
     ((renderAlert e (Ver req) ''Error'' ''Not implemented'', Some ErrUsersListUnimplemented), st)"

section \<open>Players and rankings (user\_details.go, tournaments.go, lcn\_registration.go, gg\_cup\_thanks.go)\<close>

definition buildUserDetailsBody :: "env \<Rightarrow> cref \<Rightarrow> player \<Rightarrow> room option \<Rightarrow> server \<Rightarrow> string" where
  "buildUserDetailsBody e c pl ro st =
     UserDetailsBody (case session_of c st of None \<Rightarrow> False | Some s \<Rightarrow> ss_Dev s)
       \<lparr>up_ID = pl_ID pl, up_Nick = pl_Nick pl, up_ConnectedAt = pl_ConnectedAt pl,
        up_AccountType = pl_AccountType pl, up_AccountLogin = pl_AccountLogin pl,
        up_AccountID = pl_AccountID pl, up_AccountProfile = pl_AccountProfile pl\<rparr>
       (map_option (\<lambda>r. \<lparr>ur_ID = rm_ID r, ur_Title = rm_Title r\<rparr>) ro)
       (lcnPlaceByID (st_ranking st))
       (TimeIntervalFromElapsedSec (elapsed (ev_Now e) (pl_ConnectedAt pl)))"

definition UserDetails :: "env \<Rightarrow> cref \<Rightarrow> params \<Rightarrow> server \<Rightarrow> route_result" where
  "UserDetails e c p st0 =
     (let st = snd (load_lcn e st0); raw = get p ''ID'' in
      case IntArg raw of (n, ok) \<Rightarrow>
        if \<not> ok then (([], Some (ErrInvalidPlayerArg raw)), st)
        else
          (case lookup_player st (low32 n) of
             None \<Rightarrow> (([], Some (ErrPlayerNotFound (low32 n))), st)
           | Some pl \<Rightarrow>
               let ro = map_option (room_at st) (GetRoomByHost (pl_ID pl) (store_of st))
               in ((Show (buildUserDetailsBody e c pl ro st), None), st)))"

definition rating_line :: "env \<Rightarrow> json \<Rightarrow> string" where
  "rating_line e r =
     (let f = (\<lambda>k. sprint (ev_Sprint e) (field (row_of r) k))
      in f ''place'' @ ''. '' @ f ''nick'' @ '' ('' @ f ''score'' @ '')'')"

definition rating_rows :: "jobject \<Rightarrow> string \<Rightarrow> json list" where
  "rating_rows rating option =
     (let byOption = nil_map (as_object (field rating ''ranking''));
          rows = nil_slice (as_array (field byOption option))
      in if rows = [] \<and> option \<noteq> ''total'' then nil_slice (as_array (field byOption ''total'')) else rows)"

definition Tournaments :: "env \<Rightarrow> gsc_stream \<Rightarrow> params \<Rightarrow> server \<Rightarrow> route_result" where
  "Tournaments e req p st0 =
     (let option = (if trim_space (get p ''option'') = [] then ''total'' else trim_space (get p ''option'')) in
      case load_lcn e st0 of
        (None, st) \<Rightarrow>
          ((renderAlert e (Ver req) ''Error'' ''Internal server error'', Some ErrLCNRankingUnavailable), st)
      | (Some rating, st) \<Rightarrow>
          ((renderAlert e (Ver req) ''Tournaments''
              (text_lines ((''LCN Rating: '' @ option) # map (rating_line e) (take 10 (rating_rows rating option)))),
            None), st))"

definition LCNRegistrationDialog :: "env \<Rightarrow> gsc_stream \<Rightarrow> server \<Rightarrow> route_result" where
  "LCNRegistrationDialog e req st =
     ((render_show e (Ver req) ''confirm_dgl.tmpl''
         (zero_view\<lparr>vw_Header := ''LCN Registration'', vw_Text := ''Open www.newlcn.com?'', vw_OkText := ''Ok'',
           vw_Height := 100,
           vw_Command := ''GW|url&http://'' @ pc_Host (fst (Provider ''LCN'' (ev_Providers e))) @
             ''/lang_redir.php&from=tournaments''\<rparr>), None), st)"

definition ggCupBool :: "json \<Rightarrow> bool" where
  "ggCupBool v =
     (case v of
        JBool b \<Rightarrow> b
      | JStr t \<Rightarrow> t \<noteq> [] \<and> t \<noteq> ''0'' \<and> to_lower t \<noteq> ''false''
      | _ \<Rightarrow> False)"

definition GGCupThanks :: "env \<Rightarrow> gsc_stream \<Rightarrow> server \<Rightarrow> route_result" where
  "GGCupThanks e req st0 =
     (case load_cup e st0 of (gg, st) \<Rightarrow>
        let none = ((renderAlert e (Ver req) ''Thanks for'' ''No info yet'', Some ErrGGCupUnavailable), st);
            m = nil_map gg;
            supporters = map the (filter (\<lambda>x. x \<noteq> None)
              (map as_object (nil_slice (as_array (field m ''supporters'')))))
        in if gg = None \<or> ggCupBool (field m ''wo_info'') then none
           else if supporters = [] then none
           else ((Show (GGCupThanksBody (ev_Sprint e) (ev_ParseFloat e) supporters), None), st))"

section \<open>What a route does to the rooms\<close>

text \<open>
  Every route but three leaves the world of rooms and players alone; the three are described by the
  lobby operations they run.
\<close>

lemma load_world [simp]:
  "st_world (snd (load_cup e st)) = st_world st"
  "st_world (snd (load_lcn e st)) = st_world st"
  by (simp_all add: load_cup_def load_lcn_def split: prod.splits)

lemma Enter_state: "snd (Enter e c req p st) = st"
  by (simp add: Enter_def split: option.splits)

lemma RoomInfo_state: "snd (RoomInfo e c req p st) = st"
  by (simp add: RoomInfo_def Let_def split: option.splits)

lemma JoinPlayer_state: "snd (JoinPlayer e c p st) = st"
  by (simp add: JoinPlayer_def Let_def RoomInfo_state split: option.splits)

lemma Startup_world: "st_world (snd (Startup e c req st)) = st_world st"
  using load_world(1) [of e st] by (cases "load_cup e st") (simp add: Startup_def)

lemma UserDetails_world: "st_world (snd (UserDetails e c p st)) = st_world st"
  using load_world(2) [of e st] by (simp add: UserDetails_def Let_def split: prod.splits option.splits)

lemma Tournaments_world: "st_world (snd (Tournaments e req p st)) = st_world st"
  using load_world(2) [of e st]
  by (cases "load_lcn e st") (simp add: Tournaments_def Let_def split: option.splits)

lemma GGCupThanks_world: "st_world (snd (GGCupThanks e req st)) = st_world st"
  using load_world(1) [of e st] by (cases "load_cup e st") (simp add: GGCupThanks_def Let_def)

lemma Resize_world: "st_world (snd (Resize c p st)) = st_world st"
  using ensureSession_select(1) [of c st]
  by (cases "ensureSession c st") (simp add: Resize_def Let_def split: prod.splits)

lemma join_endpoint_world: "st_world (snd (join_endpoint e r st)) = st_world st"
  by (simp add: join_endpoint_def split: prod.splits sum.splits option.splits)

end
