(* ===== verification/Lobby_Refine.thy ===== *)
theory Lobby_Refine
  imports Lobby
begin

text \<open>
  The lobby service does not depend on how its repository is represented: inside the contract
  \<open>room_repository\<close>, every operation commutes with the abstraction of the repository to three finite
  maps. The interpretations of the contract carry this over to the server's store and to the
  in-memory repository.
\<close>

definition abstract :: "('s \<Rightarrow> room_index) \<Rightarrow> 's world \<Rightarrow> room_index world" where
  "abstract = map_world"

lemma abstract_select [simp]:
  "rooms_heap (abstract f w) = rooms_heap w" "players_heap (abstract f w) = players_heap w"
  "next_rref (abstract f w) = next_rref w" "next_pref (abstract f w) = next_pref w"
  "repo (abstract f w) = f (repo w)"
  by (simp_all add: abstract_def)

lemma abstract_set [simp]:
  "abstract f (set_room p r w) = set_room p r (abstract f w)"
  "abstract f (set_player q pl w) = set_player q pl (abstract f w)"
  by (simp_all add: abstract_def)

lemma abstract_set_repo:
  "f (g (repo w)) = h (f (repo w)) \<Longrightarrow> abstract f (set_repo g w) = set_repo h (abstract f w)"
  by (simp add: abstract_def)

lemma set_repo_id [simp]: "set_repo (\<lambda>x. x) w = w"
  by (simp add: set_repo_def)

lemma mark_exited_abstract [simp]:
  "abstract f (mark_exited now pid r w) = mark_exited now pid r (abstract f w)"
  by (auto simp: mark_exited_def split: option.splits)

lemma repo_mark_exited [simp]: "repo (mark_exited now pid r w) = repo w"
  by (auto simp: mark_exited_def split: option.splits)

context room_repository
begin

lemma set_repo_abs [simp]:
  "abstract abs (set_repo (IndexByID R (Some pr)) w) = set_repo (IndexByID index_repo (Some pr)) (abstract abs w)"
  "abstract abs (set_repo (IndexByHost R i (Some pr)) w) = set_repo (IndexByHost index_repo i (Some pr)) (abstract abs w)"
  "abstract abs (set_repo (IndexBySum R (Some pr)) w) = set_repo (IndexBySum index_repo (Some pr)) (abstract abs w)"
  "abstract abs (set_repo (UnindexByID R i) w) = set_repo (UnindexByID index_repo i) (abstract abs w)"
  "abstract abs (set_repo (UnindexByHost R i) w) = set_repo (UnindexByHost index_repo i) (abstract abs w)"
  "abstract abs (set_repo (UnindexBySum R i) w) = set_repo (UnindexBySum index_repo i) (abstract abs w)"
  "abstract abs (set_repo (RoomMu R i) w) = set_repo (RoomMu index_repo i) (abstract abs w)"
  by (rule abstract_set_repo, simp add: abs_simps)+

lemma next_room_id_abs:
  assumes "NextRoomID R (repo w) = (i, s)"
  shows "NextRoomID index_repo (abs (repo w)) = (i, abs s)"
  using next_id [of "repo w"] assms by simp

lemma abstract_repo_update: "abstract abs (w\<lparr>repo := s\<rparr>) = (abstract abs w)\<lparr>repo := abs s\<rparr>"
  by (simp add: abstract_def map_world_def)

lemma host_id_abs [simp]: "host_id h (abstract abs w) = host_id h w"
  by (simp add: host_id_def split: option.splits)

lemma alloc_room_abs:
  "alloc_room r w = (p, w') \<Longrightarrow> alloc_room r (abstract abs w) = (p, abstract abs w')"
  using map_world_alloc(1) [of abs r w] by (simp add: abstract_def)

lemma index_new_abs [simp]:
  "abstract abs (index_new R h p r w) = index_new index_repo h p r (abstract abs w)"
  by (simp add: index_new_def)

lemma RegisterNew_abs:
  "RegisterNew index_repo now c (abstract abs w) = map_prod id (abstract abs) (RegisterNew R now c w)"
proof -
  obtain i s where n: "NextRoomID R (repo w) = (i, s)" by force
  let ?w1 = "w\<lparr>repo := s\<rparr>"
  let ?r = "new_room now i (host_id (rp_Host c) ?w1) c"
  obtain p w2 where a: "alloc_room ?r ?w1 = (p, w2)" by force
  have "host_id (rp_Host c) ((abstract abs w)\<lparr>repo := abs s\<rparr>) = host_id (rp_Host c) ?w1"
    by (simp add: host_id_def split: option.splits)
  then show ?thesis
    using next_room_id_abs [OF n] alloc_room_abs [OF a] n a
    by (simp add: RegisterNew_def Let_def abstract_repo_update del: index_repo_sel)
qed

lemma Create_abs:
  "Create index_repo now c (abstract abs w) = map_prod id (abstract abs) (Create R now c w)"
proof -
  obtain i s where n: "NextRoomID R (repo w) = (i, s)" by force
  let ?w1 = "w\<lparr>repo := s\<rparr>"
  have alloc: "alloc_room r (abstract abs ?w1) = map_prod id (abstract abs) (alloc_room r ?w1)" for r
    by (cases "alloc_room r ?w1") (simp add: alloc_room_abs)
  have "host_id (cp_Host c) ((abstract abs w)\<lparr>repo := abs s\<rparr>) = host_id (cp_Host c) ?w1"
    by (simp add: host_id_def split: option.splits)
  then show ?thesis
    using next_room_id_abs [OF n] n
    by (simp add: Create_def Let_def abstract_repo_update [symmetric] alloc del: index_repo_sel
        split: prod.split)
qed

lemma Join_abs: "Join index_repo now ro po (abstract abs w) = abstract abs (Join R now ro po w)"
  by (cases ro; cases po) (simp_all add: Join_def Let_def)

lemma Leave_abs:
  "Leave index_repo now pid (abstract abs w) = map_prod id (abstract abs) (Leave R now pid w)"
proof (cases "found (FindByHost R pid (repo w))")
  case None
  then show ?thesis using find_host [of pid "repo w"] by (simp add: Leave_def)
next
  case (Some p)
  then show ?thesis using find_host [of pid "repo w"] by (simp add: Leave_def Let_def)
qed

lemma MarkStarted_abs:
  "MarkStarted index_repo now ro sav m (abstract abs w) = abstract abs (MarkStarted R now ro sav m w)"
  by (cases ro) (simp_all add: MarkStarted_def Let_def)

lemmas ops_abs = RegisterNew_abs Create_abs Join_abs Leave_abs MarkStarted_abs

end

section \<open>Property\<close>

text \<open>
  C4. The lobby service on the server's store refines the lobby service on finite maps: running any
  operation on the store and then reading the store as three maps gives the same rooms, players,
  maps and result as running the operation on the maps.
\<close>

theorem lobby_on_store_refines:
  "RegisterNew index_repo now c (abstract store_index w) =
     map_prod id (abstract store_index) (RegisterNew RoomRepoAdapter now c w) \<and>
   Create index_repo now k (abstract store_index w) =
     map_prod id (abstract store_index) (Create RoomRepoAdapter now k w) \<and>
   Join index_repo now ro po (abstract store_index w) =
     abstract store_index (Join RoomRepoAdapter now ro po w) \<and>
   Leave index_repo now pid (abstract store_index w) =
     map_prod id (abstract store_index) (Leave RoomRepoAdapter now pid w) \<and>
   MarkStarted index_repo now ro sav m (abstract store_index w) =
     abstract store_index (MarkStarted RoomRepoAdapter now ro sav m w)"
  by (simp only: rooms.ops_abs simp_thms)

end
