(* ===== verification/Lobby_Inv.thy ===== *)
theory Lobby_Inv
  imports Lobby_Refine
begin

text \<open>
  What holds of the rooms at every moment. The lobby's steps are the calls as the handlers make
  them: a player leaves its room before it registers or joins another; a join follows a lookup by
  id that found a room not started and not full; a start follows a lookup by player. The invariant
  relates the three indexes, the members and the rows; it is proved for the finite maps and carried
  to the server's store by the refinement.
\<close>

section \<open>The invariant\<close>

definition members :: "room_index \<Rightarrow> rref \<Rightarrow> u32 set" where
  "members x p = {pid. ix_host x pid = Some p}"

definition room_ok :: "room_index \<Rightarrow> rref \<Rightarrow> room \<Rightarrow> bool" where
  "room_ok x p r \<longleftrightarrow>
     rm_CtlSum r = controlSum (rm_Row r) \<and>
     rm_PlayersCount r = int (card (members x p)) \<and>
     members x p \<subseteq> dom (rm_Players r) \<and>
     dom (rm_PlayersTime r) = dom (rm_Players r) \<and>
     9 \<le> length (rm_Row r) \<and>
     (if rm_Started r
      then rm_PlayersCount r \<le> rm_StartPlayers r \<and> rm_Row r ! 1 = started_mark
      else members x p = dom (rm_Players r) \<and>
        rm_Row r ! (length (rm_Row r) - 4) = players_cell (rm_PlayersCount r) (rm_MaxPlayers r))"

definition listed_ok :: "room_index \<Rightarrow> rref \<Rightarrow> room \<Rightarrow> bool" where
  "listed_ok x p r \<longleftrightarrow>
     members x p \<noteq> {} \<and> (\<not> rm_Started r \<longrightarrow> rm_HostID r \<in> members x p)"

definition lobby_inv :: "room_index world \<Rightarrow> bool" where
  "lobby_inv w \<longleftrightarrow>
     (\<forall>i p. ix_id (repo w) i = Some p \<longrightarrow> p < next_rref w \<and> rm_ID (rooms_heap w p) = i) \<and>
     (\<forall>i p. ix_host (repo w) i = Some p \<longrightarrow> p < next_rref w) \<and>
     (\<forall>c p. ix_sum (repo w) c = Some p \<longrightarrow> p < next_rref w \<and> rm_CtlSum (rooms_heap w p) = c) \<and>
     (\<forall>p < next_rref w. room_ok (repo w) p (rooms_heap w p)) \<and>
     (\<forall>i p. ix_id (repo w) i = Some p \<longrightarrow> listed_ok (repo w) p (rooms_heap w p))"

lemma lobby_inv_id:
  "lobby_inv w \<Longrightarrow> ix_id (repo w) i = Some p \<Longrightarrow>
   p < next_rref w \<and> rm_ID (rooms_heap w p) = i \<and> listed_ok (repo w) p (rooms_heap w p)"
  by (simp add: lobby_inv_def)

lemma lobby_inv_host: "lobby_inv w \<Longrightarrow> ix_host (repo w) i = Some p \<Longrightarrow> p < next_rref w"
  unfolding lobby_inv_def by blast

lemma lobby_inv_sum:
  "lobby_inv w \<Longrightarrow> ix_sum (repo w) c = Some p \<Longrightarrow> p < next_rref w \<and> rm_CtlSum (rooms_heap w p) = c"
  by (simp add: lobby_inv_def)

lemma lobby_inv_room: "lobby_inv w \<Longrightarrow> p < next_rref w \<Longrightarrow> room_ok (repo w) p (rooms_heap w p)"
  by (simp add: lobby_inv_def)

lemma room_ok_cong: "members x p = members y p \<Longrightarrow> room_ok x p r = room_ok y p r"
  by (simp add: room_ok_def)

lemma listed_ok_cong: "members x p = members y p \<Longrightarrow> listed_ok x p r = listed_ok y p r"
  by (simp add: listed_ok_def)

text \<open>One room changes, its members by at most the entries of the by-player index given.\<close>

lemma lobby_inv_update:
  assumes inv: "lobby_inv w" and p: "p < next_rref w"
    and heap: "rooms_heap w' = (rooms_heap w)(p := r')" "next_rref w' = next_rref w"
    and ids: "\<And>i q. ix_id (repo w') i = Some q \<Longrightarrow> ix_id (repo w) i = Some q"
    and hosts: "\<And>q. q \<noteq> p \<Longrightarrow> members (repo w') q = members (repo w) q"
    and sums: "\<And>c q. ix_sum (repo w') c = Some q \<Longrightarrow>
        q = p \<and> c = rm_CtlSum r' \<or> q \<noteq> p \<and> ix_sum (repo w) c = Some q"
    and rid: "rm_ID r' = rm_ID (rooms_heap w p)"
    and ok: "room_ok (repo w') p r'"
    and listed: "ix_id (repo w') (rm_ID r') = Some p \<Longrightarrow> listed_ok (repo w') p r'"
  shows "lobby_inv w'"
  unfolding lobby_inv_def
proof (intro conjI allI impI)
  fix i q assume i: "ix_id (repo w') i = Some q"
  from lobby_inv_id [OF inv ids [OF this]]
  have q: "q < next_rref w" "rm_ID (rooms_heap w q) = i" "listed_ok (repo w) q (rooms_heap w q)" by auto
  from q show "q < next_rref w'" by (simp add: heap)
  from q show "rm_ID (rooms_heap w' q) = i" using rid by (auto simp: heap)
  show "listed_ok (repo w') q (rooms_heap w' q)"
  proof (cases "q = p")
    case True
    then show ?thesis using i q listed rid by (simp add: heap)
  next
    case False
    then show ?thesis using q listed_ok_cong [OF hosts [OF False]] by (simp add: heap)
  qed
next
  fix i q assume "ix_host (repo w') i = Some q"
  then have "i \<in> members (repo w') q" by (simp add: members_def)
  then have "q = p \<or> ix_host (repo w) i = Some q" using hosts [of q] by (auto simp: members_def)
  then show "q < next_rref w'" using p lobby_inv_host [OF inv] by (auto simp: heap)
next
  fix c q assume "ix_sum (repo w') c = Some q"
  from sums [OF this] p lobby_inv_sum [OF inv] show "q < next_rref w'" by (auto simp: heap)
next
  fix c q assume "ix_sum (repo w') c = Some q"
  from sums [OF this] lobby_inv_sum [OF inv] show "rm_CtlSum (rooms_heap w' q) = c" by (auto simp: heap)
next
  fix q assume q: "q < next_rref w'"
  show "room_ok (repo w') q (rooms_heap w' q)"
  proof (cases "q = p")
    case False
    then show ?thesis
      using q lobby_inv_room [OF inv, of q] room_ok_cong [OF hosts [OF False]] by (simp add: heap)
  qed (simp add: heap ok)
qed

section \<open>The row and the members under the operations\<close>

lemma length_setPlayersColumn [simp]: "length (setPlayersColumn row n m) = length row"
  by (simp add: setPlayersColumn_def)

lemma nth_setPlayersColumn:
  "4 \<le> length row \<Longrightarrow> setPlayersColumn row n m ! (length row - 4) = players_cell n m"
  by (auto simp: setPlayersColumn_def players_idx_def)

lemma length_started_row [simp]: "length (started_row row) = length row"
  by (auto simp: started_row_def Let_def)

lemma nth_started_row: "2 < length row \<Longrightarrow> started_row row ! Suc 0 = started_mark"
  by (auto simp: started_row_def Let_def nth_list_update)

lemma started_row_keeps:
  "i \<noteq> 1 \<Longrightarrow> i < length row - 1 \<Longrightarrow> started_row row ! i = row ! i"
  by (auto simp: started_row_def Let_def nth_list_update)

lemma length_new_row: "9 \<le> length (new_row rid c)"
  by (simp add: new_row_def)

lemma new_row_players:
  "new_row rid c ! (length (new_row rid c) - 4) = players_cell 1 (rp_MaxPlayers c)"
  by (simp add: new_row_def players_cell_def)

lemma finite_members [simp]: "finite (members x p)"
  by (rule finite)

lemma members_insert:
  "members (x\<lparr>ix_host := (ix_host x)(pid \<mapsto> p)\<rparr>) q =
     (if q = p then insert pid (members x p) else members x q - {pid})"
  by (auto simp: members_def)

lemma members_delete:
  "members (x\<lparr>ix_host := (ix_host x)(pid := None)\<rparr>) q = members x q - {pid}"
  by (auto simp: members_def)

lemma members_other [simp]:
  "members (x\<lparr>ix_id := a\<rparr>) q = members x q" "members (x\<lparr>ix_sum := b\<rparr>) q = members x q"
  "members (x\<lparr>ix_last := n\<rparr>) q = members x q"
  by (simp_all add: members_def)

section \<open>The operations keep the invariant\<close>

lemma Leave_forgets: "ix_host (repo (snd (Leave index_repo now pid w))) pid = None"
  by (cases "ix_host (repo w) pid") (auto simp: Leave_def Let_def)

lemma rooms_heap_mark_exited [simp]: "rooms_heap (mark_exited now pid r w) = rooms_heap w"
    "next_rref (mark_exited now pid r w) = next_rref w"
    "next_pref (mark_exited now pid r w) = next_pref w"
  by (auto simp: mark_exited_def split: option.splits)

lemma leave_room_ok:
  assumes "room_ok x p r" and "pid \<in> members x p"
  shows "room_ok (x\<lparr>ix_host := (ix_host x)(pid := None)\<rparr>) p (leave_room pid r)"
proof -
  have "Suc 0 \<le> card (members x p)" using assms(2) card_gt_0_iff [of "members x p"] by fastforce
  with assms show ?thesis
    by (auto simp: room_ok_def leave_room_def Let_def members_delete nth_setPlayersColumn of_nat_diff)
qed

lemma leave_room_select [simp]:
  "rm_ID (leave_room pid r) = rm_ID r" "rm_Started (leave_room pid r) = rm_Started r"
  "rm_HostID (leave_room pid r) = rm_HostID r" "rm_MaxPlayers (leave_room pid r) = rm_MaxPlayers r"
  "rm_PlayersCount (leave_room pid r) = rm_PlayersCount r - 1"
  by (simp_all add: leave_room_def Let_def)

lemma Leave_inv:
  assumes inv: "lobby_inv w"
  shows "lobby_inv (snd (Leave index_repo now pid w))"
proof (cases "ix_host (repo w) pid")
  case None
  then show ?thesis using inv by (simp add: Leave_def)
next
  case (Some p)
  let ?r = "rooms_heap w p" and ?w' = "snd (Leave index_repo now pid w)"
  let ?r' = "leave_room pid ?r"
  have p: "p < next_rref w" by (rule lobby_inv_host [OF inv Some])
  have mem: "pid \<in> members (repo w) p" using Some by (simp add: members_def)
  have members: "members (repo ?w') q = members (repo w) q - {pid}" for q
    using Some by (simp add: Leave_def Let_def members_def) auto
  have ok: "room_ok (repo ?w') p ?r'"
    using leave_room_ok [OF lobby_inv_room [OF inv p] mem]
    by (subst room_ok_cong) (auto simp: members members_delete)
  have listed: "listed_ok (repo ?w') p ?r'" if i: "ix_id (repo ?w') (rm_ID ?r') = Some p"
  proof -
    have keep: "\<not> should_delete pid ?r'" using i Some by (auto simp: Leave_def Let_def split: if_splits)
    have "ix_id (repo w) (rm_ID ?r) = Some p" using i Some keep by (simp add: Leave_def Let_def)
    from lobby_inv_id [OF inv this] have "listed_ok (repo w) p ?r" by simp
    moreover have "0 < rm_PlayersCount ?r'" using keep by (auto simp: should_delete_def split: if_splits)
    ultimately show ?thesis
      using keep ok members by (auto simp: listed_ok_def room_ok_def should_delete_def split: if_splits)
  qed
  show ?thesis
  proof (rule lobby_inv_update [OF inv p, where r' = ?r'])
    show "rooms_heap ?w' = (rooms_heap w)(p := ?r')" and "next_rref ?w' = next_rref w"
      using Some by (simp_all add: Leave_def Let_def)
    show "ix_id (repo w) i = Some q" if "ix_id (repo ?w') i = Some q" for i q
      using that Some by (auto simp: Leave_def Let_def split: if_splits)
    show "members (repo ?w') q = members (repo w) q" if "q \<noteq> p" for q
      using that members [of q] Some by (auto simp: members_def)
    show "q = p \<and> c = rm_CtlSum ?r' \<or> q \<noteq> p \<and> ix_sum (repo w) c = Some q"
      if "ix_sum (repo ?w') c = Some q" for c q
      using that Some lobby_inv_sum [OF inv, of c q]
      by (auto simp: Leave_def Let_def split: if_splits)
  qed (use ok listed in auto)
qed

lemma RegisterNew_eq:
  "RegisterNew index_repo now c w =
     (let rid = ix_last (repo w) + 1; h = host_id (rp_Host c) w; r = new_room now rid h c;
          x = repo w; p = next_rref w
      in (p, w\<lparr>rooms_heap := (rooms_heap w)(p := r), next_rref := Suc p,
            repo := x\<lparr>ix_id := (ix_id x)(rid \<mapsto> p), ix_host := (ix_host x)(h \<mapsto> p),
              ix_sum := (ix_sum x)(rm_CtlSum r \<mapsto> p), ix_last := rid\<rparr>\<rparr>))"
  by (simp add: RegisterNew_def Let_def host_id_def alloc_room_def index_new_def set_repo_def
      new_room_def split: option.split)

lemma new_room_select [simp]:
  "rm_ID (new_room now rid h c) = rid" "rm_HostID (new_room now rid h c) = h"
  "rm_Started (new_room now rid h c) = False" "rm_PlayersCount (new_room now rid h c) = 1"
  "rm_Row (new_room now rid h c) = new_row rid c"
  "rm_CtlSum (new_room now rid h c) = controlSum (new_row rid c)"
  "rm_MaxPlayers (new_room now rid h c) = rp_MaxPlayers c"
  "rm_Players (new_room now rid h c) = [h \<mapsto> rp_Host c]"
  "rm_PlayersTime (new_room now rid h c) = [h \<mapsto> now]"
  by (simp_all add: new_room_def zero_room_def Let_def)

lemma new_room_ok: "members x p = {h} \<Longrightarrow> room_ok x p (new_room now rid h c)"
  using length_new_row [of rid c] new_row_players [of rid c] by (simp add: room_ok_def)

lemma RegisterNew_inv:
  assumes inv: "lobby_inv w" and free: "ix_host (repo w) (host_id (rp_Host c) w) = None"
  shows "lobby_inv (snd (RegisterNew index_repo now c w))"
proof -
  let ?w' = "snd (RegisterNew index_repo now c w)" and ?h = "host_id (rp_Host c) w"
    and ?p = "next_rref w" and ?rid = "ix_last (repo w) + 1"
  let ?r = "new_room now ?rid ?h c"
  note eq = RegisterNew_eq [of now c w, unfolded Let_def]
  have none: "members (repo w) ?p = {}"
    using lobby_inv_host [OF inv] by (fastforce simp: members_def)
  have mem: "members (repo ?w') q = (if q = ?p then {?h} else members (repo w) q)" for q
    using free none by (auto simp: eq members_def)
  have heap: "rooms_heap ?w' q = (if q = ?p then ?r else rooms_heap w q)" for q
    by (simp add: eq)
  have rooms: "room_ok (repo ?w') q (rooms_heap ?w' q)" if "q < next_rref ?w'" for q
  proof (cases "q = ?p")
    case True
    then show ?thesis using mem [of ?p] by (simp add: heap new_room_ok)
  next
    case False
    then have "q < ?p" using that by (simp add: eq)
    from lobby_inv_room [OF inv this] False show ?thesis
      by (subst room_ok_cong [where y = "repo w"]) (auto simp: mem heap)
  qed
  have listed: "listed_ok (repo ?w') q (rooms_heap ?w' q)"
    if "ix_id (repo ?w') i = Some q" for i q
  proof (cases "q = ?p")
    case True
    then show ?thesis using mem [of ?p] by (simp add: heap listed_ok_def)
  next
    case False
    then have "ix_id (repo w) i = Some q" using that by (auto simp: eq split: if_splits)
    from lobby_inv_id [OF inv this] False show ?thesis
      by (subst listed_ok_cong [where y = "repo w"]) (auto simp: mem heap)
  qed
  have nx: "next_rref ?w' = Suc ?p" by (simp add: eq)
  have ids: "q < Suc ?p \<and> rm_ID (rooms_heap ?w' q) = i" if "ix_id (repo ?w') i = Some q" for i q
  proof (cases "q = ?p")
    case False
    then have "ix_id (repo w) i = Some q" using that by (auto simp: eq split: if_splits)
    then show ?thesis using lobby_inv_id [OF inv] False by (fastforce simp: heap)
  next
    case True
    then have "i = ?rid" using that lobby_inv_id [OF inv, of i q] by (auto simp: eq split: if_splits)
    then show ?thesis using True by (simp add: heap)
  qed
  have hosts: "q < Suc ?p" if "ix_host (repo ?w') i = Some q" for i q
    using that lobby_inv_host [OF inv, of i q] by (auto simp: eq split: if_splits)
  have sums: "q < Suc ?p \<and> rm_CtlSum (rooms_heap ?w' q) = d" if "ix_sum (repo ?w') d = Some q" for d q
  proof (cases "q = ?p")
    case False
    then have "ix_sum (repo w) d = Some q" using that by (auto simp: eq split: if_splits)
    then show ?thesis using lobby_inv_sum [OF inv] False by (fastforce simp: heap)
  next
    case True
    then have "d = rm_CtlSum ?r" using that lobby_inv_sum [OF inv, of d q] by (auto simp: eq split: if_splits)
    then show ?thesis using True by (simp add: heap)
  qed
  show ?thesis
    unfolding lobby_inv_def nx using rooms listed ids hosts sums by (simp add: nx)
qed

lemma join_room_select [simp]:
  "rm_ID (join_room now pid q r) = rm_ID r" "rm_Started (join_room now pid q r) = rm_Started r"
  "rm_HostID (join_room now pid q r) = rm_HostID r"
  "rm_MaxPlayers (join_room now pid q r) = rm_MaxPlayers r"
  "rm_PlayersCount (join_room now pid q r) = rm_PlayersCount r + 1"
  by (simp_all add: join_room_def Let_def)

lemma join_room_ok:
  assumes "room_ok x p r" and "\<not> rm_Started r" and "pid \<notin> members x p"
    and "members y p = insert pid (members x p)"
  shows "room_ok y p (join_room now pid q r)"
  using assms by (auto simp: room_ok_def join_room_def Let_def nth_setPlayersColumn)

lemma Join_inv:
  assumes inv: "lobby_inv w" and p: "p < next_rref w" and waiting: "\<not> rm_Started (rooms_heap w p)"
    and free: "ix_host (repo w) (pl_ID (players_heap w q)) = None"
  shows "lobby_inv (Join index_repo now (Some p) (Some q) w)"
proof -
  let ?pid = "pl_ID (players_heap w q)" and ?r = "rooms_heap w p"
    and ?w' = "Join index_repo now (Some p) (Some q) w"
  let ?r' = "join_room now ?pid q ?r"
  have mem: "members (repo ?w') a = (if a = p then insert ?pid (members (repo w) p) else members (repo w) a)"
    for a using free by (auto simp: Join_def Let_def members_def)
  have ok: "room_ok (repo ?w') p ?r'"
    using free by (intro join_room_ok [OF lobby_inv_room [OF inv p] waiting])
      (auto simp: members_def mem [unfolded members_def])
  show ?thesis
  proof (rule lobby_inv_update [OF inv p, where r' = ?r'])
    show "rooms_heap ?w' = (rooms_heap w)(p := ?r')" and "next_rref ?w' = next_rref w"
      by (simp_all add: Join_def Let_def)
    show ids: "ix_id (repo w) i = Some a" if "ix_id (repo ?w') i = Some a" for i a
      using that by (simp add: Join_def Let_def)
    show "members (repo ?w') a = members (repo w) a" if "a \<noteq> p" for a using that by (simp add: mem)
    show "a = p \<and> c = rm_CtlSum ?r' \<or> a \<noteq> p \<and> ix_sum (repo w) c = Some a"
      if "ix_sum (repo ?w') c = Some a" for c a
      using that lobby_inv_sum [OF inv, of c a] by (auto simp: Join_def Let_def split: if_splits)
    show "listed_ok (repo ?w') p ?r'" if "ix_id (repo ?w') (rm_ID ?r') = Some p"
      using lobby_inv_id [OF inv ids [OF that]] mem [of p] by (auto simp: listed_ok_def)
  qed (use ok in auto)
qed

lemma start_room_select [simp]:
  "rm_ID (start_room now sav m r) = rm_ID r" "rm_Started (start_room now sav m r) = True"
  "rm_PlayersCount (start_room now sav m r) = rm_PlayersCount r"
  "rm_Players (start_room now sav m r) = rm_Players r"
  "rm_HostID (start_room now sav m r) = rm_HostID r"
  "rm_Row (start_room now sav m r) = started_row (rm_Row r)"
  by (simp_all add: start_room_def Let_def)

lemma start_room_ok: "room_ok x p r \<Longrightarrow> room_ok x p (start_room now sav m r)"
  by (auto simp: room_ok_def start_room_def Let_def nth_started_row split: if_splits)

lemma MarkStarted_inv:
  assumes inv: "lobby_inv w" and p: "p < next_rref w"
  shows "lobby_inv (MarkStarted index_repo now (Some p) sav m w)"
proof -
  let ?r = "rooms_heap w p" and ?w' = "MarkStarted index_repo now (Some p) sav m w"
  let ?r' = "start_room now sav m ?r"
  have mem: "members (repo ?w') a = members (repo w) a" for a
    by (simp add: MarkStarted_def Let_def)
  have ok: "room_ok (repo ?w') p ?r'"
    using start_room_ok [OF lobby_inv_room [OF inv p]] by (subst room_ok_cong [OF mem])
  show ?thesis
  proof (rule lobby_inv_update [OF inv p, where r' = ?r'])
    show "rooms_heap ?w' = (rooms_heap w)(p := ?r')" and "next_rref ?w' = next_rref w"
      by (simp_all add: MarkStarted_def Let_def)
    show ids: "ix_id (repo w) i = Some a" if "ix_id (repo ?w') i = Some a" for i a
      using that by (simp add: MarkStarted_def Let_def)
    show "a = p \<and> c = rm_CtlSum ?r' \<or> a \<noteq> p \<and> ix_sum (repo w) c = Some a"
      if "ix_sum (repo ?w') c = Some a" for c a
      using that lobby_inv_sum [OF inv, of c a] by (auto simp: MarkStarted_def Let_def split: if_splits)
    show "listed_ok (repo ?w') p ?r'" if "ix_id (repo ?w') (rm_ID ?r') = Some p"
      using lobby_inv_id [OF inv ids [OF that]] mem [of p] by (auto simp: listed_ok_def)
  qed (use ok mem in auto)
qed

section \<open>Steps and reachable worlds\<close>

definition init_world :: "'s \<Rightarrow> 's world" where
  "init_world s =
     \<lparr>rooms_heap = (\<lambda>_. zero_room), next_rref = 0, players_heap = (\<lambda>_. zero_player),
      next_pref = 0, repo = s\<rparr>"

text \<open>
  The calls of the handlers, in their order and under their guards: \<^verbatim>\<open>enterFlow\<close> allocates a player,
  \<^verbatim>\<open>RegNewRoomImpl\<close> and \<^verbatim>\<open>JoinGameImpl\<close> leave first (the join after its checks), \<^verbatim>\<open>Start.Handle\<close>
  starts the room found by the caller's id.
\<close>

inductive lobby_step :: "'s repository \<Rightarrow> 's world \<Rightarrow> 's world \<Rightarrow> bool" for R :: "'s repository" where
  step_player: "lobby_step R w (snd (alloc_player pl w))"
| step_register:
    "rp_Host c = Some q \<Longrightarrow> w1 = snd (Leave R na (pl_ID (players_heap w q)) w) \<Longrightarrow>
     lobby_step R w (snd (RegisterNew R nb c w1))"
| step_join:
    "FindByID R rid (repo w) = (Some p, True) \<Longrightarrow> \<not> rm_Started (rooms_heap w p) \<Longrightarrow>
     rm_PlayersCount (rooms_heap w p) < rm_MaxPlayers (rooms_heap w p) \<Longrightarrow>
     w1 = snd (Leave R na (pl_ID (players_heap w q)) w) \<Longrightarrow>
     lobby_step R w (Join R nb (Some p) (Some q) w1)"
| step_leave: "lobby_step R w (snd (Leave R now pid w))"
| step_start:
    "found (FindByHost R pid (repo w)) = Some p \<Longrightarrow>
     lobby_step R w (MarkStarted R now (Some p) sav m w)"

inductive lobby_reachable :: "'s repository \<Rightarrow> 's world \<Rightarrow> 's world \<Rightarrow> bool"
  for R :: "'s repository" and w0 :: "'s world" where
  reach_init: "lobby_reachable R w0 w0"
| reach_step: "lobby_reachable R w0 w \<Longrightarrow> lobby_step R w w' \<Longrightarrow> lobby_reachable R w0 w'"

context room_repository
begin

lemma snd_Leave_abs:
  "abstract abs (snd (Leave R now pid w)) = snd (Leave index_repo now pid (abstract abs w))"
  by (simp add: Leave_abs)

lemma snd_RegisterNew_abs:
  "abstract abs (snd (RegisterNew R now c w)) = snd (RegisterNew index_repo now c (abstract abs w))"
  by (simp add: RegisterNew_abs)

lemma snd_alloc_player_abs:
  "abstract abs (snd (alloc_player pl w)) = snd (alloc_player pl (abstract abs w))"
  by (simp add: abstract_def alloc_player_def map_world_def)

lemma step_abs: "lobby_step R w w' \<Longrightarrow> lobby_step index_repo (abstract abs w) (abstract abs w')"
proof (induction rule: lobby_step.induct)
  case (step_player w pl)
  show ?case unfolding snd_alloc_player_abs by (rule lobby_step.step_player)
next
  case (step_register c q w1 na w nb)
  then show ?case
    unfolding snd_RegisterNew_abs by (auto simp: snd_Leave_abs intro: lobby_step.step_register)
next
  case (step_join rid w p w1 na q nb)
  have "lobby_step index_repo (abstract abs w)
      (Join index_repo nb (Some p) (Some q) (snd (Leave index_repo na (pl_ID (players_heap w q)) (abstract abs w))))"
    by (rule lobby_step.step_join [where rid = rid]) (use step_join find_id [of rid "repo w"] in auto)
  then show ?case by (simp add: step_join Join_abs [symmetric] snd_Leave_abs)
next
  case (step_leave w now pid)
  show ?case unfolding snd_Leave_abs by (rule lobby_step.step_leave)
next
  case (step_start pid w p now sav m)
  then show ?case
    unfolding MarkStarted_abs [symmetric]
    by (intro lobby_step.step_start) (simp add: find_host)
qed

lemma reachable_abs:
  "lobby_reachable R w0 w \<Longrightarrow> lobby_reachable index_repo (abstract abs w0) (abstract abs w)"
  by (induction rule: lobby_reachable.induct) (auto intro: lobby_reachable.intros step_abs)

end

lemma lobby_inv_init: "lobby_inv (init_world empty_index)"
  by (simp add: lobby_inv_def init_world_def empty_index_def)

lemma host_id_Leave:
  "host_id (Some q) (snd (Leave R now pid w)) = pl_ID (players_heap w q)"
  "pl_ID (players_heap (snd (Leave R now pid w)) q) = pl_ID (players_heap w q)"
  by (auto simp: host_id_def Leave_def Let_def mark_exited_def split: option.splits)

lemma Leave_next [simp]: "next_rref (snd (Leave R now pid w)) = next_rref w"
  by (auto simp: Leave_def Let_def mark_exited_def split: option.splits)

lemma Leave_started [simp]:
  "rm_Started (rooms_heap (snd (Leave R now pid w)) p) = rm_Started (rooms_heap w p)"
  by (auto simp: Leave_def Let_def split: option.splits)

lemma lobby_step_inv: "lobby_step index_repo w w' \<Longrightarrow> lobby_inv w \<Longrightarrow> lobby_inv w'"
proof (induction rule: lobby_step.induct)
  case (step_player w pl)
  then show ?case by (simp add: lobby_inv_def alloc_player_def)
next
  case (step_register c q w1 na w nb)
  then show ?case
    by (intro RegisterNew_inv) (auto simp: host_id_Leave Leave_forgets intro: Leave_inv)
next
  case (step_join rid w p w1 na q nb)
  then have "p < next_rref w" by (auto simp: look_def dest: lobby_inv_id)
  with step_join show ?case
    by (intro Join_inv) (auto simp: host_id_Leave Leave_forgets intro: Leave_inv)
next
  case (step_leave w now pid)
  then show ?case by (rule Leave_inv)
next
  case (step_start pid w p now sav m)
  then show ?case by (auto intro!: MarkStarted_inv dest: lobby_inv_host)
qed

lemma lobby_reachable_inv: "lobby_reachable index_repo w0 w \<Longrightarrow> lobby_inv w0 \<Longrightarrow> lobby_inv w"
  by (induction rule: lobby_reachable.induct) (auto intro: lobby_step_inv)

lemma abstract_init: "abstract store_index (init_world NewStore) = init_world empty_index"
  by (simp add: abstract_def map_world_def init_world_def store_index_def NewStore_def empty_index_def)

lemma store_reachable_inv:
  "lobby_reachable RoomRepoAdapter (init_world NewStore) w \<Longrightarrow> lobby_inv (abstract store_index w)"
  using rooms.reachable_abs [of "init_world NewStore" w] lobby_reachable_inv lobby_inv_init
  by (simp add: abstract_init)

end
