(* ===== verification/Lobby_Props.thy ===== *)
theory Lobby_Props
  imports Lobby_Inv
begin

text \<open>
  The properties of the lobby on the server's store, each derived from the invariant and the
  refinement, with concrete reachable worlds as witnesses.
\<close>

section \<open>Concrete worlds\<close>

definition demo_params :: "pref \<Rightarrow> register_new_params" where
  "demo_params q =
     \<lparr>rp_Host = Some q, rp_HostAddr = ''10.0.0.1'', rp_HostAddrInt = 16777226, rp_Ver = 2,
      rp_Title = ''duel'', rp_Password = [], rp_MaxPlayers = 4, rp_Level = 1,
      rp_LevelLabel = ''Easy'', rp_LockMark = [], rp_NickStr = ''ann'', rp_VEType = [],
      rp_IsAC = False\<rparr>"

text \<open>Three players; the first hosts a room, the others join it one after the other.\<close>

definition demo_players :: "store world" where
  "demo_players =
     snd (alloc_player (zero_player\<lparr>pl_ID := 3\<rparr>) (snd (alloc_player (zero_player\<lparr>pl_ID := 2\<rparr>)
       (snd (alloc_player (zero_player\<lparr>pl_ID := 1\<rparr>) (init_world NewStore))))))"

definition demo_hosted :: "store world" where
  "demo_hosted =
     snd (RegisterNew RoomRepoAdapter 10 (demo_params 0) (snd (Leave RoomRepoAdapter 9 1 demo_players)))"

definition demo_joined :: "store world" where
  "demo_joined =
     Join RoomRepoAdapter 11 (Some 0) (Some 1) (snd (Leave RoomRepoAdapter 11 2 demo_hosted))"

definition demo_full :: "store world" where
  "demo_full =
     Join RoomRepoAdapter 12 (Some 0) (Some 2) (snd (Leave RoomRepoAdapter 12 3 demo_joined))"

definition demo_row :: "int \<Rightarrow> string list" where
  "demo_row n =
     [''1'', [], ''duel'', ''ann'', ''Easy'', fmt_d n @ ''/4'', ''2'', ''16777226'', ''0FFFFFFFE'']"

lemma demo_players_ids [simp]:
  "pl_ID (players_heap demo_players 0) = 1" "pl_ID (players_heap demo_players (Suc 0)) = 2"
  "pl_ID (players_heap demo_players 2) = 3"
  by (simp_all add: demo_players_def alloc_player_def init_world_def)

lemma players_ids_stable [simp]:
  "pl_ID (players_heap (snd (RegisterNew R n c w)) q) = pl_ID (players_heap w q)"
  "pl_ID (players_heap (Join R n ro po w) q) = pl_ID (players_heap w q)"
  "pl_ID (players_heap (snd (Leave R n i w)) q) = pl_ID (players_heap w q)"
  by (auto simp: RegisterNew_def Join_def Leave_def Let_def alloc_room_def index_new_def mark_exited_def
      split: option.splits prod.splits)

lemma demo_new_row: "new_row 1 (demo_params 0) = demo_row 1"
  by (simp add: new_row_def demo_params_def demo_row_def fmt_u32_def fmt_d_def nat_dec.simps
      nat_hex.simps hex_digit_def) code_simp

text \<open>The same worlds as explicit values of their rooms and indexes.\<close>

definition room_base :: room where
  "room_base = new_room 10 1 1 (demo_params 0)"

lemma demo_hosted_eq:
  "rooms_heap demo_hosted 0 = room_base" "next_rref demo_hosted = 1"
  "roomsByID (repo demo_hosted) = [1 \<mapsto> 0]" "roomsByPID (repo demo_hosted) = [1 \<mapsto> Some 0]"
  "roomsBySum (repo demo_hosted) = [rm_CtlSum room_base \<mapsto> 0]"
  by (simp_all add: demo_hosted_def RegisterNew_def Leave_def RoomRepoAdapter_def store_ops Let_def found_def
     alloc_room_def index_new_def host_id_def room_base_def demo_params_def demo_players_def
     alloc_player_def init_world_def NewStore_def set_repo_def)

lemma Leave_outside:
  "GetRoomByHost pid (repo w) = None \<Longrightarrow> Leave RoomRepoAdapter n pid w = ((None, False), w)"
  by (auto simp: Leave_def RoomRepoAdapter_def store_ops found_def split: option.splits)

lemma Join_store:
  "Join RoomRepoAdapter n (Some p) (Some q) w =
     (let r = rooms_heap w p; pid = pl_ID (players_heap w q); r' = join_room n pid q r; s = repo w
      in w\<lparr>rooms_heap := (rooms_heap w)(p := r'),
           repo := s\<lparr>roomsByPID := (roomsByPID s)(pid \<mapsto> Some p),
                     roomsBySum := (roomsBySum s)(rm_CtlSum r := None, rm_CtlSum r' \<mapsto> p)\<rparr>\<rparr>)"
  by (simp add: Join_def Let_def RoomRepoAdapter_def store_ops set_repo_def set_room_def)

definition room_two :: room where
  "room_two = join_room 11 2 1 room_base"

definition room_three :: room where
  "room_three = join_room 12 3 2 room_two"

lemma room_base_select [simp]:
  "rm_ID room_base = 1" "rm_HostID room_base = 1" "rm_Started room_base = False"
  "rm_PlayersCount room_base = 1" "rm_MaxPlayers room_base = 4"
  "rm_Row room_base = demo_row 1" "rm_Players room_base = [1 \<mapsto> Some 0]"
  by (simp_all add: room_base_def demo_new_row) (simp_all add: demo_params_def)

lemma demo_ids [simp]:
  "pl_ID (players_heap demo_hosted q) = pl_ID (players_heap demo_players q)"
  "pl_ID (players_heap demo_joined q) = pl_ID (players_heap demo_players q)"
  "pl_ID (players_heap demo_full q) = pl_ID (players_heap demo_players q)"
  by (simp_all add: demo_hosted_def demo_joined_def demo_full_def)

lemma demo_joined_alt: "demo_joined = Join RoomRepoAdapter 11 (Some 0) (Some 1) demo_hosted"
  by (simp add: demo_joined_def Leave_outside GetRoomByHost_def demo_hosted_eq)

lemma demo_joined_eq:
  "rooms_heap demo_joined 0 = room_two" "next_rref demo_joined = 1"
  "roomsByID (repo demo_joined) = [1 \<mapsto> 0]"
  "roomsByPID (repo demo_joined) = [1 \<mapsto> Some 0, 2 \<mapsto> Some 0]"
  by (simp_all add: demo_joined_alt Join_store Let_def demo_hosted_eq room_two_def)

lemma demo_full_alt: "demo_full = Join RoomRepoAdapter 12 (Some 0) (Some 2) demo_joined"
  by (simp add: demo_full_def Leave_outside GetRoomByHost_def demo_joined_eq)

lemma demo_full_eq:
  "rooms_heap demo_full 0 = room_three" "next_rref demo_full = 1"
  "roomsByID (repo demo_full) = [1 \<mapsto> 0]"
  "roomsByPID (repo demo_full) = [1 \<mapsto> Some 0, 2 \<mapsto> Some 0, 3 \<mapsto> Some 0]"
  by (simp_all add: demo_full_alt Join_store Let_def demo_joined_eq room_three_def)

lemma demo_rooms_select [simp]:
  "rm_ID room_two = 1" "rm_HostID room_two = 1" "rm_Started room_two = False"
  "rm_PlayersCount room_two = 2" "rm_MaxPlayers room_two = 4"
  "rm_ID room_three = 1" "rm_HostID room_three = 1" "rm_Started room_three = False"
  "rm_PlayersCount room_three = 3" "rm_MaxPlayers room_three = 4"
  by (simp_all add: room_two_def room_three_def)

abbreviation server_reachable :: "store world \<Rightarrow> bool" where
  "server_reachable \<equiv> lobby_reachable RoomRepoAdapter (init_world NewStore)"

lemma reach_players: "server_reachable demo_players"
  unfolding demo_players_def by (intro reach_step [OF _ step_player] reach_init)

lemma reach_hosted: "server_reachable demo_hosted"
  unfolding demo_hosted_def
  by (intro reach_step [OF reach_players] step_register [where q = 0 and na = 9])
    (simp_all add: demo_params_def)

lemma reach_joined: "server_reachable demo_joined"
  unfolding demo_joined_def
  by (intro reach_step [OF reach_hosted] step_join [where rid = 1 and na = 11])
    (simp_all add: RoomRepoAdapter_def FindRoom_def demo_hosted_eq)

lemma reach_full: "server_reachable demo_full"
  unfolding demo_full_def
  by (intro reach_step [OF reach_joined] step_join [where rid = 1 and na = 12])
    (simp_all add: RoomRepoAdapter_def FindRoom_def demo_joined_eq)

section \<open>Consistency of the rooms\<close>

lemma members_store: "members (store_index s) p = {pid. GetRoomByHost pid s = Some p}"
  by (simp add: members_def store_index_def GetRoomByHost_def)

text \<open>What the invariant says of a room listed under an id, in terms of the store.\<close>

lemma listed_room:
  assumes inv: "lobby_inv (abstract store_index w)" and "roomsByID (repo w) i = Some p"
  shows "let r = rooms_heap w p; ms = {pid. GetRoomByHost pid (repo w) = Some p} in
    rm_ID r = i \<and> rm_CtlSum r = controlSum (rm_Row r) \<and> rm_PlayersCount r = int (card ms) \<and>
    1 \<le> rm_PlayersCount r \<and> ms \<subseteq> dom (rm_Players r) \<and>
    (\<not> rm_Started r \<longrightarrow> rm_HostID r \<in> ms \<and> ms = dom (rm_Players r) \<and>
      rm_Row r ! (length (rm_Row r) - 4) = players_cell (rm_PlayersCount r) (rm_MaxPlayers r))"
proof -
  let ?a = "abstract store_index w"
  have "ix_id (repo ?a) i = Some p" using assms(2) by (simp add: store_index_def)
  from lobby_inv_id [OF inv this]
  have p: "p < next_rref ?a" "rm_ID (rooms_heap w p) = i"
    and listed: "listed_ok (repo ?a) p (rooms_heap w p)" by auto
  have "room_ok (repo ?a) p (rooms_heap w p)" using lobby_inv_room [OF inv p(1)] by simp
  with listed p(2) show ?thesis
    by (simp add: room_ok_def listed_ok_def members_store Let_def Suc_le_eq card_gt_0_iff split: if_splits)
qed

section \<open>Registering\<close>

text \<open>
  Registering a room always allocates a fresh room, makes it findable by the next id, by the
  host and by its checksum, touches no other room, and gives it one player, the host, and the row
  the room table shows, whose last cells hold level, players, version, address and the complement
  of the id.
\<close>

theorem RegisterNew_lists_room:
  "let h = host_id (rp_Host c) w; rid = lastRoomID (repo w) + 1 in case RegisterNew RoomRepoAdapter now c w of (p, w') \<Rightarrow>
    p = next_rref w \<and> rooms_heap w' = (rooms_heap w)(p := rooms_heap w' p) \<and>
    FindRoom rid (repo w') = (Some p, True) \<and> GetRoomByHost h (repo w') = Some p \<and>
    FindRoomBySum (controlSum (new_row rid c)) (repo w') = (Some p, True) \<and>
    lastRoomID (repo w') = rid \<and> players (repo w') = players (repo w) \<and>
    rm_ID (rooms_heap w' p) = rid \<and> rm_HostID (rooms_heap w' p) = h \<and>
    rm_PlayersCount (rooms_heap w' p) = 1 \<and> rm_Players (rooms_heap w' p) = [h \<mapsto> rp_Host c] \<and>
    rm_Row (rooms_heap w' p) = new_row rid c"
  by (simp add: RegisterNew_def RoomRepoAdapter_def store_ops Let_def alloc_room_def index_new_def
      set_repo_def host_id_def split: option.split)

section \<open>Joining and leaving\<close>

lemma setPlayersColumn_twice:
  "4 \<le> length row \<Longrightarrow> row ! (length row - 4) = players_cell n m \<Longrightarrow>
   setPlayersColumn (setPlayersColumn row k m) n m = row"
  using list_update_id [of row "length row - 4"]
  by (auto simp: setPlayersColumn_def players_idx_def)

lemma leave_join_room:
  assumes "room_ok x p r" and "\<not> rm_Started r" and "pid \<notin> dom (rm_Players r)"
  shows "leave_room pid (join_room now pid q r) = r"
proof -
  have "dom (rm_PlayersTime r) = dom (rm_Players r)" using assms by (simp add: room_ok_def)
  then have "rm_Players r pid = None" and "rm_PlayersTime r pid = None"
    using assms(3) by (simp_all add: domIff, metis domIff)
  then show ?thesis
    using assms by (simp add: room_ok_def leave_room_def join_room_def Let_def setPlayersColumn_twice
        map_upd_Some_unfold fun_upd_idem)
qed

lemma Leave_store:
  assumes "GetRoomByHost pid (repo w) = Some p"
  shows "Leave RoomRepoAdapter n pid w =
    (let r = rooms_heap w p; r' = leave_room pid r;
         s1 = UnindexRoomBySum (rm_CtlSum r) (UnindexRoomByHost pid (Store_RoomMu (rm_ID r) (repo w)));
         w1 = (set_room p r' (mark_exited n pid r w))
     in if should_delete pid r'
        then ((Some p, True), w1\<lparr>repo := UnindexRoomBySum (rm_CtlSum r') (UnindexRoomByID (rm_ID r) s1)\<rparr>)
        else ((Some p, False), w1\<lparr>repo := IndexRoomBySum (Some (p, r')) s1\<rparr>))"
proof -
  have "found (FindRoomByHost pid (repo w)) = Some p"
    using assms by (auto simp: GetRoomByHost_def FindRoomByHost_def found_def split: option.splits)
  then show ?thesis
    by (simp add: Leave_def RoomRepoAdapter_def Let_def set_repo_def set_room_def mark_exited_def
        set_player_def split: option.splits)
qed

lemma Store_RoomMu_select [simp]:
  "roomsByID (Store_RoomMu i s) = roomsByID s" "roomsByPID (Store_RoomMu i s) = roomsByPID s"
  "roomsBySum (Store_RoomMu i s) = roomsBySum s" "players (Store_RoomMu i s) = players s"
  "lastRoomID (Store_RoomMu i s) = lastRoomID s"
  by (simp_all add: Store_RoomMu_def)

lemma mark_exited_waiting [simp]: "\<not> rm_Started r \<Longrightarrow> mark_exited n pid r w = w"
  by (simp add: mark_exited_def)

text \<open>
  C22. A player that joins a waiting room and leaves it again leaves no trace: the room's record is
  exactly the one before, members, times, counter, row and checksum included, every other room and
  all players are untouched, the by-id and by-player lookups are those of before, and the room is
  found again by its old checksum.
\<close>

theorem join_then_leave_restores:
  assumes "server_reachable w" and "p < next_rref w" and "\<not> rm_Started (rooms_heap w p)"
    and "pid = pl_ID (players_heap w q)" and "GetRoomByHost pid (repo w) = None"
    and "pid \<noteq> rm_HostID (rooms_heap w p)" and "1 \<le> rm_PlayersCount (rooms_heap w p)"
  shows "case Leave RoomRepoAdapter n2 pid (Join RoomRepoAdapter n1 (Some p) (Some q) w) of (res, w') \<Rightarrow>
    res = (Some p, False) \<and> rooms_heap w' = rooms_heap w \<and> players_heap w' = players_heap w \<and>
    roomsByID (repo w') = roomsByID (repo w) \<and>
    (\<forall>i. GetRoomByHost i (repo w') = GetRoomByHost i (repo w)) \<and>
    GetRoomBySum (rm_CtlSum (rooms_heap w p)) (repo w') = Some p"
proof -
  let ?r = "rooms_heap w p" and ?a = "abstract store_index w"
  have "lobby_inv ?a" by (rule store_reachable_inv [OF assms(1)])
  then have ok: "room_ok (repo ?a) p ?r" using lobby_inv_room [of ?a p] assms(2) by simp
  then have "dom (rm_Players ?r) = members (repo ?a) p" using assms(3) by (simp add: room_ok_def)
  then have "pid \<notin> dom (rm_Players ?r)" using assms(5) by (simp add: members_store)
  note undone = leave_join_room [OF ok assms(3) this, of n1 q]
  let ?w1 = "Join RoomRepoAdapter n1 (Some p) (Some q) w"
  let ?j = "join_room n1 pid q ?r"
  have w1: "rooms_heap ?w1 = (rooms_heap w)(p := ?j)" "players_heap ?w1 = players_heap w"
    "roomsByID (repo ?w1) = roomsByID (repo w)"
    "roomsByPID (repo ?w1) = (roomsByPID (repo w))(pid \<mapsto> Some p)"
    by (simp_all add: Join_store Let_def assms(4))
  then have "GetRoomByHost pid (repo ?w1) = Some p" by (simp add: GetRoomByHost_def)
  note leave = Leave_store [OF this, of n2]
  have keep: "\<not> should_delete pid ?r" using assms by (simp add: should_delete_def)
  define s2 where "s2 = UnindexRoomBySum (rm_CtlSum ?j) (UnindexRoomByHost pid (Store_RoomMu (rm_ID ?r) (repo ?w1)))"
  have run: "Leave RoomRepoAdapter n2 pid ?w1 =
      ((Some p, False), (set_room p ?r ?w1)\<lparr>repo := IndexRoomBySum (Some (p, ?r)) s2\<rparr>)"
    using keep assms(3) by (simp add: leave w1 undone Let_def s2_def)
  have "roomsByPID s2 = (roomsByPID (repo w))(pid := None)" "roomsByID s2 = roomsByID (repo w)"
    by (simp_all add: s2_def store_ops w1)
  then show ?thesis
    using assms(5) by (auto simp: run w1 store_ops split: option.splits)
qed

theorem join_then_leave_restores_witness:
  "case Leave RoomRepoAdapter 13 3 (Join RoomRepoAdapter 12 (Some 0) (Some 2) demo_joined) of (res, w') \<Rightarrow>
    res = (Some 0, False) \<and> rooms_heap w' = rooms_heap demo_joined"
  using join_then_leave_restores [OF reach_joined, of 0 3 2 13 12]
  by (simp add: demo_joined_eq GetRoomByHost_def) (simp split: prod.splits)

lemma waiting_room_facts:
  assumes "server_reachable w" and "GetRoomByHost pid (repo w) = Some p"
    and "\<not> rm_Started (rooms_heap w p)"
  shows "should_delete pid (leave_room pid (rooms_heap w p)) \<longleftrightarrow>
      pid = rm_HostID (rooms_heap w p) \<or> rm_PlayersCount (rooms_heap w p) = 1"
    and "roomsBySum (repo w) c = Some p \<Longrightarrow> c = rm_CtlSum (rooms_heap w p)"
    and "roomsByID (repo w) i = Some p \<Longrightarrow> i = rm_ID (rooms_heap w p)"
proof -
  let ?r = "rooms_heap w p" and ?a = "abstract store_index w"
  have inv: "lobby_inv ?a" by (rule store_reachable_inv [OF assms(1)])
  have pid: "pid \<in> members (repo ?a) p" using assms(2) by (simp add: members_store)
  then have "p < next_rref w" using lobby_inv_host [OF inv] by (simp add: members_def)
  then have ok: "room_ok (repo ?a) p ?r" using lobby_inv_room [OF inv, of p] by simp
  have "1 \<le> rm_PlayersCount ?r"
    using ok pid card_gt_0_iff [of "members (repo ?a) p"] by (auto simp: room_ok_def)
  then show "should_delete pid (leave_room pid ?r) \<longleftrightarrow> pid = rm_HostID ?r \<or> rm_PlayersCount ?r = 1"
    using assms(3) by (auto simp: should_delete_def)
  show "roomsBySum (repo w) c = Some p \<Longrightarrow> c = rm_CtlSum ?r"
    using lobby_inv_sum [OF inv, of c p] by (auto simp: store_index_def)
  show "roomsByID (repo w) i = Some p \<Longrightarrow> i = rm_ID ?r"
    using lobby_inv_id [OF inv, of i p] by (auto simp: store_index_def)
qed

text \<open>
  C9. When the host leaves a room that has not started, the room is closed: it is reported deleted,
  found neither by its id nor by its checksum, and the host is in no room. If somebody else
  leaves and a player remains, the room stays listed under its new checksum with one player less.
\<close>

theorem Leave_waiting_room:
  assumes "server_reachable w" and "GetRoomByHost pid (repo w) = Some p"
    and "\<not> rm_Started (rooms_heap w p)"
  shows "case Leave RoomRepoAdapter n pid w of ((res, deleted), w') \<Rightarrow>
    res = Some p \<and> GetRoomByHost pid (repo w') = None \<and>
    rm_PlayersCount (rooms_heap w' p) = rm_PlayersCount (rooms_heap w p) - 1 \<and>
    dom (rm_Players (rooms_heap w' p)) = dom (rm_Players (rooms_heap w p)) - {pid} \<and>
    (deleted \<longleftrightarrow> pid = rm_HostID (rooms_heap w p) \<or> rm_PlayersCount (rooms_heap w p) = 1) \<and>
    (if deleted
     then GetRoom (rm_ID (rooms_heap w p)) (repo w') = None \<and> p \<notin> ran (roomsByID (repo w')) \<and>
       p \<notin> ran (roomsBySum (repo w'))
     else roomsByID (repo w') = roomsByID (repo w) \<and>
       GetRoomBySum (rm_CtlSum (rooms_heap w' p)) (repo w') = Some p)"
proof -
  have "dom (rm_Players (leave_room pid (rooms_heap w p))) = dom (rm_Players (rooms_heap w p)) - {pid}"
    using assms(3) by (simp add: leave_room_def Let_def)
  then show ?thesis
    using assms(3) waiting_room_facts [OF assms]
    by (auto simp: Leave_store [OF assms(2)] Let_def store_ops ran_def split: if_splits)
qed

theorem Leave_waiting_room_witness:
  "case Leave RoomRepoAdapter 13 1 demo_full of ((res, deleted), w') \<Rightarrow>
     res = Some 0 \<and> deleted \<and> GetRoom 1 (repo w') = None"
  using Leave_waiting_room [OF reach_full, of 1 0 13]
  by (auto simp: demo_full_eq GetRoomByHost_def split: prod.splits if_splits)

section \<open>Starting\<close>

text \<open>
  C12. Once a room has started, no step of the lobby (a new player, registering, joining a room where the
  handler admits it, leaving, starting) changes who is listed in it or when they joined, or any cell of
  its row besides the second and the last; it only loses active players, and it never becomes a waiting
  room again.
\<close>

theorem started_room_keeps_players:
  assumes "server_reachable w" and "lobby_step RoomRepoAdapter w w'"
    and "p < next_rref w" and "rm_Started (rooms_heap w p)"
  shows "rm_Started (rooms_heap w' p) \<and>
    rm_Players (rooms_heap w' p) = rm_Players (rooms_heap w p) \<and>
    rm_PlayersTime (rooms_heap w' p) = rm_PlayersTime (rooms_heap w p) \<and>
    rm_PlayersCount (rooms_heap w' p) \<le> rm_PlayersCount (rooms_heap w p) \<and>
    length (rm_Row (rooms_heap w' p)) = length (rm_Row (rooms_heap w p)) \<and>
    (\<forall>i. i \<noteq> 1 \<longrightarrow> i < length (rm_Row (rooms_heap w p)) - 1 \<longrightarrow>
      rm_Row (rooms_heap w' p) ! i = rm_Row (rooms_heap w p) ! i)"
proof -
  have leave: "rm_Started (rooms_heap (snd (Leave RoomRepoAdapter n pid w)) p) \<and>
      rm_Players (rooms_heap (snd (Leave RoomRepoAdapter n pid w)) p) = rm_Players (rooms_heap w p) \<and>
      rm_PlayersTime (rooms_heap (snd (Leave RoomRepoAdapter n pid w)) p) = rm_PlayersTime (rooms_heap w p) \<and>
      rm_PlayersCount (rooms_heap (snd (Leave RoomRepoAdapter n pid w)) p) \<le> rm_PlayersCount (rooms_heap w p) \<and>
      rm_Row (rooms_heap (snd (Leave RoomRepoAdapter n pid w)) p) = rm_Row (rooms_heap w p)" for n pid
    using assms(4)
    by (auto simp: Leave_def Let_def leave_room_def rooms_heap_mark_exited split: option.splits)
  from assms(2) show ?thesis
  proof (cases rule: lobby_step.cases)
    case (step_player pl)
    then show ?thesis using assms(4) by (simp add: alloc_player_def)
  next
    case (step_register c q w1 na nb)
    then have "p \<noteq> next_rref w1" and "rooms_heap w' p = rooms_heap w1 p"
      using assms(3) by (auto simp: RegisterNew_def Let_def alloc_room_def index_new_def split: prod.split)
    then show ?thesis using leave [of na "pl_ID (players_heap w q)"] step_register by simp
  next
    case (step_join rid p' w1 na q nb)
    then have "p \<noteq> p'" using assms(4) by auto
    then have "rooms_heap w' p = rooms_heap w1 p" using step_join by (simp add: Join_def Let_def)
    then show ?thesis using leave [of na "pl_ID (players_heap w q)"] step_join by simp
  next
    case (step_leave n pid)
    then show ?thesis using leave [of n pid] by simp
  next
    case (step_start pid p' n sav m)
    then show ?thesis
      using assms(4)
      by (cases "p' = p") (auto simp: MarkStarted_def start_room_def Let_def started_row_keeps)
  qed
qed

definition demo_started :: "store world" where
  "demo_started = MarkStarted RoomRepoAdapter 20 (Some 0) ''sav:[7]'' ''(1 map)'' demo_full"

lemma reach_started: "server_reachable demo_started"
  unfolding demo_started_def
  by (intro reach_step [OF reach_full] step_start [where pid = 1])
    (simp add: RoomRepoAdapter_def FindRoomByHost_def found_def demo_full_eq)

lemma demo_started_eq:
  "next_rref demo_started = 1" "rm_Started (rooms_heap demo_started 0)"
  by (simp_all add: demo_started_def MarkStarted_def Let_def demo_full_eq)

theorem started_room_keeps_players_witness:
  "rm_Players (rooms_heap (snd (Leave RoomRepoAdapter 30 1 demo_started)) 0) =
     rm_Players (rooms_heap demo_started 0)"
  using started_room_keeps_players [OF reach_started step_leave, of 0 30 1]
  by (simp add: demo_started_eq)

text \<open>
  Starting a room replaces exactly the second cell of its row by the started mark and the first
  byte of the last cell by \<open>1\<close>, takes the players of the moment as the players of the game, and
  moves the room from its old checksum to the new one; the other indexes stay. The save number is
  the number of a token \<^verbatim>\<open>sav:[N]\<close> that fits an \<^verbatim>\<open>int\<close>, and 0 for a token without digits.
\<close>

theorem MarkStarted_marks_row:
  fixes w :: "store world" and p :: rref
  defines "r \<equiv> rooms_heap w p"
  assumes "3 \<le> length (rm_Row r)" and "last (rm_Row r) = c # cs"
  shows "let w' = MarkStarted RoomRepoAdapter now (Some p) (''sav:['' @ nat_dec n @ '']'') m w; r' = rooms_heap w' p in
    rm_Started r' \<and> rm_StartPlayers r' = rm_PlayersCount r \<and> rm_Map r' = m \<and>
    rm_SaveFrom r' = (if n < 2 ^ 63 then int n else 0) \<and>
    rm_Row r' = (rm_Row r)[1 := started_mark, length (rm_Row r) - 1 := CHR ''1'' # cs] \<and>
    FindRoomBySum (rm_CtlSum r') (repo w') = (Some p, True) \<and>
    (rm_CtlSum r \<noteq> rm_CtlSum r' \<longrightarrow> FindRoomBySum (rm_CtlSum r) (repo w') = (None, False)) \<and>
    roomsByID (repo w') = roomsByID (repo w) \<and> roomsByPID (repo w') = roomsByPID (repo w)"
proof -
  have "sav_submatch (''sav:['' @ nat_dec n @ '']'') = Some (nat_dec n)"
    by (simp add: sav_submatch_def has_prefix_def has_suffix_def Let_def)
  then have sav: "sav_from (''sav:['' @ nat_dec n @ '']'') = (if n < 2 ^ 63 then int n else 0)"
    by (auto simp: sav_from_def atoi_nat_dec atoi_abs_def Let_def split: if_splits)
  have "(rm_Row r)[Suc 0 := started_mark] \<noteq> []" using assms(2) by auto
  moreover have "last ((rm_Row r)[Suc 0 := started_mark]) = c # cs"
    using assms(2,3) by (subst last_list_update) auto
  ultimately have row: "started_row (rm_Row r) = (rm_Row r)[1 := started_mark, length (rm_Row r) - 1 := CHR ''1'' # cs]"
    using assms(2) by (simp add: started_row_def Let_def)
  show ?thesis
    by (simp add: MarkStarted_def Let_def start_room_def sav row r_def [symmetric] RoomRepoAdapter_def
        store_ops del: append_Cons)
qed

theorem MarkStarted_marks_row_witness:
  "rm_Row (rooms_heap (MarkStarted RoomRepoAdapter 20 (Some 0) (''sav:['' @ nat_dec 7 @ '']'') ''(1 map)'' demo_hosted) 0) =
     [''1'', started_mark, ''duel'', ''ann'', ''Easy'', fmt_d 1 @ ''/4'', ''2'', ''16777226'', ''1FFFFFFFE'']"
  using MarkStarted_marks_row [of demo_hosted 0 "CHR ''0''" "''FFFFFFFE''" 20 7 "''(1 map)''"]
  by (simp add: demo_hosted_eq demo_row_def Let_def)

section \<open>What the indexes do not guarantee\<close>

text \<open>
  C28. A closed room can come back. Take any room that waits with three players or more. When its host
  leaves, the room is closed: it is listed under no id and no checksum. But the entries of the other
  members still lead to it, so when one of them leaves, the room is indexed by its new checksum again,
  where the room table of \<^verbatim>\<open>GETTBL\<close> looks rooms up, and stays without an id by which anybody could join it.
\<close>

theorem closed_room_relisted:
  assumes "server_reachable w" and "\<not> rm_Started (rooms_heap w p)" and "3 \<le> rm_PlayersCount (rooms_heap w p)"
    and host: "GetRoomByHost h (repo w) = Some p" "rm_HostID (rooms_heap w p) = h"
    and member: "GetRoomByHost m (repo w) = Some p" "m \<noteq> h"
  shows "let w1 = snd (Leave RoomRepoAdapter n1 h w); w2 = snd (Leave RoomRepoAdapter n2 m w1); r2 = rooms_heap w2 p in
    p \<notin> ran (roomsByID (repo w1)) \<and> p \<notin> ran (roomsBySum (repo w1)) \<and>
    server_reachable w2 \<and> GetRoomBySum (rm_CtlSum r2) (repo w2) = Some p \<and>
    FindRoom (rm_ID r2) (repo w2) = (None, False) \<and> p \<notin> ran (roomsByID (repo w2)) \<and>
    rm_PlayersCount r2 = rm_PlayersCount (rooms_heap w p) - 2"
proof -
  let ?r = "rooms_heap w p"
  define w1 where "w1 = snd (Leave RoomRepoAdapter n1 h w)"
  define w2 where "w2 = snd (Leave RoomRepoAdapter n2 m w1)"
  note facts = waiting_room_facts [OF assms(1) host(1) assms(2)]
  have "should_delete h (leave_room h ?r)" using facts(1) host(2) by simp
  note closed = Leave_store [OF host(1), of n1, unfolded Let_def if_P [OF this]]
  have w1: "rooms_heap w1 p = leave_room h ?r" "roomsByID (repo w1) = (roomsByID (repo w))(rm_ID ?r := None)"
    "roomsByPID (repo w1) m = roomsByPID (repo w) m" "p \<notin> ran (roomsBySum (repo w1))"
    using facts(2) member(2) by (auto simp: w1_def closed store_ops ran_def split: if_splits)
  have unlisted: "p \<notin> ran (roomsByID (repo w1))" using facts(3) by (auto simp: w1(2) ran_def)
  have "GetRoomByHost m (repo w1) = Some p" using member(1) by (simp add: GetRoomByHost_def w1(3))
  note left = Leave_store [OF this, of n2]
  have "\<not> should_delete m (leave_room m (leave_room h ?r))"
    using assms(2,3) host(2) member(2) by (simp add: should_delete_def leave_room_def Let_def)
  then have w2: "rooms_heap w2 p = leave_room m (leave_room h ?r)" "roomsByID (repo w2) = roomsByID (repo w1)"
    "GetRoomBySum (rm_CtlSum (leave_room m (leave_room h ?r))) (repo w2) = Some p"
    by (simp_all add: w2_def left Let_def w1(1) store_ops)
  have "server_reachable w2"
    unfolding w2_def w1_def by (rule reach_step [OF reach_step [OF assms(1) step_leave] step_leave])
  moreover have "rm_ID (leave_room m (leave_room h ?r)) = rm_ID ?r"
    "rm_PlayersCount (leave_room m (leave_room h ?r)) = rm_PlayersCount ?r - 2"
    by (simp_all add: leave_room_def Let_def)
  ultimately show ?thesis
    using w1(4) unlisted w2 unfolding Let_def w1_def [symmetric] w2_def [symmetric]
    by (simp add: FindRoom_def w1(2))
qed

theorem closed_room_relisted_witness:
  "let w1 = snd (Leave RoomRepoAdapter 30 1 demo_full); w2 = snd (Leave RoomRepoAdapter 31 2 w1) in
    GetRoom 1 (repo demo_full) = Some 0 \<and> server_reachable w2 \<and>
    GetRoomBySum (rm_CtlSum (rooms_heap w2 0)) (repo w2) = Some 0 \<and> 0 \<notin> ran (roomsByID (repo w2))"
  using closed_room_relisted [OF reach_full, of 0 1 2 30 31]
  by (simp add: demo_full_eq GetRoomByHost_def GetRoom_def Let_def)

section \<open>Titles\<close>

text \<open>
  The title of a new room has at most 60 bytes and no control bytes, and is not empty if the
  validated title starts with a printable ASCII character. The last condition is needed: a validated
  title of 60 spaces and a letter is normalised to the empty title.
\<close>

theorem NormalizeTitle_of_valid:
  assumes "ValidateTitle raw"
  shows "length (NormalizeTitle raw) \<le> MaxTitleLen \<and>
    list_all (\<lambda>c. \<not> title_control_byte c) (NormalizeTitle raw) \<and>
    (plain_char (hd raw) \<longrightarrow> NormalizeTitle raw \<noteq> []) \<and>
    ValidateTitle (replicate 60 CHR '' '' @ ''x'') \<and> NormalizeTitle (replicate 60 CHR '' '' @ ''x'') = []"
proof -
  have sixty: "trim_space (replicate 60 CHR '' '') = []" by code_simp
  have valid: "ValidateTitle (replicate 60 CHR '' '' @ ''x'')" by code_simp
  let ?cut = "if MaxTitleLen < length raw then take MaxTitleLen raw else raw"
  have "set (NormalizeTitle raw) \<subseteq> set raw"
    using set_trim_space [of ?cut] by (auto simp: NormalizeTitle_def dest: in_set_takeD split: if_splits)
  moreover have "list_all (\<lambda>c. \<not> title_control_byte c) raw"
    using assms by (auto simp: ValidateTitle_def list_ex_iff list_all_iff split: if_splits)
  ultimately have clean: "list_all (\<lambda>c. \<not> title_control_byte c) (NormalizeTitle raw)"
    by (auto simp: list_all_iff)
  have "NormalizeTitle raw \<noteq> []" if "plain_char (hd raw)"
  proof -
    have "raw \<noteq> []" using assms by (auto simp: ValidateTitle_def)
    then obtain d ds where d: "raw = d # ds" by (cases raw) auto
    have "\<exists>es. ?cut = d # es" by (simp add: d MaxTitleLen_def)
    then obtain es where "?cut = d # es" ..
    then show ?thesis using that trim_space_starts_plain [of d es] unfolding NormalizeTitle_def by (simp add: d)
  qed
  with sixty valid clean length_trim_space [of ?cut] show ?thesis
    by (auto simp: NormalizeTitle_def MaxTitleLen_def)
qed

theorem NormalizeTitle_of_valid_witness:
  "length (NormalizeTitle ''duel'') \<le> MaxTitleLen \<and> NormalizeTitle ''duel'' \<noteq> []"
proof -
  have "ValidateTitle ''duel''" and "plain_char (hd ''duel'')" by code_simp+
  from NormalizeTitle_of_valid [OF this(1)] this(2) show ?thesis by simp
qed

end
