(* ===== verification/Dispatcher.thy ===== *)
theory Dispatcher
  imports Routes Lobby_Props
begin

text \<open>
  From a request to its handler and back: the table of open routes (\<^verbatim>\<open>dispatch_routes.go\<close>), the
  command registry (\<^verbatim>\<open>registry.go\<close>), the names that are answered without a handler
  (\<^verbatim>\<open>unimplemented.go\<close>), the dispatch itself (\<^verbatim>\<open>dispatcher.go\<close>) and the loop over the requests of a
  connection (\<^verbatim>\<open>transport/tcp/server.go\<close>).

  What the outside does to the server is an \<open>event\<close>; a run is a list of events, each with the
  environment of its moment. Requests of different connections may come in any order, and each is
  served to its end before the next: the interleaving inside a handler is not modelled.
\<close>

section \<open>Open routes (dispatch\_routes.go, unimplemented.go)\<close>

definition unimplementedOpenRoutes :: "string set" where
  "unimplementedOpenRoutes = {''direct'', ''direct_ping'', ''direct_join'', ''started_room_message''}"

definition isUnimplementedOpenRoute :: "string \<Rightarrow> bool" where
  "isUnimplementedOpenRoute method \<longleftrightarrow> method \<in> unimplementedOpenRoutes"

type_synonym route_handler = "params \<Rightarrow> server \<Rightarrow> route_result"

definition openRoutes :: "env \<Rightarrow> cref \<Rightarrow> gsc_stream \<Rightarrow> string \<rightharpoonup> route_handler" where
  "openRoutes e c req =
     [''enter'' \<mapsto> Enter e c req,
      ''try_enter'' \<mapsto> TryEnter e c req,
      ''startup'' \<mapsto> (\<lambda>p. Startup e c req),
      ''games'' \<mapsto> (\<lambda>p. Startup e c req),
      ''rooms_table_dgl'' \<mapsto> (\<lambda>p. Startup e c req),
      ''resize'' \<mapsto> Resize c,
      ''new_room_dgl'' \<mapsto> NewRoomDialog e req,
      ''reg_new_room'' \<mapsto> RegNewRoom e c req,
      ''join_game'' \<mapsto> JoinGame e c (Some req),
      ''room_info_dgl'' \<mapsto> RoomInfo e c (Some req),
      ''join_pl_cmd'' \<mapsto> JoinPlayer e c,
      ''user_details'' \<mapsto> UserDetails e c,
      ''users_list'' \<mapsto> (\<lambda>p. UsersList e req),
      ''tournaments'' \<mapsto> Tournaments e req,
      ''lcn_registration_dgl'' \<mapsto> (\<lambda>p. LCNRegistrationDialog e req),
      ''gg_cup_thanks_dgl'' \<mapsto> (\<lambda>p. GGCupThanks e req)]"

definition dispatchOpen :: "env \<Rightarrow> cref \<Rightarrow> gsc_stream \<Rightarrow> dispatch" where
  "dispatchOpen e c req method p st =
     (if isUnimplementedOpenRoute method then (([], None), st)
      else
        (case openRoutes e c req method of
           Some h \<Rightarrow> h p st
         | None \<Rightarrow> ((renderAlert e (Ver req) ''Error'' ''Page Not Found'', Some (ErrUnknownOpenRoute method)), st)))"

section \<open>Commands (registry.go, dispatcher.go)\<close>

type_synonym handled = "(unit, handle_result \<times> server) outcome"
type_synonym command_handler = "string list \<Rightarrow> server \<Rightarrow> handled"
type_synonym registry = "string \<rightharpoonup> command_handler"

definition NewRegistry :: registry where
  "NewRegistry = Map.empty"

definition Registry_Register :: "string \<Rightarrow> command_handler \<Rightarrow> registry \<Rightarrow> registry" where
  "Registry_Register name h r = r(name \<mapsto> h)"

definition Lookup :: "string \<Rightarrow> registry \<Rightarrow> command_handler option" where
  "Lookup name r = r name"

definition defaultCommandRegistry :: "env \<Rightarrow> cref \<Rightarrow> gsc_stream \<Rightarrow> registry" where
  "defaultCommandRegistry e c req =
     Registry_Register ''go'' (\<lambda>args st. Ok (Go_Handle (dispatchOpen e c req) args st))
     (Registry_Register ''open'' (\<lambda>args st. Ok (Open_Handle (dispatchOpen e c req) args st))
     (Registry_Register ''start'' (Start_Handle e c)
     (Registry_Register ''GETTBL'' (\<lambda>args st. Ok (GETTBL_Handle e c req args st, st))
     (Registry_Register ''endgame'' (\<lambda>args st. Ok (Endgame_Handle c args st))
     (Registry_Register ''alive'' (\<lambda>args st. Ok (Alive_Handle e c st))
     (Registry_Register ''leave'' (\<lambda>args st. Ok (Leave_Handle e c st))
     (Registry_Register ''proxy'' (\<lambda>args st. Ok (Proxy_Handle (gm_ProxyKey (ev_Game e)) c args st))
     (Registry_Register ''url'' (\<lambda>args st. Ok (URL_Handle args, st))
     (Registry_Register ''echo'' (\<lambda>args st. Ok (Echo_Handle args, st))
     (Registry_Register ''login'' (\<lambda>args st. Ok (Login_Handle, st)) NewRegistry))))))))))"

definition isUnimplementedCommand :: "string \<Rightarrow> bool" where
  "isUnimplementedCommand name \<longleftrightarrow> name \<in> {''upfile'', ''unsync''}"

definition HandleWithMeta ::
  "env \<Rightarrow> cref \<Rightarrow> gsc_stream \<Rightarrow> string \<Rightarrow> string list \<Rightarrow> server \<Rightarrow> handled" where
  "HandleWithMeta e c req cmdName args st =
     (if cmdName = ''stats''
      then (case Stats_Handle e c args st of (res, st') \<Rightarrow>
          Ok (\<lparr>hr_Commands = [], hr_HasResponse = False, hr_Err = hr_Err res\<rparr>, st'))
      else
        (case Lookup cmdName (defaultCommandRegistry e c req) of
           Some h \<Rightarrow> h args st
         | None \<Rightarrow>
             if isUnimplementedCommand cmdName then Ok (silent, st)
             else Ok (\<lparr>hr_Commands = [], hr_HasResponse = True, hr_Err = Some (ErrUnknownCommand cmdName)\<rparr>, st)))"

section \<open>The loop of a connection (tcp/server.go)\<close>

text \<open>The last two arguments of a command are the window and the key.\<close>

definition split_meta :: "string list \<Rightarrow> string list \<times> string" where
  "split_meta args =
     (if 2 \<le> length args then (take (length args - 2) args, args ! (length args - 2)) else (args, []))"

definition add_window :: "string \<Rightarrow> gsc_command list \<Rightarrow> gsc_command list" where
  "add_window win = map (\<lambda>k. k\<lparr>Args := Args k @ [win]\<rparr>)"

text \<open>
  One round of the loop after a request was read: the bytes written, and whether the loop goes on.
  \<open>writes\<close> says whether the write succeeds.
\<close>

definition serve_request ::
  "(bytes \<Rightarrow> bytes) \<Rightarrow> bool \<Rightarrow> env \<Rightarrow> cref \<Rightarrow> gsc_stream \<Rightarrow> server \<Rightarrow>
    (unit, (bytes option \<times> bool) \<times> server) outcome" where
  "serve_request deflate writes e c req st =
     (case CmdSet req of
        [] \<Rightarrow> Ok ((None, True), st)
      | cmd # ignored \<Rightarrow>
          (case split_meta (Args cmd) of (coreArgs, win) \<Rightarrow>
             (case HandleWithMeta e c req (Name cmd) coreArgs st of
                Panic \<Rightarrow> Panic
              | Fail u \<Rightarrow> Fail u
              | Ok (res, st') \<Rightarrow>
                  if \<not> hr_HasResponse res then Ok ((None, True), st')
                  else
                    (case Stream_MarshalBinary deflate
                        (req\<lparr>CmdSet := add_window win (hr_Commands res)\<rparr>) of
                       Ok bin \<Rightarrow>
                         if \<not> writes then Ok ((None, False), st')
                         else Ok ((Some bin, \<not> IsClosed (conn_of c st')), st')
                     | _ \<Rightarrow> Ok ((None, False), st')))))"

section \<open>Events\<close>

text \<open>
  A connection is accepted under a reference that was not used before. A datagram reaches the
  endpoint discovery; a timer of a player runs when its time has come. When the loop ends the
  connection is disconnected.
\<close>

datatype event =
    Accepted cref string string
  | Request cref gsc_stream
  | Disconnected cref
  | TimerFired u32
  | UDP endpoint bytes

fun serve_event :: "endpoint_json \<Rightarrow> env \<Rightarrow> event \<Rightarrow> server \<Rightarrow> (unit, server) outcome" where
  "serve_event json e (Accepted c host port) st = Ok (set_conn c (NewConnection c (ev_Now e) host port) st)"
| "serve_event json e (Request c req) st =
     (case serve_request id True e c req st of
        Ok (out, st') \<Rightarrow> Ok st' | Panic \<Rightarrow> Panic | Fail u \<Rightarrow> Fail u)"
| "serve_event json e (Disconnected c) st = Ok (OnDisconnect e c st)"
| "serve_event json e (TimerFired i) st =
     (case mg_timers (st_session st) i of
        Some t \<Rightarrow> if t \<le> ev_Now e then Ok (notAlive e i st) else Ok st
      | None \<Rightarrow> Ok st)"
| "serve_event json e (UDP remote dgram) st =
     Ok (st\<lparr>st_storage := snd (serve_datagram SetPX json (gm_HoleInterval (ev_Game e)) (ev_Now e) remote dgram
       (st_storage st))\<rparr>)"

fun run_events :: "endpoint_json \<Rightarrow> (env \<times> event) list \<Rightarrow> server \<Rightarrow> (unit, server) outcome" where
  "run_events json [] st = Ok st"
| "run_events json ((e, ev) # evs) st = bind_ok (serve_event json e ev st) (run_events json evs)"

end
