(* ===== verification/Match_Props.thy ===== *)
theory Match_Props
  imports Match Lobby_Props
begin

text \<open>
  The properties of the match service: the payload decoder, acceptance and rejection of samples,
  the continuation of 16-bit counters, the rolling windows and their sums in floating point, and
  the payloads of a start.
\<close>

section \<open>Decoding\<close>

lemma slice_append: "slice i j (xs @ ys) =
    (if j \<le> length xs then slice i j xs
     else if length xs \<le> i then slice (i - length xs) (j - length xs) ys
     else drop i xs @ take (j - length xs) ys)"
  by (auto simp: slice_def)

lemma slice_Cons: "0 < i \<Longrightarrow> slice i j (x # xs) = slice (i - 1) (j - 1) xs"
  by (cases i; cases j) (simp_all add: slice_def)

lemma slice_all [simp]: "length s = n \<Longrightarrow> slice 0 n s = s"
  by (simp add: slice_def)

definition encode_stat ::
  "u32 \<Rightarrow> u8 \<Rightarrow> u32 \<Rightarrow> u8 \<Rightarrow> u16 \<Rightarrow> u16 \<Rightarrow> u32 list \<Rightarrow> u16 \<Rightarrow> u16 \<Rightarrow> bytes" where
  "encode_stat t pc pid st sc pop res peas units =
     le32 t @ [char_of (unat pc)] @ le32 pid @ [char_of (unat st)] @ le16 sc @ le16 pop @
     concat (map le32 res) @ le16 peas @ le16 units"

lemma unat_u8_mod [simp]: "unat (w :: u8) mod 256 = unat w"
  using unsigned_less [of w, where 'a = nat] by simp

lemma DecodeStat_encode:
  "DecodeStat (encode_stat t pc pid st sc pop [wood, gold, stone, food, iron, coal] peas units @ rest) =
     Some (zero_stat
       \<lparr>ps_Time := t, ps_PC := pc, ps_PlayerID := pid, ps_Status := st,
        ps_Scores := word_of_nat (unat sc), ps_Population := word_of_nat (unat pop),
        ps_Wood := wood, ps_Gold := gold, ps_Stone := stone, ps_Food := food, ps_Iron := iron,
        ps_Coal := coal, ps_Peasants := word_of_nat (unat peas), ps_Units := word_of_nat (unat units)\<rparr>)"
  by (simp add: DecodeStat_def encode_stat_def raw_u32_def raw_u16_def raw_u8_def slice_append slice_Cons
      nth_append nth_Cons')

text \<open>
  The decoder rejects exactly the payloads shorter than 42 bytes, and reads every field at its
  offset: of a payload that starts with the little-endian fields it gives back these fields, 16-bit
  counters zero-extended, whatever follows.
\<close>

theorem DecodeStat_fields:
  "(DecodeStat raw = None \<longleftrightarrow> length raw < 42) \<and>
   DecodeStat (encode_stat t pc pid st sc pop [wood, gold, stone, food, iron, coal] peas units @ rest) =
     Some (zero_stat
       \<lparr>ps_Time := t, ps_PC := pc, ps_PlayerID := pid, ps_Status := st,
        ps_Scores := word_of_nat (unat sc), ps_Population := word_of_nat (unat pop),
        ps_Wood := wood, ps_Gold := gold, ps_Stone := stone, ps_Food := food, ps_Iron := iron,
        ps_Coal := coal, ps_Peasants := word_of_nat (unat peas), ps_Units := word_of_nat (unat units)\<rparr>)"
  by (simp add: DecodeStat_encode) (simp add: DecodeStat_def)

section \<open>Acceptance\<close>

text \<open>
  A sample is rejected exactly when it is short, names another player, or is older than the
  player's last one; a rejected sample changes no player, no index and nothing of the room but its
  tick, which only a well-formed sample of the player raises.
\<close>

theorem UpdateStat_rejects:
  "case UpdateStat (Some q) (Some p) raw w of (res, w') \<Rightarrow>
     res = (case DecodeStat raw of
              None \<Rightarrow> StatRejectShortBuffer
            | Some s \<Rightarrow> if ps_PlayerID s \<noteq> pl_ID (players_heap w q) then StatRejectPlayerMismatch
                else if ps_Time s < pl_TimeTick (players_heap w q) then StatRejectTickAhead
                else StatApplied) \<and>
     repo w' = repo w \<and> next_rref w' = next_rref w \<and>
     rooms_heap w' = (rooms_heap w)(p := (rooms_heap w p)\<lparr>rm_TimeTick := rm_TimeTick (rooms_heap w' p)\<rparr>) \<and>
     rm_TimeTick (rooms_heap w p) \<le> rm_TimeTick (rooms_heap w' p) \<and>
     players_heap w' = (players_heap w)(q := players_heap w' q) \<and>
     (res = StatApplied \<or> players_heap w' = players_heap w)"
  by (auto simp: UpdateStat_def Let_def raise_tick_def split: option.splits)

lemma updateRolling_select [simp]:
  "pl_ID (snd (updateRolling t i n c p pl)) = pl_ID pl"
  "pl_TimeTick (snd (updateRolling t i n c p pl)) = pl_TimeTick pl"
  "pl_StatCycle (snd (updateRolling t i n c p pl)) = pl_StatCycle pl"
  "pl_Zombie (snd (updateRolling t i n c p pl)) = pl_Zombie pl"
  "pl_Color (snd (updateRolling t i n c p pl)) = pl_Color pl"
  "pl_Stat (snd (updateRolling t i n c p pl)) = pl_Stat pl"
  by (simp_all add: updateRolling_def Let_def split: prod.split)

lemma apply_counters_select [simp]:
  "ps_Time (fst (apply_counters old s pl)) = ps_Time s"
  "pl_TimeTick (snd (apply_counters old s pl)) = pl_TimeTick pl"
  "pl_StatHistory (snd (apply_counters old s pl)) = pl_StatHistory pl"
  "pl_StatSum (snd (apply_counters old s pl)) = pl_StatSum pl"
  by (simp_all add: apply_counters_def Let_def split_beta)

lemma apply_rates_Time [simp]: "ps_Time (fst (apply_rates old s pl)) = ps_Time s"
  by (simp add: apply_rates_def Let_def split_beta)

lemma apply_stat_alt:
  "apply_stat s us pl =
     (let old = OldStat (pl_Stat pl) s;
          c = apply_counters old s (inherit_color s us pl); r = apply_rates old (fst c) (snd c)
      in (snd r)\<lparr>pl_TimeTick := ps_Time s,
            pl_Stat := Some ((fst r)\<lparr>ps_Casuality := ps_Casuality old + casuality_change (fst r) old\<rparr>)\<rparr>)"
  by (simp add: apply_stat_def Let_def split_beta)

lemma apply_stat_TimeTick [simp]: "pl_TimeTick (apply_stat s us pl) = ps_Time s"
  by (simp add: apply_stat_alt Let_def)

section \<open>Counters\<close>

lemma AbsI64_small: "abs v \<le> 2 ^ 53 \<Longrightarrow> AbsI64 v = abs v"
  by (simp add: AbsI64_def f64_of_int_exact flip: of_int_abs)

lemma uint_word_of_nat [simp]: "n < 2 ^ 32 \<Longrightarrow> uint (word_of_nat n :: u32) = int n"
  by (simp add: uint_nat)

lemma word_split: "(word_of_nat n :: u32) = word_of_nat (n div 65536) * 65536 + word_of_nat (n mod 65536)"
  by (metis div_mult_mod_eq of_nat_add of_nat_mult of_nat_numeral)

lemma carry_up:
  fixes q q' r r' :: nat
  assumes "q * 65536 + r \<le> q' * 65536 + r'" and "q' * 65536 + r' < q * 65536 + r + 65536"
    and "r < 65536" and "r' < 65536"
  shows "(if r' < r then q + 1 else q) = q'"
  using assms by (cases "r' < r") simp_all

lemma carry_signed:
  fixes q q' r r' :: int
  assumes "abs (q' * 65536 + r' - (q * 65536 + r)) \<le> 32767"
    and "0 \<le> r" and "0 \<le> r'" and "r < 65536" and "r' < 65536"
  shows "(if abs (r' - r) > 32767 then (if 0 < r' - r then q - 1 else q + 1) else q) = q'"
  using assms by (auto split: if_splits simp: abs_if)

lemma unwrap16_nat:
  assumes "old \<le> new" and "new < old + 65536" and "new < 2 ^ 32"
  shows "unwrap16 (word_of_nat (new mod 65536)) (word_of_nat old) (word_of_nat (old div 65536)) =
    (word_of_nat (new div 65536), word_of_nat new)"
proof -
  have sub: "(word_of_nat old - word_of_nat (old div 65536) * 0x10000 :: u32) = word_of_nat (old mod 65536)"
    using word_split [of old] by (metis add_diff_cancel_left' of_nat_numeral)
  have lt: "((word_of_nat (new mod 65536) :: u32) < word_of_nat (old mod 65536)) = (new mod 65536 < old mod 65536)"
    by (simp add: word_less_nat_alt)
  have d: "(if new mod 65536 < old mod 65536 then old div 65536 + 1 else old div 65536) = new div 65536"
    by (rule carry_up) (use assms(1,2) in simp_all)
  have cyc: "(if new mod 65536 < old mod 65536 then word_of_nat (old div 65536) + 1 else word_of_nat (old div 65536) :: u32) =
      word_of_nat (new div 65536)"
    unfolding d [symmetric] by simp
  have sum: "(word_of_nat (new mod 65536) + word_of_nat (new div 65536) * 65536 :: u32) = word_of_nat new"
    using word_split [of new] by (simp only: add.commute)
  show ?thesis by (simp only: unwrap16_def Let_def sub lt cyc sum)
qed

lemma unwrap_scores_int:
  assumes "abs (new - old) \<le> 0x7FFF"
  shows "unwrap_scores (word_of_int (new mod 65536)) (word_of_int (old mod 65536)) (old div 65536) =
    (new div 65536, new)"
proof -
  have u: "uint (word_of_int (x mod 65536) :: u32) = x mod 65536" for x
    by (simp add: uint_word_of_int mod_pos_pos_trivial)
  let ?d = "new mod 65536 - old mod 65536"
  have "abs ?d \<le> 2 ^ 53"
  proof -
    have "0 \<le> new mod 65536" "new mod 65536 < 65536" "0 \<le> old mod 65536" "old mod 65536 < 65536"
      by simp_all
    then show ?thesis by simp
  qed
  note abs = AbsI64_small [OF this]
  have cyc: "(if abs ?d > 0x7FFF then (if 0 < ?d then old div 65536 - 1 else old div 65536 + 1) else old div 65536) =
      new div 65536"
    by (rule carry_signed) (use assms in simp_all)
  show ?thesis by (simp only: unwrap_scores_def u abs Let_def cyc div_mult_mod_eq)
qed

text \<open>
  C27. The 16-bit counters of the wire are continued exactly. If the true numbers of peasants and
  units have grown by less than 65536 since the last sample, and the score has moved by at most
  32767 in either direction, then from the low 16 bits of the sample, the previous values and the
  cycles the code recovers the true values and the true cycles.
\<close>

theorem counters_continued:
  assumes "P \<le> P'" "P' < P + 65536" "P' < 2 ^ 32" and "U \<le> U'" "U' < U + 65536" "U' < 2 ^ 32"
    and "abs (S' - S) \<le> 0x7FFF"
    and "ps_Peasants old = word_of_nat P" "ps_Units old = word_of_nat U"
      "ps_Scores old = word_of_int (S mod 65536)"
    and "ps_Peasants stat = word_of_nat (P' mod 65536)" "ps_Units stat = word_of_nat (U' mod 65536)"
      "ps_Scores stat = word_of_int (S' mod 65536)"
    and "pl_StatCycle pl = \<lparr>sc_Peasants = word_of_nat (P div 65536), sc_Units = word_of_nat (U div 65536),
      sc_Scores = S div 65536\<rparr>"
  shows "case apply_counters old stat pl of (stat', pl') \<Rightarrow>
    ps_Peasants stat' = word_of_nat P' \<and> ps_Units stat' = word_of_nat U' \<and> ps_RealScores stat' = S' \<and>
    ps_Population2 stat' = word_of_nat (U' + P') \<and>
    pl_StatCycle pl' = \<lparr>sc_Peasants = word_of_nat (P' div 65536), sc_Units = word_of_nat (U' div 65536),
      sc_Scores = S' div 65536\<rparr>"
  using assms by (simp add: apply_counters_def unwrap16_nat unwrap_scores_int)

theorem counters_continued_witness:
  "case apply_counters
      (zero_stat\<lparr>ps_Peasants := word_of_nat 65530, ps_Units := word_of_nat 7, ps_Scores := word_of_int (10 mod 65536)\<rparr>)
      (zero_stat\<lparr>ps_Peasants := word_of_nat (65540 mod 65536), ps_Units := word_of_nat (9 mod 65536),
        ps_Scores := word_of_int (-5 mod 65536)\<rparr>) zero_player of (stat', pl') \<Rightarrow>
    ps_Peasants stat' = word_of_nat 65540 \<and> ps_RealScores stat' = -5"
  using counters_continued [of 65530 65540 7 9 "-5" 10
      "zero_stat\<lparr>ps_Peasants := word_of_nat 65530, ps_Units := word_of_nat 7, ps_Scores := word_of_int (10 mod 65536)\<rparr>"
      "zero_stat\<lparr>ps_Peasants := word_of_nat (65540 mod 65536), ps_Units := word_of_nat (9 mod 65536),
        ps_Scores := word_of_int (-5 mod 65536)\<rparr>" zero_player]
  by (simp add: zero_player_def zero_cycle_def split: prod.splits)

text \<open>
  The casualties are wrong whenever exactly one of the two populations shrinks: the code
  subtracts in 32 bits before it widens to 64, which adds or removes \<open>2 ^ 32\<close>.
\<close>

theorem casuality_change_wraps:
  "casuality_change stat old =
     (uint (ps_Population2 stat) - uint (ps_Population2 old)) - (uint (ps_Population stat) - uint (ps_Population old))
     + (if ps_Population2 stat < ps_Population2 old then 2 ^ 32 else 0)
     - (if ps_Population stat < ps_Population old then 2 ^ 32 else 0)"
  by (simp add: casuality_change_def uint_sub_if' word_less_def)

section \<open>Rolling windows\<close>

definition series :: "player \<Rightarrow> string \<Rightarrow> stat_history_point list" where
  "series pl name = get_or [] (case pl_StatHistory pl of None \<Rightarrow> Map.empty | Some m \<Rightarrow> m) (''change_'' @ name)"

definition series_sum :: "player \<Rightarrow> string \<Rightarrow> float64" where
  "series_sum pl name = get_or 0 (case pl_StatSum pl of None \<Rightarrow> Map.empty | Some m \<Rightarrow> m) (''sum_'' @ name)"

definition series_names :: "string list" where
  "series_names = [''wood'', ''food'', ''stone'', ''peasants'', ''units'', ''population2'']"

definition int_change :: "stat_history_point \<Rightarrow> bool" where
  "int_change h \<longleftrightarrow> hp_Change h = of_int (floor (hp_Change h)) \<and> abs (floor (hp_Change h)) < 2 ^ 32"

text \<open>
  The sum kept in floating point is the exact sum of the series, which is in the order of time and
  not younger than \<open>t\<close>.
\<close>

definition series_ok :: "u32 \<Rightarrow> stat_history_point list \<Rightarrow> float64 \<Rightarrow> bool" where
  "series_ok t hs sm \<longleftrightarrow>
     sm = sum_list (map hp_Change hs) \<and> list_all int_change hs \<and> sorted (map hp_Time hs) \<and>
     list_all (\<lambda>h. hp_Time h \<le> t) hs"

lemma int_sum:
  "list_all int_change hs \<Longrightarrow>
   \<exists>i. sum_list (map hp_Change hs) = of_int i \<and> abs i \<le> int (length hs) * 2 ^ 32"
proof (induction hs)
  case (Cons h hs)
  then obtain i where i: "sum_list (map hp_Change hs) = of_int i" "abs i \<le> int (length hs) * 2 ^ 32" by auto
  obtain j where j: "hp_Change h = of_int j" "abs j < 2 ^ 32" using Cons.prems by (auto simp: int_change_def)
  have "sum_list (map hp_Change (h # hs)) = of_int (j + i)" by (simp add: i j)
  moreover have "abs (j + i) \<le> int (length (h # hs)) * 2 ^ 32" using i j by (simp add: algebra_simps)
  ultimately show ?case by blast
qed simp

lemma drop_old_filter:
  "sorted (map hp_Time hs) \<Longrightarrow> snd (drop_old c sm hs) = filter (\<lambda>h. c \<le> hp_Time h) hs"
proof (induction hs arbitrary: sm)
  case (Cons h hs)
  show ?case
  proof (cases "hp_Time h < c")
    case False
    then have "\<forall>x\<in>set hs. c \<le> hp_Time x" using Cons.prems by force
    then have "filter (\<lambda>h. c \<le> hp_Time h) hs = hs" by (rule filter_True)
    then show ?thesis using False by auto
  qed (use Cons in auto)
qed simp

lemma drop_old_sum:
  "list_all int_change hs \<Longrightarrow> length hs \<le> 2 ^ 21 \<Longrightarrow> sm = sum_list (map hp_Change hs) \<Longrightarrow>
   fst (drop_old c sm hs) = sum_list (map hp_Change (snd (drop_old c sm hs)))"
proof (induction hs arbitrary: sm)
  case (Cons h hs)
  obtain i where i: "sum_list (map hp_Change hs) = of_int i" "abs i \<le> int (length hs) * 2 ^ 32"
    using int_sum [of hs] Cons.prems by auto
  obtain j where j: "hp_Change h = of_int j" using Cons.prems by (auto simp: int_change_def)
  have "int (length hs) * 2 ^ 32 \<le> 2 ^ 21 * 2 ^ 32" using Cons.prems by (intro mult_right_mono) auto
  then have "abs (j + i - j) \<le> 2 ^ 53" using i by simp
  from f64_sub_int [OF this] have "f64_sub sm (hp_Change h) = sum_list (map hp_Change hs)"
    using Cons.prems by (simp add: i j)
  then show ?case using Cons by simp
qed simp

lemma series_ok_update:
  assumes ok: "series_ok t hs sm" and "t \<le> now" and n: "length hs < 2 ^ 21" and p: "int_change p" "hp_Time p = now"
  shows "case drop_old c (f64_add sm (hp_Change p)) (hs @ [p]) of (sm', hs') \<Rightarrow>
    series_ok now hs' sm' \<and> hs' = filter (\<lambda>h. c \<le> hp_Time h) (hs @ [p])"
proof -
  obtain i where i: "sum_list (map hp_Change hs) = of_int i" "abs i \<le> int (length hs) * 2 ^ 32"
    using int_sum [of hs] ok by (auto simp: series_ok_def)
  obtain j where j: "hp_Change p = of_int j" "abs j < 2 ^ 32" using p by (auto simp: int_change_def)
  have "(int (length hs) + 1) * 2 ^ 32 \<le> 2 ^ 21 * 2 ^ 32" using n by (intro mult_right_mono) auto
  then have "abs (i + j) \<le> 2 ^ 53" using i j by (simp add: algebra_simps)
  from f64_add_int [OF this] have sum: "f64_add sm (hp_Change p) = sum_list (map hp_Change (hs @ [p]))"
    using ok i j by (simp add: series_ok_def)
  have ints: "list_all int_change (hs @ [p])" using ok p by (simp add: series_ok_def)
  have le: "\<forall>h\<in>set (hs @ [p]). hp_Time h \<le> now"
    using ok assms(2) p by (auto simp: series_ok_def list_all_iff)
  have sorted: "sorted (map hp_Time (hs @ [p]))"
    using ok le p by (auto simp: series_ok_def sorted_append)
  have "length (hs @ [p]) \<le> 2 ^ 21" using n by simp
  note kept = drop_old_sum [OF ints this sum, of c] drop_old_filter [OF sorted, of c "f64_add sm (hp_Change p)"]
  have "series_ok now (filter (\<lambda>h. c \<le> hp_Time h) (hs @ [p]))
      (sum_list (map hp_Change (filter (\<lambda>h. c \<le> hp_Time h) (hs @ [p]))))"
    using ints le sorted_filter [OF sorted, of "\<lambda>h. c \<le> hp_Time h"]
    unfolding series_ok_def list_all_iff by auto
  then show ?thesis using kept by (auto split: prod.split)
qed

lemma int_change_DiffU32:
  "int_change \<lparr>hp_Change = f64_of_int (DiffU32 a b), hp_Time = t, hp_Interval = i\<rparr>"
proof -
  have "0 \<le> uint a" "0 \<le> uint b" "uint a < 2 ^ 32" "uint b < 2 ^ 32"
    using unsigned_less [of a, where 'a = int] unsigned_less [of b, where 'a = int] by simp_all
  then have "abs (DiffU32 a b) < 2 ^ 32" unfolding DiffU32_def by linarith
  then show ?thesis by (simp add: int_change_def f64_of_int_exact)
qed

text \<open>One series after \<open>updateRolling\<close>, and the others untouched.\<close>

lemma updateRolling_series:
  assumes "pl_StatHistory pl \<noteq> None" and "pl_StatSum pl \<noteq> None"
  shows "case updateRolling now i name c p pl of (r, pl') \<Rightarrow>
    pl_StatHistory pl' \<noteq> None \<and> pl_StatSum pl' \<noteq> None \<and>
    (\<forall>m. m \<noteq> name \<longrightarrow> series pl' m = series pl m \<and> series_sum pl' m = series_sum pl m) \<and>
    (let pt = \<lparr>hp_Change = f64_of_int (DiffU32 c p), hp_Time = now, hp_Interval = i\<rparr> in
     (series_sum pl' name, series pl' name) =
       drop_old (now - window name) (f64_add (series_sum pl name) (hp_Change pt)) (series pl name @ [pt]))"
  using assms
  by (auto simp: updateRolling_def Let_def series_def series_sum_def get_or_def split: prod.split option.split)

definition point :: "u32 \<Rightarrow> u32 \<Rightarrow> u32 \<Rightarrow> u32 \<Rightarrow> stat_history_point" where
  "point now i c p = \<lparr>hp_Change = f64_of_int (DiffU32 c p), hp_Time = now, hp_Interval = i\<rparr>"

text \<open>What one call to \<open>updateRolling\<close> does to all six series.\<close>

definition rolled :: "u32 \<Rightarrow> string \<Rightarrow> player \<Rightarrow> player \<Rightarrow> bool" where
  "rolled now name pl pl' \<longleftrightarrow>
     pl_StatHistory pl' \<noteq> None \<and> pl_StatSum pl' \<noteq> None \<and>
     (\<forall>m. m \<noteq> name \<longrightarrow> series pl' m = series pl m \<and> series_sum pl' m = series_sum pl m) \<and>
     (series_ok (pl_TimeTick pl) (series pl name) (series_sum pl name) \<longrightarrow> length (series pl name) < 2 ^ 21 \<longrightarrow>
       series_ok now (series pl' name) (series_sum pl' name) \<and>
       (\<exists>pt. hp_Time pt = now \<and>
         series pl' name = filter (\<lambda>h. now - window name \<le> hp_Time h) (series pl name @ [pt])))"

lemma updateRolling_rolled:
  assumes "pl_StatHistory pl \<noteq> None" and "pl_StatSum pl \<noteq> None" and "pl_TimeTick pl \<le> now"
  shows "rolled now name pl (snd (updateRolling now i name c p pl))"
proof -
  obtain r pl' where u: "updateRolling now i name c p pl = (r, pl')" by force
  let ?pt = "point now i c p"
  have pt: "int_change ?pt" "hp_Time ?pt = now" by (simp_all add: point_def int_change_DiffU32)
  have step: "(series_sum pl' name, series pl' name) =
      drop_old (now - window name) (f64_add (series_sum pl name) (hp_Change ?pt)) (series pl name @ [?pt])"
    and rest: "pl_StatHistory pl' \<noteq> None" "pl_StatSum pl' \<noteq> None"
      "\<forall>m. m \<noteq> name \<longrightarrow> series pl' m = series pl m \<and> series_sum pl' m = series_sum pl m"
    using updateRolling_series [OF assms(1,2), where now = now and i = i and name = name and c = c and p = p] by (simp_all add: u Let_def point_def)
  have "series_ok now (series pl' name) (series_sum pl' name) \<and>
      series pl' name = filter (\<lambda>h. now - window name \<le> hp_Time h) (series pl name @ [?pt])"
    if "series_ok (pl_TimeTick pl) (series pl name) (series_sum pl name)" "length (series pl name) < 2 ^ 21"
    using series_ok_update [OF that(1) assms(3) that(2) pt, of "now - window name"]
    unfolding step [symmetric] prod.case .
  then show ?thesis using rest pt(2) by (auto simp: rolled_def u simp del: filter_append)
qed

lemma rolled_kept:
  "rolled now name a b \<Longrightarrow> series_ok (pl_TimeTick a) (series a name) (series_sum a name) \<Longrightarrow>
   length (series a name) < 2 ^ 21 \<Longrightarrow>
   series_ok now (series b name) (series_sum b name) \<and>
   (\<exists>pt. hp_Time pt = now \<and>
     series b name = filter (\<lambda>h. now - window name \<le> hp_Time h) (series a name @ [pt]))"
  unfolding rolled_def by blast

lemma series_init [simp]: "series (init_series pl) = series pl" "series_sum (init_series pl) = series_sum pl"
    "pl_TimeTick (init_series pl) = pl_TimeTick pl"
    "pl_StatHistory (init_series pl) \<noteq> None" "pl_StatSum (init_series pl) \<noteq> None"
  by (auto simp: series_def series_sum_def init_series_def fun_eq_iff split: option.splits)

lemma rolled_first:
  assumes "rolled now a p0 p1" and "m \<noteq> a"
  shows "series p1 m = series p0 m \<and> series_sum p1 m = series_sum p0 m"
  using assms by (simp add: rolled_def)

text \<open>The six updates in a row, on six different series.\<close>

lemma apply_rates_series:
  assumes "pl_TimeTick pl \<le> ps_Time s" and name: "name \<in> set series_names"
    and ok: "series_ok (pl_TimeTick pl) (series pl name) (series_sum pl name)" "length (series pl name) < 2 ^ 21"
  shows "series_ok (ps_Time s) (series (snd (apply_rates old s pl)) name) (series_sum (snd (apply_rates old s pl)) name) \<and>
    (\<exists>pt. hp_Time pt = ps_Time s \<and> series (snd (apply_rates old s pl)) name =
       filter (\<lambda>h. ps_Time s - window name \<le> hp_Time h) (series pl name @ [pt]))"
proof -
  let ?t = "ps_Time s"
  let ?i = "if ?t - pl_TimeTick pl = 0 then 1 else ?t - pl_TimeTick pl"
  define p0 where "p0 = init_series pl"
  define p1 where "p1 = snd (updateRolling ?t ?i ''wood'' (ps_Wood s) (ps_Wood old) p0)"
  define p2 where "p2 = snd (updateRolling ?t ?i ''food'' (ps_Food s) (ps_Food old) p1)"
  define p3 where "p3 = snd (updateRolling ?t ?i ''stone'' (ps_Stone s) (ps_Stone old) p2)"
  define p4 where "p4 = snd (updateRolling ?t ?i ''peasants'' (ps_Peasants s) (ps_Peasants old) p3)"
  define p5 where "p5 = snd (updateRolling ?t ?i ''units'' (ps_Units s) (ps_Units old) p4)"
  define p6 where "p6 = snd (updateRolling ?t ?i ''population2'' (ps_Population2 s) (ps_Population2 old) p5)"
  have run: "snd (apply_rates old s pl) = p6"
    by (simp only: apply_rates_def Let_def split_beta p6_def p5_def p4_def p3_def p2_def p1_def p0_def snd_conv)
  have t: "pl_TimeTick p0 = pl_TimeTick pl" "pl_TimeTick p1 = pl_TimeTick pl" "pl_TimeTick p2 = pl_TimeTick pl"
    "pl_TimeTick p3 = pl_TimeTick pl" "pl_TimeTick p4 = pl_TimeTick pl" "pl_TimeTick p5 = pl_TimeTick pl"
    by (simp_all only: p5_def p4_def p3_def p2_def p1_def p0_def updateRolling_select series_init)
  note roll = updateRolling_rolled [OF _ _ assms(1) [folded t(1)]]
  have r1: "rolled ?t ''wood'' p0 p1"
    unfolding p1_def by (rule updateRolling_rolled) (use assms(1) t in \<open>simp_all add: p0_def\<close>)
  have r2: "rolled ?t ''food'' p1 p2"
    unfolding p2_def by (rule updateRolling_rolled) (use assms(1) t r1 in \<open>simp_all add: rolled_def\<close>)
  have r3: "rolled ?t ''stone'' p2 p3"
    unfolding p3_def by (rule updateRolling_rolled) (use assms(1) t r2 in \<open>simp_all add: rolled_def\<close>)
  have r4: "rolled ?t ''peasants'' p3 p4"
    unfolding p4_def by (rule updateRolling_rolled) (use assms(1) t r3 in \<open>simp_all add: rolled_def\<close>)
  have r5: "rolled ?t ''units'' p4 p5"
    unfolding p5_def by (rule updateRolling_rolled) (use assms(1) t r4 in \<open>simp_all add: rolled_def\<close>)
  have r6: "rolled ?t ''population2'' p5 p6"
    unfolding p6_def by (rule updateRolling_rolled) (use assms(1) t r5 in \<open>simp_all add: rolled_def\<close>)
  note steps = rolled_first [OF r1] rolled_first [OF r2] rolled_first [OF r3] rolled_first [OF r4]
    rolled_first [OF r5] rolled_first [OF r6]
  have p0: "series p0 = series pl" "series_sum p0 = series_sum pl" by (simp_all add: p0_def)
  have result: ?thesis
    if r: "rolled ?t name a b" and a: "series a name = series pl name" "series_sum a name = series_sum pl name"
      "pl_TimeTick a = pl_TimeTick pl" and b: "series p6 name = series b name" "series_sum p6 name = series_sum b name"
    for a b
  proof -
    have "series_ok (pl_TimeTick a) (series a name) (series_sum a name)" "length (series a name) < 2 ^ 21"
      unfolding a by (fact ok)+
    from rolled_kept [OF r this] show ?thesis unfolding run b a .
  qed
  have "name = ''wood'' \<or> name = ''food'' \<or> name = ''stone'' \<or> name = ''peasants'' \<or>
      name = ''units'' \<or> name = ''population2''" using name by (simp only: series_names_def set_simps insert_iff empty_iff simp_thms)
  then show ?thesis
  proof (elim disjE)
    assume n: "name = ''wood''"
    show ?thesis using r1 unfolding n [symmetric]
      by (rule result) (simp_all add: n steps p0 t)
  next
    assume n: "name = ''food''"
    show ?thesis using r2 unfolding n [symmetric]
      by (rule result) (simp_all add: n steps p0 t)
  next
    assume n: "name = ''stone''"
    show ?thesis using r3 unfolding n [symmetric]
      by (rule result) (simp_all add: n steps p0 t)
  next
    assume n: "name = ''peasants''"
    show ?thesis using r4 unfolding n [symmetric]
      by (rule result) (simp_all add: n steps p0 t)
  next
    assume n: "name = ''units''"
    show ?thesis using r5 unfolding n [symmetric]
      by (rule result) (simp_all add: n steps p0 t)
  next
    assume n: "name = ''population2''"
    show ?thesis using r6 unfolding n [symmetric]
      by (rule result) (simp_all add: n steps p0 t)
  qed
qed

lemma inherit_color_select [simp]:
  "pl_StatHistory (inherit_color s us pl) = pl_StatHistory pl"
  "pl_StatSum (inherit_color s us pl) = pl_StatSum pl"
  "pl_TimeTick (inherit_color s us pl) = pl_TimeTick pl"
  by (simp_all add: inherit_color_def split: option.split)

lemma series_cong:
  "pl_StatHistory a = pl_StatHistory b \<Longrightarrow> series a = series b"
  "pl_StatSum a = pl_StatSum b \<Longrightarrow> series_sum a = series_sum b"
  by (simp_all add: series_def series_sum_def fun_eq_iff)

lemma apply_stat_series:
  assumes "pl_TimeTick pl \<le> ps_Time s" and "name \<in> set series_names"
    and "series_ok (pl_TimeTick pl) (series pl name) (series_sum pl name)" "length (series pl name) < 2 ^ 21"
  shows "series_ok (ps_Time s) (series (apply_stat s us pl) name) (series_sum (apply_stat s us pl) name) \<and>
    (\<exists>pt. hp_Time pt = ps_Time s \<and> series (apply_stat s us pl) name =
       filter (\<lambda>h. ps_Time s - window name \<le> hp_Time h) (series pl name @ [pt]))"
proof -
  let ?c = "apply_counters (OldStat (pl_Stat pl) s) s (inherit_color s us pl)"
  let ?r = "snd (apply_rates (OldStat (pl_Stat pl) s) (fst ?c) (snd ?c))"
  have out: "series (apply_stat s us pl) = series ?r" "series_sum (apply_stat s us pl) = series_sum ?r"
    by (intro series_cong, simp add: apply_stat_alt Let_def)+
  have inn: "series (snd ?c) = series pl" "series_sum (snd ?c) = series_sum pl"
    by (intro series_cong, simp)+
  have "pl_TimeTick (snd ?c) \<le> ps_Time (fst ?c)" using assms(1) by simp
  from apply_rates_series [OF this assms(2), of "OldStat (pl_Stat pl) s"] assms(3,4)
  show ?thesis unfolding out inn apply_counters_select inherit_color_select by blast
qed

text \<open>
  C19. Every rolling sum stays the exact sum of its window. If a series is in the order of time and
  its floating-point sum is exact, an accepted sample appends one point to it, drops exactly the
  points before the cutoff, and leaves the sum exact again, as long as a window holds fewer than
  \<open>2 ^ 21\<close> samples.
\<close>

theorem rolling_window_exact:
  assumes "UpdateStat (Some q) (Some p) raw w = (StatApplied, w')" and "name \<in> set series_names"
    and "series_ok (pl_TimeTick (players_heap w q)) (series (players_heap w q) name) (series_sum (players_heap w q) name)"
    and "length (series (players_heap w q) name) < 2 ^ 21"
  shows "let old = players_heap w q; new = players_heap w' q; t = pl_TimeTick new in
    series_ok t (series new name) (series_sum new name) \<and>
    (\<exists>pt. hp_Time pt = t \<and>
      series new name = filter (\<lambda>h. t - window name \<le> hp_Time h) (series old name @ [pt]))"
proof -
  let ?pl = "players_heap w q" and ?us = "map (players_heap w) (rm_StartedUsers (rooms_heap w p))"
  obtain s where s: "\<not> ps_Time s < pl_TimeTick ?pl" "players_heap w' q = apply_stat s ?us ?pl"
    using assms(1) by (auto simp: UpdateStat_def Let_def split: option.splits if_splits)
  then have "pl_TimeTick ?pl \<le> ps_Time s" by simp
  from apply_stat_series [OF this assms(2-4), of ?us] show ?thesis unfolding Let_def s(2) apply_stat_TimeTick .
qed

definition demo_sample :: "u32 \<Rightarrow> u32 \<Rightarrow> bytes" where
  "demo_sample t wood = encode_stat t 1 1 0 100 10 [wood, 0, 0, 0, 0, 0] 5 3"

theorem rolling_window_exact_witness:
  "let w = set_player 0 (zero_player\<lparr>pl_ID := 1\<rparr>) (init_world NewStore);
       new = players_heap (snd (UpdateStat (Some 0) (Some 0) (demo_sample 2000 500) w)) 0 in
   series_ok 2000 (series new ''wood'') (series_sum new ''wood'')"
proof -
  let ?w = "set_player 0 (zero_player\<lparr>pl_ID := 1\<rparr>) (init_world NewStore)"
  let ?res = "UpdateStat (Some 0) (Some 0) (demo_sample 2000 500) ?w"
  obtain x where x: "DecodeStat (demo_sample 2000 500) = Some x" "ps_Time x = 2000" "ps_PlayerID x = 1"
    using DecodeStat_encode [of 2000 1 1 0 100 10 500 0 0 0 0 0 5 3 "[]"] by (auto simp: demo_sample_def)
  then have run: "?res = (StatApplied, snd ?res)" and t: "pl_TimeTick (players_heap (snd ?res) 0) = 2000"
    by (simp_all add: UpdateStat_def zero_player_def Let_def)
  have wood: "''wood'' \<in> set series_names" by (simp add: series_names_def)
  have "series_ok (pl_TimeTick (players_heap ?w 0)) (series (players_heap ?w 0) ''wood'')
      (series_sum (players_heap ?w 0) ''wood'')" and "length (series (players_heap ?w 0) ''wood'') < 2 ^ 21"
    by (simp_all add: series_ok_def series_def series_sum_def get_or_def zero_player_def)
  from rolling_window_exact [OF run wood this] show ?thesis unfolding Let_def t by blast
qed

lemma drop_old_all: "list_all (\<lambda>h. hp_Time h < c) hs \<Longrightarrow> snd (drop_old c sm hs) = []"
  by (induction hs arbitrary: sm) auto

lemma wrapped_cutoff:
  fixes now win t :: u32
  assumes "now < win" and "win \<le> 3000" and "t \<le> now"
  shows "t < now - win"
proof -
  have "uint now < uint win" "uint win \<le> 3000" "uint t \<le> uint now"
    using assms by (simp_all add: word_less_def word_le_def)
  moreover have "0 \<le> uint now" by simp
  ultimately show ?thesis by (simp add: word_less_def uint_sub_if')
qed

text \<open>
  In the first minute of a game all rates are zero: the cutoff \<^verbatim>\<open>stat.Time - intervals[name]\<close>
  wraps around in 32 bits, so a sample younger than the window drops every earlier sample and
  itself, whatever was gathered.
\<close>

theorem rates_zero_before_window:
  assumes "pl_StatHistory pl \<noteq> None" and "pl_StatSum pl \<noteq> None"
    and "list_all (\<lambda>h. hp_Time h \<le> now) (series pl name)"
    and "now < window name"
  shows "case updateRolling now i name cur prev pl of (r, pl') \<Rightarrow> r = 0 \<and> series pl' name = []"
proof -
  let ?pt = "point now i cur prev"
  have win: "window name \<le> 3000" by (simp add: window_def)
  have "list_all (\<lambda>h. hp_Time h < now - window name) (series pl name @ [?pt])"
    using assms(3) wrapped_cutoff [OF assms(4) win] by (auto simp: list_all_iff point_def)
  note gone = drop_old_all [OF this]
  obtain r pl' where u: "updateRolling now i name cur prev pl = (r, pl')" by force
  have step: "(series_sum pl' name, series pl' name) =
      drop_old (now - window name) (f64_add (series_sum pl name) (hp_Change ?pt)) (series pl name @ [?pt])"
    using updateRolling_series [OF assms(1,2), where now = now and i = i and name = name and c = cur and p = prev]
    by (simp add: u Let_def point_def)
  have none: "series pl' name = []" using gone by (metis step snd_conv)
  then have "r = 0"
    using u assms(1,2)
    by (auto simp: updateRolling_def Let_def series_def get_or_def rate_def split: prod.splits option.splits)
  with none show ?thesis by (simp add: u)
qed

theorem rates_zero_before_window_witness:
  "fst (updateRolling 100 25 ''wood'' 800 500 (init_series zero_player)) = 0"
  using rates_zero_before_window [of "init_series zero_player" 100 "''wood''" 25 800 500]
  by (simp add: series_def get_or_def zero_player_def window_def split: prod.splits)

section \<open>Starting a game\<close>

lemma plain_digit: "is_digit c \<Longrightarrow> plain_char c"
  by (simp add: is_digit_def plain_char_def)

lemma is_digit_nat_dec: "c \<in> set (nat_dec n) \<Longrightarrow> is_digit c"
  using list_all_is_digit_nat_dec [of n] by (simp add: list_all_iff)

lemma fmt_d_plain: "c \<in> set (fmt_d i) \<Longrightarrow> plain_char c"
  by (auto simp: fmt_d_def plain_char_def split: if_splits dest!: is_digit_nat_dec plain_digit)

lemma fmt_d_not_Nil [simp]: "fmt_d i \<noteq> []"
  by (simp add: fmt_d_def)

lemma trim_right_nul_plain: "\<forall>c\<in>set s. plain_char c \<Longrightarrow> trim_right_nul s = s"
proof -
  assume s: "\<forall>c\<in>set s. plain_char c"
  have "dropWhile (\<lambda>c. c = CHR 0x00) (rev s) = rev s"
  proof (cases "rev s")
    case (Cons c cs)
    then have "plain_char c" using s by (metis list.set_intros(1) set_rev)
    then show ?thesis using Cons by (auto simp: plain_char_def)
  qed simp
  then show ?thesis by (simp add: trim_right_nul_def)
qed

lemma first_int_digits: "s \<noteq> [] \<Longrightarrow> list_all is_digit s \<Longrightarrow> first_int s = s"
  by (cases s) (auto simp: takeWhile_eq_all_conv list_all_iff)

lemma first_int_fmt_d: "first_int (fmt_d i) = fmt_d i"
proof (cases "i < 0")
  case True
  then show ?thesis
    using hd_nat_dec_digit [of "nat (- i)"] is_digit_nat_dec
    by (auto simp: fmt_d_def takeWhile_eq_all_conv)
qed (simp add: fmt_d_def first_int_digits)

lemma IntArg_fmt_d [simp]: "- (2 ^ 63) \<le> i \<Longrightarrow> i < 2 ^ 63 \<Longrightarrow> IntArg (fmt_d i) = (i, True)"
proof -
  assume "- (2 ^ 63) \<le> i" "i < 2 ^ 63"
  moreover have "trim_space (fmt_d i) = fmt_d i"
    using fmt_d_plain [OF hd_in_set, of i] fmt_d_plain [OF last_in_set, of i]
    by (intro trim_space_plain) auto
  moreover have "trim_right_nul (fmt_d i) = fmt_d i" by (rule trim_right_nul_plain) (simp add: fmt_d_plain)
  ultimately show ?thesis by (simp add: IntArg_def Let_def first_int_fmt_d atoi_fmt_d)
qed















lemma quad_induct:
  assumes "\<And>xs. length xs < 4 \<Longrightarrow> P xs" and "\<And>a b c d xs. P xs \<Longrightarrow> P (a # b # c # d # xs)"
  shows "P xs"
proof (induction xs rule: length_induct)
  case (1 xs)
  show ?case
  proof (cases "length xs < 4")
    case False
    then obtain a b c d ys where "xs = a # b # c # d # ys"
      by (auto simp: not_less numeral_eq_Suc Suc_le_length_iff)
    with 1 show ?thesis by (auto intro: assms)
  qed (rule assms)
qed

lemma post_players_short: "length raw < 4 \<Longrightarrow> post_players n get k raw = []"
  by (cases "(n, get, k, raw)" rule: post_players.cases) auto

lemma length_post_players:
  "int (length (post_players n get k raw)) + int k \<le> max n (int k) \<and>
   4 * length (post_players n get k raw) \<le> length raw"
proof (induction raw arbitrary: k rule: quad_induct)
  case (2 a b c d raw)
  from 2 [of k] 2 [of "Suc k"] show ?case by (auto split: prod.split)
qed (simp add: post_players_short)

text \<open>
  C30. The payload for the account service never lists more players than announced, but announcing
  too many stops the server: the builder panics exactly when the count is a number above the
  largest slice the runtime can make, which any player of a room can send.
\<close>

theorem BuildStartAccountPayload_panics:
  "(BuildStartAccountPayload cap (Some r) args sav m get = Panic \<longleftrightarrow>
     3 \<le> length args \<and> snd (IntArg (args ! 2)) \<and> max 0 cap < fst (IntArg (args ! 2))) \<and>
   (case BuildStartAccountPayload cap (Some r) args sav m get of
      Ok (Some sp) \<Rightarrow> int (length (sp_players sp)) \<le> fst (IntArg (args ! 2)) \<and>
        4 * length (sp_players sp) + 3 \<le> length args
    | _ \<Rightarrow> True)"
proof -
  obtain n ok where n: "IntArg (args ! 2) = (n, ok)" by force
  show ?thesis
    using length_post_players [of n get 0 "drop 3 args"]
    by (auto simp: BuildStartAccountPayload_def n)
qed

end
