(* ===== verification/Server_Inv.thy ===== *)
theory Server_Inv
  imports Dispatcher Match_Props
begin

text \<open>
  What holds of the whole server whatever its clients do: the lobby invariant of the room store, the
  players filed under their ids, and the ids of the connected sessions. Every handler is shown to
  keep the invariant, most of them because they change nothing it mentions; a transition system of
  events then gives it for every reachable state.
\<close>

section \<open>Worlds\<close>

definition world_ok :: "store world \<Rightarrow> bool" where
  "world_ok w \<longleftrightarrow>
     lobby_inv (abstract store_index w) \<and>
     (\<forall>i q. players (repo w) i = Some q \<longrightarrow> q < next_pref w \<and> pl_ID (players_heap w q) = i)"

text \<open>What the rooms' operations leave alone: the players and their ids.\<close>

definition keeps_players :: "store world \<Rightarrow> store world \<Rightarrow> bool" where
  "keeps_players w w' \<longleftrightarrow>
     players (repo w') = players (repo w) \<and> lastPlayerID (repo w') = lastPlayerID (repo w) \<and>
     next_pref w' = next_pref w \<and> (\<forall>q. pl_ID (players_heap w' q) = pl_ID (players_heap w q))"

lemma keeps_players_refl [simp]: "keeps_players w w"
  by (simp add: keeps_players_def)

lemma keeps_players_trans: "keeps_players w w' \<Longrightarrow> keeps_players w' w'' \<Longrightarrow> keeps_players w w''"
  by (simp add: keeps_players_def)

lemma world_ok_keeps:
  "world_ok w \<Longrightarrow> keeps_players w w' \<Longrightarrow> lobby_inv (abstract store_index w') \<Longrightarrow> world_ok w'"
  by (simp add: world_ok_def keeps_players_def)

lemma Leave_keeps: "keeps_players w (snd (Leave RoomRepoAdapter n i w))"
  by (auto simp: keeps_players_def Leave_def RoomRepoAdapter_def store_ops Let_def mark_exited_def
      split: option.splits)

lemma Join_keeps: "keeps_players w (Join RoomRepoAdapter n ro po w)"
  by (auto simp: keeps_players_def Join_def RoomRepoAdapter_def store_ops Let_def split: option.splits)

lemma MarkStarted_keeps: "keeps_players w (MarkStarted RoomRepoAdapter n ro sav m w)"
  by (auto simp: keeps_players_def MarkStarted_def RoomRepoAdapter_def store_ops Let_def split: option.splits)

lemma RegisterNew_keeps: "keeps_players w (snd (RegisterNew RoomRepoAdapter n c w))"
  by (auto simp: keeps_players_def RegisterNew_def RoomRepoAdapter_def store_ops Let_def alloc_room_def
      index_new_def split: option.splits)

lemma store_step_inv:
  "lobby_step RoomRepoAdapter w w' \<Longrightarrow> lobby_inv (abstract store_index w) \<Longrightarrow> lobby_inv (abstract store_index w')"
  using rooms.step_abs lobby_step_inv by blast

lemma Leave_world_ok: "world_ok w \<Longrightarrow> world_ok (snd (Leave RoomRepoAdapter n i w))"
  by (rule world_ok_keeps [OF _ Leave_keeps])
    (auto simp: world_ok_def intro: store_step_inv lobby_step.step_leave)

lemma MarkStarted_world_ok:
  assumes "world_ok w" and "GetRoomByHost i (repo w) = Some p"
  shows "world_ok (MarkStarted RoomRepoAdapter n (Some p) sav m w)"
proof (rule world_ok_keeps [OF assms(1) MarkStarted_keeps])
  have "found (FindByHost RoomRepoAdapter i (repo w)) = Some p"
    using assms(2) by (auto simp: RoomRepoAdapter_def store_ops found_def split: option.splits)
  then have "lobby_step RoomRepoAdapter w (MarkStarted RoomRepoAdapter n (Some p) sav m w)"
    by (rule lobby_step.step_start)
  then show "lobby_inv (abstract store_index (MarkStarted RoomRepoAdapter n (Some p) sav m w))"
    using assms(1) store_step_inv by (auto simp: world_ok_def)
qed

lemma world_ok_player:
  "world_ok w \<Longrightarrow> GetPlayer i (repo w) = Some q \<Longrightarrow> pl_ID (players_heap w q) = i"
  by (simp add: world_ok_def GetPlayer_def)

lemma Join_world_ok:
  assumes ok: "world_ok w" and r: "GetRoom rid (repo w) = Some p"
    and room: "\<not> rm_Started (rooms_heap w p)" "rm_PlayersCount (rooms_heap w p) < rm_MaxPlayers (rooms_heap w p)"
    and w1: "w1 = snd (Leave RoomRepoAdapter na i w)"
  shows "world_ok (Join RoomRepoAdapter nb (Some p) (GetPlayer i (repo w1)) w1)"
proof (cases "GetPlayer i (repo w1)")
  case None
  then show ?thesis using Leave_world_ok [OF ok] by (simp add: Join_def w1)
next
  case (Some q)
  then have q: "GetPlayer i (repo w) = Some q"
    using Leave_keeps [of w na i] by (simp add: w1 keeps_players_def GetPlayer_def)
  have "lobby_step RoomRepoAdapter w (Join RoomRepoAdapter nb (Some p) (Some q) w1)"
    by (rule lobby_step.step_join [where rid = rid and na = na])
      (use r room world_ok_player [OF ok q] in
        \<open>simp_all add: w1 RoomRepoAdapter_def FindRoom_def GetRoom_def\<close>)
  moreover have "keeps_players w (Join RoomRepoAdapter nb (Some p) (Some q) w1)"
    unfolding w1 by (rule keeps_players_trans [OF Leave_keeps Join_keeps])
  ultimately show ?thesis
    unfolding Some using ok by (meson store_step_inv world_ok_def world_ok_keeps)
qed

lemma RegisterNew_world_ok:
  assumes ok: "world_ok w" and q: "GetPlayer i (repo w) = Some q" and host: "rp_Host c = Some q"
  shows "world_ok (snd (RegisterNew RoomRepoAdapter nb c (snd (Leave RoomRepoAdapter na i w))))"
proof -
  let ?w = "snd (RegisterNew RoomRepoAdapter nb c (snd (Leave RoomRepoAdapter na i w)))"
  have "lobby_step RoomRepoAdapter w ?w"
    by (rule lobby_step.step_register [OF host, where na = na]) (simp add: world_ok_player [OF ok q])
  moreover have "keeps_players w ?w" by (rule keeps_players_trans [OF Leave_keeps RegisterNew_keeps])
  ultimately show ?thesis using ok by (meson store_step_inv world_ok_def world_ok_keeps)
qed

section \<open>Changes the lobby does not see\<close>

definition lobby_part :: "room \<Rightarrow> room" where
  "lobby_part r = r\<lparr>rm_TimeTick := 0, rm_StartedUsers := []\<rparr>"

definition same_rooms :: "store world \<Rightarrow> store world \<Rightarrow> bool" where
  "same_rooms w w' \<longleftrightarrow>
     store_index (repo w') = store_index (repo w) \<and> next_rref w' = next_rref w \<and>
     (\<forall>p. lobby_part (rooms_heap w' p) = lobby_part (rooms_heap w p))"

lemma same_rooms_refl [simp]: "same_rooms w w"
  by (simp add: same_rooms_def)

lemma lobby_part_eq:
  assumes "lobby_part r' = lobby_part r"
  shows "room_ok x p r' = room_ok x p r" "listed_ok x p r' = listed_ok x p r"
    "rm_ID r' = rm_ID r" "rm_CtlSum r' = rm_CtlSum r"
  using assms by (cases r; cases r'; simp add: room_ok_def listed_ok_def lobby_part_def)+

lemma same_rooms_inv:
  assumes inv: "lobby_inv (abstract store_index w)" and same: "same_rooms w w'"
  shows "lobby_inv (abstract store_index w')"
proof -
  have part: "lobby_part (rooms_heap w' p) = lobby_part (rooms_heap w p)" for p
    using same by (simp add: same_rooms_def)
  have same': "store_index (repo w') = store_index (repo w)" "next_rref w' = next_rref w"
    using same by (simp_all add: same_rooms_def)
  have "lobby_inv (abstract store_index w') = lobby_inv (abstract store_index w)"
    by (simp only: lobby_inv_def abstract_select same' lobby_part_eq [OF part])
  with inv show ?thesis by simp
qed

lemma same_rooms_world_ok: "world_ok w \<Longrightarrow> same_rooms w w' \<Longrightarrow> keeps_players w w' \<Longrightarrow> world_ok w'"
  by (meson same_rooms_inv world_ok_def world_ok_keeps)

lemma same_rooms_locks [simp]: "same_rooms w (set_repo (Store_RoomMu i) w)"
  using same_rooms_refl [of w] by (simp add: same_rooms_def Store_RoomMu_def store_index_def)

lemma keeps_players_locks [simp]: "keeps_players w (set_repo (Store_RoomMu i) w)"
  by (simp add: keeps_players_def Store_RoomMu_def)

lemma apply_stat_ID [simp]: "pl_ID (apply_stat stat started pl) = pl_ID pl"
proof -
  have "pl_ID (snd (apply_rates old st p)) = pl_ID p" for old st p
    by (simp add: apply_rates_def init_series_def Let_def split_beta)
  moreover have "pl_ID (snd (apply_counters old st p)) = pl_ID p" for old st p
    by (simp add: apply_counters_def Let_def split_beta)
  moreover have "pl_ID (inherit_color st us p) = pl_ID p" for st us p
    by (simp add: inherit_color_def split: option.splits)
  ultimately show ?thesis by (simp add: apply_stat_alt Let_def)
qed

lemma UpdateStat_frame:
  "same_rooms w (snd (UpdateStat (Some q) (Some p) raw w)) \<and>
   keeps_players w (snd (UpdateStat (Some q) (Some p) raw w))"
proof (cases "DecodeStat raw")
  case None
  then show ?thesis by (simp add: UpdateStat_def)
next
  case (Some st)
  have "lobby_part (raise_tick n r) = lobby_part r" for n r
    by (simp add: raise_tick_def lobby_part_def)
  then show ?thesis
    using Some by (auto simp: UpdateStat_def Let_def same_rooms_def keeps_players_def)
qed

text \<open>What the team loop leaves alone: everything but the players' teams.\<close>

definition same_but_teams :: "store world \<Rightarrow> store world \<Rightarrow> bool" where
  "same_but_teams w w' \<longleftrightarrow>
     rooms_heap w' = rooms_heap w \<and> next_rref w' = next_rref w \<and> repo w' = repo w \<and>
     next_pref w' = next_pref w \<and> (\<forall>q. pl_ID (players_heap w' q) = pl_ID (players_heap w q))"

lemma same_but_teams_set:
  "same_but_teams (set_player q (set_team na th co (players_heap w q)) w) w' \<Longrightarrow> same_but_teams w w'"
  by (auto simp: same_but_teams_def set_team_def split: if_splits)

lemma started_loop_frame: "same_but_teams w (snd (started_loop n r raw acc w))"
proof (induction n r raw acc w rule: started_loop.induct)
  case (1 n r a b c d raw acc w)
  obtain pid ok1 where a: "IntArg a = (pid, ok1)" by fastforce
  obtain nation ok2 where b: "IntArg b = (nation, ok2)" by fastforce
  obtain theam ok3 where c: "IntArg c = (theam, ok3)" by fastforce
  obtain color ok4 where d: "IntArg d = (color, ok4)" by fastforce
  show ?case
  proof (cases "int (length acc) < n \<and> ok1 \<and> ok2 \<and> ok3 \<and> ok4")
    case True
    then have n: "int (length acc) < n" and ok: "ok1 \<and> ok2 \<and> ok3 \<and> ok4" by simp_all
    note IH = 1(1-3) [OF n refl a [symmetric] refl b [symmetric] refl c [symmetric] d [symmetric] ok]
    show ?thesis
    proof (cases "rm_Players r (low32 pid)")
      case None
      from IH(1) [OF None] show ?thesis using n ok None by (simp add: a b c d)
    next
      case (Some o')
      show ?thesis
      proof (cases o')
        case None
        from IH(2) [OF Some None] show ?thesis using n ok Some None by (simp add: a b c d)
      next
        case (Some q)
        with \<open>rm_Players r (low32 pid) = Some o'\<close> have q: "rm_Players r (low32 pid) = Some (Some q)" by simp
        from same_but_teams_set [OF IH(3) [OF q refl]] show ?thesis using n ok by (simp add: a b c d q)
      qed
    qed
  next
    case False
    show ?thesis
    proof (cases "int (length acc) < n")
      case n: True
      with False have "\<not> (ok1 \<and> ok2 \<and> ok3 \<and> ok4)" by simp
      from 1(4) [OF n refl a [symmetric] refl b [symmetric] refl c [symmetric] d [symmetric] this]
      show ?thesis using n False by (auto simp: a b c d)
    qed (simp add: same_but_teams_def)
  qed
qed (simp_all add: same_but_teams_def)

lemma ApplyStartedUsers_frame:
  "same_rooms w (ApplyStartedUsers (Some p) args w) \<and> keeps_players w (ApplyStartedUsers (Some p) args w)"
proof -
  have part: "lobby_part (r\<lparr>rm_StartedUsers := us\<rparr>) = lobby_part r" for r us
    by (simp add: lobby_part_def)
  show ?thesis
  proof (cases "3 \<le> length args \<and> snd (IntArg (args ! 2)) \<and> 0 < fst (IntArg (args ! 2))")
    case True
    obtain us w' where loop: "started_loop (fst (IntArg (args ! 2))) (rooms_heap w p) (drop 3 args) [] w = (us, w')"
      by fastforce
    then have w': "ApplyStartedUsers (Some p) args w = set_room p ((rooms_heap w' p)\<lparr>rm_StartedUsers := us\<rparr>) w'"
      using True by (simp add: ApplyStartedUsers_def split_beta)
    show ?thesis
      using started_loop_frame [of w "fst (IntArg (args ! 2))" "rooms_heap w p" "drop 3 args" "[]"]
      unfolding w' by (simp add: loop same_but_teams_def same_rooms_def keeps_players_def part)
  next
    case False
    then have "ApplyStartedUsers (Some p) args w = w"
      by (auto simp: ApplyStartedUsers_def split_beta)
    then show ?thesis by simp
  qed
qed

section \<open>Handlers that leave rooms, players and session ids alone\<close>

definition quiet :: "server \<Rightarrow> server \<Rightarrow> bool" where
  "quiet st st' \<longleftrightarrow> st_world st' = st_world st \<and> (\<forall>c. player_id c st' = player_id c st)"

lemma quiet_refl [simp, intro]: "quiet st st"
  by (simp add: quiet_def)

lemma quiet_trans: "quiet st st' \<Longrightarrow> quiet st' st'' \<Longrightarrow> quiet st st''"
  by (simp add: quiet_def)

lemma player_id_select [simp]:
  "player_id c' (set_session c s st) = (if c' = c then ss_PlayerID s else player_id c' st)"
  "player_id c' (on_world f st) = player_id c' st"
  "player_id c' (on_session g st) = player_id c' st"
  "player_id c' (st\<lparr>st_storage := kv\<rparr>) = player_id c' st"
  "player_id c' (st\<lparr>st_ranking := rk\<rparr>) = player_id c' st"
  "player_id c' (st\<lparr>st_posts := ps\<rparr>) = player_id c' st"
  "player_id c' (st\<lparr>st_world := w\<rparr>) = player_id c' st"
  by (simp_all add: player_id_def session_of_def conn_of_def set_session_def set_conn_def on_world_def
      on_session_def)

lemma player_id_set_conn:
  "player_id c' (set_conn c k st) =
    (if c' = c then (case cn_Session k of None \<Rightarrow> 0 | Some s \<Rightarrow> ss_PlayerID s) else player_id c' st)"
  by (simp add: player_id_def session_of_def conn_of_def set_conn_def)

lemma ensureSession_cases:
  assumes "ensureSession c st = (s, st')"
  shows "quiet st st' \<and> session_of c st' = Some s \<and> ss_PlayerID s = player_id c st"
proof (cases "session_of c st")
  case None
  then have "s = new_session" "st' = set_session c new_session st" "player_id c st = 0"
    using assms by (auto simp: ensureSession_def player_id_def)
  then show ?thesis by (simp add: quiet_def new_session_def)
next
  case (Some s')
  then show ?thesis using assms by (simp add: ensureSession_def player_id_def)
qed

lemma quiet_set_session:
  "ss_PlayerID s = player_id c st \<Longrightarrow> quiet st (set_session c s st)"
  by (simp add: quiet_def)

lemma quiet_timers [simp, intro]:
  "quiet st (armAliveTimer e i st)" "quiet st (clearAliveTimer i st)"
  "quiet st (on_session f st)" "quiet st (postAccountAction e c a p st)"
  by (simp_all add: quiet_def armAliveTimer_def clearAliveTimer_def postAccountAction_def split: option.splits)

lemma refreshAlive_quiet [simp, intro]: "quiet st (refreshAlive e c st)"
proof (cases "ensureSession c st")
  case (Pair s st1)
  note s = ensureSession_cases [OF Pair]
  have "quiet st (set_session c (s\<lparr>ss_AliveAt := t\<rparr>) st1)" for t
    by (rule quiet_trans [where st' = st1]) (use s in \<open>auto simp: quiet_def\<close>)
  then show ?thesis
    by (auto simp: refreshAlive_def Pair Let_def intro: quiet_trans)
qed

lemma Proxy_quiet: "quiet st (snd (Proxy_Handle key c args st))"
proof -
  have "cn_Session (Cancel k) = cn_Session k" for k by (simp add: Cancel_def)
  then show ?thesis
    by (auto simp: Proxy_Handle_def Let_def quiet_def player_id_set_conn player_id_def session_of_def conn_of_def
        split: option.splits prod.splits)
qed

lemma Endgame_quiet: "quiet st (snd (Endgame_Handle c args st))"
  by (simp add: Endgame_Handle_def split: option.splits)

lemma Resize_quiet: "quiet st (snd (Resize c p st))"
proof (cases "ensureSession c st")
  case (Pair s st1)
  have "quiet st (set_session c (s\<lparr>ss_WindowH := h\<rparr>) st1)" for h
    by (rule quiet_trans [where st' = st1]) (use ensureSession_cases [OF Pair] in \<open>auto simp: quiet_def\<close>)
  then show ?thesis by (simp add: Resize_def Pair Let_def split_beta)
qed

lemma load_quiet: "quiet st (snd (load_cup e st))" "quiet st (snd (load_lcn e st))"
  by (simp_all add: quiet_def load_cup_def load_lcn_def split_beta)

lemma routes_quiet:
  "quiet st (snd (Enter e c req p st))"
  "quiet st (snd (RoomInfo e c r p st))"
  "quiet st (snd (JoinPlayer e c p st))"
  "quiet st (snd (Startup e c req st))"
  "quiet st (snd (NewRoomDialog e req p st))"
  "quiet st (snd (UserDetails e c p st))"
  "quiet st (snd (UsersList e req st))"
  "quiet st (snd (Tournaments e req p st))"
  "quiet st (snd (LCNRegistrationDialog e req st))"
  "quiet st (snd (GGCupThanks e req st))"
proof -
  show "quiet st (snd (Tournaments e req p st))"
    using load_quiet(2) [of st e] by (cases "load_lcn e st") (simp add: Tournaments_def Let_def split: option.splits)
  show "quiet st (snd (GGCupThanks e req st))"
    using load_quiet(1) [of st e] by (cases "load_cup e st") (simp add: GGCupThanks_def Let_def)
  show "quiet st (snd (UserDetails e c p st))"
    using load_quiet(2) [of st e] by (simp add: UserDetails_def Let_def split_beta split: option.splits)
  show "quiet st (snd (Startup e c req st))"
    using load_quiet(1) [of st e] by (simp add: Startup_def split_beta)
qed (simp_all add: Enter_state RoomInfo_state JoinPlayer_state NewRoomDialog_def UsersList_def LCNRegistrationDialog_def)

section \<open>Handlers that move players\<close>

definition fine :: "server \<Rightarrow> server \<Rightarrow> bool" where
  "fine st st' \<longleftrightarrow>
     (\<forall>c. player_id c st' = player_id c st) \<and> keeps_players (st_world st) (st_world st') \<and>
     (world_ok (st_world st) \<longrightarrow> world_ok (st_world st'))"

lemma quiet_fine: "quiet st st' \<Longrightarrow> fine st st'"
  by (simp add: quiet_def fine_def)

lemma fine_trans: "fine st st' \<Longrightarrow> fine st' st'' \<Longrightarrow> fine st st''"
  unfolding fine_def using keeps_players_trans by fastforce

lemma fine_on_world:
  "keeps_players (st_world st) (f (st_world st)) \<Longrightarrow> (world_ok (st_world st) \<Longrightarrow> world_ok (f (st_world st))) \<Longrightarrow>
   fine st (on_world f st)"
  by (simp add: fine_def)

lemma fine_same_rooms:
  "same_rooms (st_world st) (f (st_world st)) \<Longrightarrow> keeps_players (st_world st) (f (st_world st)) \<Longrightarrow>
   fine st (on_world f st)"
  by (rule fine_on_world) (auto intro: same_rooms_world_ok)

lemma leaveRoomByID_fine: "fine st (leaveRoomByID e i st)"
  unfolding leaveRoomByID_def
  by (rule fine_trans [OF quiet_fine [OF quiet_timers(2)] fine_on_world])
    (auto intro: Leave_keeps Leave_world_ok)

lemma notAlive_fine: "fine st (notAlive e i st)"
  unfolding notAlive_def by (rule fine_trans [OF leaveRoomByID_fine [of st e i] quiet_fine]) simp

lemma Leave_Handle_fine: "fine st (snd (Leave_Handle e c st))"
proof -
  have "fine st (on_world (\<lambda>w. snd (Leave RoomRepoAdapter n i w)) (on_session f st))" for n i f
    by (rule fine_trans [OF quiet_fine [OF quiet_timers(3)] fine_on_world])
      (auto intro: Leave_keeps Leave_world_ok)
  then show ?thesis by (simp add: Leave_Handle_def Let_def quiet_fine)
qed

lemma arm_all_fine: "quiet st (arm_all e ids st)"
proof (induction ids arbitrary: st)
  case (Cons i ids)
  have "quiet (armAliveTimer e i st) (arm_all e ids (armAliveTimer e i st))" by (rule Cons.IH)
  then show ?case unfolding arm_all_def by (simp add: quiet_trans [OF quiet_timers(1)])
qed (simp add: arm_all_def)

lemma Stats_fine: "fine st (snd (Stats_Handle e c args st))"
proof -
  let ?st = "refreshAlive e c st"
  have base: "fine st ?st" by (rule quiet_fine) simp
  have lock: "fine st (on_world (set_repo (Store_RoomMu i)) ?st)" for i
    by (rule fine_trans [OF base fine_same_rooms]) simp_all
  have stat: "fine st (on_world (\<lambda>w. snd (UpdateStat (Some q) (Some p) raw w)) (on_world (set_repo (Store_RoomMu i)) ?st))"
    for q p raw i
    by (rule fine_trans [OF lock fine_same_rooms]) (simp_all add: UpdateStat_frame)
  show ?thesis
    unfolding Stats_Handle_def Let_def
    by (simp add: base lock stat split_beta split: option.splits)
qed

lemma Start_fine:
  assumes "Start_Handle e c args st = Ok (res, st')"
  shows "fine st st'"
proof (cases "player_id c st = 0 \<or> GetRoomByHost (player_id c st) (store_of st) = None")
  case True
  then have "st' = st" using assms by (auto simp: Start_Handle_def Let_def split: if_splits)
  then show ?thesis by (simp add: quiet_fine)
next
  case False
  then obtain p where p: "GetRoomByHost (player_id c st) (store_of st) = Some p" by auto
  let ?sav = "start_arg args 0" and ?map = "start_arg args 1"
  define st1 where "st1 = on_world (MarkStarted RoomRepoAdapter (ev_Now e) (Some p) ?sav ?map) st"
  define st2 where "st2 = arm_all e (ev_Order e (dom (rm_Players (room_at st1 p)))) st1"
  define st3 where "st3 = (if player_id c st = rm_HostID (room_at st2 p)
    then on_world (ApplyStartedUsers (Some p) args) st2 else st2)"
  have "fine st st1"
    unfolding st1_def by (rule fine_on_world) (auto intro: MarkStarted_keeps MarkStarted_world_ok [OF _ p])
  moreover have "fine st1 st2" unfolding st2_def by (rule quiet_fine [OF arm_all_fine])
  moreover have "fine st2 st3"
    unfolding st3_def using ApplyStartedUsers_frame fine_same_rooms quiet_fine by simp
  ultimately have fine3: "fine st st3" by (blast intro: fine_trans)
  have "st' = st3 \<or> (\<exists>pay. st' = postAccountAction e c ''start'' (Some pay) st3)"
    using assms False p unfolding Start_Handle_def Let_def
    by (auto simp: st1_def st2_def st3_def split: outcome.splits option.splits)
  with fine3 show ?thesis using fine_trans quiet_fine quiet_timers(4) by blast
qed

lemma join_endpoint_quiet: "quiet st (snd (join_endpoint e r st))"
  by (simp add: quiet_def join_endpoint_def split_beta split: sum.splits option.splits)

lemma join_room_checked_fine:
  assumes "GetRoom rid (store_of st) = Some r" and "\<not> rm_Started (room_at st r)"
    and "rm_PlayersCount (room_at st r) < rm_MaxPlayers (room_at st r)"
  shows "fine st (snd (join_room_checked e c i r st))"
proof -
  define st1 where "st1 = leaveRoomByID e i st"
  define st2 where "st2 = on_world (Join RoomRepoAdapter (ev_Now e) (Some r) (GetPlayer i (store_of st1))) st1"
  have w1: "st_world st1 = snd (Leave RoomRepoAdapter (ev_Now e) i (st_world st))" by (simp add: st1_def)
  have "world_ok (st_world st) \<Longrightarrow> world_ok (st_world st2)"
    unfolding st2_def using Join_world_ok [OF _ assms w1] by simp
  moreover have "keeps_players (st_world st) (st_world st2)"
    using keeps_players_trans [OF Leave_keeps Join_keeps] by (simp add: st2_def w1)
  moreover have "player_id c' st2 = player_id c' st" for c'
    using leaveRoomByID_fine [of st e i] by (simp add: st2_def st1_def fine_def)
  ultimately have "fine st st2" by (simp add: fine_def)
  moreover have "fine st2 (snd (join_endpoint e (room_at st2 r) st2))"
    by (rule quiet_fine [OF join_endpoint_quiet])
  moreover have "snd (join_room_checked e c i r st) = snd (join_endpoint e (room_at st2 r) st2)"
    by (simp add: join_room_checked_def Let_def split_beta st1_def st2_def)
  ultimately show ?thesis using fine_trans by metis
qed

lemma fine_refl [simp, intro]: "fine st st"
  by (simp add: fine_def)

lemma JoinGame_fine: "fine st (snd (JoinGame e c req p st))"
proof -
  have "fine st (snd (join_room_checked e c (player_id c st) r st))"
    if "GetRoom rid (store_of st) = Some r" "\<not> rm_Started (room_at st r)"
      "\<not> rm_MaxPlayers (room_at st r) \<le> rm_PlayersCount (room_at st r)" for rid r
    using join_room_checked_fine [OF that(1,2)] that(3) by simp
  then show ?thesis by (simp add: JoinGame_def Let_def split: option.splits)
qed

lemma RegNewRoom_fine:
  assumes player: "player_id c st \<noteq> 0 \<Longrightarrow> GetPlayer (player_id c st) (store_of st) \<noteq> None"
  shows "fine st (snd (RegNewRoom e c req p st))"
proof (cases "snd (RegNewRoom e c req p st) = st")
  case False
  then obtain s where s: "session_of c st = Some s" "ss_PlayerID s \<noteq> 0"
    and go: "astate_free p" "ss_Nick s \<noteq> []" "ValidateTitle (get p ''VE_TITLE'')"
    by (auto simp: RegNewRoom_def Let_def split: option.splits if_splits)
  let ?i = "ss_PlayerID s"
  have i: "player_id c st = ?i" using s by (simp add: player_id_def)
  with player s obtain q where q: "GetPlayer ?i (store_of st) = Some q" by auto
  define st1 where "st1 = leaveRoomByID e ?i st"
  have w1: "st_world st1 = snd (Leave RoomRepoAdapter (ev_Now e) ?i (st_world st))" by (simp add: st1_def)
  have q1: "GetPlayer ?i (store_of st1) = Some q"
    using q Leave_keeps [of "st_world st"] by (simp add: w1 keeps_players_def GetPlayer_def)
  define rp where "rp = reg_params e (conn_of c st1) s req p (Some q)"
  define w where "w = snd (RegisterNew RoomRepoAdapter (ev_Now e) rp (st_world st1))"
  have "snd (RegNewRoom e c req p st) = armAliveTimer e ?i (st1\<lparr>st_world := w\<rparr>)"
    using s go q1 by (simp add: RegNewRoom_def Let_def st1_def [symmetric] rp_def w_def split_beta w1)
  moreover have "fine st (st1\<lparr>st_world := w\<rparr>)"
    using RegisterNew_world_ok [OF _ q, of rp "ev_Now e" "ev_Now e"] keeps_players_trans [OF Leave_keeps RegisterNew_keeps]
      leaveRoomByID_fine [of st e ?i]
    by (simp add: fine_def w_def w1 rp_def reg_params_def st1_def)
  ultimately show ?thesis using fine_trans quiet_fine quiet_timers(1) by metis
qed simp

section \<open>Entering\<close>

definition server_ok :: "cref set \<Rightarrow> server \<Rightarrow> bool" where
  "server_ok L st \<longleftrightarrow>
     world_ok (st_world st) \<and>
     (\<forall>c\<in>L. player_id c st \<noteq> 0 \<longrightarrow>
        player_id c st \<le> lastPlayerID (store_of st) \<and> GetPlayer (player_id c st) (store_of st) \<noteq> None) \<and>
     (\<forall>c\<in>L. \<forall>c'\<in>L. c \<noteq> c' \<and> player_id c st = player_id c' st \<longrightarrow> player_id c st = 0)"

lemma server_ok_fine: "server_ok L st \<Longrightarrow> fine st st' \<Longrightarrow> server_ok L st'"
  by (simp add: server_ok_def fine_def keeps_players_def GetPlayer_def)

lemma server_ok_player: "server_ok L st \<Longrightarrow> c \<in> L \<Longrightarrow> player_id c st \<noteq> 0 \<Longrightarrow>
    player_id c st \<le> lastPlayerID (store_of st) \<and> GetPlayer (player_id c st) (store_of st) \<noteq> None"
  by (simp add: server_ok_def)

lemma upsert_new_select:
  "repo (st_world (upsert_new pl st)) = SetPlayer (Some (next_pref (st_world st), pl)) (store_of st)"
  "player_id c (upsert_new pl st) = player_id c st"
  "conn_of c (upsert_new pl st) = conn_of c st"
  by (simp_all add: upsert_new_def alloc_player_def)

lemma upsert_new_world_ok:
  assumes ok: "world_ok (st_world st)"
  shows "world_ok (st_world (upsert_new pl st))"
proof -
  let ?w = "st_world st"
  let ?w1 = "snd (alloc_player pl ?w)"
  have w: "st_world (upsert_new pl st) = set_repo (SetPlayer (Some (next_pref ?w, pl))) ?w1"
    by (simp add: upsert_new_def alloc_player_def)
  have "lobby_inv (abstract store_index ?w1)"
    using ok store_step_inv [OF lobby_step.step_player] by (simp add: world_ok_def)
  moreover have "abstract store_index (set_repo (SetPlayer (Some (next_pref ?w, pl))) ?w1) = abstract store_index ?w1"
    by (simp add: abstract_def map_world_def set_repo_def SetPlayer_def store_index_def)
  ultimately show ?thesis
    using ok by (auto simp: w world_ok_def SetPlayer_def alloc_player_def less_Suc_eq split: if_splits)
qed

text \<open>Entering under an id that is filed and not higher than the last one given out.\<close>

lemma enter_as_ok:
  assumes ok: "server_ok L st" and last: "i \<le> lastPlayerID (store_of st)"
    and fresh: "\<forall>c'\<in>L. c' \<noteq> c \<longrightarrow> player_id c' st \<noteq> i"
    and pl: "pl_ID pl = i" and s: "ss_PlayerID s = i"
  shows "server_ok L (on_session f (set_session c s (upsert_new pl st)))"
  using assms upsert_new_world_ok [of st pl]
  by (auto simp: server_ok_def upsert_new_select SetPlayer_def GetPlayer_def)

lemma word_less_Suc: "(x :: u32) \<noteq> - 1 \<Longrightarrow> x < x + 1"
proof -
  assume "x \<noteq> - 1"
  then have "x < - 1" by (simp add: word_order.not_eq_extremum)
  moreover have "unat (- 1 :: u32) = 2 ^ 32 - 1" by (simp add: unsigned_minus_1_eq_mask mask_eq_exp_minus_1)
  ultimately have "unat x + 1 < 2 ^ 32" by (simp add: word_less_nat_alt)
  then show "x < x + 1" by (simp add: word_less_nat_alt unat_word_ariths)
qed

lemma NextPlayerID_ok:
  assumes ok: "server_ok L st" and last: "lastPlayerID (store_of st) \<noteq> - 1"
  defines "st' \<equiv> on_world (\<lambda>w. w\<lparr>repo := snd (NextPlayerID (store_of st))\<rparr>) st"
  shows "server_ok L st'" "fst (NextPlayerID (store_of st)) = lastPlayerID (store_of st')"
    "lastPlayerID (store_of st) < lastPlayerID (store_of st')"
proof -
  let ?n = "lastPlayerID (store_of st)"
  have repo: "store_of st' = (store_of st)\<lparr>lastPlayerID := ?n + 1\<rparr>"
    by (simp add: st'_def NextPlayerID_def Let_def)
  show "fst (NextPlayerID (store_of st)) = lastPlayerID (store_of st')"
    by (simp add: repo NextPlayerID_def Let_def)
  show lt: "?n < lastPlayerID (store_of st')" using word_less_Suc [OF last] by (simp add: repo)
  have "abstract store_index (st_world st') = abstract store_index (st_world st)"
    by (simp add: abstract_def map_world_def st'_def NextPlayerID_def Let_def store_index_def)
  moreover have "players_heap (st_world st') = players_heap (st_world st)" "next_pref (st_world st') = next_pref (st_world st)"
    "player_id c st' = player_id c st" for c
    by (simp_all add: st'_def)
  ultimately show "server_ok L st'"
    using ok lt unfolding server_ok_def world_ok_def by (fastforce simp: repo GetPlayer_def)
qed

lemma successEnter_ok:
  assumes ok: "server_ok L st0" and c: "c \<in> L" and last: "lastPlayerID (store_of st0) \<noteq> - 1"
  shows "server_ok L (snd (successEnter e c req nick st0))"
proof (cases "ensureSession c st0")
  case (Pair sess st)
  have q: "quiet st0 st" "session_of c st = Some sess" "ss_PlayerID sess = player_id c st0"
    using ensureSession_cases [OF Pair] by auto
  then have ok': "server_ok L st" using ok server_ok_fine quiet_fine by blast
  have last': "lastPlayerID (store_of st) \<noteq> - 1" and pid: "player_id c st = ss_PlayerID sess"
    using last q by (simp_all add: quiet_def)
  let ?i0 = "ss_PlayerID sess"
  define st1 where "st1 = (if 0 < ?i0 then leaveRoomByID e ?i0 st
    else on_world (\<lambda>w. w\<lparr>repo := snd (NextPlayerID (store_of st))\<rparr>) st)"
  define i where "i = (if 0 < ?i0 then ?i0 else fst (NextPlayerID (store_of st)))"
  have "server_ok L st1 \<and> i \<le> lastPlayerID (store_of st1) \<and> (\<forall>c'\<in>L. c' \<noteq> c \<longrightarrow> player_id c' st1 \<noteq> i)"
  proof (cases "0 < ?i0")
    case True
    then have i: "i = ?i0" "i \<noteq> 0" and st1: "st1 = leaveRoomByID e ?i0 st" by (auto simp: i_def st1_def)
    note f = leaveRoomByID_fine [of st e ?i0]
    have "player_id c' st1 \<noteq> i" if "c' \<in> L" "c' \<noteq> c" for c'
      using f ok' that c pid i unfolding st1 server_ok_def fine_def by metis
    moreover have "i \<le> lastPlayerID (store_of st1)"
      using f server_ok_player [OF ok' c] pid i unfolding st1 by (simp add: fine_def keeps_players_def)
    ultimately show ?thesis using server_ok_fine [OF ok' f] by (simp add: st1)
  next
    case False
    then have i: "i = fst (NextPlayerID (store_of st))"
      and st1: "st1 = on_world (\<lambda>w. w\<lparr>repo := snd (NextPlayerID (store_of st))\<rparr>) st"
      by (auto simp: i_def st1_def)
    note n = NextPlayerID_ok [OF ok' last', folded st1]
    have "i \<noteq> 0" using n by (auto simp: i)
    have "player_id c' st1 \<noteq> i" if "c' \<in> L" for c'
    proof (cases "player_id c' st = 0")
      case False
      then have "player_id c' st < i"
        using server_ok_player [OF ok' that] le_less_trans [OF _ n(3)] by (simp add: i n(2))
      then show ?thesis by (simp add: st1)
    qed (use \<open>i \<noteq> 0\<close> in \<open>simp add: st1\<close>)
    then show ?thesis using n by (simp add: i)
  qed
  then have "server_ok L (on_session (Register i c)
      (set_session c (sess\<lparr>ss_PlayerID := i, ss_Nick := nick\<rparr>)
        (upsert_new (entered_player i nick t ao) st1)))" for t ao
    by (intro enter_as_ok [where i = i])
      (auto simp: entered_player_def Let_def split: option.splits)
  then show ?thesis
    by (auto simp: successEnter_def Pair Let_def split_beta st1_def i_def)
qed

lemma apply_decision_ID [simp]: "ss_PlayerID (apply_decision d s) = ss_PlayerID s"
  by (simp add: apply_decision_def Let_def split: option.splits)

lemma TryEnter_ok:
  assumes ok: "server_ok L st" and c: "c \<in> L" and last: "lastPlayerID (store_of st) \<noteq> - 1"
  shows "server_ok L (snd (TryEnter e c req p st))"
proof (cases "ensureSession c st")
  case (Pair s st0)
  have q: "quiet st st0" "ss_PlayerID s = player_id c st" using ensureSession_cases [OF Pair] by auto
  have upd: "quiet st (set_session c s' st0)" if "ss_PlayerID s' = ss_PlayerID s" for s'
    using q that by (auto simp: quiet_def)
  have post: "quiet st (if b then postAccountAction e c a pay (set_session c s' st0) else set_session c s' st0)"
    if "ss_PlayerID s' = ss_PlayerID s" for s' b a pay
    using upd [OF that] quiet_trans quiet_timers(4) by simp
  have enter: "server_ok L (snd (successEnter e c req nick st'))" if "quiet st st'" for nick st'
    using successEnter_ok [OF server_ok_fine [OF ok quiet_fine [OF that]] c] last that by (simp add: quiet_def)
  define d where "d = TryEnterDecide (Authenticate (ev_Http e) (ev_LoginJson e) (ev_Providers e))
    (ParseEnterRequest p (ss_Account s) (cn_IP (conn_of c st0)))"
  define s2 where "s2 = (case ed_Account d of None \<Rightarrow> apply_decision d s
    | Some acc \<Rightarrow> (apply_decision d s)\<lparr>ss_Account := Some acc\<rparr>)"
  have s2: "ss_PlayerID s2 = ss_PlayerID s" by (simp add: s2_def split: option.splits)
  have "TryEnter e c req p st =
     (case ed_Kind d of
        EnterRender \<Rightarrow>
          ((RenderEnter e req (ed_LoginType d) (ed_Message d) [] [] [], map_option ErrEnter (ed_Err d)),
           set_session c (apply_decision d s) st0)
      | EnterRenderErrorPage \<Rightarrow>
          ((render_show e (Ver req) ''error_enter.tmpl'' (zero_view\<lparr>vw_Text := ed_Message d\<rparr>),
            map_option ErrEnter (ed_Err d)), set_session c (apply_decision d s) st0)
      | EnterSuccess \<Rightarrow>
          (case successEnter e c req (ed_Nick d)
              (if ed_RunPostAccountAction d then postAccountAction e c ''enter'' None (set_session c s2 st0)
               else set_session c s2 st0) of
             (cmds, st3) \<Rightarrow> ((cmds, map_option ErrEnter (ed_Err d)), st3)))"
    by (simp only: TryEnter_def Pair Let_def case_prod_conv s2_def d_def)
  then have st1: "snd (TryEnter e c req p st) =
     (if ed_Kind d = EnterSuccess then
        snd (successEnter e c req (ed_Nick d)
          (if ed_RunPostAccountAction d then postAccountAction e c ''enter'' None (set_session c s2 st0)
           else set_session c s2 st0))
      else set_session c (apply_decision d s) st0)"
    by (cases "ed_Kind d") (simp_all only: enter_kind.case snd_conv split_beta if_True if_False enter_kind.distinct simp_thms)
  show ?thesis
    unfolding st1 using enter [OF post [OF s2]] server_ok_fine [OF ok quiet_fine [OF upd]] by auto
qed

section \<open>Dispatch\<close>

lemma dispatchOpen_ok:
  assumes ok: "server_ok L st" and c: "c \<in> L" and last: "lastPlayerID (store_of st) \<noteq> - 1"
  shows "server_ok L (snd (dispatchOpen e c req method p st))"
proof -
  have player: "player_id c st \<noteq> 0 \<Longrightarrow> GetPlayer (player_id c st) (store_of st) \<noteq> None"
    using server_ok_player [OF ok c] by blast
  have fine: "fine st st' \<Longrightarrow> server_ok L st'" for st' using server_ok_fine [OF ok] .
  have reg: "server_ok L (snd (RegNewRoom e c req p st))"
    using fine [OF RegNewRoom_fine] player by blast
  show ?thesis
  proof (cases "openRoutes e c req method")
    case None
    then show ?thesis using ok by (simp add: dispatchOpen_def)
  next
    case (Some h)
    then have "h \<in> {Enter e c req, TryEnter e c req, (\<lambda>p. Startup e c req), Resize c, NewRoomDialog e req,
        RegNewRoom e c req, JoinGame e c (Some req), RoomInfo e c (Some req), JoinPlayer e c, UserDetails e c,
        (\<lambda>p. UsersList e req), Tournaments e req, (\<lambda>p. LCNRegistrationDialog e req), (\<lambda>p. GGCupThanks e req)}"
      unfolding openRoutes_def by (simp only: fun_upd_apply insert_iff) (simp split: if_splits)
    then have "server_ok L (snd (h p st))"
      using fine [OF quiet_fine [OF routes_quiet(1)]] fine [OF quiet_fine [OF routes_quiet(2)]]
        fine [OF quiet_fine [OF routes_quiet(3)]] fine [OF quiet_fine [OF routes_quiet(4)]]
        fine [OF quiet_fine [OF routes_quiet(5)]] fine [OF quiet_fine [OF routes_quiet(6)]]
        fine [OF quiet_fine [OF routes_quiet(7)]] fine [OF quiet_fine [OF routes_quiet(8)]]
        fine [OF quiet_fine [OF routes_quiet(9)]] fine [OF quiet_fine [OF routes_quiet(10)]]
        fine [OF quiet_fine [OF Resize_quiet]] fine [OF JoinGame_fine] reg TryEnter_ok [OF assms]
      by (elim insertE emptyE) (simp_all only:)
    then show ?thesis using ok by (simp add: dispatchOpen_def Some)
  qed
qed

lemma Open_Handle_snd: "snd (Open_Handle d args st) = st \<or> (\<exists>m p. snd (Open_Handle d args st) = snd (d m p st))"
  by (cases args) (auto simp: Open_Handle_def Let_def split_beta)

lemma Go_Handle_snd: "snd (Go_Handle d args st) = st \<or> (\<exists>m p. snd (Go_Handle d args st) = snd (d m p st))"
  by (cases args) (auto simp: Go_Handle_def split_beta)

text \<open>What a command can have done: the commands that cannot panic, by the handlers they run.\<close>

abbreviation total_results ::
  "env \<Rightarrow> cref \<Rightarrow> gsc_stream \<Rightarrow> string list \<Rightarrow> server \<Rightarrow> (handle_result \<times> server) set" where
  "total_results e c req args st \<equiv>
     {Go_Handle (dispatchOpen e c req) args st, Open_Handle (dispatchOpen e c req) args st,
      (GETTBL_Handle e c req args st, st), Endgame_Handle c args st, Alive_Handle e c st, Leave_Handle e c st,
      Proxy_Handle (gm_ProxyKey (ev_Game e)) c args st, (URL_Handle args, st), (Echo_Handle args, st),
      (Login_Handle, st)}"

lemma HandleWithMeta_cases:
  assumes "HandleWithMeta e c req cmd args st = Ok (res, st')"
  obtains (stats) "st' = snd (Stats_Handle e c args st)" "hr_Commands res = []"
  | (start) "Start_Handle e c args st = Ok (res, st')"
  | (unknown) "st' = st" "hr_Commands res = []"
  | (total) "(res, st') \<in> total_results e c req args st"
proof (cases "cmd = ''stats''")
  case True
  then show ?thesis using assms stats by (auto simp: HandleWithMeta_def split_beta)
next
  case False
  show ?thesis
  proof (cases "Lookup cmd (defaultCommandRegistry e c req)")
    case None
    then show ?thesis using assms False unknown by (auto simp: HandleWithMeta_def silent_def split: if_splits)
  next
    case (Some h)
    then have h: "h args st = Ok (res, st')" using assms False by (simp add: HandleWithMeta_def)
    have "h = Start_Handle e c \<or> h args st \<in> Ok ` total_results e c req args st"
      using Some unfolding Lookup_def defaultCommandRegistry_def Registry_Register_def NewRegistry_def
      by (simp only: fun_upd_apply split: if_splits) auto
    then show ?thesis
    proof
      assume "h = Start_Handle e c"
      then show ?thesis using h start by simp
    next
      assume "h args st \<in> Ok ` total_results e c req args st"
      then show ?thesis unfolding h using total by (metis imageE outcome.inject(1))
    qed
  qed
qed

lemma HandleWithMeta_ok:
  assumes ok: "server_ok L st" and c: "c \<in> L" and last: "lastPlayerID (store_of st) \<noteq> - 1"
    and run: "HandleWithMeta e c req cmd args st = Ok (res, st')"
  shows "server_ok L st'"
proof -
  have fine: "fine st st' \<Longrightarrow> server_ok L st'" for st' using server_ok_fine [OF ok] .
  have route: "server_ok L (snd (Open_Handle (dispatchOpen e c req) args st))"
    "server_ok L (snd (Go_Handle (dispatchOpen e c req) args st))"
    using Open_Handle_snd [of "dispatchOpen e c req" args st] Go_Handle_snd [of "dispatchOpen e c req" args st]
      dispatchOpen_ok [OF ok c last] ok by metis+
  from run show ?thesis
  proof (cases rule: HandleWithMeta_cases)
    case total
    moreover have "\<forall>x\<in>total_results e c req args st. server_ok L (snd x)"
      using route ok fine [OF quiet_fine [OF Endgame_quiet]] fine [OF quiet_fine [OF Proxy_quiet]]
        fine [OF Leave_Handle_fine] fine [OF quiet_fine [OF refreshAlive_quiet]]
      by (simp add: Alive_Handle_def)
    ultimately show ?thesis by (metis snd_conv)
  qed (use ok fine Stats_fine Start_fine in blast)+
qed

lemma serve_request_ok:
  assumes "server_ok L st" and "c \<in> L" and "lastPlayerID (store_of st) \<noteq> - 1"
    and "serve_request deflate writes e c req st = Ok (out, st')"
  shows "server_ok L st'"
proof (cases "CmdSet req")
  case Nil
  then show ?thesis using assms by (simp add: serve_request_def)
next
  case (Cons cmd rest)
  obtain args win where m: "split_meta (Args cmd) = (args, win)" by fastforce
  have "\<exists>res. HandleWithMeta e c req (Name cmd) args st = Ok (res, st')"
    using assms(4) by (auto simp: serve_request_def Cons m split: outcome.splits if_splits prod.splits)
  then show ?thesis using HandleWithMeta_ok [OF assms(1-3)] by blast
qed

section \<open>Reachable states\<close>

text \<open>
  \<open>L\<close> is the set of connections whose loop is running: a request comes from one of them, and a
  connection that was disconnected sends no more. Player ids are 32-bit numbers that are never given
  back; a request is served in the model as long as fewer than \<open>2 ^ 32 - 1\<close> have been given out.
\<close>

inductive server_reach :: "endpoint_json \<Rightarrow> cref set \<Rightarrow> server \<Rightarrow> bool" for json :: endpoint_json where
  reach_start: "server_reach json {} NewController"
| reach_accept:
    "server_reach json L st \<Longrightarrow> c \<notin> L \<Longrightarrow> serve_event json e (Accepted c host port) st = Ok st' \<Longrightarrow>
     server_reach json (insert c L) st'"
| reach_request:
    "server_reach json L st \<Longrightarrow> c \<in> L \<Longrightarrow> lastPlayerID (store_of st) \<noteq> - 1 \<Longrightarrow>
     serve_event json e (Request c req) st = Ok st' \<Longrightarrow> server_reach json L st'"
| reach_disconnect:
    "server_reach json L st \<Longrightarrow> c \<in> L \<Longrightarrow> serve_event json e (Disconnected c) st = Ok st' \<Longrightarrow>
     server_reach json (L - {c}) st'"
| reach_timer:
    "server_reach json L st \<Longrightarrow> serve_event json e (TimerFired i) st = Ok st' \<Longrightarrow> server_reach json L st'"
| reach_udp:
    "server_reach json L st \<Longrightarrow> serve_event json e (UDP remote dgram) st = Ok st' \<Longrightarrow> server_reach json L st'"

lemma NewController_ok: "server_ok {} NewController"
proof -
  have "st_world NewController = init_world NewStore"
    by (simp add: NewController_def init_world_def)
  then show ?thesis
    using lobby_inv_init abstract_init by (simp add: server_ok_def world_ok_def) (simp add: init_world_def NewStore_def)
qed

lemma Accepted_ok:
  assumes "server_ok L st" and "c \<notin> L"
  shows "server_ok (insert c L) (set_conn c (NewConnection seq now host port) st)"
  using assms by (auto simp: server_ok_def player_id_set_conn NewConnection_def new_session_def)

lemma DeletePlayer_world_ok: "world_ok w \<Longrightarrow> world_ok (set_repo (DeletePlayer i) w)"
proof -
  assume ok: "world_ok w"
  have "abstract store_index (set_repo (DeletePlayer i) w) = abstract store_index w"
    by (simp add: abstract_def map_world_def set_repo_def DeletePlayer_def store_index_def)
  then show ?thesis using ok by (simp add: world_ok_def DeletePlayer_def)
qed

lemma OnDisconnect_ok:
  assumes ok: "server_ok L st" and c: "c \<in> L"
  shows "server_ok (L - {c}) (OnDisconnect e c st)"
proof (cases "player_id c st = 0")
  case True
  then show ?thesis using ok by (auto simp: OnDisconnect_def server_ok_def)
next
  case False
  let ?i = "player_id c st"
  define st3 where "st3 = leaveRoomByID e ?i (on_session (Unregister ?i) (clearAliveTimer ?i st))"
  have "fine st st3"
    unfolding st3_def
    by (rule fine_trans [OF fine_trans [OF quiet_fine [OF quiet_timers(2)] quiet_fine [OF quiet_timers(3)]] leaveRoomByID_fine])
  then have ok3: "server_ok L st3" and ids: "\<And>c'. player_id c' st3 = player_id c' st"
    using server_ok_fine [OF ok] by (simp_all add: fine_def)
  have other: "player_id c' st \<noteq> ?i" if "c' \<in> L - {c}" for c'
    using ok that c False by (metis DiffE insertI1 server_ok_def)
  have "OnDisconnect e c st = on_world (set_repo (DeletePlayer ?i)) st3"
    using False by (simp add: OnDisconnect_def Let_def st3_def)
  then show ?thesis
    using ok3 DeletePlayer_world_ok other ids
    by (auto simp: server_ok_def DeletePlayer_def GetPlayer_def)
qed

lemma server_reach_ok: "server_reach json L st \<Longrightarrow> server_ok L st"
proof (induction rule: server_reach.induct)
  case reach_start
  show ?case by (rule NewController_ok)
next
  case (reach_accept L st c e host port st')
  then show ?case using Accepted_ok by auto
next
  case (reach_request L st c e req st')
  then show ?case by (auto split: outcome.splits intro: serve_request_ok)
next
  case (reach_disconnect L st c e st')
  then show ?case using OnDisconnect_ok by auto
next
  case (reach_timer L st e i st')
  then show ?case using server_ok_fine [OF _ notAlive_fine] by (auto split: option.splits if_splits)
next
  case (reach_udp L st e remote dgram st')
  then show ?case using server_ok_fine [OF _ quiet_fine] by (auto simp: quiet_def)
qed

end
