(* ===== verification/Server_Demo.thy ===== *)
theory Server_Demo
  imports Server_Inv
begin

text \<open>
  A concrete server, reached by events: a connection is accepted, its client enters as \<open>ann\<close> and
  registers a waiting room. The witnesses of the properties of the server are stated on these states.
\<close>

section \<open>A concrete server\<close>

definition demo_config :: config where
  "demo_config = configFromRaw Map.empty []"

definition demo_env :: env where
  "demo_env =
     \<lparr>ev_Config = demo_config, ev_Now = 100, ev_Order = sorted_list_of_set,
      ev_Render = (\<lambda>ver name v. name), ev_Http = (\<lambda>_ _ _. None), ev_LoginJson = (\<lambda>_. None),
      ev_PayloadJson = (\<lambda>_. None), ev_RemoteJson = (\<lambda>_. None),
      ev_Files = \<lparr>fs_mtime = Map.empty, fs_read = Map.empty\<rparr>, ev_RankingJson = (\<lambda>_. None),
      ev_Sprint = (\<lambda>_. []), ev_FormatFloat = (\<lambda>_. []), ev_ParseFloat = (\<lambda>_. None),
      ev_MakeLimit = 2 ^ 40\<rparr>"

definition demo_request :: "string list \<Rightarrow> gsc_stream" where
  "demo_request args = \<lparr>Num = 1, Lang = 0, Ver = 2, CmdSet = [\<lparr>Name = ''go'', Args = args @ [''w'', ''k'']\<rparr>]\<rparr>"

text \<open>A served request changes the state as its handler does, whatever is written back.\<close>

lemma request_runs:
  assumes "CmdSet req = cmd # rest" and "HandleWithMeta e c req (Name cmd) (fst (split_meta (Args cmd))) st = Ok (res, st')"
  shows "serve_event json e (Request c req) st = Ok st'"
  using assms by (auto simp: serve_request_def split_beta split: outcome.splits)

lemma go_runs:
  "serve_event json e (Request c (demo_request (m # args))) st =
     Ok (snd (dispatchOpen e c (demo_request (m # args)) m (go_params args Map.empty) st))"
proof (rule request_runs)
  show "CmdSet (demo_request (m # args)) = \<lparr>Name = ''go'', Args = m # args @ [''w'', ''k'']\<rparr> # []"
    by (simp add: demo_request_def)
  obtain cmds err st' where
    run: "dispatchOpen e c (demo_request (m # args)) m (go_params args Map.empty) st = ((cmds, err), st')"
    by (metis prod.collapse)
  show "HandleWithMeta e c (demo_request (m # args)) (Name \<lparr>Name = ''go'', Args = m # args @ [''w'', ''k'']\<rparr>)
      (fst (split_meta (Args \<lparr>Name = ''go'', Args = m # args @ [''w'', ''k'']\<rparr>))) st =
    Ok (fst (Go_Handle (dispatchOpen e c (demo_request (m # args))) (m # args) st),
      snd (dispatchOpen e c (demo_request (m # args)) m (go_params args Map.empty) st))"
    by (simp add: HandleWithMeta_def Lookup_def defaultCommandRegistry_def Registry_Register_def split_meta_def
        Go_Handle_def run)
qed

definition demo_accepted :: server where
  "demo_accepted = set_conn 0 (NewConnection 0 100 ''10.0.0.1'' ''99'') NewController"

definition demo_entered :: server where
  "demo_entered =
     snd (TryEnter demo_env 0 (demo_request [''try_enter'', ''NICK=ann'']) [''NICK'' \<mapsto> ''ann''] demo_accepted)"

definition demo_session :: session where
  "demo_session = new_session\<lparr>ss_PlayerID := 1, ss_Nick := ''ann''\<rparr>"

lemma demo_decision:
  "TryEnterDecide auth (ParseEnterRequest [''NICK'' \<mapsto> ''ann''] None ip) =
     no_decision\<lparr>ed_DevFlag := Some False, ed_Kind := EnterSuccess, ed_Nick := ''ann''\<rparr>"
proof -
  have t: "trim_space ''ann'' = ''ann''" "stripDevSuffix ''ann'' = (''ann'', False)" "atoi [] = (0, False)"
    "ValidateNick ''ann'' = NickOK" "TruncateNick ''ann'' = ''ann''"
    by code_simp+
  show ?thesis
    by (simp add: TryEnterDecide_def ParseEnterRequest_def get_def t enter_guest_def no_decision_def Let_def)
qed

lemma demo_entered_eq:
  "session_of 0 demo_entered = Some demo_session"
  "GetPlayer 1 (store_of demo_entered) = Some 0"
  "roomsByID (store_of demo_entered) = Map.empty" "roomsByPID (store_of demo_entered) = Map.empty"
  "roomsBySum (store_of demo_entered) = Map.empty" "next_rref (st_world demo_entered) = 0"
  "lastRoomID (store_of demo_entered) = 0" "lastPlayerID (store_of demo_entered) = 1"
  by (simp_all add: demo_entered_def TryEnter_def ensureSession_def demo_accepted_def session_of_def conn_of_def
      NewConnection_def new_session_def demo_decision apply_decision_def Let_def no_decision_def successEnter_def
      set_session_def set_conn_def NewController_def NextPlayerID_def upsert_new_def alloc_player_def on_world_def
      set_repo_def SetPlayer_def entered_player_def NewStore_def on_session_def GetPlayer_def demo_session_def)

definition demo_reg :: params where
  "demo_reg = [''ASTATE'' \<mapsto> ''1'', ''VE_TITLE'' \<mapsto> ''duel'']"

definition demo_hosting :: server where
  "demo_hosting = snd (RegNewRoom demo_env 0
     (demo_request [''reg_new_room'', ''ASTATE=1'', ''VE_TITLE=duel'']) demo_reg demo_entered)"

lemma demo_reach_entered: "server_reach json {0} demo_entered"
proof -
  have "server_reach json {0} demo_accepted"
    using reach_accept [OF reach_start, of 0 json demo_env "''10.0.0.1''" "''99''"]
    by (simp add: demo_accepted_def demo_env_def)
  moreover have "serve_event json demo_env (Request 0 (demo_request [''try_enter'', ''NICK=ann''])) demo_accepted =
      Ok demo_entered"
    unfolding go_runs
    by (simp add: dispatchOpen_def isUnimplementedOpenRoute_def unimplementedOpenRoutes_def openRoutes_def demo_entered_def)
  moreover have "lastPlayerID (store_of demo_accepted) \<noteq> - 1"
    by (simp add: demo_accepted_def NewController_def NewStore_def)
  ultimately show ?thesis using reach_request by blast
qed

lemma demo_reach_hosting: "server_reach json {0} demo_hosting"
proof -
  have "go_params [''ASTATE=1'', ''VE_TITLE=duel''] Map.empty = demo_reg"
    by (simp add: demo_reg_def)
  then have "serve_event json demo_env (Request 0 (demo_request [''reg_new_room'', ''ASTATE=1'', ''VE_TITLE=duel'']))
      demo_entered = Ok demo_hosting"
    unfolding go_runs
    by (simp add: dispatchOpen_def isUnimplementedOpenRoute_def unimplementedOpenRoutes_def openRoutes_def demo_hosting_def)
  moreover have "lastPlayerID (store_of demo_entered) \<noteq> - 1" by (simp add: demo_entered_eq)
  ultimately show ?thesis using reach_request [OF demo_reach_entered] by blast
qed

lemma leaveRoomByID_conn [simp]:
  "conn_of c (leaveRoomByID e i st) = conn_of c st" "session_of c (leaveRoomByID e i st) = session_of c st"
  by (simp_all add: leaveRoomByID_def clearAliveTimer_def)

text \<open>A registration that is accepted leaves the player's room and registers the new one.\<close>

lemma RegNewRoom_state:
  assumes "session_of c st = Some s" and "ss_PlayerID s \<noteq> 0" "ss_Nick s \<noteq> []"
    and "astate_free p" "ValidateTitle (get p ''VE_TITLE'')" and "st1 = leaveRoomByID e (ss_PlayerID s) st"
  shows "snd (RegNewRoom e c req p st) = armAliveTimer e (ss_PlayerID s) (on_world (\<lambda>w. snd (RegisterNew RoomRepoAdapter
      (ev_Now e) (reg_params e (conn_of c st) s req p (GetPlayer (ss_PlayerID s) (store_of st1))) w)) st1)"
  using assms by (simp add: RegNewRoom_def Let_def split_beta on_world_def)

lemma RegisterNew_store:
  "snd (RegisterNew RoomRepoAdapter n c w) =
     (let rid = lastRoomID (repo w) + 1; h = host_id (rp_Host c) w; r = new_room n rid h c;
          s = repo w; p = next_rref w
      in w\<lparr>rooms_heap := (rooms_heap w)(p := r), next_rref := Suc p,
            repo := s\<lparr>roomsByID := (roomsByID s)(rid \<mapsto> p), roomsByPID := (roomsByPID s)(h \<mapsto> Some p),
              roomsBySum := (roomsBySum s)(rm_CtlSum r \<mapsto> p), lastRoomID := rid\<rparr>\<rparr>)"
  by (simp add: RegisterNew_def Let_def host_id_def alloc_room_def index_new_def set_repo_def
      RoomRepoAdapter_def store_ops new_room_def split: option.split)

lemma leaveRoomByID_outside:
  "GetRoomByHost i (store_of st) = None \<Longrightarrow> leaveRoomByID e i st = clearAliveTimer i st"
  by (simp add: leaveRoomByID_def Leave_outside clearAliveTimer_def on_world_def on_session_def)

lemma demo_hosting_alt:
  "demo_hosting = armAliveTimer demo_env 1 (on_world (\<lambda>w. snd (RegisterNew RoomRepoAdapter 100
     (reg_params demo_env (conn_of 0 demo_entered) demo_session
       (demo_request [''reg_new_room'', ''ASTATE=1'', ''VE_TITLE=duel'']) demo_reg (Some 0)) w))
     (clearAliveTimer 1 demo_entered))"
proof -
  have v: "ValidateTitle (get demo_reg ''VE_TITLE'')"
    unfolding get_def demo_reg_def by code_simp
  have out: "leaveRoomByID demo_env (ss_PlayerID demo_session) demo_entered = clearAliveTimer 1 demo_entered"
    by (simp add: leaveRoomByID_outside GetRoomByHost_def demo_entered_eq demo_session_def)
  have ids: "ss_PlayerID demo_session = 1" "ss_Nick demo_session \<noteq> []" "astate_free demo_reg"
    "ev_Now demo_env = 100" "conn_of 0 (clearAliveTimer 1 demo_entered) = conn_of 0 demo_entered"
    by (simp_all add: demo_session_def astate_free_def get_def demo_reg_def demo_env_def clearAliveTimer_def)
  show ?thesis
    unfolding demo_hosting_def
    by (subst RegNewRoom_state [OF demo_entered_eq(1) _ _ _ v out [symmetric]]) (simp_all add: ids demo_entered_eq)
qed

definition demo_room :: room where
  "demo_room = new_room 100 1 1 (reg_params demo_env (conn_of 0 demo_entered) demo_session
     (demo_request [''reg_new_room'', ''ASTATE=1'', ''VE_TITLE=duel'']) demo_reg (Some 0))"

lemma demo_hosting_eq:
  "roomsByID (store_of demo_hosting) = [1 \<mapsto> 0]" "roomsByPID (store_of demo_hosting) = [1 \<mapsto> Some 0]"
  "roomsBySum (store_of demo_hosting) = [rm_CtlSum demo_room \<mapsto> 0]" "room_at demo_hosting 0 = demo_room"
  "GetPlayer 1 (store_of demo_hosting) = Some 0" "session_of 0 demo_hosting = Some demo_session"
proof -
  have "pl_ID (players_heap (st_world demo_entered) 0) = 1"
    using world_ok_player server_reach_ok [OF demo_reach_entered] demo_entered_eq(2)
    by (fastforce simp: server_ok_def)
  then have w: "st_world demo_hosting = (let s = repo (st_world demo_entered) in
      (st_world demo_entered)\<lparr>rooms_heap := (rooms_heap (st_world demo_entered))(0 := demo_room), next_rref := 1,
        repo := s\<lparr>roomsByID := [1 \<mapsto> 0], roomsByPID := [1 \<mapsto> Some 0],
          roomsBySum := [rm_CtlSum demo_room \<mapsto> 0], lastRoomID := 1\<rparr>\<rparr>)"
    unfolding demo_hosting_alt
    by (simp add: RegisterNew_store clearAliveTimer_def Let_def demo_entered_eq demo_room_def reg_params_def host_id_def
        armAliveTimer_def)
  from w show "roomsByID (store_of demo_hosting) = [1 \<mapsto> 0]" "roomsByPID (store_of demo_hosting) = [1 \<mapsto> Some 0]"
    "roomsBySum (store_of demo_hosting) = [rm_CtlSum demo_room \<mapsto> 0]" "room_at demo_hosting 0 = demo_room"
    by (simp_all add: Let_def)
  from w show "GetPlayer 1 (store_of demo_hosting) = Some 0"
    using demo_entered_eq(2) by (simp add: Let_def GetPlayer_def)
  show "session_of 0 demo_hosting = Some demo_session"
    unfolding demo_hosting_alt by (simp add: armAliveTimer_def clearAliveTimer_def demo_entered_eq)
qed

lemma demo_room_select:
  "rm_HostID demo_room = 1" "rm_PlayersCount demo_room = 1" "rm_MaxPlayers demo_room = 8"
  "rm_Password demo_room = []" "\<not> rm_Started demo_room"
proof -
  have "atoi [] = (0, False)" by code_simp
  then show "rm_HostID demo_room = 1" "rm_PlayersCount demo_room = 1" "rm_MaxPlayers demo_room = 8"
    "rm_Password demo_room = []" "\<not> rm_Started demo_room"
    by (simp_all add: demo_room_def new_room_def Let_def reg_params_def reg_max_players_def demo_reg_def get_def
        zero_room_def)
qed

end
