(* ===== verification/Conn_Loop.thy ===== *)
theory Conn_Loop
  imports Server_Demo
begin

text \<open>
  The life of one connection, \<^verbatim>\<open>handleConn\<close> of \<^verbatim>\<open>transport/tcp/server.go\<close>: it is accepted, its requests
  are read and served until the input ends, a frame is refused, a write fails or the connection is
  found closed, and then it is disconnected, whatever ended the loop.

  The input is everything the client will send. \<open>es n\<close> is the environment of the n-th round and
  \<open>writes n\<close> says whether a write succeeds in it; \<open>inflate\<close> and \<open>deflate\<close> are zlib. Other connections
  are idle meanwhile; that their requests can come in between is what the runs of \<^verbatim>\<open>Dispatcher\<close> are for.
\<close>

section \<open>The loop\<close>

type_synonym 'a fallible = "(unit, 'a) outcome"

lemma ReadFrom_shorter:
  "ReadFrom inflate maxSize input = Ok (req, rest) \<Longrightarrow> length rest + headerSize \<le> length input"
  using ReadFrom_frame by fastforce

function serve_conn ::
  "(bytes \<Rightarrow> (wire_error, bytes) outcome) \<Rightarrow> (bytes \<Rightarrow> bytes) \<Rightarrow> u32 \<Rightarrow> (nat \<Rightarrow> bool) \<Rightarrow> (nat \<Rightarrow> env) \<Rightarrow>
    nat \<Rightarrow> cref \<Rightarrow> bytes \<Rightarrow> server \<Rightarrow> (bytes list \<times> server) fallible" where
  "serve_conn inflate deflate maxSize writes es n c input st =
     (case ReadFrom inflate maxSize input of
        Panic \<Rightarrow> Panic
      | Fail err \<Rightarrow> Ok ([], st)
      | Ok (req, rest) \<Rightarrow>
          (case serve_request deflate (writes n) (es n) c req st of
             Panic \<Rightarrow> Panic
           | Fail u \<Rightarrow> Fail u
           | Ok ((out, goes_on), st') \<Rightarrow>
               if goes_on then
                 (case serve_conn inflate deflate maxSize writes es (Suc n) c rest st' of
                    Ok (outs, st'') \<Rightarrow> Ok ((case out of None \<Rightarrow> outs | Some bin \<Rightarrow> bin # outs), st'')
                  | Panic \<Rightarrow> Panic
                  | Fail u \<Rightarrow> Fail u)
               else Ok ((case out of None \<Rightarrow> [] | Some bin \<Rightarrow> [bin]), st')))"
  by pat_completeness auto
termination
  by (relation "measure (\<lambda>(_, _, _, _, _, _, _, input, _). length input)")
    (auto dest: ReadFrom_shorter simp: headerSize_def)

declare serve_conn.simps [simp del]

definition handleConn ::
  "(bytes \<Rightarrow> (wire_error, bytes) outcome) \<Rightarrow> (bytes \<Rightarrow> bytes) \<Rightarrow> u32 \<Rightarrow> (nat \<Rightarrow> bool) \<Rightarrow> (nat \<Rightarrow> env) \<Rightarrow> env \<Rightarrow>
    string \<Rightarrow> string \<Rightarrow> cref \<Rightarrow> bytes \<Rightarrow> server \<Rightarrow> (bytes list \<times> server) fallible" where
  "handleConn inflate deflate maxSize writes es e' host port c input st =
     bind_ok (serve_conn inflate deflate maxSize writes es 1 c input
         (set_conn c (NewConnection c (ev_Now (es 0)) host port) st))
       (\<lambda>(outs, st'). Ok (outs, OnDisconnect e' c st'))"

section \<open>What a connection writes and leaves\<close>

text \<open>What is written back does not matter for the state.\<close>

lemma serve_request_state:
  assumes "serve_request deflate writes e c req st = Ok (r, st')"
  shows "serve_event json e (Request c req) st = Ok st'"
proof (cases "CmdSet req")
  case Nil
  then show ?thesis using assms by (simp add: serve_request_def)
next
  case (Cons cmd rest)
  obtain args win where m: "split_meta (Args cmd) = (args, win)" by fastforce
  from assms obtain res where "HandleWithMeta e c req (Name cmd) args st = Ok (res, st')"
    by (auto simp: serve_request_def Cons m split: outcome.splits if_splits prod.splits)
  then show ?thesis by (simp add: serve_request_def Cons m split: outcome.splits)
qed

fun requests_from :: "(nat \<Rightarrow> env) \<Rightarrow> nat \<Rightarrow> cref \<Rightarrow> gsc_stream list \<Rightarrow> (env \<times> event) list" where
  "requests_from es n c [] = []"
| "requests_from es n c (req # reqs) = (es n, Request c req) # requests_from es (Suc n) c reqs"

text \<open>One round, by what it leaves to do.\<close>

lemma serve_conn_cases:
  assumes "serve_conn inflate deflate maxSize writes es n c input st = Ok (outs, st')"
  obtains (ends) err where "ReadFrom inflate maxSize input = Fail err" "outs = []" "st' = st"
  | (last) req rest out where "ReadFrom inflate maxSize input = Ok (req, rest)"
      "serve_request deflate (writes n) (es n) c req st = Ok ((out, False), st')"
      "outs = (case out of None \<Rightarrow> [] | Some bin \<Rightarrow> [bin])"
  | (goes_on) req rest out st1 outs1 where "ReadFrom inflate maxSize input = Ok (req, rest)"
      "serve_request deflate (writes n) (es n) c req st = Ok ((out, True), st1)"
      "serve_conn inflate deflate maxSize writes es (Suc n) c rest st1 = Ok (outs1, st')"
      "outs = (case out of None \<Rightarrow> outs1 | Some bin \<Rightarrow> bin # outs1)"
  using assms
  by (subst (asm) serve_conn.simps) (auto split: outcome.splits if_splits option.splits)

text \<open>What a client sends, cut into frames by reading one after the other until that fails.\<close>

function frames_in :: "(bytes \<Rightarrow> (wire_error, bytes) outcome) \<Rightarrow> u32 \<Rightarrow> bytes \<Rightarrow> gsc_stream list" where
  "frames_in inflate maxSize input =
     (case ReadFrom inflate maxSize input of Ok (req, rest) \<Rightarrow> req # frames_in inflate maxSize rest | _ \<Rightarrow> [])"
  by pat_completeness auto
termination
  by (relation "measure (\<lambda>(_, _, input). length input)") (auto dest: ReadFrom_shorter simp: headerSize_def)

declare frames_in.simps [simp del]

lemma frames_in_step:
  "ReadFrom inflate maxSize input = Ok (req, rest) \<Longrightarrow>
     frames_in inflate maxSize input = req # frames_in inflate maxSize rest"
  "ReadFrom inflate maxSize input = Fail err \<Longrightarrow> frames_in inflate maxSize input = []"
  by (simp_all add: frames_in.simps)

lemma length_frames_in: "headerSize * length (frames_in inflate maxSize input) \<le> length input"
proof (induction inflate maxSize input rule: frames_in.induct)
  case (1 inflate maxSize input)
  show ?case
  proof (cases "ReadFrom inflate maxSize input")
    case (Ok rr)
    then obtain req rest where read: "ReadFrom inflate maxSize input = Ok (req, rest)" by (cases rr) auto
    then show ?thesis using "1.IH" [OF read refl] ReadFrom_shorter [OF read] by (simp add: frames_in_step)
  qed (simp_all add: frames_in.simps)
qed

text \<open>
  Requests served one after the other: each by the handler, in the state the one before left, with what
  is written back for it and whether the loop goes on.
\<close>

type_synonym round = "bytes option \<times> bool"

fun serve_rounds ::
  "(bytes \<Rightarrow> bytes) \<Rightarrow> (nat \<Rightarrow> bool) \<Rightarrow> (nat \<Rightarrow> env) \<Rightarrow> nat \<Rightarrow> cref \<Rightarrow> gsc_stream list \<Rightarrow> server \<Rightarrow>
    (round list \<times> server) fallible" where
  "serve_rounds deflate writes es n c [] st = Ok ([], st)"
| "serve_rounds deflate writes es n c (req # reqs) st =
     bind_ok (serve_request deflate (writes n) (es n) c req st) (\<lambda>(rd, st1).
       bind_ok (serve_rounds deflate writes es (Suc n) c reqs st1) (\<lambda>(rds, st2). Ok (rd # rds, st2)))"

definition written :: "round list \<Rightarrow> bytes list" where
  "written rds = concat (map (\<lambda>rd. case fst rd of None \<Rightarrow> [] | Some bin \<Rightarrow> [bin]) rds)"

text \<open>All frames are served, or the first ones up to a round that ends the loop.\<close>

definition loop_ends_after :: "round list \<Rightarrow> gsc_stream list \<Rightarrow> bool" where
  "loop_ends_after rds left \<longleftrightarrow> list_all snd (butlast rds) \<and> (left = [] \<or> rds \<noteq> [] \<and> \<not> snd (last rds))"

lemma serve_conn_rounds:
  "serve_conn inflate deflate maxSize writes es n c input st = Ok (outs, st') \<Longrightarrow>
   \<exists>reqs left rds. frames_in inflate maxSize input = reqs @ left \<and>
     serve_rounds deflate writes es n c reqs st = Ok (rds, st') \<and> outs = written rds \<and> loop_ends_after rds left"
proof (induction "length input" arbitrary: n input st outs rule: less_induct)
  case less
  from less.prems show ?case
  proof (cases rule: serve_conn_cases)
    case (ends err)
    then show ?thesis
      by (intro exI [of _ "[]"]) (simp add: frames_in_step written_def loop_ends_after_def)
  next
    case (last req rest out)
    then show ?thesis
      by (intro exI [of _ "[req]"] exI [of _ "frames_in inflate maxSize rest"] exI [of _ "[(out, False)]"])
        (simp add: frames_in_step written_def loop_ends_after_def)
  next
    case (goes_on req rest out st1 outs1)
    have "length rest < length input" using ReadFrom_shorter [OF goes_on(1)] by (simp add: headerSize_def)
    from less.hyps [OF this goes_on(3)] obtain reqs left rds where
      more: "frames_in inflate maxSize rest = reqs @ left" "serve_rounds deflate writes es (Suc n) c reqs st1 = Ok (rds, st')"
      "outs1 = written rds" "loop_ends_after rds left" by blast
    then show ?thesis
      using goes_on
      by (intro exI [of _ "req # reqs"] exI [of _ left] exI [of _ "(out, True) # rds"])
        (auto simp: frames_in_step written_def loop_ends_after_def split: option.splits)
  qed
qed

lemma length_serve_rounds:
  "serve_rounds deflate writes es n c reqs st = Ok (rds, st') \<Longrightarrow> length rds = length reqs"
  by (induction reqs arbitrary: n st rds) (auto simp: bind_ok_Ok_iff)

lemma serve_rounds_run:
  "serve_rounds deflate writes es n c reqs st = Ok (rds, st') \<Longrightarrow>
   run_events json (requests_from es n c reqs) st = Ok st'"
proof (induction reqs arbitrary: n st rds)
  case (Cons req reqs)
  then obtain rd st1 rds1 where
    "serve_request deflate (writes n) (es n) c req st = Ok (rd, st1)"
    "serve_rounds deflate writes es (Suc n) c reqs st1 = Ok (rds1, st')"
    by (auto simp: bind_ok_Ok_iff)
  then show ?case using Cons.IH serve_request_state by simp
qed simp

lemma run_events_append:
  "run_events json (xs @ ys) st = bind_ok (run_events json xs st) (run_events json ys)"
proof (induction xs arbitrary: st)
  case (Cons x xs)
  then show ?case by (cases x; cases "serve_event json (fst x) (snd x) st") simp_all
qed simp

lemma HandleWithMeta_not_Fail: "HandleWithMeta e c req cmd args st \<noteq> Fail u"
proof -
  have start: "Start_Handle e c args st \<noteq> Fail u"
    by (simp add: Start_Handle_def Let_def split: outcome.splits option.splits)
  show ?thesis
    using start
    by (simp add: HandleWithMeta_def Lookup_def defaultCommandRegistry_def Registry_Register_def NewRegistry_def split_beta)
qed

lemma serve_request_not_Fail: "serve_request deflate writes e c req st \<noteq> Fail u"
  using HandleWithMeta_not_Fail [of e c req] unfolding serve_request_def split_beta
  by (simp split: list.splits outcome.splits)

definition panics_on ::
  "(bytes \<Rightarrow> (wire_error, bytes) outcome) \<Rightarrow> (bytes \<Rightarrow> bytes) \<Rightarrow> u32 \<Rightarrow> (nat \<Rightarrow> bool) \<Rightarrow> (nat \<Rightarrow> env) \<Rightarrow>
    cref \<Rightarrow> bytes \<Rightarrow> bool" where
  "panics_on inflate deflate maxSize writes es c input \<longleftrightarrow>
     (\<exists>done rest. input = done @ rest \<and> (ReadFrom inflate maxSize rest = Panic \<or>
        (\<exists>req left n st. ReadFrom inflate maxSize rest = Ok (req, left) \<and>
           serve_request deflate (writes n) (es n) c req st = Panic)))"

lemma panics_on_later:
  assumes "ReadFrom inflate maxSize input = Ok (req, rest)" and "panics_on inflate deflate maxSize writes es c rest"
  shows "panics_on inflate deflate maxSize writes es c input"
proof -
  obtain frame where "input = frame @ rest" using ReadFrom_frame [OF assms(1)] by blast
  with assms(2) show ?thesis unfolding panics_on_def by (metis append.assoc)
qed

lemma serve_conn_total:
  "serve_conn inflate deflate maxSize writes es n c input st \<noteq> Fail u \<and>
   (serve_conn inflate deflate maxSize writes es n c input st = Panic \<longrightarrow>
      panics_on inflate deflate maxSize writes es c input)"
proof (induction "length input" arbitrary: n input st rule: less_induct)
  case less
  note step = serve_conn.simps [of inflate deflate maxSize writes es n c input st]
  show ?case
  proof (cases "ReadFrom inflate maxSize input")
    case (Ok rr)
    then obtain req rest where read: "ReadFrom inflate maxSize input = Ok (req, rest)" by (cases rr) auto
    then have "length rest < length input" using ReadFrom_shorter [OF read] by (simp add: headerSize_def)
    note IH = less.hyps [OF this]
    show ?thesis
    proof (cases "serve_request deflate (writes n) (es n) c req st")
      case Panic
      then have "panics_on inflate deflate maxSize writes es c input"
        unfolding panics_on_def using read by (metis append_Nil)
      then show ?thesis by (simp add: step read Panic)
    next
      case (Ok out)
      then show ?thesis
        using IH panics_on_later [OF read]
        by (auto simp: step read split: outcome.splits prod.splits)
    qed (use serve_request_not_Fail in blast)
  next
    case Panic
    then have "panics_on inflate deflate maxSize writes es c input"
      unfolding panics_on_def by (metis append_Nil)
    then show ?thesis by (simp add: step Panic)
  next
    case Fail
    then show ?thesis by (simp add: step Fail)
  qed
qed

text \<open>A disconnected player is nowhere.\<close>

definition forgotten :: "u32 \<Rightarrow> server \<Rightarrow> bool" where
  "forgotten i st \<longleftrightarrow>
     GetPlayer i (store_of st) = None \<and> GetRoomByHost i (store_of st) = None \<and>
     \<not> HasTimer i (st_session st) \<and> Conn i (st_session st) = None"

lemma Leave_no_room: "GetRoomByHost i (repo (snd (Leave RoomRepoAdapter n i w))) = None"
proof (cases "GetRoomByHost i (repo w)")
  case (Some p)
  then show ?thesis
    by (simp add: Leave_store Let_def UnindexRoomBySum_def UnindexRoomByID_def UnindexRoomByHost_def
        IndexRoomBySum_def GetRoomByHost_def)
qed (simp add: Leave_outside)

lemma OnDisconnect_forgets:
  "player_id c (OnDisconnect e c st) = player_id c st \<and>
   (player_id c st \<noteq> 0 \<longrightarrow> forgotten (player_id c st) (OnDisconnect e c st))"
proof -
  have "GetRoomByHost i (DeletePlayer i s) = GetRoomByHost i s" for i s
    by (simp add: GetRoomByHost_def DeletePlayer_def)
  then show ?thesis
    using Leave_no_room [of "player_id c st" "ev_Now e" "st_world st"]
    by (simp add: OnDisconnect_def Let_def forgotten_def leaveRoomByID_def clearAliveTimer_def GetPlayer_def
        DeletePlayer_def go_defs HasTimer_def Conn_def)
qed

section \<open>Properties\<close>

text \<open>
  C3. Handling a connection always comes to an end: there is no input on which the loop runs on. It
  panics only when reading a frame of the input panics or a handler does; otherwise the connection is
  disconnected, and then its player, if it had entered, is in no room, has no timer, is registered
  nowhere and is not a player any more.
\<close>

theorem handleConn_ends:
  "case handleConn inflate deflate maxSize writes es e' host port c input st of
     Ok (outs, st') \<Rightarrow> player_id c st' = 0 \<or> forgotten (player_id c st') st'
   | Panic \<Rightarrow> panics_on inflate deflate maxSize writes es c input
   | Fail u \<Rightarrow> False"
proof -
  let ?run = "serve_conn inflate deflate maxSize writes es 1 c input (set_conn c (NewConnection c (ev_Now (es 0)) host port) st)"
  note total = serve_conn_total [of inflate deflate maxSize writes es 1 c input "set_conn c (NewConnection c (ev_Now (es 0)) host port) st"]
  show ?thesis
  proof (cases ?run)
    case (Ok r)
    then show ?thesis using OnDisconnect_forgets [of c e' "snd r"] by (cases r) (auto simp: handleConn_def)
  qed (use total in \<open>auto simp: handleConn_def\<close>)
qed

text \<open>
  C7. The handling of a connection is a run of the events of the server. The input is a sequence of
  frames; the requests served are its frames in their order, none skipped and none twice, each handled in
  the state the one before left: all of them, or those up to the round that ends the loop, because a write
  fails or the connection is found closed. What is written is what these rounds write, in order. The state
  in the end is that of the run that accepts the connection, serves these requests and disconnects.
\<close>

theorem handleConn_is_run:
  assumes "handleConn inflate deflate maxSize writes es e' host port c input st = Ok (outs, st')"
  shows "\<exists>reqs left rds st1. frames_in inflate maxSize input = reqs @ left \<and>
    serve_rounds deflate writes es 1 c reqs (set_conn c (NewConnection c (ev_Now (es 0)) host port) st) = Ok (rds, st1) \<and>
    length rds = length reqs \<and> outs = written rds \<and> loop_ends_after rds left \<and> st' = OnDisconnect e' c st1 \<and>
    headerSize * length (reqs @ left) \<le> length input \<and>
    run_events json ((es 0, Accepted c host port) # requests_from es 1 c reqs @ [(e', Disconnected c)]) st = Ok st'"
proof -
  let ?st0 = "set_conn c (NewConnection c (ev_Now (es 0)) host port) st"
  obtain st1 where run: "serve_conn inflate deflate maxSize writes es 1 c input ?st0 = Ok (outs, st1)"
    and st': "st' = OnDisconnect e' c st1"
    using assms by (auto simp: handleConn_def bind_ok_Ok_iff)
  from serve_conn_rounds [OF run] obtain reqs left rds where
    rounds: "frames_in inflate maxSize input = reqs @ left" "outs = written rds" "loop_ends_after rds left"
    and served: "serve_rounds deflate writes es 1 c reqs ?st0 = Ok (rds, st1)" by blast
  show ?thesis
    using rounds served length_serve_rounds [OF served] serve_rounds_run [OF served, of json]
      length_frames_in [of inflate maxSize input]
    by (intro exI [of _ reqs] exI [of _ left] exI [of _ rds] exI [of _ st1]) (simp add: st' run_events_append)
qed

definition demo_login :: gsc_stream where
  "demo_login = \<lparr>Num = 1, Lang = 0, Ver = 2, CmdSet = [\<lparr>Name = ''login'', Args = [''w'', ''k'']\<rparr>]\<rparr>"

definition demo_frame :: bytes where
  "demo_frame = (case Stream_MarshalBinary id demo_login of Ok b \<Rightarrow> b | _ \<Rightarrow> [])"

definition demo_answer :: bytes where
  "demo_answer = (case Stream_MarshalBinary id (demo_login\<lparr>CmdSet := add_window ''w'' (Show '':GW|open&enter.dcml'')\<rparr>) of
     Ok b \<Rightarrow> b | _ \<Rightarrow> [])"

lemma demo_handled:
  "\<exists>st'. handleConn Ok id 4096 (\<lambda>_. True) (\<lambda>_. demo_env) demo_env ''10.0.0.1'' ''99'' 0 demo_frame
      NewController = Ok ([demo_answer], st')"
proof -
  have read: "ReadFrom Ok 4096 demo_frame = Ok (demo_login, [])" "ReadFrom Ok 4096 [] = Fail ErrEOF"
    by code_simp+
  have "Stream_MarshalBinary id (demo_login\<lparr>CmdSet := add_window ''w'' (Show '':GW|open&enter.dcml'')\<rparr>) =
      Ok demo_answer"
    by code_simp
  then have "serve_request id True demo_env 0 demo_login (set_conn 0 (NewConnection 0 100 ''10.0.0.1'' ''99'') NewController) =
      Ok ((Some demo_answer, True), set_conn 0 (NewConnection 0 100 ''10.0.0.1'' ''99'') NewController)"
    by (simp add: serve_request_def demo_login_def split_meta_def HandleWithMeta_def Lookup_def
        defaultCommandRegistry_def Registry_Register_def Login_Handle_def respond_def IsClosed_def NewConnection_def)
  then show ?thesis
    by (simp add: handleConn_def serve_conn.simps read demo_env_def)
qed

theorem handleConn_is_run_witness:
  "\<exists>rds st1 st'. [demo_answer] = written rds \<and> length rds = 1 \<and>
    serve_rounds id (\<lambda>_. True) (\<lambda>_. demo_env) 1 0 [demo_login] (set_conn 0 (NewConnection 0 100 ''10.0.0.1'' ''99'') NewController) = Ok (rds, st1) \<and>
    run_events (\<lambda>_ _ _. []) [(demo_env, Accepted 0 ''10.0.0.1'' ''99''), (demo_env, Request 0 demo_login),
      (demo_env, Disconnected 0)] NewController = Ok st'"
proof -
  obtain st' where "handleConn Ok id 4096 (\<lambda>_. True) (\<lambda>_. demo_env) demo_env ''10.0.0.1'' ''99'' 0 demo_frame
      NewController = Ok ([demo_answer], st')"
    using demo_handled by blast
  from handleConn_is_run [OF this, of "\<lambda>_ _ _. []"] obtain reqs left rds st1 where
    run: "frames_in Ok 4096 demo_frame = reqs @ left" "[demo_answer] = written rds" "length rds = length reqs"
      "serve_rounds id (\<lambda>_. True) (\<lambda>_. demo_env) 1 0 reqs
        (set_conn 0 (NewConnection 0 (ev_Now demo_env) ''10.0.0.1'' ''99'') NewController) = Ok (rds, st1)"
      "run_events (\<lambda>_ _ _. []) ((demo_env, Accepted 0 ''10.0.0.1'' ''99'') # requests_from (\<lambda>_. demo_env) 1 0 reqs @
        [(demo_env, Disconnected 0)]) NewController = Ok st'"
    by blast
  have "ReadFrom Ok 4096 demo_frame = Ok (demo_login, [])" "ReadFrom Ok 4096 [] = Fail ErrEOF"
    by code_simp+
  then have "frames_in Ok 4096 demo_frame = [demo_login]" by (simp add: frames_in_step)
  moreover have "reqs \<noteq> []" using run(2,3) by (auto simp: written_def)
  ultimately have "reqs = [demo_login]" using run(1) by (cases reqs) auto
  then show ?thesis using run(2-) by (intro exI [of _ rds] exI [of _ st1] exI [of _ st']) (simp add: demo_env_def)
qed

end
