(* ===== verification/Server_Props.thy ===== *)
theory Server_Props
  imports Conn_Loop
begin

text \<open>
  The properties of the server as a whole: what holds of rooms and sessions in every reachable state,
  what idle players and rejected proxies are in for, and how a client's view of the room list and of
  its own parameters relates to what the server holds.
\<close>

section \<open>Reachable states\<close>

text \<open>
  C1. In every state the server can reach by requests, disconnections, expired timers and datagrams,
  in any order, a room found by its id carries that id and the checksum of its row, counts exactly the
  players filed under it, of which there is at least one, and lists them all; while it waits, its host
  is one of them, nobody else is listed, and the players cell of the row shows the count.
\<close>

theorem server_rooms_consistent:
  assumes "server_reach json L st" and "GetRoom i (store_of st) = Some p"
  shows "let r = room_at st p; ms = {pid. GetRoomByHost pid (store_of st) = Some p} in
    rm_ID r = i \<and> rm_CtlSum r = controlSum (rm_Row r) \<and> rm_PlayersCount r = int (card ms) \<and>
    1 \<le> rm_PlayersCount r \<and> ms \<subseteq> dom (rm_Players r) \<and>
    (\<not> rm_Started r \<longrightarrow> rm_HostID r \<in> ms \<and> ms = dom (rm_Players r) \<and>
      rm_Row r ! (length (rm_Row r) - 4) = players_cell (rm_PlayersCount r) (rm_MaxPlayers r))"
  using server_reach_ok [OF assms(1)] assms(2)
  by (intro listed_room) (auto simp: server_ok_def world_ok_def GetRoom_def)

theorem server_rooms_consistent_witness:
  "rm_ID demo_room = 1 \<and> rm_CtlSum demo_room = controlSum (rm_Row demo_room) \<and> rm_PlayersCount demo_room = 1 \<and>
   \<not> rm_Started demo_room"
proof -
  have host: "{pid. GetRoomByHost pid (store_of demo_hosting) = Some 0} = {1}"
    by (auto simp: GetRoomByHost_def demo_hosting_eq)
  have "GetRoom 1 (store_of demo_hosting) = Some 0" by (simp add: GetRoom_def demo_hosting_eq)
  from server_rooms_consistent [OF demo_reach_hosting this, unfolded Let_def host demo_hosting_eq(4)]
  have "rm_ID demo_room = 1 \<and> rm_CtlSum demo_room = controlSum (rm_Row demo_room) \<and>
      rm_PlayersCount demo_room = int (card {1 :: u32})"
    by blast
  moreover have "\<not> rm_Started demo_room" by (simp add: demo_room_def)
  ultimately show ?thesis by simp
qed

text \<open>
  C2. The player id of a connected session is the session's own: the store has a player filed under
  it who carries that id, and no other connection that is served has the same id. Ids are given out
  anew even when a client enters again, so the claim covers re-entering and disconnecting.
\<close>

theorem sessions_own_players:
  assumes "server_reach json L st" and "c \<in> L" and "player_id c st \<noteq> 0"
  shows "(\<exists>q. GetPlayer (player_id c st) (store_of st) = Some q \<and>
      pl_ID (players_heap (st_world st) q) = player_id c st) \<and>
    (\<forall>c'\<in>L. player_id c' st = player_id c st \<longrightarrow> c' = c)"
proof -
  note ok = server_reach_ok [OF assms(1)]
  obtain q where q: "GetPlayer (player_id c st) (store_of st) = Some q"
    using server_ok_player [OF ok assms(2,3)] by auto
  moreover have "pl_ID (players_heap (st_world st) q) = player_id c st"
    using world_ok_player [OF _ q] ok by (simp add: server_ok_def)
  ultimately show ?thesis using ok assms(2,3) by (auto simp: server_ok_def)
qed

theorem sessions_own_players_witness:
  "\<exists>q. GetPlayer 1 (store_of demo_entered) = Some q \<and> pl_ID (players_heap (st_world demo_entered) q) = 1"
proof -
  have "player_id 0 demo_entered = 1" by (simp add: player_id_def demo_entered_eq demo_session_def)
  then show ?thesis using sessions_own_players [OF demo_reach_entered, of 0] by simp
qed

section \<open>Timers and proxies\<close>

text \<open>
  C10. A player whose client stays silent leaves: after \<^verbatim>\<open>alive\<close> the timer does nothing before the
  alive interval is over, and when it fires after that, the player is in no room, has no timer and is
  not registered. The player stays filed, so the client can go on later under the same id.
\<close>

theorem idle_player_leaves:
  assumes "session_of c st = Some s" and "ss_PlayerID s \<noteq> 0"
  shows "let st1 = snd (Alive_Handle e c st); i = ss_PlayerID s in
    (ev_Now e' < ev_Now e + TTL (st_session st) \<longrightarrow> serve_event json e' (TimerFired i) st1 = Ok st1) \<and>
    (ev_Now e + TTL (st_session st) \<le> ev_Now e' \<longrightarrow>
      (\<exists>st2. serve_event json e' (TimerFired i) st1 = Ok st2 \<and> GetRoomByHost i (store_of st2) = None \<and>
        \<not> HasTimer i (st_session st2) \<and> Conn i (st_session st2) = None \<and>
        GetPlayer i (store_of st2) = GetPlayer i (store_of st)))"
proof -
  let ?i = "ss_PlayerID s" and ?st1 = "snd (Alive_Handle e c st)"
  have st1: "?st1 = armAliveTimer e ?i (set_session c (s\<lparr>ss_AliveAt := ev_Now e\<rparr>) st)"
    using assms by (simp add: Alive_Handle_def refreshAlive_def ensureSession_def Let_def)
  then have timer: "mg_timers (st_session ?st1) ?i = Some (ev_Now e + TTL (st_session st))"
    by (simp add: armAliveTimer_def ArmTimer_def TTL_def)
  have "GetPlayer ?i (store_of (notAlive e' ?i ?st1)) = GetPlayer ?i (store_of st)"
    using Leave_keeps [of "st_world ?st1" "ev_Now e'" ?i] by (simp add: keeps_players_def GetPlayer_def st1)
  moreover have "GetRoomByHost ?i (store_of (notAlive e' ?i ?st1)) = None"
    using Leave_no_room by simp
  ultimately show ?thesis
    using timer
    by (simp add: Let_def notAlive_def leaveRoomByID_def clearAliveTimer_def HasTimer_def Conn_def go_defs)
qed

theorem idle_player_leaves_witness:
  "let st1 = snd (Alive_Handle demo_env 0 demo_hosting) in
   \<exists>st2. serve_event (\<lambda>_ _ _. []) (demo_env\<lparr>ev_Now := 100 + TTL (st_session demo_hosting)\<rparr>) (TimerFired 1) st1 = Ok st2 \<and>
     GetRoomByHost 1 (store_of st2) = None \<and> GetPlayer 1 (store_of st2) = Some 0"
  using idle_player_leaves [OF demo_hosting_eq(6), of demo_env
      "demo_env\<lparr>ev_Now := 100 + TTL (st_session demo_hosting)\<rparr>" "\<lambda>_ _ _. []"]
  by (auto simp: demo_session_def demo_hosting_eq Let_def demo_env_def)

text \<open>
  C34. A \<^verbatim>\<open>proxy\<close> command that is rejected cancels its connection, but the loop goes on: the handler gives
  no response, and the loop looks at the cancelled connection only after a response was written. So a
  client that sends \<^verbatim>\<open>alive\<close> after a rejected \<^verbatim>\<open>proxy\<close> is served for as long as it likes.
\<close>

theorem rejected_proxy_is_served:
  assumes "CmdSet req = cmd # more_cmds" and "Name cmd = ''proxy''" and "split_meta (Args cmd) = (args, win)"
    and "length args < 3 \<or> gm_ProxyKey (ev_Game e) = [] \<or> args ! 2 \<noteq> gm_ProxyKey (ev_Game e)"
    and "CmdSet req' = \<lparr>Name = ''alive'', Args = args'\<rparr> # more_cmds'"
  shows "let st1 = set_conn c (Cancel (conn_of c st)) st in
    serve_request deflate writes e c req st = Ok ((None, True), st1) \<and> IsClosed (conn_of c st1) \<and>
    serve_request deflate writes e' c req' st1 = Ok ((None, True), refreshAlive e' c st1)"
proof -
  have "Proxy_Handle (gm_ProxyKey (ev_Game e)) c args st =
      (silent_err (if length args < 3 then ErrProxyInvalidArgs ''missing ip/port/key'' else ErrProxyUnauthorized),
       set_conn c (Cancel (conn_of c st)) st)"
    using assms(4) by (auto simp: Proxy_Handle_def Let_def)
  then have "serve_request deflate writes e c req st = Ok ((None, True), set_conn c (Cancel (conn_of c st)) st)"
    by (simp add: serve_request_def assms(1-3) HandleWithMeta_def Lookup_def defaultCommandRegistry_def
        Registry_Register_def silent_err_def)
  moreover have "serve_request deflate writes e' c req' st1 = Ok ((None, True), refreshAlive e' c st1)" for st1
    by (cases "split_meta args'") (simp add: serve_request_def assms(5) HandleWithMeta_def Lookup_def
        defaultCommandRegistry_def Registry_Register_def Alive_Handle_def silent_def)
  ultimately show ?thesis by (simp add: Let_def IsClosed_def Cancel_def)
qed

theorem rejected_proxy_is_served_witness:
  "\<exists>st1. serve_request id True demo_env 0 (demo_login\<lparr>CmdSet := [\<lparr>Name = ''proxy'', Args = []\<rparr>]\<rparr>) demo_hosting =
      Ok ((None, True), st1) \<and> IsClosed (conn_of 0 st1) \<and>
    serve_request id True demo_env 0 (demo_login\<lparr>CmdSet := [\<lparr>Name = ''alive'', Args = []\<rparr>]\<rparr>) st1 =
      Ok ((None, True), refreshAlive demo_env 0 st1)"
  using rejected_proxy_is_served [of "demo_login\<lparr>CmdSet := [\<lparr>Name = ''proxy'', Args = []\<rparr>]\<rparr>"
      "\<lparr>Name = ''proxy'', Args = []\<rparr>" "[]" "[]" "[]" demo_env
      "demo_login\<lparr>CmdSet := [\<lparr>Name = ''alive'', Args = []\<rparr>]\<rparr>" "[]" "[]" 0 demo_hosting id True demo_env]
  by (auto simp: split_meta_def Let_def)

section \<open>Joining\<close>

text \<open>
  C35. A host can join the room it already hosts: nothing checks for it, and \<^verbatim>\<open>join_game\<close> first makes the
  player leave, which closes the room. The answer is that of a successful join, yet afterwards the room
  is not found by its id any more, so nobody can join it or see its details, while it is still indexed
  by checksum and by its host, with the same number of players as before.
\<close>

theorem host_joins_own_room:
  assumes reach: "server_reach json L st" "c \<in> L"
    and s: "session_of c st = Some s" "ss_PlayerID s \<noteq> 0" "trim_space (ss_Nick s) \<noteq> []"
    and room: "GetRoom rid (store_of st) = Some p" "rm_HostID (room_at st p) = ss_PlayerID s"
      "\<not> rm_Started (room_at st p)" "rm_PlayersCount (room_at st p) < rm_MaxPlayers (room_at st p)"
      "rm_Password (room_at st p) = []"
    and prm: "astate_free prm" "parse_uint 32 (trim_space (get prm ''VE_RID'')) = Some (unat rid)"
  shows "let st' = snd (JoinGame e c req prm st) in
    snd (fst (JoinGame e c req prm st)) = None \<and> GetRoom rid (store_of st') = None \<and>
    GetRoomByHost (ss_PlayerID s) (store_of st') = Some p \<and>
    GetRoomBySum (rm_CtlSum (room_at st' p)) (store_of st') = Some p \<and>
    rm_PlayersCount (room_at st' p) = rm_PlayersCount (room_at st p)"
proof -
  let ?i = "ss_PlayerID s" and ?r = "room_at st p"
  have pid: "player_id c st = ?i" using s by (simp add: player_id_def)
  have ok: "server_ok L st" by (rule server_reach_ok [OF reach(1)])
  have inv: "lobby_inv (abstract store_index (st_world st))" using ok by (simp add: server_ok_def world_ok_def)
  have listed: "rm_ID ?r = rid" "GetRoomByHost ?i (store_of st) = Some p"
    using listed_room [OF inv, of rid p] room by (auto simp: GetRoom_def Let_def)
  obtain q where q: "GetPlayer ?i (store_of st) = Some q"
    using server_ok_player [OF ok reach(2)] pid s(2) by auto
  have qi: "pl_ID (players_heap (st_world st) q) = ?i"
    using world_ok_player [OF _ q] ok by (simp add: server_ok_def)
  define w1 where "w1 = snd (Leave RoomRepoAdapter (ev_Now e) ?i (st_world st))"
  have del: "should_delete ?i (leave_room ?i ?r)" using room by (simp add: should_delete_def)
  note left = Leave_store [OF listed(2), of "ev_Now e"]
  have w1: "roomsByID (repo w1) rid = None" "players (repo w1) = players (store_of st)"
    "rooms_heap w1 p = leave_room ?i ?r" "players_heap w1 = players_heap (st_world st)"
    unfolding w1_def left using del listed(1) room(3)
    by (simp_all add: Let_def UnindexRoomBySum_def UnindexRoomByID_def UnindexRoomByHost_def)
  define w2 where "w2 = Join RoomRepoAdapter (ev_Now e) (Some p) (Some q) w1"
  have w2: "roomsByID (repo w2) rid = None" "roomsByPID (repo w2) ?i = Some (Some p)"
    "rooms_heap w2 p = join_room (ev_Now e) ?i q (leave_room ?i ?r)"
    "roomsBySum (repo w2) (rm_CtlSum (rooms_heap w2 p)) = Some p"
    unfolding w2_def by (simp_all add: Join_store Let_def w1 qi)
  have count: "rm_PlayersCount (rooms_heap w2 p) = rm_PlayersCount ?r"
    by (simp add: w2(3) join_room_def leave_room_def Let_def)
  have "JoinGame e c req prm st = join_room_checked e c ?i p st"
    using s room prm by (simp add: JoinGame_def Let_def pid)
  moreover have "st_world (snd (join_room_checked e c ?i p st)) = w2"
    using q w1(2) join_endpoint_world
    by (simp add: join_room_checked_def Let_def split_beta w2_def w1_def GetPlayer_def)
  moreover have "snd (fst (join_room_checked e c ?i p st)) = None"
    by (simp add: join_room_checked_def Let_def split_beta)
  ultimately show ?thesis
    using w2 count by (simp add: Let_def GetRoom_def GetRoomByHost_def GetRoomBySum_def)
qed

theorem host_joins_own_room_witness:
  "let prm = [''ASTATE'' \<mapsto> ''1'', ''VE_RID'' \<mapsto> ''1'']; st' = snd (JoinGame demo_env 0 None prm demo_hosting) in
    GetRoom 1 (store_of demo_hosting) = Some 0 \<and> GetRoom 1 (store_of st') = None \<and>
    GetRoomByHost 1 (store_of st') = Some 0"
proof -
  let ?prm = "[''ASTATE'' \<mapsto> ''1'', ''VE_RID'' \<mapsto> ''1'']"
  have nick: "ss_PlayerID demo_session \<noteq> 0" "trim_space (ss_Nick demo_session) \<noteq> []"
    "ss_PlayerID demo_session = 1"
  proof -
    have "trim_space ''ann'' \<noteq> []" by code_simp
    then show "trim_space (ss_Nick demo_session) \<noteq> []" by (simp add: demo_session_def)
  qed (simp_all add: demo_session_def)
  have room: "GetRoom 1 (store_of demo_hosting) = Some 0"
    "rm_HostID (room_at demo_hosting 0) = ss_PlayerID demo_session" "\<not> rm_Started (room_at demo_hosting 0)"
    "rm_PlayersCount (room_at demo_hosting 0) < rm_MaxPlayers (room_at demo_hosting 0)"
    "rm_Password (room_at demo_hosting 0) = []"
    by (simp_all add: GetRoom_def demo_hosting_eq demo_room_select nick)
  have prm: "astate_free ?prm" "parse_uint 32 (trim_space (get ?prm ''VE_RID'')) = Some (unat (1 :: u32))"
  proof -
    have "trim_space ''1'' = ''1''" "list_all is_digit ''1''" "dec_val 0 ''1'' = 1" by code_simp+
    then have "parse_uint 32 (trim_space ''1'') = Some 1" by (simp add: parse_uint_def)
    then show "parse_uint 32 (trim_space (get ?prm ''VE_RID'')) = Some (unat (1 :: u32))" by (simp add: get_def)
  qed (simp add: astate_free_def get_def)
  note joined = host_joins_own_room [OF demo_reach_hosting insertI1 demo_hosting_eq(6) nick(1,2) room prm,
      of demo_env None, unfolded Let_def nick(3)]
  show ?thesis unfolding Let_def using room(1) joined by blast
qed

end
