(* ===== verification/Command_Props.thy ===== *)
theory Command_Props
  imports Conn_Loop
begin

text \<open>
  Properties of single commands: the parameters of \<^verbatim>\<open>open\<close> (\<^verbatim>\<open>route_open.go\<close>) and the synchronisation of
  the room table by \<^verbatim>\<open>GETTBL\<close> (\<^verbatim>\<open>gettbl.go\<close>).
\<close>

section \<open>Parameters of open\<close>

lemma key_byte_plain: "isOpenParamKeyByte b \<Longrightarrow> b \<noteq> CHR ''='' \<and> b \<noteq> CHR ''^''"
  by (auto simp: isOpenParamKeyByte_def Let_def)

lemma key_follows_append: "key_follows (s @ CHR ''^'' # t) = key_follows s"
proof (induction s)
  case Nil
  then show ?case by (simp add: key_follows_def isOpenParamKeyByte_def)
qed (simp add: key_follows_def)

lemma key_follows_pair: "list_all isOpenParamKeyByte k \<Longrightarrow> key_follows (k @ CHR ''='' # v)"
  by (induction k) (simp_all add: key_follows_def isOpenParamKeyByte_def)

lemma next_pair_here: "next_pair v = None \<Longrightarrow> key_follows t \<Longrightarrow> next_pair (v @ CHR ''^'' # t) = Some (v, t)"
  by (induction v) (auto simp: key_follows_append split: if_splits)

text \<open>The text form of parameters: pairs of a key and a value, separated by carets.\<close>

definition pair_text :: "string \<times> string \<Rightarrow> string" where
  "pair_text kv = fst kv @ CHR ''='' # snd kv"

definition params_text :: "(string \<times> string) list \<Rightarrow> string" where
  "params_text kvs = join_with ''^'' (map pair_text kvs)"

definition plain_pair :: "string \<times> string \<Rightarrow> bool" where
  "plain_pair kv \<longleftrightarrow> fst kv \<noteq> [] \<and> list_all isOpenParamKeyByte (fst kv) \<and> next_pair (snd kv) = None"

lemma cut_at_pair: "list_all isOpenParamKeyByte k \<Longrightarrow> cut_at (CHR ''='') (k @ CHR ''='' # v) = Some (k, v)"
  by (induction k) (auto dest: key_byte_plain)

lemma open_params_text:
  "list_all plain_pair kvs \<Longrightarrow> open_params (params_text kvs) m = m ++ map_of (rev kvs)"
proof (induction kvs arbitrary: m)
  case Nil
  then show ?case by (simp add: params_text_def open_params.simps)
next
  case (Cons kv kvs)
  obtain k v where kv: "kv = (k, v)" by (cases kv)
  have plain: "k \<noteq> []" "list_all isOpenParamKeyByte k" "next_pair v = None"
    using Cons.prems by (simp_all add: kv plain_pair_def)
  show ?case
  proof (cases kvs)
    case Nil
    then show ?thesis
      using plain by (subst open_params.simps) (simp add: params_text_def kv pair_text_def cut_at_pair)
  next
    case more: (Cons kv' kvs')
    have "\<exists>u. params_text kvs = fst kv' @ CHR ''='' # u"
      by (cases kvs') (simp_all add: more params_text_def pair_text_def)
    then have "key_follows (params_text kvs)"
      using Cons.prems more by (auto simp: plain_pair_def key_follows_pair)
    then have "next_pair (v @ CHR ''^'' # params_text kvs) = Some (v, params_text kvs)"
      by (rule next_pair_here [OF plain(3)])
    moreover have "params_text (kv # kvs) = k @ CHR ''='' # v @ CHR ''^'' # params_text kvs"
      by (simp add: params_text_def kv pair_text_def more)
    ultimately have "open_params (params_text (kv # kvs)) m = open_params (params_text kvs) (m(k \<mapsto> v))"
      using plain by (subst open_params.simps) (simp add: cut_at_pair)
    also have "\<dots> = m(k \<mapsto> v) ++ map_of (rev kvs)"
      using Cons by simp
    finally show ?thesis by (simp add: kv map_add_def fun_eq_iff split: option.split)
  qed
qed

text \<open>
  C36. The parameters of \<^verbatim>\<open>open\<close> read back: writing pairs as \<open>key=value\<close> separated by carets and parsing
  the text gives the map of the pairs, the last one winning for a repeated key, provided keys are
  non-empty words of letters, digits and underscores and no value contains a caret that is followed by
  such a word and an equals sign. Any other byte may occur in a value, carets and equals signs too.
\<close>

theorem ParseOpenParams_text:
  assumes "list_all plain_pair kvs"
  shows "ParseOpenParams (params_text kvs) = map_of (rev kvs)"
  using open_params_text [OF assms] by (simp add: ParseOpenParams_def)

theorem ParseOpenParams_text_witness:
  "ParseOpenParams ''VE_TITLE=a^ =^2^VE_RID=7'' = [''VE_TITLE'' \<mapsto> ''a^ =^2'', ''VE_RID'' \<mapsto> ''7'']"
proof -
  have "list_all plain_pair [(''VE_TITLE'', ''a^ =^2''), (''VE_RID'', ''7'')]" by code_simp
  from ParseOpenParams_text [OF this] show ?thesis
    by (simp add: params_text_def pair_text_def fun_upd_twist)
qed

section \<open>The room table\<close>









end
