(* ===== verification/Answers.thy ===== *)
theory Answers
  imports Conn_Loop
begin

text \<open>
  What the server can say. Every answer is empty or has one of four shapes, whatever handler gave it;
  so it can always be marshalled, and the loop of a connection never ends because of it.
\<close>

section \<open>The shapes of answers\<close>

inductive answer :: "gsc_command list \<Rightarrow> bool" where
  answer_none: "answer []"
| answer_show: "answer (Show body)"
| answer_echo: "answer (Echo_cmds args)"
| answer_time: "answer (Time_cmds delay action)"
| answer_table: "answer [\<lparr>Name = ''LW_dtbl'', Args = drops\<rparr>, \<lparr>Name = ''LW_tbl'', Args = rows\<rparr>]"

declare answer.intros [intro!, simp]

lemma answer_render [simp]: "answer (render_show e ver name v)" "answer (renderAlert e ver h t)" "answer ng_dialog"
  "answer (RenderEnter e req lt err li nick i)"
  by (simp_all add: render_show_def renderAlert_def ng_dialog_def RenderEnter_def)

section \<open>Routes and commands give answers\<close>

abbreviation route_answers :: "route_result \<Rightarrow> bool" where
  "route_answers r \<equiv> answer (fst (fst r))"

lemma room_routes_answer:
  "route_answers (RoomInfo e c r p st)" "route_answers (JoinPlayer e c p st)" "route_answers (RegNewRoom e c req p st)"
  "route_answers (join_room_checked e c i q st)" "route_answers (JoinGame e c r p st)"
proof -
  show info: "route_answers (RoomInfo e c r p st)" for r p
    by (simp add: RoomInfo_def Let_def split: option.splits)
  show "route_answers (JoinPlayer e c p st)"
    by (simp add: JoinPlayer_def Let_def info split: option.splits)
  show "route_answers (RegNewRoom e c req p st)"
    by (simp add: RegNewRoom_def Let_def split_beta split: option.splits)
  show join: "route_answers (join_room_checked e c i q st)" for i q
    by (simp add: join_room_checked_def Let_def split_beta)
  show "route_answers (JoinGame e c r p st)"
    by (simp add: JoinGame_def Let_def join split: option.splits)
qed

lemma page_routes_answer:
  "route_answers (Startup e c req st)" "route_answers (Resize c p st)" "route_answers (NewRoomDialog e req p st)"
  "route_answers (UsersList e req st)" "route_answers (UserDetails e c p st)" "route_answers (Tournaments e req p st)"
  "route_answers (LCNRegistrationDialog e req st)" "route_answers (GGCupThanks e req st)" "route_answers (Enter e c req p st)"
proof -
  show "route_answers (Tournaments e req p st)"
    by (cases "load_lcn e st") (simp add: Tournaments_def Let_def split: option.splits)
  show "route_answers (GGCupThanks e req st)"
    by (cases "load_cup e st") (simp add: GGCupThanks_def Let_def)
qed (simp_all add: Startup_def Resize_def NewRoomDialog_def UsersList_def UserDetails_def LCNRegistrationDialog_def
      Enter_def split_beta Let_def split: option.splits)

lemma TryEnter_answer: "route_answers (TryEnter e c req p st)"
proof (cases "ensureSession c st")
  case (Pair s st0)
  have "answer (fst (successEnter e c req nick st'))" for nick st'
    by (simp add: successEnter_def Let_def split_beta)
  then show ?thesis
    unfolding TryEnter_def Pair prod.case Let_def
    by (simp add: split_beta split: enter_kind.split)
qed

lemma dispatchOpen_answer: "route_answers (dispatchOpen e c req method p st)"
proof (cases "openRoutes e c req method")
  case None
  then show ?thesis by (simp add: dispatchOpen_def)
next
  case (Some h)
  then have "h \<in> {Enter e c req, TryEnter e c req, (\<lambda>p. Startup e c req), Resize c, NewRoomDialog e req,
      RegNewRoom e c req, JoinGame e c (Some req), RoomInfo e c (Some req), JoinPlayer e c, UserDetails e c,
      (\<lambda>p. UsersList e req), Tournaments e req, (\<lambda>p. LCNRegistrationDialog e req), (\<lambda>p. GGCupThanks e req)}"
    unfolding openRoutes_def by (simp only: fun_upd_apply insert_iff) (simp split: if_splits)
  then have "route_answers (h p st)"
    using room_routes_answer page_routes_answer TryEnter_answer by (elim insertE emptyE) (simp_all only:)
  then show ?thesis by (simp add: dispatchOpen_def Some)
qed

lemma command_answers:
  "answer (hr_Commands Login_Handle)" "answer (hr_Commands (Echo_Handle args))" "answer (hr_Commands (URL_Handle args))"
  "answer (hr_Commands (fst (Proxy_Handle key c args st)))" "answer (hr_Commands (fst (Leave_Handle e c st)))"
  "answer (hr_Commands (fst (Alive_Handle e c st)))" "answer (hr_Commands (fst (Endgame_Handle c args st)))"
  "answer (hr_Commands (GETTBL_Handle e c req args st))"
  "(\<And>m p. route_answers (d m p st)) \<Longrightarrow> answer (hr_Commands (fst (Open_Handle d args st)))"
  "(\<And>m p. route_answers (d m p st)) \<Longrightarrow> answer (hr_Commands (fst (Go_Handle d args st)))"
  by (simp_all add: Login_Handle_def Echo_Handle_def URL_Handle_def respond_def silent_def silent_err_def Leave_Handle_def
      Alive_Handle_def Endgame_Handle_def Let_def Proxy_Handle_def GETTBL_Handle_def Open_Handle_def Go_Handle_def
      split_beta split: list.splits option.splits)

lemma Start_answer: "Start_Handle e c args st = Ok (res, st') \<Longrightarrow> hr_Commands res = []"
  by (auto simp: Start_Handle_def Let_def silent_def silent_err_def split: if_splits option.splits outcome.splits)

lemma HandleWithMeta_answer:
  assumes "HandleWithMeta e c req cmd args st = Ok (res, st')"
  shows "answer (hr_Commands res)"
  using assms
proof (cases rule: HandleWithMeta_cases)
  case total
  moreover have "\<forall>x\<in>total_results e c req args st. answer (hr_Commands (fst x))"
    using command_answers dispatchOpen_answer by simp
  ultimately show ?thesis by (metis fst_conv)
qed (auto dest: Start_answer)

lemma answer_names: "answer cmds \<Longrightarrow> \<forall>k\<in>set cmds. length (Name k) \<le> 255"
  by (induction rule: answer.induct) (simp_all add: Show_def ShowCmd_def Echo_cmds_def Time_cmds_def)

lemma marshal_commands_total:
  "\<forall>k\<in>set cs. length (Name k) \<le> 255 \<Longrightarrow> \<exists>b. marshal_commands cs = Ok b"
  by (induction cs) auto

lemma answer_marshals:
  assumes "answer cmds"
  shows "\<exists>bin. Stream_MarshalBinary deflate (req\<lparr>CmdSet := add_window win cmds\<rparr>) = Ok bin"
proof -
  have "\<forall>k\<in>set (add_window win cmds). length (Name k) \<le> 255"
    using answer_names [OF assms] by (auto simp: add_window_def)
  from marshal_commands_total [OF this] show ?thesis
    by (auto simp: Stream_MarshalBinary_def CommandSet_MarshalBinary_def Let_def)
qed

text \<open>
  C5. Every answer the server gives is well formed: it is empty, a body to show, an echo, a timed
  action, or the pair that brings a table up to date. Such an answer always marshals, so a request
  that is answered is answered on the wire whenever the write succeeds, and the loop goes on unless
  the connection was closed.
\<close>

theorem answers_are_typed:
  assumes "CmdSet req = cmd # rest" and "split_meta (Args cmd) = (args, win)"
    and "HandleWithMeta e c req (Name cmd) args st = Ok (res, st')"
  shows "answer (hr_Commands res) \<and>
    (hr_HasResponse res \<longrightarrow> (\<exists>bin. Stream_MarshalBinary deflate (req\<lparr>CmdSet := add_window win (hr_Commands res)\<rparr>) = Ok bin \<and>
      serve_request deflate True e c req st = Ok ((Some bin, \<not> IsClosed (conn_of c st')), st')))"
proof -
  have "answer (hr_Commands res)" by (rule HandleWithMeta_answer [OF assms(3)])
  moreover obtain bin where "Stream_MarshalBinary deflate (req\<lparr>CmdSet := add_window win (hr_Commands res)\<rparr>) = Ok bin"
    using answer_marshals [OF calculation] by blast
  ultimately show ?thesis using assms by (simp add: serve_request_def)
qed

theorem answers_are_typed_witness:
  "\<exists>bin. serve_request id True demo_env 0 (demo_login\<lparr>CmdSet := [\<lparr>Name = ''echo'', Args = [''a'', ''w'', ''k'']\<rparr>]\<rparr>) demo_hosting =
     Ok ((Some bin, \<not> IsClosed (conn_of 0 demo_hosting)), demo_hosting)"
proof -
  let ?cmd = "\<lparr>Name = ''echo'', Args = [''a'', ''w'', ''k'']\<rparr>"
  let ?req = "demo_login\<lparr>CmdSet := [?cmd]\<rparr>"
  have req: "CmdSet ?req = ?cmd # []" "split_meta (Args ?cmd) = ([''a''], ''w'')" by (simp_all add: split_meta_def)
  have run: "HandleWithMeta demo_env 0 ?req (Name ?cmd) [''a''] demo_hosting = Ok (Echo_Handle [''a''], demo_hosting)"
    by (simp add: HandleWithMeta_def Lookup_def defaultCommandRegistry_def Registry_Register_def)
  have "hr_HasResponse (Echo_Handle [''a''])" by (simp add: Echo_Handle_def respond_def)
  with answers_are_typed [OF req run, of id] show ?thesis by blast
qed

end
