(* ===== verification/Adapters.thy ===== *)
theory Adapters
  imports Ranking Identity
begin

text \<open>
  Three adapters that are in the repository but not yet wired into the server: the file-backed ranking
  provider (\<^verbatim>\<open>adapter/rankingfile\<close>) and the HTTP account provider (\<^verbatim>\<open>adapter/accountprovider\<close>), which
  are to replace the ranking cache and the login of the identity service, and the in-memory session
  store (\<^verbatim>\<open>app/connectivity/store.go\<close>). What matters of the first two is whether they agree with what
  they are to replace.
\<close>

section \<open>The file-backed ranking provider (rankingfile/provider.go)\<close>



definition file_place :: "json \<Rightarrow> int" where
  "file_place v =
     (case v of
        JNum f \<Rightarrow> f64_trunc f
      | JStr s \<Rightarrow> (case atoi s of (n, ok) \<Rightarrow> if ok then n else 0)
      | _ \<Rightarrow> 0)"

fun file_places :: "(json \<Rightarrow> string) \<Rightarrow> (string \<rightharpoonup> int) \<Rightarrow> json list \<Rightarrow> (string \<rightharpoonup> int)" where
  "file_places fv m [] = m"
| "file_places fv m (r # rs) =
     (let k = sprint fv (field (row_of r) ''id'')
      in file_places fv (if k \<noteq> [] then m(k \<mapsto> file_place (field (row_of r) ''place'')) else m) rs)"

definition buildLCNPlaceIndex :: "(json \<Rightarrow> string) \<Rightarrow> jobject \<Rightarrow> (string \<rightharpoonup> int) option" where
  "buildLCNPlaceIndex fv payload =
     (case as_object (field payload ''ranking'') of
        None \<Rightarrow> None
      | Some rk \<Rightarrow>
          (case as_array (field rk ''total'') of
             None \<Rightarrow> None
           | Some rows \<Rightarrow> Some (file_places fv Map.empty rows)))"







section \<open>The provider and the cache it is to replace\<close>








definition demo_rows :: "json \<Rightarrow> jobject" where
  "demo_rows v = [''ranking'' \<mapsto> JObj [''total'' \<mapsto> JArr [JObj [''id'' \<mapsto> JStr ''7'', ''place'' \<mapsto> v]]]]"


text \<open>
  The comment in \<^verbatim>\<open>provider.go\<close> says that its rules mirror the cache exactly. They do not: a place given
  as text counts in the provider and is 0 in the cache.
\<close>

theorem text_places_differ:
  "buildLCNPlaceIndex fv (demo_rows (JStr ''3'')) = Some [''7'' \<mapsto> 3] \<and>
   place_index fv (demo_rows (JStr ''3'')) = Some [''7'' \<mapsto> 0]"
proof -
  have "atoi ''3'' = (3, True)" by code_simp
  then show ?thesis
    by (simp add: buildLCNPlaceIndex_def place_index_def demo_rows_def field_def row_of_def nil_map_def
        sprint_def file_place_def place_of_def Let_def)
qed

section \<open>The HTTP account provider (accountprovider/provider.go)\<close>

record auth_host =
  ah_Host :: string
  ah_Key :: string

datatype httpauth_error = HTTPBadCredentials | HTTPServiceUnavailable

definition Provider_Authenticate ::
  "http_client \<Rightarrow> (bytes \<Rightarrow> login_payload option) \<Rightarrow> (account_type \<rightharpoonup> auth_host) \<Rightarrow> account_type \<Rightarrow>
    string \<Rightarrow> string \<Rightarrow> httpauth_error + account_info" where
  "Provider_Authenticate http json hosts accountType login password =
     (case hosts accountType of
        None \<Rightarrow> Inl HTTPServiceUnavailable
      | Some host \<Rightarrow>
          if ah_Host host = [] \<or> ah_Key host = [] then Inl HTTPServiceUnavailable
          else
            (case http (endpoint_of (ah_Host host))
                [(''action'', ''logon''), (''key'', ah_Key host), (''login'', login), (''password'', password)]
                [(''Content-Type'', ''application/x-www-form-urlencoded'')] of
               None \<Rightarrow> Inl HTTPServiceUnavailable
             | Some (status, raw) \<Rightarrow>
                 if status < 200 \<or> 300 \<le> status then Inl HTTPServiceUnavailable
                 else (case json raw of
                     None \<Rightarrow> Inl HTTPServiceUnavailable
                   | Some payload \<Rightarrow>
                       if \<not> lp_Success payload then Inl HTTPBadCredentials
                       else Inr \<lparr>ac_Type = accountType, ac_ID = trim_space (lp_ID payload), ac_Login = login,
                              ac_Profile = lp_Profile payload\<rparr>)))"

text \<open>The adapter is configured like the service, and the account server does not look at headers.\<close>

definition same_hosts :: "providers \<Rightarrow> (account_type \<rightharpoonup> auth_host) \<Rightarrow> bool" where
  "same_hosts ps hosts \<longleftrightarrow>
     (\<forall>t. let pc = fst (Provider (account_type_string t) ps) in
        hosts t = Some \<lparr>ah_Host = pc_Host pc, ah_Key = pc_Key pc\<rparr>)"

definition blind_to_headers :: "http_client \<Rightarrow> bool" where
  "blind_to_headers http \<longleftrightarrow> (\<forall>url form h h'. http url form h = http url form h')"

text \<open>
  The account provider accepts and refuses the same logins as the service it is to replace, for an
  account server that answers the same whatever the client address in the header. An accepted login
  carries the same type and login; its id is trimmed, and so differs only for an id with surrounding
  blanks. The profile is the server's own, also for LCN, where the service builds a link.
\<close>

theorem adapter_accepts_same_logins:
  assumes "same_hosts ps hosts" and "blind_to_headers http"
  shows "case (Provider_Authenticate http json hosts t login password,
      Authenticate http json ps \<lparr>aq_LoginType = account_type_string t, aq_Login = login, aq_Password = password,
        aq_ClientIP = ip\<rparr>) of
    (Inr i, Inr a) \<Rightarrow> account_type_string (ac_Type i) = at_Type a \<and> ac_Login i = at_Login a \<and>
      ac_ID i = trim_space (at_ID a) \<and> (at_Type a = ''LCN'' \<or> ac_Profile i = at_Profile a)
  | (Inl e, Inl e') \<Rightarrow> e = HTTPBadCredentials \<longleftrightarrow> e' = ErrBadCredentials
  | _ \<Rightarrow> False"
proof -
  let ?pc = "fst (Provider (account_type_string t) ps)"
  have host: "hosts t = Some \<lparr>ah_Host = pc_Host ?pc, ah_Key = pc_Key ?pc\<rparr>"
    using assms(1) by (simp add: same_hosts_def Let_def)
  have blind: "http url form [(''Content-Type'', ct), (''X-Client-IP'', ip)] = http url form [(''Content-Type'', ct)]"
    for url form ct
    using assms(2) unfolding blind_to_headers_def by blast
  show ?thesis
    by (auto simp: Provider_Authenticate_def Authenticate_def host blind Let_def split: option.splits)
qed

definition demo_providers :: providers where
  "demo_providers = [''lcn'' \<mapsto> \<lparr>pc_Host = ''h'', pc_Key = ''k'', pc_ServerName = []\<rparr>]"

definition demo_hosts :: "account_type \<rightharpoonup> auth_host" where
  "demo_hosts t = (let pc = fst (Provider (account_type_string t) demo_providers) in
     Some \<lparr>ah_Host = pc_Host pc, ah_Key = pc_Key pc\<rparr>)"

theorem adapter_accepts_same_logins_witness:
  "\<exists>i a. Provider_Authenticate (\<lambda>_ _ _. Some (200, [])) (\<lambda>_. Some \<lparr>lp_Success = True, lp_ID = ''7 '', lp_Profile = []\<rparr>)
      demo_hosts AccountTypeLCN ''ann'' ''pw'' = Inr i \<and>
    Authenticate (\<lambda>_ _ _. Some (200, [])) (\<lambda>_. Some \<lparr>lp_Success = True, lp_ID = ''7 '', lp_Profile = []\<rparr>)
      demo_providers \<lparr>aq_LoginType = ''LCN'', aq_Login = ''ann'', aq_Password = ''pw'', aq_ClientIP = []\<rparr> = Inr a \<and>
    ac_Login i = at_Login a \<and> ac_ID i = trim_space (at_ID a)"
proof -
  let ?http = "\<lambda>_ _ _. Some (200, [])"
  let ?json = "\<lambda>_. Some \<lparr>lp_Success = True, lp_ID = ''7 '', lp_Profile = []\<rparr>"
  have same: "same_hosts demo_providers demo_hosts" by (simp add: same_hosts_def demo_hosts_def Let_def)
  have blind: "blind_to_headers ?http" by (simp add: blind_to_headers_def)
  have "provider_key ''LCN'' = ''lcn''" by code_simp
  then have "\<exists>i. Provider_Authenticate ?http ?json demo_hosts AccountTypeLCN ''ann'' ''pw'' = Inr i"
    by (simp add: Provider_Authenticate_def demo_hosts_def demo_providers_def Provider_def Let_def)
  then obtain i where i: "Provider_Authenticate ?http ?json demo_hosts AccountTypeLCN ''ann'' ''pw'' = Inr i" ..
  from adapter_accepts_same_logins [OF same blind, of ?json AccountTypeLCN "''ann''" "''pw''" "[]"]
  show ?thesis unfolding i by (auto split: sum.splits)
qed

section \<open>The session store (connectivity/store.go)\<close>

type_synonym session_store = "nat \<rightharpoonup> session option"

definition NewSessionStore :: session_store where
  "NewSessionStore = Map.empty"

definition SessionStore_Get :: "nat \<Rightarrow> session_store \<Rightarrow> session option \<times> bool" where
  "SessionStore_Get i s = (case s i of None \<Rightarrow> (None, False) | Some x \<Rightarrow> (x, True))"

definition SessionStore_Set :: "nat \<Rightarrow> session option \<Rightarrow> session_store \<Rightarrow> session_store" where
  "SessionStore_Set i x s = s(i \<mapsto> x)"

definition SessionStore_Delete :: "nat \<Rightarrow> session_store \<Rightarrow> session_store" where
  "SessionStore_Delete i s = s(i := None)"

end
