(* ===== verification/Templates.thy ===== *)
theory Templates
  imports Render Config
begin

text \<open>
  Where a show body comes from: the search path for templates and the choice of a file
  (\<^verbatim>\<open>render/templates.go\<close>), the run of Go's template engine on it and the functions templates may call
  (\<^verbatim>\<open>render/gotemplate.go\<close>). The routes take the whole of it as the parameter \<open>ev_Render\<close>.

  The engine itself, \<^verbatim>\<open>text/template\<close>, is the parameter \<open>engine\<close>; so are the files, as what
  \<^verbatim>\<open>os.ReadFile\<close> and \<^verbatim>\<open>filepath.WalkDir\<close> find. Paths are those of a Unix system.
\<close>

section \<open>Paths (package filepath)\<close>

definition clean_step :: "bool \<Rightarrow> string list \<Rightarrow> string \<Rightarrow> string list" where
  "clean_step rooted acc x =
     (if x = [] \<or> x = ''.'' then acc
      else if x = ''..'' then
        (case acc of
           [] \<Rightarrow> if rooted then [] else [''..'']
         | y # ys \<Rightarrow> if y = ''..'' then ''..'' # acc else ys)
      else x # acc)"

definition path_clean :: "string \<Rightarrow> string" where
  "path_clean p =
     (let rooted = has_prefix p ''/'';
          body = join_with ''/'' (rev (foldl (clean_step rooted) [] (split_on (CHR ''/'') p)))
      in if rooted then CHR ''/'' # body else if body = [] then ''.'' else body)"

definition path_join :: "string list \<Rightarrow> string" where
  "path_join elems =
     (let es = filter (\<lambda>x. x \<noteq> []) elems in if es = [] then [] else path_clean (join_with ''/'' es))"

text \<open>The extension: the part of the last element from its last dot.\<close>

definition path_ext :: "string \<Rightarrow> string" where
  "path_ext p =
     (let e = last (split_on (CHR ''/'') p) in
      if CHR ''.'' \<in> set e then CHR ''.'' # last (split_on (CHR ''.'') e) else [])"

section \<open>The search path (templates.go)\<close>

definition DefaultTemplateRoots :: "string list" where
  "DefaultTemplateRoots =
     [''/app/templates'', ''/cossacks/templates'', ''templates'', ''../templates'', ''../../templates'',
      ''/cossacks/SimpleCossacksServer/share'']"

definition add_root :: "string \<Rightarrow> string list \<Rightarrow> string list" where
  "add_root v out = (let v = trim_space v in if v = [] \<or> v \<in> set out then out else out @ [v])"

definition BuildTemplateRoots :: "string \<Rightarrow> string list \<Rightarrow> string list" where
  "BuildTemplateRoots customRoot defaults = fold add_root defaults (add_root customRoot [])"

definition NewTemplateRenderer :: "string \<Rightarrow> string list" where
  "NewTemplateRenderer customRoot = BuildTemplateRoots customRoot DefaultTemplateRoots"

text \<open>\<open>None\<close> is the nil renderer.\<close>

definition Roots :: "string list option \<Rightarrow> string list" where
  "Roots r = (case r of None \<Rightarrow> DefaultTemplateRoots | Some rs \<Rightarrow> if rs = [] then DefaultTemplateRoots else rs)"

definition NormalizeShowTemplateName :: "string \<Rightarrow> string" where
  "NormalizeShowTemplateName name =
     (let s = trim_space name; lower = to_lower s in
      if s = [] then []
      else if has_suffix lower ''.cml'' then take (length s - 4) s @ ''.tmpl''
      else if has_suffix lower ''.tmpl'' then s
      else s @ ''.tmpl'')"

definition FallbackShowBody :: string where
  "FallbackShowBody =
     ''#font(WF,WF,WF)'' @ [CHR 0x0A] @ ''#txt(%BOX[x:10,y:10,w:100%,h:24],{},'' @ [CHR 0x22] @
       ''server response'' @ [CHR 0x22] @ '')''"

section \<open>Running the engine (gotemplate.go)\<close>

text \<open>
  A parsed template set: \<open>en_Parse\<close> creates one from the main source, \<open>en_Add\<close> parses another source
  into it; \<open>en_Root\<close> is the node list of the main template, \<open>None\<close> for a nil tree; \<open>en_Others\<close> are the
  templates defined besides, in the order \<^verbatim>\<open>Templates\<close> lists them; \<open>en_Execute\<close> runs the main template
  or one of the others. \<open>None\<close> is an error throughout.
\<close>

datatype tnode = TextNode string | OtherNode

record ('t, 'd) engine =
  en_Parse :: "string \<Rightarrow> 't option"
  en_Add :: "'t \<Rightarrow> string \<Rightarrow> 't option"
  en_Root :: "'t \<Rightarrow> tnode list option"
  en_Others :: "'t \<Rightarrow> (string \<times> tnode list option) list"
  en_Execute :: "'t \<Rightarrow> string option \<Rightarrow> 'd \<Rightarrow> string option"

fun blank_node :: "tnode \<Rightarrow> bool" where
  "blank_node (TextNode s) = (trim_space s = [])"
| "blank_node OtherNode = False"

definition treeIsEmpty :: "tnode list option \<Rightarrow> bool" where
  "treeIsEmpty tree = (case tree of None \<Rightarrow> True | Some ns \<Rightarrow> list_all blank_node ns)"

fun contains_text :: "string \<Rightarrow> string \<Rightarrow> bool" where
  "contains_text [] pat = (pat = [])"
| "contains_text (c # s) pat = (has_prefix (c # s) pat \<or> contains_text s pat)"

fun add_extras :: "('t, 'd) engine \<Rightarrow> string list \<Rightarrow> 't \<Rightarrow> 't option" where
  "add_extras en [] t = Some t"
| "add_extras en (ex # exs) t =
     (if trim_space ex = [] then add_extras en exs t
      else (case en_Add en t ex of None \<Rightarrow> None | Some t' \<Rightarrow> add_extras en exs t'))"

definition pick_target :: "('t, 'd) engine \<Rightarrow> 't \<Rightarrow> string option" where
  "pick_target en t =
     (if treeIsEmpty (en_Root en t)
      then map_option fst (find (\<lambda>(n, tree). \<not> treeIsEmpty tree) (en_Others en t)) else None)"

definition renderGoTemplate :: "('t, 'd) engine \<Rightarrow> string \<Rightarrow> 'd \<Rightarrow> string list \<Rightarrow> string" where
  "renderGoTemplate en src data extras =
     (if \<not> contains_text src ''{{'' \<and> extras = [] then src
      else
        (case Option.bind (en_Parse en src) (add_extras en extras) of
           None \<Rightarrow> src
         | Some t \<Rightarrow> (case en_Execute en t (pick_target en t) data of None \<Rightarrow> src | Some out \<Rightarrow> out)))"

definition RenderShowTemplate :: "('t, 'd) engine \<Rightarrow> string \<Rightarrow> 'd \<Rightarrow> string list \<Rightarrow> string" where
  "RenderShowTemplate en src data extras = trim_space (renderGoTemplate en src data extras)"

section \<open>Finding the template (templates.go)\<close>

text \<open>
  \<open>tf_read\<close> is \<^verbatim>\<open>os.ReadFile\<close>; \<open>tf_walk\<close> lists the files below a directory in the order \<^verbatim>\<open>WalkDir\<close>
  visits them, \<open>None\<close> when there is no such directory.
\<close>

record template_files =
  tf_read :: "string \<rightharpoonup> bytes"
  tf_walk :: "string \<rightharpoonup> string list"

definition loadSubtemplates :: "template_files \<Rightarrow> string \<Rightarrow> bytes list" where
  "loadSubtemplates fs mainPath =
     (case tf_walk fs (trim_suffix mainPath (path_ext mainPath)) of
        None \<Rightarrow> []
      | Some ps \<Rightarrow>
          map the (filter (\<lambda>b. b \<noteq> None) (map (tf_read fs) (filter (\<lambda>p. has_suffix (to_lower p) ''.tmpl'') ps))))"

definition template_path :: "u8 \<Rightarrow> string \<Rightarrow> string \<Rightarrow> string" where
  "template_path ver name dir = path_join [dir, if IsAC ver then ''ac'' else ''cs'', name]"

fun show_from_roots ::
  "template_files \<Rightarrow> ('t, 'd) engine \<Rightarrow> u8 \<Rightarrow> string \<Rightarrow> 'd \<Rightarrow> string list \<Rightarrow> string" where
  "show_from_roots fs en ver name data [] = FallbackShowBody"
| "show_from_roots fs en ver name data (dir # roots) =
     (let path = template_path ver name dir in
      case tf_read fs path of
        None \<Rightarrow> show_from_roots fs en ver name data roots
      | Some b \<Rightarrow> RenderShowTemplate en b data (loadSubtemplates fs path))"

definition LoadShowBodyFromRoots ::
  "template_files \<Rightarrow> ('t, 'd) engine \<Rightarrow> string list \<Rightarrow> u8 \<Rightarrow> string \<Rightarrow> 'd \<Rightarrow> string" where
  "LoadShowBodyFromRoots fs en roots ver templateName data =
     (let name = NormalizeShowTemplateName templateName in
      if name = [] then FallbackShowBody else show_from_roots fs en ver name data roots)"

definition Renderer_Render ::
  "template_files \<Rightarrow> ('t, 'd) engine \<Rightarrow> string list option \<Rightarrow> u8 \<Rightarrow> string \<Rightarrow> 'd \<Rightarrow> string" where
  "Renderer_Render fs en r ver name data = LoadShowBodyFromRoots fs en (Roots r) ver name data"

section \<open>Functions of the templates (gotemplate.go)\<close>

text \<open>
  A value a template function is called with: the dynamic types \<^verbatim>\<open>coerceInt\<close> and \<^verbatim>\<open>tplTruthy\<close> look
  at, and any other one with the text \<^verbatim>\<open>fmt.Sprint\<close> gives for it. \<open>fv\<close> prints a float.
\<close>

datatype tvalue =
  VNil | VBool bool | VStr string | VInt int | VInt64 int | VU32 u32 | VFloat float64 | VOther string

definition anyToString :: "(float64 \<Rightarrow> string) \<Rightarrow> tvalue \<Rightarrow> string" where
  "anyToString fv v =
     (case v of
        VNil \<Rightarrow> [] | VBool b \<Rightarrow> if b then ''true'' else ''false'' | VStr s \<Rightarrow> s
      | VInt i \<Rightarrow> fmt_d i | VInt64 i \<Rightarrow> fmt_d i | VU32 w \<Rightarrow> fmt_u32 w | VFloat f \<Rightarrow> fv f | VOther t \<Rightarrow> t)"

text \<open>\<open>pf\<close> is \<^verbatim>\<open>strconv.ParseFloat\<close>; a float outside the range of \<^verbatim>\<open>int\<close> is truncated as \<open>cv\<close> says.\<close>

definition coerceInt :: "(string \<Rightarrow> float64 option) \<Rightarrow> (float64 \<Rightarrow> int) \<Rightarrow> tvalue \<Rightarrow> int" where
  "coerceInt pf cv v =
     (case v of
        VInt i \<Rightarrow> i | VInt64 i \<Rightarrow> i | VU32 w \<Rightarrow> int (unat w) | VFloat f \<Rightarrow> cv f
      | VStr t \<Rightarrow>
          (let s = trim_space t in
           if s = [] then 0
           else (case atoi s of (n, ok) \<Rightarrow> if ok then n else (case pf s of None \<Rightarrow> 0 | Some f \<Rightarrow> cv f)))
      | _ \<Rightarrow> 0)"

definition tplTruthy :: "tvalue \<Rightarrow> bool" where
  "tplTruthy v =
     (case v of
        VNil \<Rightarrow> False | VBool b \<Rightarrow> b
      | VStr t \<Rightarrow> (let s = trim_space t in \<not> (s = [] \<or> s = ''0'' \<or> equal_fold_ascii s ''false''))
      | VInt i \<Rightarrow> i \<noteq> 0 | VInt64 i \<Rightarrow> i \<noteq> 0 | VU32 w \<Rightarrow> w \<noteq> 0 | VFloat f \<Rightarrow> f \<noteq> 0 | VOther t \<Rightarrow> True)"

definition cmd_escape :: "char \<Rightarrow> string" where
  "cmd_escape c =
     (if c = CHR ''&'' then [CHR 0x5C, CHR ''2'', CHR ''6'']
      else if c = CHR ''^'' then [CHR 0x5C, CHR ''5'', CHR ''e'']
      else if c = CHR ''|'' then [CHR 0x5C, CHR ''7'', CHR ''c'']
      else if c = CHR ''%'' then [CHR 0x5C, CHR ''2'', CHR ''5'']
      else if c = CHR 0x00 then [CHR 0x5C, CHR ''0'', CHR ''0'']
      else [c])"

definition cmdFilter :: "(float64 \<Rightarrow> string) \<Rightarrow> tvalue \<Rightarrow> string" where
  "cmdFilter fv v = concat (map cmd_escape (anyToString fv v))"

definition argFilter :: "(float64 \<Rightarrow> string) \<Rightarrow> tvalue \<Rightarrow> string" where
  "argFilter fv v =
     replace_char (CHR 0x0A) [CHR 0x5C, CHR ''n'']
       (replace_char (CHR 0x22) [CHR 0x5C, CHR 0x22]
         (replace_char (CHR 0x5C) [CHR 0x5C, CHR 0x5C] (anyToString fv v)))"

definition tplLevelLabel :: "(string \<Rightarrow> float64 option) \<Rightarrow> (float64 \<Rightarrow> int) \<Rightarrow> tvalue \<Rightarrow> string" where
  "tplLevelLabel pf cv v =
     (let n = coerceInt pf cv v in
      if n = 1 then ''Easy'' else if n = 2 then ''Normal'' else if n = 3 then ''Hard'' else ''For all'')"

definition tplLevelLabelLC :: "(string \<Rightarrow> float64 option) \<Rightarrow> (float64 \<Rightarrow> int) \<Rightarrow> tvalue \<Rightarrow> string" where
  "tplLevelLabelLC pf cv v = to_lower (tplLevelLabel pf cv v)"

definition tplTheamLabel :: "(float64 \<Rightarrow> string) \<Rightarrow> tvalue \<Rightarrow> string" where
  "tplTheamLabel fv v = trim_space (anyToString fv v)"

text \<open>Sums and products are those of \<^verbatim>\<open>int\<close>, which wraps around at 64 bits.\<close>

definition tplAdd :: "(string \<Rightarrow> float64 option) \<Rightarrow> (float64 \<Rightarrow> int) \<Rightarrow> tvalue list \<Rightarrow> int" where
  "tplAdd pf cv args = foldl (\<lambda>acc a. wrap64 (acc + coerceInt pf cv a)) 0 args"

definition tplSub :: "(string \<Rightarrow> float64 option) \<Rightarrow> (float64 \<Rightarrow> int) \<Rightarrow> tvalue \<Rightarrow> tvalue \<Rightarrow> tvalue list \<Rightarrow> int" where
  "tplSub pf cv a b rest =
     foldl (\<lambda>acc r. wrap64 (acc - coerceInt pf cv r)) (wrap64 (coerceInt pf cv a - coerceInt pf cv b)) rest"

definition tplMul :: "(string \<Rightarrow> float64 option) \<Rightarrow> (float64 \<Rightarrow> int) \<Rightarrow> tvalue list \<Rightarrow> int" where
  "tplMul pf cv args =
     (if args = [] then 0 else foldl (\<lambda>acc a. wrap64 (acc * coerceInt pf cv a)) 1 args)"

definition tplConcat :: "(float64 \<Rightarrow> string) \<Rightarrow> tvalue list \<Rightarrow> string" where
  "tplConcat fv args = concat (map (anyToString fv) args)"

section \<open>The filters protect what they are for\<close>

lemma decodeArg_cmd_escape:
  "decodeArg (CHR 0x5C # CHR ''2'' # CHR ''6'' # t) = CHR ''&'' # decodeArg t"
  "decodeArg (CHR 0x5C # CHR ''5'' # CHR ''e'' # t) = CHR ''^'' # decodeArg t"
  "decodeArg (CHR 0x5C # CHR ''7'' # CHR ''c'' # t) = CHR ''|'' # decodeArg t"
  "decodeArg (CHR 0x5C # CHR ''2'' # CHR ''5'' # t) = CHR ''%'' # decodeArg t"
  "decodeArg (CHR 0x5C # CHR ''0'' # CHR ''0'' # t) = CHR 0x00 # decodeArg t"
  by (simp_all add: hex_val_def char_of_eq_iff)

definition cmd_special :: "char set" where
  "cmd_special = {CHR ''&'', CHR ''^'', CHR ''|'', CHR ''%'', CHR 0x00}"

lemma hex_val_special: "c \<in> cmd_special \<Longrightarrow> hex_val c = None"
  by (auto simp: cmd_special_def hex_val_def)

lemma cmd_escape_plain: "c \<notin> cmd_special \<Longrightarrow> cmd_escape c = [c]"
  by (auto simp: cmd_special_def cmd_escape_def)

lemma decodeArg_cmd_special: "c \<in> cmd_special \<Longrightarrow> decodeArg (cmd_escape c @ t) = c # decodeArg t"
  by (auto simp: cmd_special_def cmd_escape_def decodeArg_cmd_escape simp del: decodeArg.simps)

text \<open>Escaping does not change how the rest of the text is decoded.\<close>

abbreviation escaped :: "string \<Rightarrow> string" where
  "escaped s \<equiv> concat (map cmd_escape s)"

lemma cmd_escape_hd: "\<exists>x xs. cmd_escape c = x # xs \<and> hex_val x = hex_val c"
  using hex_val_special [of c] cmd_escape_plain [of c]
  by (cases "c \<in> cmd_special") (auto simp: cmd_special_def cmd_escape_def hex_val_def)

lemma hex_val_plain: "hex_val c = Some n \<Longrightarrow> cmd_escape c = [c]"
  using hex_val_special [of c] cmd_escape_plain [of c] by (cases "c \<in> cmd_special") auto

lemma decodeArg_no_hex:
  "hex_val a = None \<Longrightarrow> decodeArg (CHR 0x5C # a # t) = CHR 0x5C # decodeArg (a # t)"
  "hex_val b = None \<Longrightarrow> decodeArg (CHR 0x5C # a # b # t) = CHR 0x5C # decodeArg (a # b # t)"
  by (auto split: option.splits list.splits)

lemma decode_filtered: "decodeArg (escaped s) = decodeArg s"
proof (induction "length s" arbitrary: s rule: less_induct)
  case less
  show ?case
  proof (cases s)
    case (Cons c r)
    have IH: "decodeArg (escaped r) = decodeArg r" using less Cons by simp
    show ?thesis
    proof (cases "c = CHR 0x5C")
      case False
      then have "decodeArg (escaped s) = c # decodeArg (escaped r)"
        using decodeArg_cmd_special [of c] cmd_escape_plain [of c] decodeArg_plain [OF False]
        by (cases "c \<in> cmd_special") (simp_all add: Cons del: decodeArg.simps)
      then show ?thesis using IH decodeArg_plain [OF False] by (simp add: Cons del: decodeArg.simps)
    next
      case True
      have esc: "cmd_escape (CHR 0x5C) = [CHR 0x5C]" by (simp add: cmd_escape_def)
      show ?thesis
      proof (cases r)
        case Nil
        then show ?thesis by (simp add: Cons True cmd_escape_def)
      next
        case r: (Cons a t)
        obtain x xs where x: "cmd_escape a = x # xs" "hex_val x = hex_val a" using cmd_escape_hd by blast
        show ?thesis
        proof (cases "hex_val a")
          case None
          then show ?thesis
            using IH x by (simp add: esc Cons True r decodeArg_no_hex del: decodeArg.simps)
        next
          case (Some m)
          then have a: "cmd_escape a = [a]" by (rule hex_val_plain)
          show ?thesis
          proof (cases t)
            case Nil
            then show ?thesis by (simp add: esc Cons True r a)
          next
            case t: (Cons b u)
            obtain y ys where y: "cmd_escape b = y # ys" "hex_val y = hex_val b" using cmd_escape_hd by blast
            show ?thesis
            proof (cases "hex_val b")
              case None
              then show ?thesis
                using IH y by (simp add: esc Cons True r a t decodeArg_no_hex del: decodeArg.simps)
            next
              case b: (Some n)
              have "decodeArg (escaped u) = decodeArg u" using less by (simp add: Cons r t)
              then show ?thesis
                using Some b by (simp add: esc Cons True r a t hex_val_plain [OF b])
            qed
          qed
        qed
      qed
    qed
  qed simp
qed

lemma set_escaped: "set (escaped s) \<inter> cmd_special = {}"
proof -
  have "set (cmd_escape c) \<inter> cmd_special = {}" for c
    by (auto simp: cmd_special_def cmd_escape_def)
  then show ?thesis by (induction s) auto
qed

text \<open>
  C37. What the command filter lets through cannot end a command of the client: the result has none of
  the bytes that delimit commands, arguments and variables. Decoded as the arguments of commands are,
  it gives what decoding the value itself gives: every special byte comes back. But a backslash is not
  escaped, so the filter is not one-to-one: a value that ends in the text of an escape cannot be told
  from one that ends in the escaped byte.
\<close>

theorem cmdFilter_decodes:
  "set (cmdFilter fv (VStr s)) \<inter> {CHR ''&'', CHR ''^'', CHR ''|'', CHR ''%'', CHR 0x00} = {} \<and>
   decodeArg (cmdFilter fv (VStr s)) = decodeArg s \<and>
   cmdFilter fv (VStr (s @ [CHR 0x5C, CHR ''2'', CHR ''6''])) = cmdFilter fv (VStr (s @ ''&''))"
  using set_escaped decode_filtered by (simp add: cmdFilter_def anyToString_def cmd_special_def cmd_escape_def)

text \<open>A quoted string as drawing directives have them: up to the next quote that is not escaped.\<close>

fun read_quoted :: "string \<Rightarrow> (string \<times> string) option" where
  "read_quoted [] = None"
| "read_quoted [c] = (if c = CHR 0x22 then Some ([], []) else None)"
| "read_quoted (c # d # s) =
     (if c = CHR 0x22 then Some ([], d # s)
      else if c = CHR 0x5C
      then map_option (apfst ((#) (if d = CHR ''n'' then CHR 0x0A else d))) (read_quoted s)
      else map_option (apfst ((#) c)) (read_quoted (d # s)))"

definition arg_escape :: "char \<Rightarrow> string" where
  "arg_escape c =
     (if c = CHR 0x5C then [CHR 0x5C, CHR 0x5C] else if c = CHR 0x22 then [CHR 0x5C, CHR 0x22]
      else if c = CHR 0x0A then [CHR 0x5C, CHR ''n''] else [c])"

lemma argFilter_alt: "argFilter fv v = concat (map arg_escape (anyToString fv v))"
proof -
  have "replace_char (CHR 0x0A) [CHR 0x5C, CHR ''n''] (replace_char (CHR 0x22) [CHR 0x5C, CHR 0x22]
      (replace_char (CHR 0x5C) [CHR 0x5C, CHR 0x5C] s)) = concat (map arg_escape s)" for s
    by (induction s) (simp_all add: replace_char_def arg_escape_def)
  then show ?thesis by (simp add: argFilter_def)
qed

lemma read_quoted_escape:
  "s \<noteq> [] \<Longrightarrow> read_quoted (arg_escape c @ s) = map_option (apfst ((#) c)) (read_quoted s)"
  by (cases s) (simp_all add: arg_escape_def)

text \<open>
  A value that went through the argument filter can be put between quotes: reading the quoted text
  gives the value back and stops at the closing quote, whatever the value holds, and the text stays on
  one line.
\<close>

theorem argFilter_quoted:
  "read_quoted (argFilter fv v @ CHR 0x22 # rest) = Some (anyToString fv v, rest) \<and>
   CHR 0x0A \<notin> set (argFilter fv v)"
proof -
  have "read_quoted (concat (map arg_escape s) @ CHR 0x22 # rest) = Some (s, rest)" for s
  proof (induction s)
    case Nil
    then show ?case by (cases rest) simp_all
  qed (simp add: read_quoted_escape)
  moreover have "CHR 0x0A \<notin> set (concat (map arg_escape s))" for s
    by (induction s) (simp_all add: arg_escape_def)
  ultimately show ?thesis by (simp add: argFilter_alt)
qed

end
