(* ===== verification/Controller.thy ===== *)
theory Controller
  imports Dispatcher Templates
begin

text \<open>
  The entry points of the controller beside \<^verbatim>\<open>HandleWithMeta\<close>: the uniform handlers of the table of routes
  (\<^verbatim>\<open>dispatch_routes.go\<close>, \<^verbatim>\<open>flow_routes.go\<close>), the adapters that hand the controller to the routes and the
  commands, and the methods and helpers that stayed when commands and routes moved to packages of their
  own (\<^verbatim>\<open>controller_*.go\<close>). Several of these are second copies of code that is served elsewhere; that the
  copies still agree is what this theory shows.
\<close>

section \<open>The table of routes (dispatch\_routes.go, flow\_routes.go)\<close>

type_synonym open_route_handler = "env \<Rightarrow> cref \<Rightarrow> gsc_stream \<Rightarrow> params \<Rightarrow> server \<Rightarrow> route_result"

text \<open>The routes that delegate to an implementation in their own package.\<close>

definition flow_TryEnter :: open_route_handler where
  "flow_TryEnter e c req p st = TryEnter e c req p st"

definition flow_RegNewRoom :: open_route_handler where
  "flow_RegNewRoom e c req p st = RegNewRoom e c req p st"

definition flow_JoinGame :: "env \<Rightarrow> cref \<Rightarrow> gsc_stream option \<Rightarrow> params \<Rightarrow> server \<Rightarrow> route_result" where
  "flow_JoinGame e c req p st = JoinGame e c req p st"

definition flow_RoomInfo :: "env \<Rightarrow> cref \<Rightarrow> gsc_stream option \<Rightarrow> params \<Rightarrow> server \<Rightarrow> route_result" where
  "flow_RoomInfo e c req p st = RoomInfo e c req p st"

text \<open>The stream is not looked at.\<close>

definition flow_JoinPlayer :: "env \<Rightarrow> cref \<Rightarrow> gsc_stream option \<Rightarrow> params \<Rightarrow> server \<Rightarrow> route_result" where
  "flow_JoinPlayer e c req p st = JoinPlayer e c p st"

text \<open>The handlers of the table: arguments a route does not need are dropped.\<close>

definition routesEnter :: open_route_handler where "routesEnter e c req p st = Enter e c req p st"
definition routesTryEnter :: open_route_handler where "routesTryEnter e c req p st = flow_TryEnter e c req p st"
definition routesStartup :: open_route_handler where "routesStartup e c req p st = Startup e c req st"
definition routesResize :: open_route_handler where "routesResize e c req p st = Resize c p st"
definition routesNewRoomDialog :: open_route_handler where "routesNewRoomDialog e c req p st = NewRoomDialog e req p st"
definition routesRegNewRoom :: open_route_handler where "routesRegNewRoom e c req p st = flow_RegNewRoom e c req p st"
definition routesJoinGame :: open_route_handler where "routesJoinGame e c req p st = flow_JoinGame e c (Some req) p st"
definition routesRoomInfo :: open_route_handler where "routesRoomInfo e c req p st = flow_RoomInfo e c (Some req) p st"
definition routesJoinPlayer :: open_route_handler where "routesJoinPlayer e c req p st = flow_JoinPlayer e c (Some req) p st"
definition routesUserDetails :: open_route_handler where "routesUserDetails e c req p st = UserDetails e c p st"
definition routesUsersList :: open_route_handler where "routesUsersList e c req p st = UsersList e req st"
definition routesTournaments :: open_route_handler where "routesTournaments e c req p st = Tournaments e req p st"
definition routesLCNRegistrationDialog :: open_route_handler where
  "routesLCNRegistrationDialog e c req p st = LCNRegistrationDialog e req st"
definition routesGGCupThanks :: open_route_handler where "routesGGCupThanks e c req p st = GGCupThanks e req st"

lemmas route_adapters =
  routesEnter_def routesTryEnter_def routesStartup_def routesResize_def routesNewRoomDialog_def
  routesRegNewRoom_def routesJoinGame_def routesRoomInfo_def routesJoinPlayer_def routesUserDetails_def
  routesUsersList_def routesTournaments_def routesLCNRegistrationDialog_def routesGGCupThanks_def
  flow_TryEnter_def flow_RegNewRoom_def flow_JoinGame_def flow_RoomInfo_def flow_JoinPlayer_def

definition open_route_table :: "(string \<times> open_route_handler) list" where
  "open_route_table =
     [(''enter'', routesEnter), (''try_enter'', routesTryEnter), (''startup'', routesStartup),
      (''games'', routesStartup), (''rooms_table_dgl'', routesStartup), (''resize'', routesResize),
      (''new_room_dgl'', routesNewRoomDialog), (''reg_new_room'', routesRegNewRoom),
      (''join_game'', routesJoinGame), (''room_info_dgl'', routesRoomInfo), (''join_pl_cmd'', routesJoinPlayer),
      (''user_details'', routesUserDetails), (''users_list'', routesUsersList), (''tournaments'', routesTournaments),
      (''lcn_registration_dgl'', routesLCNRegistrationDialog), (''gg_cup_thanks_dgl'', routesGGCupThanks)]"

section \<open>open and go (dispatcher.go, dispatch\_parse.go)\<close>

definition parseOpenParams :: "string \<Rightarrow> params" where
  "parseOpenParams ps = ParseOpenParams ps"

definition DispatchOpen :: "env \<Rightarrow> cref \<Rightarrow> gsc_stream \<Rightarrow> dispatch" where
  "DispatchOpen e c req method p st = dispatchOpen e c req method p st"

definition handleOpen :: "env \<Rightarrow> cref \<Rightarrow> gsc_stream \<Rightarrow> string list \<Rightarrow> server \<Rightarrow> route_result" where
  "handleOpen e c req args st =
     (if args = [] then (([], None), st)
      else
        let rawURL = trim_space (replace_char (CHR 0x00) [] (args ! 0));
            url = trim_suffix rawURL ''.dcml'';
            params = (if 1 < length args then parseOpenParams (replace_char (CHR 0x00) [] (args ! 1)) else Map.empty)
        in dispatchOpen e c req url params st)"

section \<open>Commands (controller\_stats.go, controller\_game.go, controller\_gettbl.go)\<close>

definition handleStatsLocked :: "env \<Rightarrow> cref \<Rightarrow> string list \<Rightarrow> server \<Rightarrow> handler_error option \<times> server" where
  "handleStatsLocked e c args st = (case Stats_Handle e c args st of (res, st') \<Rightarrow> (hr_Err res, st'))"

definition handleStats :: "env \<Rightarrow> cref \<Rightarrow> string list \<Rightarrow> server \<Rightarrow> handler_error option \<times> server" where
  "handleStats e c args st = handleStatsLocked e c args st"

definition parseEndgame :: "cref \<Rightarrow> string list \<Rightarrow> server \<Rightarrow> endgame_event option" where
  "parseEndgame c args st =
     (let i = (case session_of c st of None \<Rightarrow> 0 | Some s \<Rightarrow> ss_PlayerID s)
      in ParseEndgame args i (lookup_player st) (lookup_room st))"

definition handleStart :: "env \<Rightarrow> cref \<Rightarrow> string list \<Rightarrow> server \<Rightarrow> (unit, handler_error option \<times> server) outcome" where
  "handleStart e c args st =
     (case Start_Handle e c args st of
        Ok (res, st') \<Rightarrow> Ok (hr_Err res, st') | Panic \<Rightarrow> Panic | Fail u \<Rightarrow> Fail u)"

definition handleGETTBL ::
  "env \<Rightarrow> cref \<Rightarrow> gsc_stream \<Rightarrow> string list \<Rightarrow> server \<Rightarrow> gsc_command list \<times> handler_error option" where
  "handleGETTBL e c req args st =
     (let res = GETTBL_Handle e c req args st in (hr_Commands res, hr_Err res))"

section \<open>Rooms and accounts (controller\_room.go, controller\_auth.go, controller\_alive.go)\<close>

definition controller_joinGame :: open_route_handler where
  "controller_joinGame e c req p st = JoinGame e c (Some req) p st"

definition controller_roomInfo :: open_route_handler where
  "controller_roomInfo e c req p st = RoomInfo e c (Some req) p st"

definition controller_joinPlayer :: "env \<Rightarrow> cref \<Rightarrow> params \<Rightarrow> server \<Rightarrow> route_result" where
  "controller_joinPlayer e c p st = JoinPlayer e c p st"

definition controller_tryEnter :: open_route_handler where
  "controller_tryEnter e c req p st = TryEnter e c req p st"

definition RefreshAlive :: "env \<Rightarrow> cref \<Rightarrow> server \<Rightarrow> server" where
  "RefreshAlive e c st = refreshAlive e c st"

definition ArmAliveTimer :: "env \<Rightarrow> u32 \<Rightarrow> server \<Rightarrow> server" where
  "ArmAliveTimer e i st = armAliveTimer e i st"

definition Controller_PostAccountAction ::
  "env \<Rightarrow> cref \<Rightarrow> string \<Rightarrow> start_payload option \<Rightarrow> server \<Rightarrow> server" where
  "Controller_PostAccountAction e c action payload st = postAccountAction e c action payload st"

text \<open>The adapters handed to the routes (\<^verbatim>\<open>routes_lifecycle_adapter.go\<close>, \<^verbatim>\<open>routes_ranking_adapter.go\<close>).\<close>

definition adapter_LeaveByPlayer :: "env \<Rightarrow> u32 \<Rightarrow> server \<Rightarrow> server" where
  "adapter_LeaveByPlayer e i st = leaveRoomByID e i st"

definition adapter_ArmAliveTimer :: "env \<Rightarrow> u32 \<Rightarrow> server \<Rightarrow> server" where
  "adapter_ArmAliveTimer e i st = armAliveTimer e i st"

text \<open>\<open>wired\<close> says whether the adapter has a controller, and that a ranking.\<close>

definition loadLCNRanking :: "bool \<Rightarrow> env \<Rightarrow> server \<Rightarrow> jobject option \<times> server" where
  "loadLCNRanking wired e st = (if wired then load_lcn e st else (None, st))"

definition loadGGCup :: "bool \<Rightarrow> env \<Rightarrow> server \<Rightarrow> jobject option \<times> server" where
  "loadGGCup wired e st = (if wired then load_cup e st else (None, st))"

definition adapter_LCNPlaceByID :: "bool \<Rightarrow> server \<Rightarrow> (string \<rightharpoonup> int) option" where
  "adapter_LCNPlaceByID wired st = (if wired then lcnPlaceByID (st_ranking st) else None)"

definition adapter_LoadLCN :: "bool \<Rightarrow> bool \<Rightarrow> env \<Rightarrow> server \<Rightarrow> jobject option \<times> server" where
  "adapter_LoadLCN has_controller wired e st = (if has_controller then loadLCNRanking wired e st else (None, st))"

definition adapter_LoadGGCup :: "bool \<Rightarrow> bool \<Rightarrow> env \<Rightarrow> server \<Rightarrow> jobject option \<times> server" where
  "adapter_LoadGGCup has_controller wired e st = (if has_controller then loadGGCup wired e st else (None, st))"

text \<open>The routes' own copies (\<^verbatim>\<open>routes/try_enter.go\<close>, \<^verbatim>\<open>routes/resize.go\<close>).\<close>

definition routes_postAccountAction ::
  "env \<Rightarrow> cref \<Rightarrow> string \<Rightarrow> start_payload option \<Rightarrow> server \<Rightarrow> server" where
  "routes_postAccountAction e c action payload st =
     (case session_of c st of
        None \<Rightarrow> st
      | Some s \<Rightarrow>
          (case ss_Account s of
             None \<Rightarrow> st
           | Some acc \<Rightarrow>
               (case PostAccountAction (ev_Providers e) (unix_time (ev_Now e))
                   (account_type_string (ac_Type acc)) (ac_ID acc) (cn_IP (conn_of c st)) action
                   (Option.bind payload (ev_PayloadJson e)) of
                  None \<Rightarrow> st
                | Some post \<Rightarrow> st\<lparr>st_posts := st_posts st @ [post]\<rparr>)))"

definition EnsureSession :: "cref \<Rightarrow> server \<Rightarrow> session \<times> server" where
  "EnsureSession c st =
     (let st1 = (if session_of c st = None then set_session c new_session st else st)
      in (the (session_of c st1), st1))"

section \<open>Rendering (controller\_render.go, render/service.go)\<close>

text \<open>A controller without a renderer falls back to the default search path.\<close>

definition controller_render ::
  "template_files \<Rightarrow> ('t, 'd) engine \<Rightarrow> string list option \<Rightarrow> u8 \<Rightarrow> string \<Rightarrow> 'd \<Rightarrow> string" where
  "controller_render fs en renderer ver name data =
     (case renderer of
        Some roots \<Rightarrow> Renderer_Render fs en (Some roots) ver name data
      | None \<Rightarrow> LoadShowBodyFromRoots fs en DefaultTemplateRoots ver name data)"

definition Service_Render :: "(u8 \<Rightarrow> string \<Rightarrow> 'd \<Rightarrow> string) option \<Rightarrow> u8 \<Rightarrow> string \<Rightarrow> 'd \<Rightarrow> string" where
  "Service_Render tpl ver name data = (case tpl of None \<Rightarrow> [] | Some f \<Rightarrow> f ver name data)"

definition controller_renderAlert :: "env \<Rightarrow> u8 \<Rightarrow> string \<Rightarrow> string \<Rightarrow> gsc_command list" where
  "controller_renderAlert e ver header txt =
     Show (ev_Render e ver ''alert_dgl.tmpl'' (zero_view\<lparr>vw_Header := header, vw_Text := txt\<rparr>))"

section \<open>Helpers (controller\_helpers.go)\<close>

definition helper_normalizePage :: "string \<Rightarrow> string" where
  "helper_normalizePage v =
     (let s = trim_space v in
      if s = [] then ''1''
      else if parse_uint 64 s = None then ''1''
      else if s \<noteq> ''1'' \<and> s \<noteq> ''2'' \<and> s \<noteq> ''3'' then ''1'' else s)"

definition helper_normalizeRes :: "string \<Rightarrow> string" where
  "helper_normalizeRes v =
     (let s = trim_space v in if s = [] then ''0'' else if parse_uint 64 s = None then ''0'' else s)"

definition setRoomPlayersColumn :: "string list \<Rightarrow> int \<Rightarrow> int \<Rightarrow> string list" where
  "setRoomPlayersColumn row playersCount maxPlayers =
     (if row = [] then row
      else
        let idx = int (length row) - 4;
            idx = (if idx < 0 then int (length row) - 1 else idx)
        in row[nat idx := fmt_d playersCount @ CHR ''/'' # fmt_d maxPlayers])"

definition timeIntervalFromElapsedSec :: "int \<Rightarrow> string" where
  "timeIntervalFromElapsedSec secs = TimeIntervalFromElapsedSec secs"

definition ensureSessionRoutes :: "cref \<Rightarrow> server \<Rightarrow> session \<times> server" where
  "ensureSessionRoutes c st =
     (case session_of c st of
        Some s \<Rightarrow> (s, st)
      | None \<Rightarrow> (new_session, set_conn c ((conn_of c st)\<lparr>cn_Session := Some new_session\<rparr>) st))"

section \<open>The copies agree\<close>

lemma handleOpen_agrees:
  "Open_Handle (dispatchOpen e c req) args st =
    (case handleOpen e c req args st of ((cmds, err), st') \<Rightarrow>
       (\<lparr>hr_Commands = cmds, hr_HasResponse = True, hr_Err = err\<rparr>, st'))"
proof (cases args)
  case (Cons a others)
  then show ?thesis
    by (cases others) (simp_all add: Open_Handle_def handleOpen_def Let_def no_nul_def parseOpenParams_def split_beta)
qed (simp add: Open_Handle_def handleOpen_def respond_def)

lemma Start_Handle_silent:
  "Start_Handle e c args st = Ok (res, st') \<Longrightarrow> hr_Commands res = [] \<and> \<not> hr_HasResponse res"
  by (auto simp: Start_Handle_def Let_def silent_def silent_err_def split: if_splits option.splits outcome.splits)

lemma registered_commands:
  "HandleWithMeta e c req ''start'' args st = Start_Handle e c args st"
  "HandleWithMeta e c req ''GETTBL'' args st = Ok (GETTBL_Handle e c req args st, st)"
  "HandleWithMeta e c req ''endgame'' args st = Ok (Endgame_Handle c args st)"
  "HandleWithMeta e c req ''open'' args st = Ok (Open_Handle (dispatchOpen e c req) args st)"
  by (simp_all add: HandleWithMeta_def Lookup_def defaultCommandRegistry_def Registry_Register_def)

lemma handleStart_agrees:
  "HandleWithMeta e c req ''start'' args st =
    (case handleStart e c args st of
       Ok (err, st') \<Rightarrow> Ok (\<lparr>hr_Commands = [], hr_HasResponse = False, hr_Err = err\<rparr>, st')
     | Panic \<Rightarrow> Panic | Fail u \<Rightarrow> Fail u)"
proof (cases "Start_Handle e c args st")
  case (Ok r)
  obtain res st' where r: "r = (res, st')" by (cases r)
  have "res = \<lparr>hr_Commands = [], hr_HasResponse = False, hr_Err = hr_Err res\<rparr>"
    using Start_Handle_silent [OF Ok [unfolded r]] by (cases res) simp
  then show ?thesis using Ok by (simp add: registered_commands handleStart_def r)
qed (simp_all add: registered_commands handleStart_def)

lemma openRoutes_agree:
  "openRoutes e c req m = map_option (\<lambda>h. h e c req) (map_of open_route_table m)"
  by (simp add: openRoutes_def open_route_table_def route_adapters [abs_def])

lemma open_route_names:
  "distinct (map fst open_route_table)" "fst ` set open_route_table \<inter> unimplementedOpenRoutes = {}"
  by (simp_all add: open_route_table_def unimplementedOpenRoutes_def)

lemma setRoomPlayersColumn_agrees: "setRoomPlayersColumn row n m = setPlayersColumn row n m"
proof -
  have "nat (int k - 4) = k - 4" "nat (int k - 1) = k - 1" for k :: nat by linarith+
  then show ?thesis
    by (simp add: setRoomPlayersColumn_def setPlayersColumn_def players_idx_def players_cell_def Let_def)
qed

lemma helpers_agree:
  "helper_normalizePage v = normalizePage v" "helper_normalizeRes v = normalizeRes v"
  "ensureSessionRoutes c st = ensureSession c st" "EnsureSession c st = ensureSession c st"
  "routes_postAccountAction e c action payload st = postAccountAction e c action payload st"
  "controller_renderAlert e ver header txt = renderAlert e ver header txt"
  by (simp_all add: helper_normalizePage_def helper_normalizeRes_def normalizePage_def normalizeRes_def
      ensureSessionRoutes_def EnsureSession_def ensureSession_def set_session_def session_of_def
      routes_postAccountAction_def postAccountAction_def controller_renderAlert_def renderAlert_def
      render_show_def split: option.splits)

lemma controller_render_agrees: "controller_render fs en r ver name data = Renderer_Render fs en r ver name data"
  by (simp add: controller_render_def Renderer_Render_def Roots_def split: option.splits)

section \<open>Values of a query\<close>

lemma parse_uint_plain:
  assumes "parse_uint b s = Some n"
  shows "trim_space s = s" and "s \<noteq> []"
proof -
  have s: "s \<noteq> []" "list_all is_digit s" using assms by (auto simp: parse_uint_def split: if_splits)
  then have "\<forall>c\<in>set s. plain_char c" by (auto simp: list_all_iff is_digit_def plain_char_def)
  with s have "plain_char (hd s)" "plain_char (last s)" by simp_all
  with s show "trim_space s = s" and "s \<noteq> []" by (simp_all add: trim_space_plain)
qed

lemma normalizeRes_parses: "\<exists>n. parse_uint 64 (normalizeRes v) = Some n"
proof (cases "trim_space v = [] \<or> parse_uint 64 (trim_space v) = None")
  case True
  have "list_all is_digit ''0''" "dec_val 0 ''0'' = 0" by code_simp+
  then have "parse_uint 64 ''0'' = Some 0" by (simp add: parse_uint_def)
  with True show ?thesis by (auto simp: normalizeRes_def Let_def)
qed (auto simp: normalizeRes_def Let_def)

lemma normalizePage_parses: "\<exists>n. parse_uint 64 (normalizePage v) = Some n"
proof -
  have "list_all is_digit ''1''" "dec_val 0 ''1'' = 1" by code_simp+
  then have "parse_uint 64 ''1'' = Some 1" by (simp add: parse_uint_def)
  then show ?thesis by (auto simp: normalizePage_def Let_def)
qed

lemma normalizePage_range: "normalizePage v \<in> {''1'', ''2'', ''3''}"
  by (auto simp: normalizePage_def Let_def)

text \<open>
  Whatever a query holds, the page it asks for is the first, the second or the third, and the resource
  is a decimal number of at most 64 bits; normalising a second time changes nothing. The controller's
  copies of these helpers, and of the one that writes the players into a row, give the same values.
\<close>

theorem query_values_bounded:
  "normalizePage v \<in> {''1'', ''2'', ''3''} \<and> normalizePage (normalizePage v) = normalizePage v \<and>
   (\<exists>n. parse_uint 64 (normalizeRes v) = Some n \<and> n < 2 ^ 64) \<and>
   normalizeRes (normalizeRes v) = normalizeRes v \<and>
   helper_normalizePage v = normalizePage v \<and> helper_normalizeRes v = normalizeRes v \<and>
   setRoomPlayersColumn row n m = setPlayersColumn row n m"
proof -
  obtain k where res: "parse_uint 64 (normalizeRes v) = Some k" using normalizeRes_parses by blast
  obtain l where page: "parse_uint 64 (normalizePage v) = Some l" using normalizePage_parses by blast
  have "normalizeRes (normalizeRes v) = normalizeRes v"
    using parse_uint_plain [OF res] res by (simp add: normalizeRes_def [of "normalizeRes v"] Let_def)
  moreover have "normalizePage (normalizePage v) = normalizePage v"
    using parse_uint_plain [OF page] page normalizePage_range [of v]
    by (auto simp: normalizePage_def [of "normalizePage v"] Let_def)
  ultimately show ?thesis
    using parse_uint_bound [OF res] res normalizePage_range helpers_agree setRoomPlayersColumn_agrees by blast
qed

end
