(* ===== verification/Cossacksd.thy ===== *)
theory Cossacksd
  imports Conn_Loop Templates
begin

text \<open>
  The start of the program (\<^verbatim>\<open>cmd/cossacksd/main.go\<close>) and what it resolves from flags and configuration:
  logging options (\<^verbatim>\<open>platform/logging\<close>), the addresses of the HTTP listeners
  (\<^verbatim>\<open>platform/metrics/resolve.go\<close>, \<^verbatim>\<open>platform/health/resolve.go\<close>), the frame limit, and the list of
  services that run; and the answers of the probes (\<^verbatim>\<open>platform/health/probes.go\<close>).

  The loggers, the metrics registry and the HTTP server itself are third-party code that the program
  only calls.
\<close>

section \<open>Logging (logging.go)\<close>

datatype log_format = FormatUser | FormatJSON

record log_options =
  lo_Format :: log_format
  lo_File :: string

definition ParseFormat :: "string \<Rightarrow> log_format option" where
  "ParseFormat s =
     (let t = to_lower (trim_space s) in
      if t = [] \<or> t = ''user'' then Some FormatUser else if t = ''json'' then Some FormatJSON else None)"

text \<open>A flag that is not blank wins over the configuration; \<open>None\<close> is the nil configuration.\<close>

definition flag_or :: "string \<Rightarrow> string option \<Rightarrow> string" where
  "flag_or flag conf =
     (if trim_space flag = [] then (case conf of None \<Rightarrow> [] | Some c \<Rightarrow> trim_space c) else trim_space flag)"

definition ResolveOptions :: "config option \<Rightarrow> string \<Rightarrow> string \<Rightarrow> log_options option" where
  "ResolveOptions cfg formatFlag fileFlag =
     (let formatStr = flag_or formatFlag (map_option (\<lambda>c. lg_Format (cf_Log c)) cfg);
          formatStr = (if formatStr = [] then ''user'' else formatStr)
      in
        (case ParseFormat formatStr of
           None \<Rightarrow> None
         | Some f \<Rightarrow>
             Some \<lparr>lo_Format = f, lo_File = flag_or fileFlag (map_option (\<lambda>c. lg_File (cf_Log c)) cfg)\<rparr>))"

section \<open>Addresses (resolve.go)\<close>

definition ResolveAddr :: "config option \<Rightarrow> string \<Rightarrow> string" where
  "ResolveAddr cfg flag = flag_or flag (map_option (\<lambda>c. mt_Addr (cf_Metrics c)) cfg)"

definition ResolveProbeAddr :: "config option \<Rightarrow> string \<Rightarrow> string" where
  "ResolveProbeAddr cfg flag = flag_or flag (map_option (\<lambda>c. mt_ProbeAddr (cf_Metrics c)) cfg)"

section \<open>Probes (probes.go)\<close>

text \<open>Status and body of an answer; the outer \<open>None\<close> is a storage that was not configured.\<close>

definition livez :: "nat \<times> string" where
  "livez = (200, ''ok'' @ [CHR 0x0A])"

definition readyz :: "runtime_storage option option \<Rightarrow> nat \<times> string" where
  "readyz storage =
     (case storage of
        None \<Rightarrow> (503, ''runtime storage not configured'' @ [CHR 0x0A])
      | Some so \<Rightarrow>
          if Ping so \<noteq> None then (503, ''runtime storage unavailable'' @ [CHR 0x0A])
          else (200, ''ok'' @ [CHR 0x0A]))"

section \<open>HTTP listeners (probes.go, health/http.go, metrics/http.go)\<close>

text \<open>A mux as the answer of each path; the page of the metrics registry is a parameter.\<close>

type_synonym mux = "string \<rightharpoonup> nat \<times> string"

definition MountProbes :: "runtime_storage option option \<Rightarrow> mux \<Rightarrow> mux" where
  "MountProbes storage m = m(''/livez'' \<mapsto> livez, ''/readyz'' \<mapsto> readyz storage)"

datatype listen_error = ServerClosed | ListenError string

definition ListenAndServeMux :: "listen_error \<Rightarrow> string option" where
  "ListenAndServeMux err = (case err of ServerClosed \<Rightarrow> None | ListenError e \<Rightarrow> Some e)"

definition health_ListenAndServe :: "runtime_storage option option \<Rightarrow> listen_error \<Rightarrow> mux \<times> string option" where
  "health_ListenAndServe storage err = (MountProbes storage Map.empty, ListenAndServeMux err)"

text \<open>Without an address nothing is served and the end of the context is awaited.\<close>

definition metrics_ListenAndServe ::
  "string \<Rightarrow> string option \<Rightarrow> runtime_storage option option \<Rightarrow> listen_error \<Rightarrow> mux \<times> string option" where
  "metrics_ListenAndServe addr page storage err =
     (if addr = [] then (Map.empty, None)
      else
        let m = MountProbes storage Map.empty;
            m = (case page of None \<Rightarrow> m | Some body \<Rightarrow> m(''/metrics'' \<mapsto> (200, body)))
        in (m, ListenAndServeMux err))"

section \<open>The program (main.go)\<close>

record flags =
  fl_LogFormat :: string
  fl_LogFile :: string
  fl_MetricsAddr :: string
  fl_ProbeAddr :: string
  fl_IRCProxyAddr :: string

datatype service =
    STUN string int int
  | TCPServer string int u32
  | MetricsHTTP string
  | ProbesHTTP string
  | IRCProxy string string

datatype program = Exits string | Runs log_options "service list"

definition gscMaxFrameBytes :: "gsc_config \<Rightarrow> u32" where
  "gscMaxFrameBytes c = (if gc_MaxFrameBytes c = 0 then DefaultGSCMaxFrameBytes else gc_MaxFrameBytes c)"

definition public_host :: "config \<Rightarrow> config" where
  "public_host cfg =
     (if sv_Host (cf_Server cfg) = ''localhost''
      then cfg\<lparr>cf_Server := (cf_Server cfg)\<lparr>sv_Host := ''0.0.0.0''\<rparr>\<rparr> else cfg)"

definition irc_config :: "flags \<Rightarrow> config \<Rightarrow> irc_proxy_config" where
  "irc_config fl cfg =
     (if fl_IRCProxyAddr fl \<noteq> []
      then (cf_IRCProxy cfg)\<lparr>ip_Addr := fl_IRCProxyAddr fl, ip_Enabled := True\<rparr> else cf_IRCProxy cfg)"

definition http_services :: "string \<Rightarrow> string \<Rightarrow> service list" where
  "http_services metricsAddr probeAddr =
     (if metricsAddr \<noteq> []
      then MetricsHTTP metricsAddr #
        (if probeAddr \<noteq> [] \<and> probeAddr \<noteq> metricsAddr then [ProbesHTTP probeAddr] else [])
      else if probeAddr \<noteq> [] then [ProbesHTTP probeAddr] else [])"

definition services :: "flags \<Rightarrow> config \<Rightarrow> service list" where
  "services fl cfg =
     (let sv = cf_Server cfg; irc = irc_config fl cfg in
      [STUN (sv_Host sv) (sv_HolePort sv) (gm_HoleInterval (cf_Game cfg)),
       TCPServer (sv_Host sv) (sv_Port sv) (gscMaxFrameBytes (cf_GSC cfg))] @
      http_services (ResolveAddr (Some cfg) (fl_MetricsAddr fl)) (ResolveProbeAddr (Some cfg) (fl_ProbeAddr fl)) @
      (if ip_Enabled irc \<and> ip_Addr irc \<noteq> [] then [IRCProxy (ip_Listen irc) (ip_Addr irc)] else []))"

text \<open>
  \<open>loaded\<close> is the result of \<^verbatim>\<open>config.Load\<close>; \<open>logger_ok\<close> and \<open>metrics_ok\<close> say whether the logger and the
  metrics registry could be built.
\<close>

definition cossacksd :: "bool \<Rightarrow> bool \<Rightarrow> flags \<Rightarrow> config option \<Rightarrow> program" where
  "cossacksd logger_ok metrics_ok fl loaded =
     (case loaded of
        None \<Rightarrow> Exits ''load config''
      | Some cfg0 \<Rightarrow>
          (let cfg = public_host cfg0 in
           case ResolveOptions (Some cfg) (fl_LogFormat fl) (fl_LogFile fl) of
             None \<Rightarrow> Exits ''logging''
           | Some opts \<Rightarrow>
               if \<not> logger_ok then Exits ''logging''
               else if ResolveAddr (Some cfg) (fl_MetricsAddr fl) \<noteq> [] \<and> \<not> metrics_ok then Exits ''metrics''
               else Runs opts (services fl cfg)))"

section \<open>Properties\<close>

text \<open>
  C25. Whatever the configuration says, the program that runs serves the game and the endpoint discovery
  on one host, which is never \<open>localhost\<close>, and its frame limit is not zero, the value that would mean no
  limit: so every request the server reads is a frame of at most that many bytes.
\<close>

theorem frames_are_limited:
  assumes "cossacksd logger_ok metrics_ok fl loaded = Runs opts svs"
  shows "\<exists>host port hole keepAlive limit.
    set svs \<inter> {s. \<exists>h p m. s = TCPServer h p m} = {TCPServer host port limit} \<and>
    STUN host hole keepAlive \<in> set svs \<and> host \<noteq> ''localhost'' \<and>
    (\<forall>inflate input req rest. ReadFrom inflate limit input = Ok (req, rest) \<longrightarrow>
      (\<exists>frame. input = frame @ rest \<and> headerSize \<le> length frame \<and> length frame \<le> unat limit))"
proof -
  obtain cfg where svs: "svs = services fl (public_host cfg)"
    using assms by (auto simp: cossacksd_def Let_def split: option.splits if_splits)
  let ?cfg = "public_host cfg"
  let ?host = "sv_Host (cf_Server ?cfg)" and ?limit = "gscMaxFrameBytes (cf_GSC ?cfg)"
  have http: "TCPServer h p m \<notin> set (http_services a b)" for h p m a b
    by (simp add: http_services_def)
  have tcp: "set svs \<inter> {s. \<exists>h p m. s = TCPServer h p m} = {TCPServer ?host (sv_Port (cf_Server ?cfg)) ?limit}"
    unfolding svs services_def Let_def using http by auto
  have stun: "STUN ?host (sv_HolePort (cf_Server ?cfg)) (gm_HoleInterval (cf_Game ?cfg)) \<in> set svs"
    by (simp add: svs services_def Let_def)
  have "?host \<noteq> ''localhost''" by (simp add: public_host_def)
  moreover have "?limit \<noteq> 0" by (simp add: gscMaxFrameBytes_def DefaultGSCMaxFrameBytes_def)
  moreover have "\<exists>frame. input = frame @ rest \<and> headerSize \<le> length frame \<and> length frame \<le> unat limit"
    if "ReadFrom inflate limit input = Ok (req, rest)" "limit \<noteq> 0" for inflate limit input req rest
    using ReadFrom_frame [OF that(1)] that(2) by blast
  ultimately show ?thesis using tcp stun by blast
qed

definition demo_flags :: flags where
  "demo_flags = \<lparr>fl_LogFormat = ''json'', fl_LogFile = [], fl_MetricsAddr = [], fl_ProbeAddr = [],
     fl_IRCProxyAddr = []\<rparr>"

lemma demo_flags_run:
  "\<exists>opts. cossacksd True True demo_flags (Some cfg) = Runs opts (services demo_flags (public_host cfg))"
proof -
  have "trim_space ''json'' = ''json''" "ParseFormat ''json'' = Some FormatJSON" by code_simp+
  then show ?thesis by (simp add: cossacksd_def Let_def ResolveOptions_def flag_or_def demo_flags_def)
qed

theorem frames_are_limited_witness:
  "\<exists>opts svs host port limit. cossacksd True True demo_flags (Some demo_config) = Runs opts svs \<and>
    TCPServer host port limit \<in> set svs \<and> host \<noteq> ''localhost''"
proof -
  obtain opts where run: "cossacksd True True demo_flags (Some demo_config) =
      Runs opts (services demo_flags (public_host demo_config))"
    using demo_flags_run by blast
  from frames_are_limited [OF run] obtain host port limit where
    tcp: "set (services demo_flags (public_host demo_config)) \<inter> {s. \<exists>h p m. s = TCPServer h p m} =
      {TCPServer host port limit}" and host: "host \<noteq> ''localhost''"
    by (elim exE conjE) (rule that)
  from tcp have "TCPServer host port limit \<in> set (services demo_flags (public_host demo_config))" by blast
  with run host show ?thesis by (intro exI conjI)
qed

text \<open>The address a service listens on for HTTP, and what it serves there.\<close>

fun http_address :: "service \<Rightarrow> string option" where
  "http_address (MetricsHTTP a) = Some a"
| "http_address (ProbesHTTP a) = Some a"
| "http_address _ = None"

fun http_mux :: "string option \<Rightarrow> runtime_storage option option \<Rightarrow> service \<Rightarrow> mux" where
  "http_mux page storage (MetricsHTTP a) = fst (metrics_ListenAndServe a page storage ServerClosed)"
| "http_mux page storage (ProbesHTTP a) = fst (health_ListenAndServe storage ServerClosed)"
| "http_mux page storage _ = Map.empty"

text \<open>
  The HTTP listeners never share an address. An address that is configured, for metrics or for probes,
  has a listener, and every listener answers both probes; the metrics page is served on the address of
  the metrics and nowhere else. Without addresses there is no listener.
\<close>

theorem listeners_serve_probes:
  "let svs = http_services metricsAddr probeAddr; addr = (\<lambda>s. the (http_address s)) in
    distinct (map addr svs) \<and> addr ` set svs = {metricsAddr, probeAddr} - {[]} \<and>
    list_all (\<lambda>s. http_mux (Some page) storage s ''/livez'' = Some livez \<and>
      http_mux (Some page) storage s ''/readyz'' = Some (readyz storage) \<and>
      http_mux (Some page) storage s ''/metrics'' = (if addr s = metricsAddr then Some (200, page) else None)) svs"
  by (auto simp: http_services_def Let_def metrics_ListenAndServe_def health_ListenAndServe_def MountProbes_def)

end
