(* ===== verification/Logs.thy ===== *)
theory Logs
  imports Cossacksd
begin

text \<open>
  What the program logs and how: the logger that \<^verbatim>\<open>platform/logging\<close> asks for, the forwarder that turns the
  log lines of the metrics library into entries of that logger (\<^verbatim>\<open>platform/metrics/deckhouse_zap.go\<close>), and
  what the loop of a connection reports of a body it sends (\<^verbatim>\<open>transport/tcp/server.go\<close>): its first bytes,
  and the endpoint variables that the game client will read from it.

  The encoders and the rotation of files are third-party code; the model says which are chosen.
\<close>

section \<open>The logger (logging.go)\<close>

text \<open>Levels are numbers: debug -1, info 0, warn 1, error 2. A level of 0 counts as not set.\<close>

datatype log_encoder = JSONLines | Console bool
datatype log_sink = Stdout | Rotated string nat nat nat bool

record logger =
  lr_Encoder :: log_encoder
  lr_Sink :: log_sink
  lr_Level :: int

text \<open>\<open>Console\<close> says whether levels are coloured, \<open>Rotated\<close> the file, its size, copies, days, compression.\<close>

definition New_logger :: "log_options \<Rightarrow> int \<Rightarrow> logger" where
  "New_logger opts level =
     (let toFile = lo_File opts \<noteq> [];
          lvl = (if level = 0 then (if lo_Format opts = FormatUser \<and> \<not> toFile then - 1 else 0) else level)
      in \<lparr>lr_Encoder = (case lo_Format opts of FormatJSON \<Rightarrow> JSONLines | FormatUser \<Rightarrow> Console (\<not> toFile)),
          lr_Sink = (if toFile then Rotated (lo_File opts) 100 3 28 True else Stdout), lr_Level = lvl\<rparr>)"

section \<open>The forwarder (deckhouse\_zap.go)\<close>

datatype zap_level = DebugLevel | InfoLevel | WarnLevel | ErrorLevel

definition deckhouseLevelToZap :: "string \<Rightarrow> zap_level" where
  "deckhouseLevelToZap s =
     (let t = to_lower (trim_space s) in
      if t = ''error'' then ErrorLevel
      else if t = ''warn'' \<or> t = ''warning'' then WarnLevel
      else if t = ''info'' then InfoLevel
      else if t = ''debug'' then DebugLevel
      else if t = ''trace'' then DebugLevel
      else InfoLevel)"

datatype log_entry =
    Entry zap_level string "(string \<times> json) list"
  | RawEntry bytes

text \<open>\<^verbatim>\<open>v, _ := x.(string)\<close>: the zero value for anything else.\<close>

fun as_text :: "json \<Rightarrow> string" where
  "as_text (JStr s) = s"
| "as_text _ = []"

text \<open>
  One \<^verbatim>\<open>Write\<close>: the number of bytes it reports and the entry it makes. \<open>order\<close> is the order in which the map
  is walked; a JSON \<^verbatim>\<open>null\<close> leaves a nil map.
\<close>

definition deckhouse_Write ::
  "json_decoder \<Rightarrow> (string set \<Rightarrow> string list) \<Rightarrow> bytes \<Rightarrow> nat \<times> log_entry option" where
  "deckhouse_Write unmarshal order p =
     (let line = trim_space p in
      if line = [] then (length p, None)
      else
        (case unmarshal line of
           None \<Rightarrow> (length p, Some (RawEntry line))
         | Some mo \<Rightarrow>
             let m = nil_map mo;
                 msg = as_text (field m ''msg'');
                 msg = (if msg = [] then ''deckhouse_log'' else msg);
                 lvl = deckhouseLevelToZap (as_text (field m ''level''));
                 fields = map (\<lambda>k. (k, field m k)) (filter (\<lambda>k. k \<noteq> ''msg'' \<and> k \<noteq> ''level'') (order (dom m)))
             in (length p, Some (Entry lvl msg fields))))"

section \<open>A body that is sent (server.go)\<close>

text \<open>The text before and after the first occurrence of a pattern.\<close>

fun cut_text :: "string \<Rightarrow> string \<Rightarrow> (string \<times> string) option" where
  "cut_text pat [] = (if pat = [] then Some ([], []) else None)"
| "cut_text pat (c # s) =
     (if has_prefix (c # s) pat then Some ([], drop (length pat) (c # s))
      else map_option (\<lambda>(a, b). (c # a, b)) (cut_text pat s))"

definition body_preview :: "string \<Rightarrow> string" where
  "body_preview body =
     replace_char (CHR 0x0A) [CHR 0x5C, CHR ''n''] (if 140 < length body then take 140 body else body)"

definition extractGVar :: "string \<Rightarrow> string \<Rightarrow> string" where
  "extractGVar body key =
     (case cut_text (CHR ''%'' # key @ ''&'') body of
        None \<Rightarrow> []
      | Some (_, rest) \<Rightarrow>
          (case cut_text ''&%'' rest of
             Some (v, _) \<Rightarrow> v
           | None \<Rightarrow> (case index_byte (CHR 0x00) rest of Some z \<Rightarrow> take z rest | None \<Rightarrow> rest)))"

definition logs_endpoint :: "string \<Rightarrow> bool" where
  "logs_endpoint body \<longleftrightarrow> contains_text body ''%CG_HOLEHOST&'' \<or> contains_text body ''%CG_HOLEPORT&''"

section \<open>What the forwarder keeps\<close>

text \<open>
  Every line the metrics library logs is reported as written completely and makes one entry, a blank
  line none. A line that is an object keeps each of its fields once with its value, and its message and
  level when they are texts; but a message that is not a text is lost: it becomes neither the message nor
  a field.
\<close>

theorem log_lines_kept:
  assumes order: "iteration_of m (order (dom m))" and line: "trim_space p \<noteq> []"
    and obj: "unmarshal (trim_space p) = Some (Some m)"
  shows "\<exists>lvl msg fields. deckhouse_Write unmarshal order p = (length p, Some (Entry lvl msg fields)) \<and>
    distinct (map fst fields) \<and> map_of fields = m |` (- {''msg'', ''level''}) \<and> msg \<noteq> [] \<and>
    (\<forall>s. m ''msg'' = Some (JStr s) \<longrightarrow> msg = (if s = [] then ''deckhouse_log'' else s)) \<and>
    (\<forall>v. m ''msg'' = Some v \<longrightarrow> (\<nexists>s. v = JStr s) \<longrightarrow> msg = ''deckhouse_log'')"
proof -
  define ks where "ks = filter (\<lambda>k. k \<noteq> ''msg'' \<and> k \<noteq> ''level'') (order (dom m))"
  have ks: "distinct ks" "set ks = dom m - {''msg'', ''level''}"
    using order by (auto simp: ks_def iteration_of_def)
  define fs where "fs = map (\<lambda>k. (k, field m k)) ks"
  have fst_fs: "map fst fs = ks" by (simp add: fs_def comp_def)
  have fields: "map_of fs = m |` (- {''msg'', ''level''})"
  proof
    fix k
    have "map_of fs k = (if k \<in> set ks then Some (field m k) else None)"
      by (simp add: fs_def map_of_map_restrict restrict_map_def)
    also have "\<dots> = (m |` (- {''msg'', ''level''})) k"
      by (auto simp: ks(2) restrict_map_def field_def split: option.splits)
    finally show "map_of fs k = (m |` (- {''msg'', ''level''})) k" .
  qed
  have no_text: "as_text v = []" if "\<nexists>s. v = JStr s" for v using that by (cases v) auto
  have "deckhouse_Write unmarshal order p = (length p, Some (Entry (deckhouseLevelToZap (as_text (field m ''level'')))
      (if as_text (field m ''msg'') = [] then ''deckhouse_log'' else as_text (field m ''msg'')) fs))"
    using line obj by (simp add: deckhouse_Write_def Let_def nil_map_def fs_def ks_def)
  then show ?thesis
    using ks(1) fst_fs fields no_text
    by (intro exI conjI) (assumption, auto simp: field_def)
qed

theorem log_lines_kept_witness:
  "\<exists>lvl msg fields. deckhouse_Write (\<lambda>_. Some (Some [''msg'' \<mapsto> JNum 7, ''logger'' \<mapsto> JStr ''storage'']))
     (\<lambda>_. [''msg'', ''logger'']) ''x'' = (1, Some (Entry lvl msg fields)) \<and> msg = ''deckhouse_log'' \<and>
     map_of fields ''logger'' = Some (JStr ''storage'')"
proof -
  let ?m = "[''msg'' \<mapsto> JNum 7, ''logger'' \<mapsto> JStr ''storage'']"
  have "trim_space ''x'' \<noteq> []" by code_simp
  moreover have "iteration_of ?m ((\<lambda>_. [''msg'', ''logger'']) (dom ?m))" by (auto simp: iteration_of_def)
  ultimately obtain lvl msg fields where
    run: "deckhouse_Write (\<lambda>_. Some (Some ?m)) (\<lambda>_. [''msg'', ''logger'']) ''x'' = (length ''x'', Some (Entry lvl msg fields))"
    and fields: "map_of fields = ?m |` (- {''msg'', ''level''})"
    and msg: "\<forall>v. ?m ''msg'' = Some v \<longrightarrow> (\<nexists>s. v = JStr s) \<longrightarrow> msg = ''deckhouse_log''"
    using log_lines_kept [of ?m "\<lambda>_. [''msg'', ''logger'']" "''x''" "\<lambda>_. Some (Some ?m)"] by blast
  have "msg = ''deckhouse_log''" using msg by simp
  moreover have "map_of fields ''logger'' = Some (JStr ''storage'')" unfolding fields by (simp add: restrict_map_def)
  ultimately show ?thesis using run by simp
qed

section \<open>Reading endpoint variables back\<close>

text \<open>The variables of a \<^verbatim>\<open>LW_gvar\<close> body, as the templates write them.\<close>

definition gvars_text :: "(string \<times> string) list \<Rightarrow> string" where
  "gvars_text kvs = concat (map (\<lambda>(k, v). CHR ''%'' # k @ CHR ''&'' # v @ ''&'') kvs)"

lemma has_prefix_Cons [simp]: "has_prefix (c # s) (d # p) \<longleftrightarrow> c = d \<and> has_prefix s p"
  by (auto simp: has_prefix_def)

lemma has_prefix_Nil [simp]: "has_prefix s []"
  by (simp add: has_prefix_def)

lemma has_prefix_self [simp]: "has_prefix (s @ t) s"
  by (simp add: has_prefix_def)

lemma has_prefix_key:
  "c \<notin> set a \<Longrightarrow> c \<notin> set b \<Longrightarrow> has_prefix (a @ c # u) (b @ [c]) \<longleftrightarrow> a = b"
proof (induction a arbitrary: b)
  case Nil
  then show ?case by (cases b) auto
next
  case (Cons x a)
  then show ?case by (cases b) auto
qed

lemma cut_text_skip:
  "x \<notin> set s \<Longrightarrow> cut_text (x # pat) (s @ t) = map_option (\<lambda>(a, b). (s @ a, b)) (cut_text (x # pat) t)"
proof (induction s)
  case (Cons c s)
  then show ?case by (auto simp: option.map_comp comp_def split_beta)
qed (simp add: option.map_id)

lemma cut_text_here: "pat \<noteq> [] \<Longrightarrow> cut_text pat (pat @ t) = Some ([], t)"
proof (cases "pat @ t")
  case (Cons c s)
  then have "has_prefix (c # s) pat" "drop (length pat) (c # s) = t"
    by (simp_all add: has_prefix_def flip: Cons)
  then show ?thesis by (simp add: Cons)
qed simp

text \<open>What a name or a value of a variable is free of.\<close>

definition gvar_clean :: "string \<Rightarrow> bool" where
  "gvar_clean s \<longleftrightarrow> CHR ''%'' \<notin> set s \<and> CHR ''&'' \<notin> set s"

lemma cut_gvar:
  assumes "(k, v) \<in> set kvs" and "distinct (map fst kvs)" and "list_all (\<lambda>(k, v). gvar_clean k \<and> gvar_clean v) kvs"
  shows "\<exists>before others. cut_text (CHR ''%'' # k @ ''&'') (gvars_text kvs @ CHR ''%'' # post) =
    Some (before, v @ CHR ''&'' # CHR ''%'' # others)"
  using assms
proof (induction kvs)
  case (Cons kv kvs)
  obtain k' v' where kv: "kv = (k', v')" by (cases kv)
  let ?pat = "CHR ''%'' # k @ ''&''"
  have next_var: "\<exists>others. gvars_text kvs @ CHR ''%'' # post = CHR ''%'' # others"
    by (cases kvs) (auto simp: gvars_text_def split_beta)
  have body: "gvars_text (kv # kvs) @ CHR ''%'' # post =
      (CHR ''%'' # k' @ ''&'') @ v' @ CHR ''&'' # gvars_text kvs @ CHR ''%'' # post"
    by (simp add: gvars_text_def kv)
  show ?case
  proof (cases "k = k'")
    case True
    then have "v = v'" using Cons.prems(1,2) by (force simp: kv)
    moreover have "cut_text ?pat (gvars_text (kv # kvs) @ CHR ''%'' # post) =
        Some ([], v' @ CHR ''&'' # gvars_text kvs @ CHR ''%'' # post)"
      unfolding body True by (rule cut_text_here) simp
    ultimately show ?thesis using next_var by auto
  next
    case False
    then have kvs: "(k, v) \<in> set kvs" using Cons.prems(1) by (simp add: kv)
    have clean: "gvar_clean k" "gvar_clean k'" "gvar_clean v'"
      using Cons.prems(3) kvs by (auto simp: kv list_all_iff)
    have other: "\<not> has_prefix (k' @ CHR ''&'' # u) (k @ ''&'')" for u
      using has_prefix_key [of "CHR ''&''" k' k u] clean False by (simp add: gvar_clean_def)
    have "cut_text ?pat (gvars_text (kv # kvs) @ CHR ''%'' # post) =
        map_option (\<lambda>(a, b). (CHR ''%'' # a, b))
          (cut_text ?pat ((k' @ CHR ''&'' # v' @ ''&'') @ gvars_text kvs @ CHR ''%'' # post))"
      unfolding body using other by simp
    also have "\<dots> = map_option (\<lambda>(a, b). (CHR ''%'' # (k' @ CHR ''&'' # v' @ ''&'') @ a, b))
        (cut_text ?pat (gvars_text kvs @ CHR ''%'' # post))"
      using clean by (subst cut_text_skip) (auto simp: gvar_clean_def option.map_comp comp_def case_prod_unfold)
    finally show ?thesis using Cons.IH [OF kvs] Cons.prems(2,3) by auto
  qed
qed simp

text \<open>
  The log reads the endpoint variables back that the body sets: when names and values are free of the
  delimiters, as filtered values are, each variable of a list of distinct names is extracted with exactly
  its value, whatever stands before the list and after it.
\<close>

theorem extractGVar_reads:
  assumes "(k, v) \<in> set kvs" and "distinct (map fst kvs)" and "list_all (\<lambda>(k, v). gvar_clean k \<and> gvar_clean v) kvs"
    and "CHR ''%'' \<notin> set pre"
  shows "extractGVar (pre @ gvars_text kvs @ CHR ''%'' # post) k = v"
proof -
  obtain before others where "cut_text (CHR ''%'' # k @ ''&'') (gvars_text kvs @ CHR ''%'' # post) =
      Some (before, v @ CHR ''&'' # CHR ''%'' # others)"
    using cut_gvar [OF assms(1-3)] by blast
  moreover have "cut_text ''&%'' (v @ CHR ''&'' # CHR ''%'' # others) = Some (v, others)"
    using assms(1,3) by (subst cut_text_skip) (auto simp: list_all_iff gvar_clean_def)
  ultimately show ?thesis using cut_text_skip [OF assms(4)] by (simp add: extractGVar_def)
qed

theorem extractGVar_reads_witness:
  "extractGVar ''LW_gvar&%PROF&7&%CG_HOLEPORT&3708&%COMMAND&'' ''CG_HOLEPORT'' = ''3708''"
  using extractGVar_reads [of "''CG_HOLEPORT''" "''3708''" "[(''PROF'', ''7''), (''CG_HOLEPORT'', ''3708'')]"
      "''LW_gvar&''" "''COMMAND&''"]
  by (simp add: gvars_text_def gvar_clean_def)

end
