(* ===== verification/Interleaving.thy ===== *)
theory Interleaving
  imports Server_Props
begin

text \<open>
  Requests of different connections run in goroutines of their own, and nothing orders them: the mutex
  the controller once had is gone (\<^verbatim>\<open>dispatcher.go:186-192\<close>), \<^verbatim>\<open>Join\<close> takes no lock of the room, and the
  store's lock covers single map accesses only. This theory takes \<^verbatim>\<open>join_game\<close> apart into the steps
  between which another goroutine may run: the guards, the leave, and the statements of \<^verbatim>\<open>Join\<close> in
  \<^verbatim>\<open>lobby/join.go\<close>, with \<^verbatim>\<open>PlayersCount++\<close> as a read and a write.

  Run alone, the steps do what the atomic \<open>JoinGame\<close> does; interleaved, two of them can overfill a room
  or lose a count. Each step is taken as atomic, so the model has fewer interleavings than the program,
  where Go gives no meaning at all to two goroutines writing the same map.
\<close>

section \<open>The steps of a join\<close>

datatype join_pc =
    JCheck
  | JLeave rref
  | JFetch rref
  | JAdd rref pref
  | JRead rref pref
  | JWrite rref pref int
  | JUnindex rref pref
  | JRow rref pref
  | JSum rref pref
  | JHost rref pref
  | JIndex rref
  | JDone
  | JRefused

text \<open>Who joins which room, with which password, and what the clock shows.\<close>

record joiner =
  jn_Player :: u32
  jn_Room :: u32
  jn_Password :: string
  jn_Now :: time

definition update_room :: "rref \<Rightarrow> (room \<Rightarrow> room) \<Rightarrow> store world \<Rightarrow> store world" where
  "update_room p f w = set_room p (f (rooms_heap w p)) w"

lemma update_room_parts [simp]:
  "repo (update_room p f w) = repo w" "players_heap (update_room p f w) = players_heap w"
  "rooms_heap (update_room p f w) = (rooms_heap w)(p := f (rooms_heap w p))"
  by (simp_all add: update_room_def)

fun join_step :: "joiner \<Rightarrow> join_pc \<Rightarrow> store world \<Rightarrow> join_pc \<times> store world" where
  "join_step j JCheck w =
     (case GetRoom (jn_Room j) (repo w) of
        None \<Rightarrow> (JRefused, w)
      | Some p \<Rightarrow>
          let r = rooms_heap w p in
          if rm_Started r \<or> rm_MaxPlayers r \<le> rm_PlayersCount r \<or>
            (rm_Password r \<noteq> [] \<and> jn_Password j \<noteq> rm_Password r)
          then (JRefused, w) else (JLeave p, w))"
| "join_step j (JLeave p) w = (JFetch p, snd (Leave RoomRepoAdapter (jn_Now j) (jn_Player j) w))"
| "join_step j (JFetch p) w =
     ((case GetPlayer (jn_Player j) (repo w) of None \<Rightarrow> JDone | Some q \<Rightarrow> JAdd p q), w)"
| "join_step j (JAdd p q) w =
     (let i = pl_ID (players_heap w q) in
      (JRead p q, update_room p (\<lambda>r. r\<lparr>rm_Players := (rm_Players r)(i \<mapsto> Some q),
         rm_PlayersTime := (rm_PlayersTime r)(i \<mapsto> jn_Now j)\<rparr>) w))"
| "join_step j (JRead p q) w = (JWrite p q (rm_PlayersCount (rooms_heap w p)), w)"
| "join_step j (JWrite p q n) w = (JUnindex p q, update_room p (\<lambda>r. r\<lparr>rm_PlayersCount := n + 1\<rparr>) w)"
| "join_step j (JUnindex p q) w = (JRow p q, set_repo (UnindexRoomBySum (rm_CtlSum (rooms_heap w p))) w)"
| "join_step j (JRow p q) w =
     (JSum p q, update_room p
       (\<lambda>r. r\<lparr>rm_Row := setPlayersColumn (rm_Row r) (rm_PlayersCount r) (rm_MaxPlayers r)\<rparr>) w)"
| "join_step j (JSum p q) w = (JHost p q, update_room p (\<lambda>r. r\<lparr>rm_CtlSum := controlSum (rm_Row r)\<rparr>) w)"
| "join_step j (JHost p q) w =
     (JIndex p, set_repo (IndexRoomByHost (pl_ID (players_heap w q)) (Some (p, rooms_heap w p))) w)"
| "join_step j (JIndex p) w = (JDone, set_repo (IndexRoomBySum (Some (p, rooms_heap w p))) w)"
| "join_step j JDone w = (JDone, w)"
| "join_step j JRefused w = (JRefused, w)"

declare join_step.simps(1) [simp del]

text \<open>A schedule names the goroutine that makes the next step.\<close>

type_synonym joins = "nat \<Rightarrow> joiner"
type_synonym program_counters = "nat \<Rightarrow> join_pc"

fun interleave ::
  "joins \<Rightarrow> nat list \<Rightarrow> program_counters \<Rightarrow> store world \<Rightarrow> program_counters \<times> store world" where
  "interleave js [] pcs w = (pcs, w)"
| "interleave js (t # ts) pcs w =
     (case join_step (js t) (pcs t) w of (pc, w') \<Rightarrow> interleave js ts (pcs(t := pc)) w')"

definition all_checking :: program_counters where
  "all_checking = (\<lambda>_. JCheck)"

section \<open>A goroutine that is not interrupted\<close>

lemma interleave_append:
  "interleave js (ts @ us) pcs w = (case interleave js ts pcs w of (pcs', w') \<Rightarrow> interleave js us pcs' w')"
proof (induction ts arbitrary: pcs w)
  case (Cons t ts)
  then show ?case by (cases "join_step (js t) (pcs t) w") (simp add: fun_upd_def)
qed simp

lemma interleave_stopped:
  "pcs t = JDone \<or> pcs t = JRefused \<Longrightarrow> interleave js (replicate n t) pcs w = (pcs, w)"
  by (induction n) (auto simp: fun_upd_idem)

text \<open>From the moment the player record is at hand, the steps are \<^verbatim>\<open>Join\<close>.\<close>

lemma finish_join:
  "pcs t = JAdd p q \<Longrightarrow>
   interleave js (replicate 8 t) pcs w = (pcs(t := JDone), Join RoomRepoAdapter (jn_Now (js t)) (Some p) (Some q) w)"
  by (simp add: eval_nat_numeral update_room_def set_room_def set_repo_def Let_def Join_store join_room_def
      UnindexRoomBySum_def IndexRoomByHost_def IndexRoomBySum_def)

text \<open>What \<^verbatim>\<open>join_game\<close> checks before it lets a player in.\<close>

definition admits :: "joiner \<Rightarrow> rref \<Rightarrow> store world \<Rightarrow> bool" where
  "admits j p w \<longleftrightarrow>
     (let r = rooms_heap w p
      in GetRoom (jn_Room j) (repo w) = Some p \<and> \<not> rm_Started r \<and> rm_PlayersCount r < rm_MaxPlayers r \<and>
         (rm_Password r = [] \<or> jn_Password j = rm_Password r))"

lemma join_step_admits: "admits j p w \<Longrightarrow> join_step j JCheck w = (JLeave p, w)"
  by (auto simp: join_step.simps(1) admits_def Let_def)

lemma join_step_refuses: "(\<And>p. \<not> admits j p w) \<Longrightarrow> join_step j JCheck w = (JRefused, w)"
  by (cases "GetRoom (jn_Room j) (repo w)") (auto simp: join_step.simps(1) admits_def Let_def not_less)

lemma leave_alone:
  assumes "pcs t = JLeave p"
  shows "interleave js (replicate 10 t) pcs w =
    (let w' = snd (Leave RoomRepoAdapter (jn_Now (js t)) (jn_Player (js t)) w)
     in (pcs(t := JDone), Join RoomRepoAdapter (jn_Now (js t)) (Some p) (GetPlayer (jn_Player (js t)) (repo w')) w'))"
proof -
  let ?w' = "snd (Leave RoomRepoAdapter (jn_Now (js t)) (jn_Player (js t)) w)"
  have split: "replicate 10 t = [t, t] @ replicate 8 t" by (simp add: eval_nat_numeral)
  show ?thesis
  proof (cases "GetPlayer (jn_Player (js t)) (repo ?w')")
    case None
    then show ?thesis
      unfolding split interleave_append by (simp add: assms interleave_stopped Let_def Join_def)
  next
    case (Some q)
    then show ?thesis
      unfolding split interleave_append by (simp add: assms finish_join [of _ t p q] Let_def)
  qed
qed

lemma join_alone:
  assumes "pcs t = JCheck" and "admits (js t) p w"
  shows "interleave js (replicate 11 t) pcs w =
    (let w' = snd (Leave RoomRepoAdapter (jn_Now (js t)) (jn_Player (js t)) w)
     in (pcs(t := JDone), Join RoomRepoAdapter (jn_Now (js t)) (Some p) (GetPlayer (jn_Player (js t)) (repo w')) w'))"
proof -
  have "replicate 11 t = t # replicate 10 t" by (simp add: eval_nat_numeral)
  then show ?thesis
    using leave_alone [where t = t and pcs = "pcs(t := JLeave p)" and js = js and p = p and w = w]
      join_step_admits [OF assms(2)] by (simp add: assms(1) Let_def)
qed

lemma refused_alone:
  assumes "pcs t = JCheck" and "\<And>p. \<not> admits (js t) p w"
  shows "interleave js (replicate (Suc n) t) pcs w = (pcs(t := JRefused), w)"
  using assms(1) join_step_refuses [OF assms(2)]
  by (simp add: interleave_stopped)

text \<open>
  C14. A join that no other goroutine interrupts does to rooms, players and indexes exactly what the
  \<^verbatim>\<open>join_game\<close> handler does, the refusals included.
\<close>

theorem join_alone_is_JoinGame:
  assumes s: "session_of c st = Some s" "ss_PlayerID s \<noteq> 0" "trim_space (ss_Nick s) \<noteq> []"
    and prm: "astate_free prm" "parse_uint 32 (trim_space (get prm ''VE_RID'')) = Some rid"
    and j: "js t = \<lparr>jn_Player = ss_PlayerID s, jn_Room = word_of_nat rid, jn_Password = get prm ''VE_PASSWD'',
      jn_Now = ev_Now e\<rparr>"
  shows "snd (interleave js (replicate 11 t) all_checking (st_world st)) =
    st_world (snd (JoinGame e c req prm st))"
proof -
  have pid: "player_id c st = ss_PlayerID s" using s by (simp add: player_id_def)
  have checked: "st_world (snd (join_room_checked e c (ss_PlayerID s) p st)) =
      (let w' = snd (Leave RoomRepoAdapter (ev_Now e) (ss_PlayerID s) (st_world st))
       in Join RoomRepoAdapter (ev_Now e) (Some p) (GetPlayer (ss_PlayerID s) (repo w')) w')" for p
    using join_endpoint_world by (simp add: join_room_checked_def Let_def split_beta)
  have free: "all_checking t = JCheck" by (simp add: all_checking_def)
  show ?thesis
  proof (cases "\<exists>p. admits (js t) p (st_world st)")
    case True
    then obtain p where p: "admits (js t) p (st_world st)" ..
    then have "JoinGame e c req prm st = join_room_checked e c (ss_PlayerID s) p st"
      using s prm j by (auto simp: JoinGame_def Let_def pid admits_def)
    then show ?thesis using checked by (simp add: join_alone [where js = js and t = t and pcs = all_checking, OF free p] j Let_def)
  next
    case False
    then have none: "\<And>p. \<not> admits (js t) p (st_world st)" by blast
    then have "st_world (snd (JoinGame e c req prm st)) = st_world st"
      using s prm j by (cases "GetRoom (word_of_nat rid) (store_of st)")
        (auto simp: JoinGame_def Let_def pid admits_def not_less)
    then show ?thesis using refused_alone [where js = js and t = t and pcs = all_checking, OF free none, of 10] by simp
  qed
qed

section \<open>What holds in every schedule\<close>

definition registered :: "u32 \<Rightarrow> store world \<Rightarrow> bool" where
  "registered i w \<longleftrightarrow>
     (case GetPlayer i (repo w) of None \<Rightarrow> False | Some q \<Rightarrow> pl_ID (players_heap w q) = i)"

definition listed_in :: "u32 \<Rightarrow> rref \<Rightarrow> store world \<Rightarrow> bool" where
  "listed_in i p w \<longleftrightarrow> rm_Players (rooms_heap w p) i \<noteq> None"

definition seated_in :: "u32 \<Rightarrow> rref \<Rightarrow> store world \<Rightarrow> bool" where
  "seated_in i p w \<longleftrightarrow> listed_in i p w \<and> GetRoomByHost i (repo w) = Some p"

text \<open>What a join of player \<open>i\<close> into the room \<open>r\<close> has reached at each of its steps.\<close>

fun progress :: "u32 \<Rightarrow> rref option \<Rightarrow> store world \<Rightarrow> join_pc \<Rightarrow> bool" where
  "progress i r w JCheck = True"
| "progress i r w (JLeave p) = (r = Some p)"
| "progress i r w (JFetch p) = (r = Some p)"
| "progress i r w (JAdd p q) = (r = Some p \<and> pl_ID (players_heap w q) = i)"
| "progress i r w (JRead p q) = (r = Some p \<and> pl_ID (players_heap w q) = i \<and> listed_in i p w)"
| "progress i r w (JWrite p q n) = (r = Some p \<and> pl_ID (players_heap w q) = i \<and> listed_in i p w)"
| "progress i r w (JUnindex p q) = (r = Some p \<and> pl_ID (players_heap w q) = i \<and> listed_in i p w)"
| "progress i r w (JRow p q) = (r = Some p \<and> pl_ID (players_heap w q) = i \<and> listed_in i p w)"
| "progress i r w (JSum p q) = (r = Some p \<and> pl_ID (players_heap w q) = i \<and> listed_in i p w)"
| "progress i r w (JHost p q) = (r = Some p \<and> pl_ID (players_heap w q) = i \<and> listed_in i p w)"
| "progress i r w (JIndex p) = (r = Some p \<and> seated_in i p w)"
| "progress i r w JDone = (\<exists>p. r = Some p \<and> seated_in i p w)"
| "progress i r w JRefused = True"

fun steps_left :: "join_pc \<Rightarrow> nat" where
  "steps_left JCheck = 11"
| "steps_left (JLeave p) = 10"
| "steps_left (JFetch p) = 9"
| "steps_left (JAdd p q) = 8"
| "steps_left (JRead p q) = 7"
| "steps_left (JWrite p q n) = 6"
| "steps_left (JUnindex p q) = 5"
| "steps_left (JRow p q) = 4"
| "steps_left (JSum p q) = 3"
| "steps_left (JHost p q) = 2"
| "steps_left (JIndex p) = 1"
| "steps_left JDone = 0"
| "steps_left JRefused = 0"

lemma steps_left_step: "steps_left (fst (join_step j pc w)) \<le> steps_left pc - 1"
  by (cases pc) (auto simp: join_step.simps(1) Let_def split: option.splits)

lemma steps_left_0: "steps_left pc = 0 \<longleftrightarrow> pc = JDone \<or> pc = JRefused"
  by (cases pc) auto

lemma steps_left_interleave:
  "interleave js ts pcs w = (pcs', w') \<Longrightarrow> steps_left (pcs' t) \<le> steps_left (pcs t) - count_list ts t"
proof (induction ts arbitrary: pcs w)
  case (Cons u ts)
  obtain pc w1 where step: "join_step (js u) (pcs u) w = (pc, w1)" by fastforce
  then have "interleave js ts (pcs(u := pc)) w1 = (pcs', w')" using Cons.prems by simp
  from Cons.IH [OF this] show ?case
    using steps_left_step [of "js u" "pcs u" w] step by (auto split: if_splits)
qed simp

text \<open>What a step of another goroutine leaves alone: the players, the seat and the room of player \<open>i\<close>.\<close>

definition spares :: "u32 \<Rightarrow> store world \<Rightarrow> store world \<Rightarrow> bool" where
  "spares i w w' \<longleftrightarrow>
     roomsByPID (repo w') i = roomsByPID (repo w) i \<and>
     (\<forall>p. rm_Players (rooms_heap w' p) i = rm_Players (rooms_heap w p) i)"

definition only_closes :: "store world \<Rightarrow> store world \<Rightarrow> bool" where
  "only_closes w w' \<longleftrightarrow> (\<forall>k p. GetRoom k (repo w') = Some p \<longrightarrow> GetRoom k (repo w) = Some p)"

lemma progress_spares:
  "spares i w w' \<Longrightarrow> keeps_players w w' \<Longrightarrow> progress i r w pc \<Longrightarrow> progress i r w' pc"
  by (cases pc) (auto simp: spares_def keeps_players_def listed_in_def seated_in_def GetRoomByHost_def)

lemma registered_keeps: "keeps_players w w' \<Longrightarrow> registered i w' = registered i w"
  by (auto simp: keeps_players_def registered_def GetPlayer_def split: option.splits)

lemma store_parts [simp]:
  "players (Store_RoomMu i s) = players s" "roomsByID (Store_RoomMu i s) = roomsByID s"
  "roomsByPID (Store_RoomMu i s) = roomsByPID s"
  by (simp_all add: Store_RoomMu_def)

lemma Leave_spares:
  assumes "i \<noteq> k"
  shows "spares i w (snd (Leave RoomRepoAdapter n k w))"
proof (cases "GetRoomByHost k (repo w)")
  case None
  then show ?thesis by (simp add: Leave_outside spares_def)
next
  case (Some p)
  then show ?thesis
    using assms by (auto simp: Leave_store Let_def spares_def leave_room_def mark_exited_def store_ops
        split: option.splits)
qed

lemma Leave_only_closes: "only_closes w (snd (Leave RoomRepoAdapter n k w))"
proof (cases "GetRoomByHost k (repo w)")
  case None
  then show ?thesis by (simp add: Leave_outside only_closes_def)
next
  case (Some p)
  then show ?thesis
    by (auto simp: Leave_store Let_def only_closes_def store_ops GetRoom_def split: if_splits)
qed

lemma join_step_keeps: "keeps_players w (snd (join_step j pc w))"
proof (cases "\<exists>p. pc = JLeave p")
  case False
  then show ?thesis
    by (cases pc) (auto simp: join_step.simps(1) Let_def update_room_def keeps_players_def store_ops split: option.splits)
qed (auto simp: Leave_keeps)

lemma join_step_only_closes: "only_closes w (snd (join_step j pc w))"
proof (cases "\<exists>p. pc = JLeave p")
  case False
  then show ?thesis
    by (cases pc) (auto simp: join_step.simps(1) Let_def update_room_def only_closes_def store_ops split: option.splits)
qed (auto simp: Leave_only_closes)

lemma join_step_spares:
  assumes "i \<noteq> jn_Player j" and "progress (jn_Player j) r w pc"
  shows "spares i w (snd (join_step j pc w))"
proof (cases "\<exists>p. pc = JLeave p")
  case False
  then show ?thesis
    using assms by (cases pc) (auto simp: join_step.simps(1) Let_def update_room_def spares_def store_ops split: option.splits)
qed (use assms in \<open>auto simp: Leave_spares\<close>)

lemma join_step_progress:
  assumes "registered (jn_Player j) w" and "only_closes w0 w"
    and "progress (jn_Player j) (GetRoom (jn_Room j) (repo w0)) w pc"
  shows "progress (jn_Player j) (GetRoom (jn_Room j) (repo w0)) (snd (join_step j pc w)) (fst (join_step j pc w))"
  using assms by (cases pc) (auto simp: join_step.simps(1) Let_def update_room_def registered_def only_closes_def listed_in_def
      seated_in_def store_ops GetRoomByHost_def split: option.splits)

lemma interleave_progress:
  assumes "interleave js ts pcs w = (pcs', w')" and "inj_on (\<lambda>t. jn_Player (js t)) T" and "set ts \<subseteq> T"
    and "\<forall>t\<in>T. registered (jn_Player (js t)) w" and "only_closes w0 w"
    and "\<forall>t\<in>T. progress (jn_Player (js t)) (GetRoom (jn_Room (js t)) (repo w0)) w (pcs t)"
  shows "\<forall>t\<in>T. progress (jn_Player (js t)) (GetRoom (jn_Room (js t)) (repo w0)) w' (pcs' t)"
  using assms
proof (induction ts arbitrary: pcs w)
  case (Cons u ts)
  obtain pc w1 where step: "join_step (js u) (pcs u) w = (pc, w1)" by fastforce
  let ?r = "\<lambda>t. GetRoom (jn_Room (js t)) (repo w0)"
  have u: "u \<in> T" using Cons.prems(3) by simp
  have keeps: "keeps_players w w1" and closes: "only_closes w w1"
    using join_step_keeps [of w "js u" "pcs u"] join_step_only_closes [of w "js u" "pcs u"] step by simp_all
  have run: "interleave js ts (pcs(u := pc)) w1 = (pcs', w')" using Cons.prems(1) step by simp
  have "progress (jn_Player (js t)) (?r t) w1 ((pcs(u := pc)) t)" if t: "t \<in> T" for t
  proof (cases "t = u")
    case True
    then show ?thesis
      using join_step_progress [of "js u" w w0 "pcs u"] Cons.prems(4,5,6) u step by simp
  next
    case False
    then have "jn_Player (js t) \<noteq> jn_Player (js u)" using Cons.prems(2) t u by (auto dest: inj_onD)
    then have "spares (jn_Player (js t)) w w1"
      using join_step_spares [of _ "js u"] Cons.prems(6) u step by (metis snd_conv)
    then show ?thesis using progress_spares [OF _ keeps] Cons.prems(6) t False by simp
  qed
  moreover have "only_closes w0 w1" using Cons.prems(5) closes by (simp add: only_closes_def)
  ultimately show ?case
    using Cons.IH [OF run Cons.prems(2)] Cons.prems(3,4) registered_keeps [OF keeps] by simp
qed simp

text \<open>
  Joins of different registered players may be interleaved in any way: a join that got eleven turns
  has come to an end, and unless it was refused, its player is a member of the room that it asked for, and
  the index of the players' rooms leads there. No schedule loses a member.
\<close>

theorem no_schedule_loses_members:
  assumes "inj_on (\<lambda>t. jn_Player (js t)) (set ts)" and "\<And>t. t \<in> set ts \<Longrightarrow> registered (jn_Player (js t)) w"
    and "11 \<le> count_list ts t" and "interleave js ts all_checking w = (pcs, w')" and "pcs t \<noteq> JRefused"
  shows "pcs t = JDone \<and>
    (\<exists>p. GetRoom (jn_Room (js t)) (repo w) = Some p \<and> GetRoomByHost (jn_Player (js t)) (repo w') = Some p \<and>
      rm_Players (rooms_heap w' p) (jn_Player (js t)) \<noteq> None)"
proof -
  have over: "pcs t = JDone"
    using steps_left_interleave [OF assms(4), of t] assms(3,5) steps_left_0 [of "pcs t"]
    by (simp add: all_checking_def)
  have "t \<in> set ts" using assms(3) count_notin [of t ts] by (metis not_numeral_le_zero)
  then have "progress (jn_Player (js t)) (GetRoom (jn_Room (js t)) (repo w)) w' (pcs t)"
    using interleave_progress [OF assms(4,1) subset_refl, of w] assms(2)
    by (simp add: all_checking_def only_closes_def)
  with over show ?thesis by (auto simp: seated_in_def listed_in_def)
qed

section \<open>What a schedule can break\<close>

text \<open>Two players that are registered and in no room, and one room that would admit either.\<close>

definition rivals :: "joiner \<Rightarrow> joiner \<Rightarrow> rref \<Rightarrow> store world \<Rightarrow> bool" where
  "rivals j k p w \<longleftrightarrow>
     jn_Player j \<noteq> jn_Player k \<and> admits j p w \<and> admits k p w \<and>
     registered (jn_Player j) w \<and> registered (jn_Player k) w \<and>
     GetRoomByHost (jn_Player j) (repo w) = None \<and> GetRoomByHost (jn_Player k) (repo w) = None"

lemma registeredE:
  assumes "registered i w"
  obtains q where "players (repo w) i = Some q" and "pl_ID (players_heap w q) = i"
  using assms by (auto simp: registered_def GetPlayer_def split: option.splits)

lemma Join_parts [simp]:
  "players_heap (Join RoomRepoAdapter n (Some p) (Some q) w) = players_heap w"
  "players (repo (Join RoomRepoAdapter n (Some p) (Some q) w)) = players (repo w)"
  "roomsByID (repo (Join RoomRepoAdapter n (Some p) (Some q) w)) = roomsByID (repo w)"
  "roomsByPID (repo (Join RoomRepoAdapter n (Some p) (Some q) w)) =
     (roomsByPID (repo w))(pl_ID (players_heap w q) \<mapsto> Some p)"
  "rooms_heap (Join RoomRepoAdapter n (Some p) (Some q) w) p =
     join_room n (pl_ID (players_heap w q)) q (rooms_heap w p)"
  by (simp_all add: Join_store Let_def)

lemma join_room_parts [simp]:
  "rm_PlayersCount (join_room n i q r) = rm_PlayersCount r + 1" "rm_MaxPlayers (join_room n i q r) = rm_MaxPlayers r"
  "rm_Players (join_room n i q r) = (rm_Players r)(i \<mapsto> Some q)"
  by (simp_all add: join_room_def Let_def)

lemma race_run:
  assumes "a \<noteq> b" and r: "rivals (js a) (js b) p w"
  shows "\<exists>q q'. interleave js ([a, b] @ replicate 10 a @ replicate 10 b) all_checking w =
      (all_checking(a := JDone, b := JDone),
       Join RoomRepoAdapter (jn_Now (js b)) (Some p) (Some q') (Join RoomRepoAdapter (jn_Now (js a)) (Some p) (Some q) w)) \<and>
     interleave js (replicate 11 a) all_checking w =
      (all_checking(a := JDone), Join RoomRepoAdapter (jn_Now (js a)) (Some p) (Some q) w) \<and>
     pl_ID (players_heap w q) = jn_Player (js a) \<and> pl_ID (players_heap w q') = jn_Player (js b)"
proof -
  obtain q q' where q: "players (repo w) (jn_Player (js a)) = Some q" "pl_ID (players_heap w q) = jn_Player (js a)"
    and q': "players (repo w) (jn_Player (js b)) = Some q'" "pl_ID (players_heap w q') = jn_Player (js b)"
    using r by (metis rivals_def registeredE)
  have check: "join_step (js t) JCheck w = (JLeave p, w)" if "t = a \<or> t = b" for t
    using r that by (auto simp: rivals_def intro: join_step_admits)
  let ?w1 = "Join RoomRepoAdapter (jn_Now (js a)) (Some p) (Some q) w"
  let ?pcs = "all_checking(a := JLeave p, b := JLeave p)"
  have out: "GetRoomByHost (jn_Player (js a)) (repo w) = None" "GetRoomByHost (jn_Player (js b)) (repo ?w1) = None"
    using r q by (auto simp: rivals_def GetRoomByHost_def)
  have "interleave js [a, b] all_checking w = (?pcs, w)"
    using \<open>a \<noteq> b\<close> by (simp add: check all_checking_def)
  moreover have "interleave js (replicate 10 a) ?pcs w = (?pcs(a := JDone), ?w1)"
    using leave_alone [where t = a and pcs = ?pcs and js = js and p = p and w = w] \<open>a \<noteq> b\<close> q(1)
    by (simp add: Leave_outside [OF out(1)] Let_def GetPlayer_def)
  moreover have "interleave js (replicate 10 b) (?pcs(a := JDone)) ?w1 =
      (?pcs(a := JDone, b := JDone), Join RoomRepoAdapter (jn_Now (js b)) (Some p) (Some q') ?w1)"
    using leave_alone [where t = b and pcs = "?pcs(a := JDone)" and js = js and p = p and w = ?w1] \<open>a \<noteq> b\<close> q'(1)
    by (simp add: Leave_outside [OF out(2)] Let_def GetPlayer_def)
  moreover have "?pcs(a := JDone, b := JDone) = all_checking(a := JDone, b := JDone)"
    using \<open>a \<noteq> b\<close> by auto
  moreover have "interleave js (replicate 11 a) all_checking w = (all_checking(a := JDone), ?w1)"
    using join_alone [where t = a and pcs = all_checking and js = js and p = p and w = w] r q(1)
    by (simp add: Leave_outside [OF out(1)] Let_def GetPlayer_def all_checking_def rivals_def)
  ultimately show ?thesis using q(2) q'(2) unfolding interleave_append by auto
qed

text \<open>
  C13. Nothing holds the room between the check of its places and the join, so two players can take its last
  place: one after the other, the second one is refused and the room is full; if both are checked before
  either has joined, both are in, and the room counts one player more than its maximum.
\<close>

theorem joins_overfill_room:
  assumes "a \<noteq> b" and "rivals (js a) (js b) p w"
    and "rm_PlayersCount (rooms_heap w p) + 1 = rm_MaxPlayers (rooms_heap w p)"
  shows "let serial = interleave js (replicate 11 a @ replicate 11 b) all_checking w;
      mixed = interleave js ([a, b] @ replicate 10 a @ replicate 10 b) all_checking w;
      count = (\<lambda>r. rm_PlayersCount (rooms_heap (snd r) p)); max = rm_MaxPlayers (rooms_heap w p)
    in fst serial a = JDone \<and> fst serial b = JRefused \<and> count serial = max \<and>
       fst mixed a = JDone \<and> fst mixed b = JDone \<and> count mixed = max + 1"
proof -
  obtain q q' where mixed: "interleave js ([a, b] @ replicate 10 a @ replicate 10 b) all_checking w =
      (all_checking(a := JDone, b := JDone),
       Join RoomRepoAdapter (jn_Now (js b)) (Some p) (Some q') (Join RoomRepoAdapter (jn_Now (js a)) (Some p) (Some q) w))"
    and first: "interleave js (replicate 11 a) all_checking w =
      (all_checking(a := JDone), Join RoomRepoAdapter (jn_Now (js a)) (Some p) (Some q) w)"
    using race_run [OF assms(1,2)] by blast
  let ?w1 = "Join RoomRepoAdapter (jn_Now (js a)) (Some p) (Some q) w"
  have full: "\<not> admits (js b) p' ?w1" for p'
    using assms(2,3) by (auto simp: rivals_def admits_def Let_def GetRoom_def)
  have "interleave js (replicate 11 b) (all_checking(a := JDone)) ?w1 =
      (all_checking(a := JDone, b := JRefused), ?w1)"
    using refused_alone [where t = b and js = js and pcs = "all_checking(a := JDone)" and w = ?w1 and n = 10, OF _ full]
      assms(1) by (simp add: all_checking_def)
  then have serial: "interleave js (replicate 11 a @ replicate 11 b) all_checking w =
      (all_checking(a := JDone, b := JRefused), ?w1)"
    unfolding interleave_append first by simp
  show ?thesis unfolding Let_def serial mixed using assms(1,3) by simp
qed

text \<open>
  C38. \<^verbatim>\<open>PlayersCount++\<close> is a read and a write: when a second join runs between the two, its increment is
  lost. Both players are members of the room afterwards, but the room counts only one of them, so it
  goes on admitting players when it is full.
\<close>

theorem joins_lose_count:
  assumes "a \<noteq> b" and "rivals (js a) (js b) p w"
  shows "let (pcs, w') = interleave js (replicate 5 a @ replicate 11 b @ replicate 6 a) all_checking w
    in pcs a = JDone \<and> pcs b = JDone \<and>
       rm_PlayersCount (rooms_heap w' p) = rm_PlayersCount (rooms_heap w p) + 1 \<and>
       rm_Players (rooms_heap w' p) (jn_Player (js a)) \<noteq> None \<and>
       rm_Players (rooms_heap w' p) (jn_Player (js b)) \<noteq> None"
proof -
  obtain q q' where q: "players (repo w) (jn_Player (js a)) = Some q" "pl_ID (players_heap w q) = jn_Player (js a)"
    and q': "players (repo w) (jn_Player (js b)) = Some q'" "pl_ID (players_heap w q') = jn_Player (js b)"
    using assms(2) by (metis rivals_def registeredE)
  let ?w1 = "update_room p (\<lambda>r. r\<lparr>rm_Players := (rm_Players r)(jn_Player (js a) \<mapsto> Some q),
      rm_PlayersTime := (rm_PlayersTime r)(jn_Player (js a) \<mapsto> jn_Now (js a))\<rparr>) w"
  let ?n = "rm_PlayersCount (rooms_heap w p)"
  let ?pcs = "all_checking(a := JWrite p q ?n)"
  let ?w2 = "Join RoomRepoAdapter (jn_Now (js b)) (Some p) (Some q') ?w1"
  have out: "GetRoomByHost (jn_Player (js a)) (repo w) = None" "GetRoomByHost (jn_Player (js b)) (repo ?w1) = None"
    using assms(2) by (auto simp: rivals_def)
  have check: "join_step (js a) JCheck w = (JLeave p, w)"
    using assms(2) by (intro join_step_admits) (simp add: rivals_def)
  have first: "interleave js (replicate 5 a) all_checking w = (?pcs, ?w1)"
    by (simp add: eval_nat_numeral all_checking_def check Leave_outside [OF out(1)] GetPlayer_def q Let_def)
  have "admits (js b) p ?w1"
    using assms(2) by (auto simp: rivals_def admits_def Let_def GetRoom_def)
  then have second: "interleave js (replicate 11 b) ?pcs ?w1 = (?pcs(b := JDone), ?w2)"
    using join_alone [where t = b and pcs = ?pcs and js = js and p = p and w = ?w1] assms(1) q'
    by (simp add: Leave_outside [OF out(2)] Let_def GetPlayer_def all_checking_def)
  have room: "rooms_heap ?w2 p = join_room (jn_Now (js b)) (jn_Player (js b)) q' (rooms_heap ?w1 p)"
    using q' by simp
  obtain w3 where "interleave js (replicate 6 a) (?pcs(b := JDone)) ?w2 = (?pcs(b := JDone, a := JDone), w3)"
    and "rm_PlayersCount (rooms_heap w3 p) = ?n + 1" "rm_Players (rooms_heap w3 p) = rm_Players (rooms_heap ?w2 p)"
    using assms(1) by (simp add: eval_nat_numeral)
  then show ?thesis
    unfolding interleave_append first using second assms(1) by (simp add: room q'(2))
qed

section \<open>Two players and one place\<close>

text \<open>The hosted room with places for two, and two more players at its door.\<close>

definition demo_door :: "store world" where
  "demo_door =
     demo_hosted\<lparr>rooms_heap := (rooms_heap demo_hosted)(0 := room_base\<lparr>rm_MaxPlayers := 2\<rparr>),
       repo := (repo demo_hosted)\<lparr>players := [1 \<mapsto> 0, 2 \<mapsto> 1, 3 \<mapsto> 2]\<rparr>\<rparr>"

definition demo_joiners :: joins where
  "demo_joiners t = \<lparr>jn_Player = (if t = 0 then 2 else 3), jn_Room = 1, jn_Password = [], jn_Now = 20\<rparr>"

lemma demo_rivals: "rivals (demo_joiners 0) (demo_joiners 1) 0 demo_door"
  by (simp add: rivals_def admits_def registered_def demo_joiners_def demo_door_def Let_def store_ops
      demo_hosted_eq room_base_def new_room_def demo_params_def zero_room_def)

lemma demo_door_count:
  "rm_PlayersCount (rooms_heap demo_door 0) = 1" "rm_MaxPlayers (rooms_heap demo_door 0) = 2"
  by (simp_all add: demo_door_def)

theorem joins_overfill_room_witness:
  "rm_PlayersCount (rooms_heap (snd (interleave demo_joiners ([0, 1] @ replicate 10 0 @ replicate 10 1)
     all_checking demo_door)) 0) = 3"
  using joins_overfill_room [OF zero_neq_one demo_rivals] by (simp add: demo_door_count Let_def)

theorem joins_lose_count_witness:
  "case interleave demo_joiners (replicate 5 0 @ replicate 11 1 @ replicate 6 0) all_checking demo_door of
     (pcs, w') \<Rightarrow> pcs 0 = JDone \<and> pcs 1 = JDone \<and> rm_PlayersCount (rooms_heap w' 0) = 2"
  using joins_lose_count [OF zero_neq_one demo_rivals] by (simp add: demo_door_count Let_def split_beta)

theorem no_schedule_loses_members_witness:
  "let w' = snd (interleave demo_joiners ([0, 1] @ replicate 10 0 @ replicate 10 1) all_checking demo_door)
   in \<exists>p. GetRoomByHost 3 (repo w') = Some p \<and> rm_Players (rooms_heap w' p) 3 \<noteq> None"
proof -
  let ?ts = "[0, 1] @ replicate 10 (0 :: nat) @ replicate 10 1"
  obtain w' where run: "interleave demo_joiners ?ts all_checking demo_door = (all_checking(0 := JDone, 1 := JDone), w')"
    using race_run [OF zero_neq_one demo_rivals] by blast
  have "inj_on (\<lambda>t. jn_Player (demo_joiners t)) (set ?ts)" by (auto simp: inj_on_def demo_joiners_def)
  moreover have "registered (jn_Player (demo_joiners t)) demo_door" if "t \<in> set ?ts" for t
    using demo_rivals that by (auto simp: rivals_def)
  moreover have "11 \<le> count_list ?ts 1" by (simp add: eval_nat_numeral)
  ultimately have "\<exists>p. GetRoomByHost (jn_Player (demo_joiners 1)) (repo w') = Some p \<and>
      rm_Players (rooms_heap w' p) (jn_Player (demo_joiners 1)) \<noteq> None"
    using no_schedule_loses_members [of demo_joiners ?ts demo_door 1, OF _ _ _ run] by auto
  then show ?thesis unfolding run Let_def snd_conv by (simp add: demo_joiners_def)
qed

theorem join_alone_is_JoinGame_witness:
  "let prm = [''ASTATE'' \<mapsto> ''1'', ''VE_RID'' \<mapsto> ''1'']; j = \<lparr>jn_Player = 1, jn_Room = 1, jn_Password = [], jn_Now = 100\<rparr>
   in snd (interleave (\<lambda>_. j) (replicate 11 0) all_checking (st_world demo_hosting)) =
      st_world (snd (JoinGame demo_env 0 None prm demo_hosting))"
proof -
  have "trim_space ''ann'' \<noteq> []" "trim_space ''1'' = ''1''" "list_all is_digit ''1''" "dec_val 0 ''1'' = 1"
    by code_simp+
  then have "trim_space (ss_Nick demo_session) \<noteq> []" "parse_uint 32 (trim_space ''1'') = Some 1"
    by (simp_all add: demo_session_def parse_uint_def)
  then show ?thesis
    using join_alone_is_JoinGame [OF demo_hosting_eq(6), of "[''ASTATE'' \<mapsto> ''1'', ''VE_RID'' \<mapsto> ''1'']" 1
        "\<lambda>_. \<lparr>jn_Player = 1, jn_Room = 1, jn_Password = [], jn_Now = 100\<rparr>" 0 demo_env None]
    by (simp add: demo_session_def get_def astate_free_def demo_env_def)
qed

end
