(* ===== verification/Races.thy ===== *)
theory Races
  imports Interleaving
begin

text \<open>
  Joins among the other commands that change rooms: between two steps of a join, any player may leave its
  room, by a command, a timer or a lost connection, and any member may start the room. These run as one
  step here. What joins promise under such an environment is proved by rely and guarantee: a step of
  another player spares the seat of player \<open>i\<close>, and no step opens a room. What they do not promise is that
  the room still is what the check saw.
\<close>

section \<open>Schedules with other commands\<close>

text \<open>\<open>LeaveBy\<close> and \<open>StartBy\<close> carry the clock and the player who leaves or starts.\<close>

datatype act = Turn nat | LeaveBy time u32 | StartBy time u32 string string

fun command_step :: "act \<Rightarrow> store world \<Rightarrow> store world" where
  "command_step (Turn t) w = w"
| "command_step (LeaveBy now i) w = snd (Leave RoomRepoAdapter now i w)"
| "command_step (StartBy now i sav mapName) w =
     (case GetRoomByHost i (repo w) of None \<Rightarrow> w | Some p \<Rightarrow> MarkStarted RoomRepoAdapter now (Some p) sav mapName w)"

fun run_acts ::
  "joins \<Rightarrow> act list \<Rightarrow> program_counters \<Rightarrow> store world \<Rightarrow> program_counters \<times> store world" where
  "run_acts js [] pcs w = (pcs, w)"
| "run_acts js (Turn t # as) pcs w = (case join_step (js t) (pcs t) w of (pc, w') \<Rightarrow> run_acts js as (pcs(t := pc)) w')"
| "run_acts js (a # as) pcs w = run_acts js as pcs (command_step a w)"

fun turn_of :: "act \<Rightarrow> nat list" where
  "turn_of (Turn t) = [t]"
| "turn_of a = []"

abbreviation turns :: "act list \<Rightarrow> nat list" where
  "turns as \<equiv> concat (map turn_of as)"

text \<open>A player whose leave is scheduled as a command of its own.\<close>

fun leaves :: "act \<Rightarrow> u32 option" where
  "leaves (LeaveBy now i) = Some i"
| "leaves a = None"

lemma run_turns: "run_acts js (map Turn ts @ as) pcs w = (case interleave js ts pcs w of (pcs', w') \<Rightarrow> run_acts js as pcs' w')"
proof (induction ts arbitrary: pcs w)
  case (Cons t ts)
  then show ?case by (cases "join_step (js t) (pcs t) w") (simp add: fun_upd_def)
qed simp

lemma run_turns_only: "run_acts js (map Turn ts) pcs w = interleave js ts pcs w"
  using run_turns [of js ts "[]" pcs w] by (simp add: split_beta)

lemma run_command: "turn_of a = [] \<Longrightarrow> run_acts js (a # as) pcs w = run_acts js as pcs (command_step a w)"
  by (cases a) simp_all

section \<open>What a command spares\<close>

lemma MarkStarted_spares: "spares i w (MarkStarted RoomRepoAdapter n ro sav m w)"
  by (auto simp: spares_def MarkStarted_def RoomRepoAdapter_def store_ops Let_def split: option.splits)

lemma MarkStarted_only_closes: "only_closes w (MarkStarted RoomRepoAdapter n ro sav m w)"
  by (auto simp: only_closes_def MarkStarted_def RoomRepoAdapter_def store_ops Let_def split: option.splits)

lemma spares_refl [simp]: "spares i w w"
  by (simp add: spares_def)

lemma only_closes_refl [simp]: "only_closes w w"
  by (simp add: only_closes_def)

lemma command_spares: "leaves a \<noteq> Some i \<Longrightarrow> spares i w (command_step a w)"
  by (cases a) (auto simp: Leave_spares MarkStarted_spares split: option.splits)

lemma command_only_closes: "only_closes w (command_step a w)"
  by (cases a) (auto simp: Leave_only_closes MarkStarted_only_closes split: option.splits)

lemma command_keeps: "keeps_players w (command_step a w)"
  by (cases a) (auto simp: Leave_keeps MarkStarted_keeps split: option.splits)

section \<open>What every schedule keeps\<close>

text \<open>All threads of \<open>T\<close> have got as far as their program counters say.\<close>

definition all_progress :: "joins \<Rightarrow> nat set \<Rightarrow> store world \<Rightarrow> program_counters \<Rightarrow> store world \<Rightarrow> bool" where
  "all_progress js T w0 pcs w \<longleftrightarrow>
     only_closes w0 w \<and>
     (\<forall>t\<in>T. registered (jn_Player (js t)) w \<and>
       progress (jn_Player (js t)) (GetRoom (jn_Room (js t)) (repo w0)) w (pcs t))"

lemma all_progress_turn:
  assumes "all_progress js T w0 pcs w" and "inj_on (\<lambda>t. jn_Player (js t)) T" and "u \<in> T"
    and "join_step (js u) (pcs u) w = (pc, w')"
  shows "all_progress js T w0 (pcs(u := pc)) w'"
proof -
  have "interleave js [u] pcs w = (pcs(u := pc), w')" using assms(4) by simp
  from interleave_progress [OF this assms(2), of w0] assms(1,3)
  have "\<forall>t\<in>T. progress (jn_Player (js t)) (GetRoom (jn_Room (js t)) (repo w0)) w' ((pcs(u := pc)) t)"
    by (simp add: all_progress_def)
  moreover have "keeps_players w w'" "only_closes w w'"
    using join_step_keeps [of w "js u" "pcs u"] join_step_only_closes [of w "js u" "pcs u"] assms(4) by simp_all
  ultimately show ?thesis
    using assms(1) registered_keeps by (auto simp: all_progress_def only_closes_def)
qed

lemma all_progress_command:
  assumes "all_progress js T w0 pcs w" and "\<forall>t\<in>T. leaves a \<noteq> Some (jn_Player (js t))"
  shows "all_progress js T w0 pcs (command_step a w)"
  using assms progress_spares [OF command_spares command_keeps] registered_keeps [OF command_keeps, of _ a w]
    command_only_closes [of w a]
  by (auto simp: all_progress_def only_closes_def)

lemma all_progress_run:
  assumes "run_acts js as pcs w = (pcs', w')" and "all_progress js T w0 pcs w"
    and "inj_on (\<lambda>t. jn_Player (js t)) T" and "set (turns as) \<subseteq> T"
    and "\<forall>a\<in>set as. \<forall>t\<in>T. leaves a \<noteq> Some (jn_Player (js t))"
  shows "all_progress js T w0 pcs' w'"
  using assms(1,2,4,5)
proof (induction as arbitrary: pcs w)
  case (Cons a as)
  show ?case
  proof (cases "\<exists>u. a = Turn u")
    case True
    then obtain u where a: "a = Turn u" ..
    obtain pc w1 where step: "join_step (js u) (pcs u) w = (pc, w1)" by fastforce
    then have run: "run_acts js as (pcs(u := pc)) w1 = (pcs', w')" using Cons.prems(1) a by simp
    have "all_progress js T w0 (pcs(u := pc)) w1"
      using all_progress_turn [OF Cons.prems(2) assms(3) _ step] Cons.prems(3) a by simp
    from Cons.IH [OF run this] Cons.prems(3,4) show ?thesis by simp
  next
    case False
    then have run: "run_acts js as pcs (command_step a w) = (pcs', w')" using Cons.prems(1) by (cases a) auto
    have "all_progress js T w0 pcs (command_step a w)"
      using all_progress_command [OF Cons.prems(2)] Cons.prems(4) by simp
    from Cons.IH [OF run this] Cons.prems(3,4) show ?thesis by simp
  qed
qed simp

lemma steps_left_run:
  "run_acts js as pcs w = (pcs', w') \<Longrightarrow> steps_left (pcs' t) \<le> steps_left (pcs t) - count_list (turns as) t"
proof (induction as arbitrary: pcs w)
  case (Cons a as)
  show ?case
  proof (cases "\<exists>u. a = Turn u")
    case True
    then obtain u where a: "a = Turn u" ..
    obtain pc w1 where step: "join_step (js u) (pcs u) w = (pc, w1)" by fastforce
    then have "run_acts js as (pcs(u := pc)) w1 = (pcs', w')" using Cons.prems a by simp
    from Cons.IH [OF this] show ?thesis
      using steps_left_step [of "js u" "pcs u" w] step a by (auto split: if_splits)
  next
    case False
    then show ?thesis using Cons.IH [of pcs "command_step a w"] Cons.prems by (cases a) auto
  qed
qed simp

text \<open>
  C6. Joins of different registered players may be interleaved in any way, with one another and with the
  leaves and starts of other players: a join that got eleven turns has come to an end, and unless it was
  refused, its player is a member of the room it asked for, and the index of the players' rooms leads
  there. No schedule loses a member.
\<close>

theorem no_command_loses_members:
  assumes "inj_on (\<lambda>t. jn_Player (js t)) (set (turns as))"
    and "\<And>t. t \<in> set (turns as) \<Longrightarrow> registered (jn_Player (js t)) w"
    and "\<And>a t. a \<in> set as \<Longrightarrow> t \<in> set (turns as) \<Longrightarrow> leaves a \<noteq> Some (jn_Player (js t))"
    and "11 \<le> count_list (turns as) t" and "run_acts js as all_checking w = (pcs, w')" and "pcs t \<noteq> JRefused"
  shows "pcs t = JDone \<and>
    (\<exists>p. GetRoom (jn_Room (js t)) (repo w) = Some p \<and> GetRoomByHost (jn_Player (js t)) (repo w') = Some p \<and>
      rm_Players (rooms_heap w' p) (jn_Player (js t)) \<noteq> None)"
proof -
  have over: "pcs t = JDone"
    using steps_left_run [OF assms(5), of t] assms(4,6) steps_left_0 [of "pcs t"]
    by (simp add: all_checking_def)
  have t: "t \<in> set (turns as)" using assms(4) count_notin [of t "turns as"] by (metis not_numeral_le_zero)
  have "all_progress js (set (turns as)) w all_checking w"
    using assms(2) by (simp add: all_progress_def all_checking_def)
  from all_progress_run [OF assms(5) this assms(1) subset_refl] assms(3)
  have "all_progress js (set (turns as)) w pcs w'" by blast
  with t have "progress (jn_Player (js t)) (GetRoom (jn_Room (js t)) (repo w)) w' (pcs t)"
    unfolding all_progress_def by blast
  with over show ?thesis by (auto simp: seated_in_def listed_in_def)
qed

section \<open>What a check is worth\<close>

text \<open>A join whose check has passed, when another command runs before the rest of it.\<close>

lemma checked_then:
  assumes "admits (js t) p w" and "registered (jn_Player (js t)) w" and "GetRoomByHost (jn_Player (js t)) (repo w) = None"
    and "leaves a \<noteq> Some (jn_Player (js t))" and "turn_of a = []"
  obtains q where "pl_ID (players_heap (command_step a w) q) = jn_Player (js t)"
    and "run_acts js (Turn t # a # map Turn (replicate 10 t)) all_checking w =
      (all_checking(t := JDone), Join RoomRepoAdapter (jn_Now (js t)) (Some p) (Some q) (command_step a w))"
proof -
  let ?i = "jn_Player (js t)" and ?w1 = "command_step a w"
  have "registered ?i ?w1" using registered_keeps [OF command_keeps] assms(2) by simp
  then obtain q where q: "players (repo ?w1) ?i = Some q" "pl_ID (players_heap ?w1 q) = ?i"
    by (rule registeredE)
  have out: "GetRoomByHost ?i (repo ?w1) = None"
    using command_spares [OF assms(4), of w] assms(3) by (simp add: spares_def GetRoomByHost_def)
  have rest: "interleave js (replicate 10 t) (all_checking(t := JLeave p)) ?w1 =
      (all_checking(t := JDone), Join RoomRepoAdapter (jn_Now (js t)) (Some p) (Some q) ?w1)"
    using leave_alone [where t = t and pcs = "all_checking(t := JLeave p)" and js = js and p = p and w = ?w1] q(1)
    by (simp add: Leave_outside [OF out] Let_def GetPlayer_def)
  have "run_acts js (Turn t # a # map Turn (replicate 10 t)) all_checking w =
      run_acts js (map Turn (replicate 10 t)) (all_checking(t := JLeave p)) ?w1"
    using join_step_admits [OF assms(1)] assms(5) by (cases a) (simp_all add: all_checking_def)
  then show ?thesis using that [OF q(2)] rest by (simp only: run_turns_only)
qed

lemma refused_after:
  assumes "turn_of a = []" and "\<And>p. \<not> admits (js t) p (command_step a w)"
  shows "run_acts js (a # map Turn (replicate 11 t)) all_checking w = (all_checking(t := JRefused), command_step a w)"
proof -
  have "interleave js (replicate 11 t) all_checking (command_step a w) = (all_checking(t := JRefused), command_step a w)"
    using refused_alone [where t = t and js = js and pcs = all_checking and w = "command_step a w" and n = 10, OF _ assms(2)]
    by (simp add: all_checking_def)
  then show ?thesis by (simp only: run_command [OF assms(1)] run_turns_only)
qed

lemma Leave_closes:
  assumes "GetRoomByHost (rm_HostID (rooms_heap w p)) (repo w) = Some p" and "\<not> rm_Started (rooms_heap w p)"
  shows "GetRoom (rm_ID (rooms_heap w p)) (repo (snd (Leave RoomRepoAdapter n (rm_HostID (rooms_heap w p)) w))) = None"
proof -
  have "should_delete (rm_HostID (rooms_heap w p)) (leave_room (rm_HostID (rooms_heap w p)) (rooms_heap w p))"
    using assms(2) by (simp add: should_delete_def)
  then show ?thesis
    by (simp add: Leave_store [OF assms(1)] Let_def GetRoom_def UnindexRoomBySum_def UnindexRoomByID_def)
qed

text \<open>
  C15. Between the check of a join and the rest of it the room may change. When the room is started in
  between, the player who would have been refused is listed in a started room, one more than the players
  it was started with. When the host leaves in between, the player ends up in a room that was closed: it
  leads there by the index of players, but nobody finds the room by its id, and the join has not failed.
\<close>

theorem stale_checks:
  assumes "admits (js t) p w" and "registered (jn_Player (js t)) w"
    and "GetRoomByHost (jn_Player (js t)) (repo w) = None"
    and host: "GetRoomByHost (rm_HostID (rooms_heap w p)) (repo w) = Some p"
    and listed: "rm_ID (rooms_heap w p) = jn_Room (js t)"
  shows "let h = rm_HostID (rooms_heap w p); i = jn_Player (js t);
      late = run_acts js (Turn t # StartBy now h sav m # map Turn (replicate 10 t)) all_checking w;
      orphan = run_acts js (Turn t # LeaveBy now h # map Turn (replicate 10 t)) all_checking w in
    fst (run_acts js (StartBy now h sav m # map Turn (replicate 11 t)) all_checking w) t = JRefused \<and>
    fst late t = JDone \<and> rm_Started (rooms_heap (snd late) p) \<and> rm_Players (rooms_heap (snd late) p) i \<noteq> None \<and>
    rm_PlayersCount (rooms_heap (snd late) p) = rm_StartPlayers (rooms_heap (snd late) p) + 1 \<and>
    fst (run_acts js (LeaveBy now h # map Turn (replicate 11 t)) all_checking w) t = JRefused \<and>
    fst orphan t = JDone \<and> GetRoomByHost i (repo (snd orphan)) = Some p \<and>
    GetRoom (jn_Room (js t)) (repo (snd orphan)) = None"
proof -
  let ?h = "rm_HostID (rooms_heap w p)" and ?i = "jn_Player (js t)"
  let ?start = "StartBy now ?h sav m" and ?leave = "LeaveBy now ?h"
  have hi: "?h \<noteq> ?i" using host assms(3) by auto
  have waiting: "\<not> rm_Started (rooms_heap w p)" and found: "GetRoom (jn_Room (js t)) (repo w) = Some p"
    using assms(1) by (auto simp: admits_def Let_def)
  have started: "command_step ?start w = MarkStarted RoomRepoAdapter now (Some p) sav m w" by (simp add: host)
  have room: "rooms_heap (command_step ?start w) p = start_room now sav m (rooms_heap w p)"
    unfolding started by (simp add: MarkStarted_def Let_def)
  have "GetRoom (jn_Room (js t)) (repo (command_step ?start w)) = Some p"
    using found unfolding started by (simp add: MarkStarted_def Let_def RoomRepoAdapter_def store_ops)
  then have "\<not> admits (js t) p' (command_step ?start w)" for p'
    using room by (auto simp: admits_def Let_def)
  note serial_start = refused_after [of ?start js t w, OF turn_of.simps(3) this]
  have closed: "GetRoom (jn_Room (js t)) (repo (command_step ?leave w)) = None"
    using Leave_closes [OF host waiting] listed by simp
  then have "\<not> admits (js t) p' (command_step ?leave w)" for p' by (simp add: admits_def Let_def)
  note serial_leave = refused_after [of ?leave js t w, OF turn_of.simps(2) this]
  obtain q where q: "pl_ID (players_heap (command_step ?start w) q) = ?i"
    and late: "run_acts js (Turn t # ?start # map Turn (replicate 10 t)) all_checking w =
      (all_checking(t := JDone), Join RoomRepoAdapter (jn_Now (js t)) (Some p) (Some q) (command_step ?start w))"
    using checked_then [where js = js and t = t and a = ?start, OF assms(1-3)] by auto
  obtain q' where q': "pl_ID (players_heap (command_step ?leave w) q') = ?i"
    and orphan: "run_acts js (Turn t # ?leave # map Turn (replicate 10 t)) all_checking w =
      (all_checking(t := JDone), Join RoomRepoAdapter (jn_Now (js t)) (Some p) (Some q') (command_step ?leave w))"
    using checked_then [where js = js and t = t and a = ?leave, OF assms(1-3)] hi by auto
  have late_room: "rooms_heap (snd (run_acts js (Turn t # ?start # map Turn (replicate 10 t)) all_checking w)) p =
      join_room (jn_Now (js t)) ?i q (start_room now sav m (rooms_heap w p))"
    unfolding late snd_conv Join_parts(5) room q ..
  have lost: "GetRoom (jn_Room (js t)) (repo (snd (run_acts js (Turn t # ?leave # map Turn (replicate 10 t)) all_checking w))) = None"
    using closed unfolding orphan snd_conv GetRoom_def Join_parts(3) .
  have seat: "GetRoomByHost ?i (repo (snd (run_acts js (Turn t # ?leave # map Turn (replicate 10 t)) all_checking w))) = Some p"
    unfolding orphan snd_conv GetRoomByHost_def Join_parts(4) q' by simp
  have start_players: "rm_StartPlayers (join_room n k x (start_room now sav m r)) = rm_PlayersCount r"
    "rm_Started (join_room n k x (start_room now sav m r))" for n k x r
    by (simp_all add: join_room_def start_room_def Let_def)
  show ?thesis
    unfolding Let_def late_room lost seat unfolding late orphan serial_start serial_leave
    by (simp add: start_players)
qed

section \<open>A player at the door\<close>

lemma demo_door_checked:
  "admits (demo_joiners 0) 0 demo_door" "registered (jn_Player (demo_joiners 0)) demo_door"
  "GetRoomByHost (jn_Player (demo_joiners 0)) (repo demo_door) = None"
  "rm_HostID (rooms_heap demo_door 0) = 1" "rm_ID (rooms_heap demo_door 0) = jn_Room (demo_joiners 0)"
  "GetRoomByHost 1 (repo demo_door) = Some 0"
  using demo_rivals
  by (simp_all add: rivals_def) (simp_all add: demo_door_def demo_joiners_def demo_hosted_eq store_ops)

theorem stale_checks_witness:
  "GetRoomByHost 2 (repo (snd (run_acts demo_joiners (Turn 0 # LeaveBy 15 1 # map Turn (replicate 10 0))
     all_checking demo_door))) = Some 0"
  using stale_checks [where js = demo_joiners and t = 0 and p = 0 and w = demo_door and now = 15,
      OF demo_door_checked(1-3) _ demo_door_checked(5), unfolded demo_door_checked(4), OF demo_door_checked(6)]
  unfolding Let_def by (simp add: demo_joiners_def del: run_acts.simps)

theorem no_command_loses_members_witness:
  "let w' = snd (run_acts demo_joiners (Turn 0 # LeaveBy 15 1 # map Turn (replicate 10 0)) all_checking demo_door)
   in \<exists>p. GetRoomByHost 2 (repo w') = Some p \<and> rm_Players (rooms_heap w' p) 2 \<noteq> None"
proof -
  let ?as = "Turn 0 # LeaveBy 15 1 # map Turn (replicate 10 0)"
  have turns: "set (turns ?as) = {0}" "11 \<le> count_list (turns ?as) 0" by (simp_all add: eval_nat_numeral)
  have inj: "inj_on (\<lambda>t. jn_Player (demo_joiners t)) (set (turns ?as))" by (simp add: turns(1))
  have regd: "registered (jn_Player (demo_joiners t)) demo_door" if "t \<in> set (turns ?as)" for t
    using that demo_door_checked(2) by (simp only: turns(1) singleton_iff)
  have leaver: "leaves (LeaveBy 15 1) \<noteq> Some (jn_Player (demo_joiners 0))" by (simp add: demo_joiners_def)
  have foreign: "leaves a \<noteq> Some (jn_Player (demo_joiners t))" if "a \<in> set ?as" "t \<in> set (turns ?as)" for a t
    using that leaver unfolding turns(1) by auto
  obtain q where run: "run_acts demo_joiners ?as all_checking demo_door = (all_checking(0 := JDone),
      Join RoomRepoAdapter (jn_Now (demo_joiners 0)) (Some 0) (Some q) (command_step (LeaveBy 15 1) demo_door))"
    using checked_then [where js = demo_joiners and t = 0, OF demo_door_checked(1-3) leaver turn_of.simps(2)] by blast
  have "\<exists>p. GetRoomByHost (jn_Player (demo_joiners 0)) (repo (snd (run_acts demo_joiners ?as all_checking demo_door))) = Some p \<and>
      rm_Players (rooms_heap (snd (run_acts demo_joiners ?as all_checking demo_door)) p) (jn_Player (demo_joiners 0)) \<noteq> None"
    using no_command_loses_members [of demo_joiners ?as demo_door 0, OF inj regd foreign turns(2) run]
    unfolding run by auto
  then show ?thesis by (simp add: Let_def demo_joiners_def del: run_acts.simps)
qed

end
