(* ===== verification/Irc_Proxy.thy ===== *)
theory Irc_Proxy
  imports Go_Prelude "HOL-Library.Sublist"
begin

text \<open>
  The IRC proxy (\<^verbatim>\<open>transport/ircproxy/proxy.go\<close>): the accept loop, and the pipe between a client and the
  upstream server as a step relation. A pipe has four goroutines: one copier for each direction, one that
  closes both sockets when the context is cancelled, and \<^verbatim>\<open>pipe\<close> itself, which waits for the first copier
  to report on a channel and then cancels and closes. The peers and the context are its environment.
\<close>

section \<open>The accept loop\<close>

text \<open>What \<^verbatim>\<open>Accept\<close> returns, in order; an error comes with whether the context was cancelled.\<close>

datatype 'c accepted = Client 'c | AcceptError string bool

fun accept_loop :: "'c accepted list \<Rightarrow> 'c list \<times> string option option" where
  "accept_loop [] = ([], None)"
| "accept_loop (Client c # as) = (case accept_loop as of (cs, r) \<Rightarrow> (c # cs, r))"
| "accept_loop (AcceptError err cancelled # as) = ([], Some (if cancelled then None else Some err))"

text \<open>The clients piped, and the result: none while it accepts, \<open>Some None\<close> for nil.\<close>

definition ListenAndServe :: "string option \<Rightarrow> 'c accepted list \<Rightarrow> 'c list \<times> string option option" where
  "ListenAndServe listen_err as = (case listen_err of Some err \<Rightarrow> ([], Some (Some err)) | None \<Rightarrow> accept_loop as)"

section \<open>A pipe\<close>

text \<open>\<open>Up\<close> is from the client to the upstream server, \<open>Down\<close> the way back.\<close>

datatype side = Up | Down

record flow =
  fw_Sent :: bytes
  fw_Unread :: bytes
  fw_Written :: bytes
  fw_EOF :: bool
  fw_Copying :: bool

record pipe =
  pp_Flow :: "side \<Rightarrow> flow"
  pp_ClientOpen :: bool
  pp_RemoteOpen :: bool
  pp_Done :: nat
  pp_Waiting :: bool
  pp_Cancelled :: bool

definition fresh_flow :: "bool \<Rightarrow> flow" where
  "fresh_flow copying = \<lparr>fw_Sent = [], fw_Unread = [], fw_Written = [], fw_EOF = False, fw_Copying = copying\<rparr>"

text \<open>The state after \<^verbatim>\<open>Dial\<close>: when it fails, \<^verbatim>\<open>pipe\<close> returns at once and only the client was open.\<close>

definition dialled :: "bool \<Rightarrow> pipe" where
  "dialled ok =
     \<lparr>pp_Flow = (\<lambda>_. fresh_flow ok), pp_ClientOpen = ok, pp_RemoteOpen = ok, pp_Done = 0, pp_Waiting = ok,
      pp_Cancelled = \<not> ok\<rparr>"

definition on_flow :: "side \<Rightarrow> (flow \<Rightarrow> flow) \<Rightarrow> pipe \<Rightarrow> pipe" where
  "on_flow d f s = s\<lparr>pp_Flow := (pp_Flow s)(d := f (pp_Flow s d))\<rparr>"

definition close_both :: "pipe \<Rightarrow> pipe" where
  "close_both s = s\<lparr>pp_ClientOpen := False, pp_RemoteOpen := False\<rparr>"

definition stop_copying :: "side \<Rightarrow> pipe \<Rightarrow> pipe" where
  "stop_copying d s = (on_flow d (\<lambda>f. f\<lparr>fw_Copying := False\<rparr>) s)\<lparr>pp_Done := Suc (pp_Done s)\<rparr>"

text \<open>
  The environment: a peer sends, ends its stream or resets it, which may drop what was not read yet, and
  the server may be told to stop.
\<close>

inductive env_step :: "pipe \<Rightarrow> pipe \<Rightarrow> bool" where
  sends: "\<not> fw_EOF (pp_Flow s d) \<Longrightarrow>
    env_step s (on_flow d (\<lambda>f. f\<lparr>fw_Sent := fw_Sent f @ bs, fw_Unread := fw_Unread f @ bs\<rparr>) s)"
| ends: "env_step s (on_flow d (\<lambda>f. f\<lparr>fw_EOF := True\<rparr>) s)"
| resets: "env_step s (on_flow d (\<lambda>f. f\<lparr>fw_EOF := True, fw_Unread := []\<rparr>) s)"
| cancels: "env_step s (s\<lparr>pp_Cancelled := True\<rparr>)"

text \<open>
  The proxy: a copier moves what it read, fails in a write after a part of it, or ends on end of stream or
  a closed socket; the closer closes; \<^verbatim>\<open>pipe\<close> takes the first report and runs its deferred calls.
\<close>

inductive proxy_step :: "pipe \<Rightarrow> pipe \<Rightarrow> bool" where
  copies: "fw_Copying (pp_Flow s d) \<Longrightarrow> pp_ClientOpen s \<Longrightarrow> pp_RemoteOpen s \<Longrightarrow>
    fw_Unread (pp_Flow s d) = bs @ rest \<Longrightarrow> bs \<noteq> [] \<Longrightarrow>
    proxy_step s (on_flow d (\<lambda>f. f\<lparr>fw_Written := fw_Written f @ bs, fw_Unread := rest\<rparr>) s)"
| fails: "fw_Copying (pp_Flow s d) \<Longrightarrow> fw_Unread (pp_Flow s d) = out @ lost @ rest \<Longrightarrow> lost \<noteq> [] \<Longrightarrow>
    proxy_step s (stop_copying d (on_flow d (\<lambda>f. f\<lparr>fw_Written := fw_Written f @ out, fw_Unread := rest\<rparr>) s))"
| finishes: "fw_Copying (pp_Flow s d) \<Longrightarrow>
    (fw_Unread (pp_Flow s d) = [] \<and> fw_EOF (pp_Flow s d)) \<or> \<not> pp_ClientOpen s \<or> \<not> pp_RemoteOpen s \<Longrightarrow>
    proxy_step s (stop_copying d s)"
| closes: "pp_Cancelled s \<Longrightarrow> pp_ClientOpen s \<or> pp_RemoteOpen s \<Longrightarrow> proxy_step s (close_both s)"
| returns: "pp_Waiting s \<Longrightarrow> 0 < pp_Done s \<Longrightarrow>
    proxy_step s ((close_both s)\<lparr>pp_Waiting := False, pp_Done := pp_Done s - 1, pp_Cancelled := True\<rparr>)"

inductive piped :: "pipe \<Rightarrow> bool" where
  dial: "piped (dialled ok)"
| env: "piped s \<Longrightarrow> env_step s s' \<Longrightarrow> piped s'"
| proxy: "piped s \<Longrightarrow> proxy_step s s' \<Longrightarrow> piped s'"

section \<open>The invariant\<close>

definition copiers :: "pipe \<Rightarrow> nat" where
  "copiers s = (if fw_Copying (pp_Flow s Up) then 1 else 0) + (if fw_Copying (pp_Flow s Down) then 1 else 0)"

text \<open>
  While a direction is copied, what was sent and is neither written nor unread was dropped by a reset, so
  nothing follows it. The channel holds the reports of the copiers that stopped, less the one taken.
\<close>

definition flow_ok :: "flow \<Rightarrow> bool" where
  "flow_ok f \<longleftrightarrow> prefix (fw_Written f) (fw_Sent f) \<and>
     (fw_Copying f \<longrightarrow> fw_Sent f = fw_Written f @ fw_Unread f \<or> (fw_EOF f \<and> fw_Unread f = []))"

definition pipe_ok :: "pipe \<Rightarrow> bool" where
  "pipe_ok s \<longleftrightarrow>
     (\<forall>d. flow_ok (pp_Flow s d)) \<and>
     (if pp_Waiting s then pp_Done s + copiers s = 2
      else pp_Cancelled s \<and> \<not> pp_ClientOpen s \<and> \<not> pp_RemoteOpen s \<and> pp_Done s + copiers s \<le> 1)"

lemma pipe_ok_flow:
  assumes "pipe_ok s" and "flow_ok (f (pp_Flow s d))" and "fw_Copying (f (pp_Flow s d)) = fw_Copying (pp_Flow s d)"
  shows "pipe_ok (on_flow d f s)"
  using assms by (cases d) (auto simp: pipe_ok_def on_flow_def copiers_def split: if_splits)

lemma pipe_ok_flowD: "pipe_ok s \<Longrightarrow> flow_ok (pp_Flow s d)"
  by (simp add: pipe_ok_def)

lemma pipe_ok_stop:
  assumes "pipe_ok s" and "fw_Copying (pp_Flow s d)"
  shows "pipe_ok (stop_copying d s)"
  using assms by (cases d) (auto simp: pipe_ok_def stop_copying_def on_flow_def copiers_def flow_ok_def
      split: if_splits)

lemma env_step_ok: "env_step s s' \<Longrightarrow> pipe_ok s \<Longrightarrow> pipe_ok s'"
proof (induction rule: env_step.induct)
  case (cancels s)
  then show ?case by (auto simp: pipe_ok_def copiers_def split: if_splits)
qed (rule pipe_ok_flow, assumption, use pipe_ok_flowD in \<open>fastforce simp: flow_ok_def\<close>, simp)+

lemma proxy_step_ok: "proxy_step s s' \<Longrightarrow> pipe_ok s \<Longrightarrow> pipe_ok s'"
proof (induction rule: proxy_step.induct)
  case (copies s d bs rest)
  then show ?case
    using pipe_ok_flowD [OF copies(6), of d] by (intro pipe_ok_flow) (auto simp: flow_ok_def)
next
  case (fails s d out lost rest)
  then show ?case
    by (cases d) (auto simp: pipe_ok_def flow_ok_def stop_copying_def on_flow_def copiers_def
        split: if_splits)
next
  case (finishes s d)
  then show ?case by (simp add: pipe_ok_stop)
qed (auto simp: pipe_ok_def close_both_def copiers_def split: if_splits)

lemma piped_ok: "piped s \<Longrightarrow> pipe_ok s"
proof (induction rule: piped.induct)
  case (dial ok)
  then show ?case by (simp add: pipe_ok_def dialled_def flow_ok_def fresh_flow_def copiers_def)
qed (auto intro: env_step_ok proxy_step_ok)

section \<open>Properties\<close>

text \<open>The proxy has nothing left to do: no goroutine of the pipe can make a step.\<close>

definition idle :: "pipe \<Rightarrow> bool" where
  "idle s \<longleftrightarrow> \<not> Ex (proxy_step s)"

lemma idle_copier:
  assumes "idle s" and "fw_Copying (pp_Flow s d)"
  shows "pp_ClientOpen s \<and> pp_RemoteOpen s \<and> fw_Unread (pp_Flow s d) = [] \<and> \<not> fw_EOF (pp_Flow s d)"
proof -
  have no: "\<not> proxy_step s s'" for s' using assms(1) by (simp add: idle_def)
  have open_both: "pp_ClientOpen s \<and> pp_RemoteOpen s" using finishes [OF assms(2)] no by blast
  have "fw_Unread (pp_Flow s d) = []"
    using copies [OF assms(2), of "fw_Unread (pp_Flow s d)" "[]"] open_both no by auto
  then show ?thesis using open_both finishes [OF assms(2)] no by blast
qed

text \<open>
  C40. In every state that a pipe can reach, what was written to a peer is a prefix of what the other peer
  sent, and the channel never holds more than its two places. A pipe that has nothing left to do is
  either relaying, with both copiers waiting for data, everything that was sent delivered and neither end
  of stream seen, or it is over: \<^verbatim>\<open>pipe\<close> has returned, both sockets are closed and no copier is left.
\<close>

theorem pipe_relays_or_ends:
  assumes "piped s"
  shows "(\<forall>d. prefix (fw_Written (pp_Flow s d)) (fw_Sent (pp_Flow s d))) \<and> pp_Done s \<le> 2 \<and>
    (idle s \<longrightarrow>
      (pp_Waiting s \<and> \<not> pp_Cancelled s \<and> (\<forall>d. fw_Copying (pp_Flow s d) \<and> \<not> fw_EOF (pp_Flow s d) \<and>
         fw_Written (pp_Flow s d) = fw_Sent (pp_Flow s d))) \<or>
      (\<not> pp_Waiting s \<and> \<not> pp_ClientOpen s \<and> \<not> pp_RemoteOpen s \<and> (\<forall>d. \<not> fw_Copying (pp_Flow s d))))"
proof -
  have ok: "pipe_ok s" by (rule piped_ok [OF assms])
  have bound: "pp_Done s \<le> 2" using ok by (auto simp: pipe_ok_def split: if_splits)
  have ends: "(pp_Waiting s \<and> \<not> pp_Cancelled s \<and> (\<forall>d. fw_Copying (pp_Flow s d) \<and> \<not> fw_EOF (pp_Flow s d) \<and>
      fw_Written (pp_Flow s d) = fw_Sent (pp_Flow s d))) \<or>
    (\<not> pp_Waiting s \<and> \<not> pp_ClientOpen s \<and> \<not> pp_RemoteOpen s \<and> (\<forall>d. \<not> fw_Copying (pp_Flow s d)))"
    if idle: "idle s"
  proof (cases "pp_Waiting s")
    case True
    have "pp_Done s = 0" using returns [OF True] idle by (auto simp: idle_def)
    then have copying: "fw_Copying (pp_Flow s d)" for d
      using ok True by (cases d) (auto simp: pipe_ok_def copiers_def split: if_splits)
    then have "\<not> pp_Cancelled s" using closes [of s] idle idle_copier [OF idle, of Up] by (auto simp: idle_def)
    moreover have "fw_Written (pp_Flow s d) = fw_Sent (pp_Flow s d)" for d
      using ok copying [of d] idle_copier [OF idle copying, of d] by (auto simp: pipe_ok_def flow_ok_def)
    ultimately show ?thesis using True copying idle_copier [OF idle] by blast
  next
    case False
    then have "\<not> pp_ClientOpen s \<and> \<not> pp_RemoteOpen s" using ok by (simp add: pipe_ok_def)
    then show ?thesis using False idle_copier [OF idle] by blast
  qed
  show ?thesis using ok bound ends by (auto simp: pipe_ok_def flow_ok_def)
qed

text \<open>A client that said something, and a pipe that passed it on.\<close>

definition demo_relayed :: pipe where
  "demo_relayed =
     on_flow Up (\<lambda>f. f\<lparr>fw_Written := fw_Written f @ ''NICK'', fw_Unread := []\<rparr>)
       (on_flow Up (\<lambda>f. f\<lparr>fw_Sent := fw_Sent f @ ''NICK'', fw_Unread := fw_Unread f @ ''NICK''\<rparr>) (dialled True))"

lemma demo_relayed_piped: "piped demo_relayed"
  unfolding demo_relayed_def
  by (rule piped.proxy [OF piped.env [OF dial sends] copies])
    (simp_all add: on_flow_def dialled_def fresh_flow_def)

inductive_cases proxy_stepE: "proxy_step s s'"

lemma demo_relayed_idle: "idle demo_relayed"
proof -
  have flow: "fw_Unread (pp_Flow demo_relayed d) = []" "\<not> fw_EOF (pp_Flow demo_relayed d)" for d
    by (cases d; simp add: demo_relayed_def on_flow_def dialled_def fresh_flow_def)+
  have pipe: "pp_ClientOpen demo_relayed" "pp_RemoteOpen demo_relayed" "\<not> pp_Cancelled demo_relayed"
    "pp_Done demo_relayed = 0"
    by (simp_all add: demo_relayed_def on_flow_def dialled_def)
  show ?thesis unfolding idle_def by (auto elim!: proxy_stepE simp: flow pipe)
qed

theorem pipe_relays_or_ends_witness:
  "pp_Waiting demo_relayed \<and> fw_Written (pp_Flow demo_relayed Up) = fw_Sent (pp_Flow demo_relayed Up)"
proof -
  have "pp_Waiting demo_relayed" by (simp add: demo_relayed_def on_flow_def dialled_def)
  then show ?thesis using pipe_relays_or_ends [OF demo_relayed_piped] demo_relayed_idle by blast
qed

end
