(* ===== verification/Metrics.thy ===== *)
theory Metrics
  imports Conn_Loop
begin

text \<open>
  The metrics of the server (\<^verbatim>\<open>platform/metrics\<close>): their registration, the helpers that the TCP loop and
  the discovery endpoint call, and which of them an event of the server and a datagram cause.

  The registry is third-party code. Registration is modelled over any registrar; of the measurements the
  model keeps the calls themselves, in their order. \<open>None\<close> stands for the nil registry of a server
  without metrics.
\<close>

section \<open>Names and labels (metrics.go, labels.go)\<close>

definition UpMetricName :: string where "UpMetricName = ''cossacks_up''"
definition TCPConnectionsTotal :: string where "TCPConnectionsTotal = ''cossacks_tcp_connections_total''"
definition TCPDisconnectionsTotal :: string where "TCPDisconnectionsTotal = ''cossacks_tcp_disconnections_total''"
definition TCPActiveClients :: string where "TCPActiveClients = ''cossacks_tcp_active_clients''"
definition GSCCommandsTotal :: string where "GSCCommandsTotal = ''cossacks_gsc_commands_total''"
definition GSCRequestDuration :: string where "GSCRequestDuration = ''cossacks_gsc_request_duration_seconds''"
definition STUNPacketsTotal :: string where "STUNPacketsTotal = ''cossacks_stun_packets_total''"
definition STUNErrorsTotal :: string where "STUNErrorsTotal = ''cossacks_stun_errors_total''"

lemmas metric_names =
  UpMetricName_def TCPConnectionsTotal_def TCPDisconnectionsTotal_def TCPActiveClients_def
  GSCCommandsTotal_def GSCRequestDuration_def STUNPacketsTotal_def STUNErrorsTotal_def

definition LabelCmd :: string where "LabelCmd = ''cmd''"
definition LabelReason :: string where "LabelReason = ''reason''"

datatype stun_reason = ParseErrorReason | UnsupportedPacket | StorageErrorReason

fun reason_text :: "stun_reason \<Rightarrow> string" where
  "reason_text ParseErrorReason = ''parse_error''"
| "reason_text UnsupportedPacket = ''unsupported_packet''"
| "reason_text StorageErrorReason = ''storage_error''"

text \<open>The bounds of the histogram, in units of a tenth of a millisecond.\<close>

definition gscRequestDurationBuckets :: "nat list" where
  "gscRequestDurationBuckets = [1, 5, 10, 20, 50, 100, 250, 500, 1000, 2500, 5000, 10000, 25000, 50000]"

section \<open>Registration (metrics.go)\<close>

datatype metric_kind = Gauge | Counter | Histogram

record registration =
  rg_Kind :: metric_kind
  rg_Name :: string
  rg_Labels :: "string list"
  rg_Buckets :: "nat list"

text \<open>A registrar is handed a registration and returns the text of an error, or none.\<close>

type_synonym 's registrar = "registration \<Rightarrow> 's \<Rightarrow> string option \<times> 's"

fun register_in_order :: "'s registrar \<Rightarrow> registration list \<Rightarrow> 's \<Rightarrow> string option \<times> 's" where
  "register_in_order reg [] s = (None, s)"
| "register_in_order reg (r # rs) s =
     (case reg r s of
        (Some err, s') \<Rightarrow> (Some (''register '' @ rg_Name r @ '': '' @ err), s')
      | (None, s') \<Rightarrow> register_in_order reg rs s')"

definition plain :: "metric_kind \<Rightarrow> string \<Rightarrow> registration" where
  "plain k n = \<lparr>rg_Kind = k, rg_Name = n, rg_Labels = [], rg_Buckets = []\<rparr>"

definition tcp_metrics :: "registration list" where
  "tcp_metrics =
     [plain Gauge UpMetricName, plain Counter TCPConnectionsTotal, plain Counter TCPDisconnectionsTotal,
      plain Gauge TCPActiveClients]"

definition gsc_metrics :: "registration list" where
  "gsc_metrics =
     [(plain Counter GSCCommandsTotal)\<lparr>rg_Labels := [LabelCmd]\<rparr>,
      (plain Histogram GSCRequestDuration)\<lparr>rg_Labels := [LabelCmd], rg_Buckets := gscRequestDurationBuckets\<rparr>]"

definition stun_metrics :: "registration list" where
  "stun_metrics =
     [plain Counter STUNPacketsTotal, (plain Counter STUNErrorsTotal)\<lparr>rg_Labels := [LabelReason]\<rparr>]"

definition registerTCPMetrics :: "'s registrar \<Rightarrow> 's \<Rightarrow> string option \<times> 's" where
  "registerTCPMetrics reg = register_in_order reg tcp_metrics"

definition registerGSCMetrics :: "'s registrar \<Rightarrow> 's \<Rightarrow> string option \<times> 's" where
  "registerGSCMetrics reg = register_in_order reg gsc_metrics"

definition registerSTUNMetrics :: "'s registrar \<Rightarrow> 's \<Rightarrow> string option \<times> 's" where
  "registerSTUNMetrics reg = register_in_order reg stun_metrics"

definition RegisterCossacksdMetrics :: "'s registrar \<Rightarrow> 's \<Rightarrow> string option \<times> 's" where
  "RegisterCossacksdMetrics reg s =
     (case registerTCPMetrics reg s of
        (Some err, s1) \<Rightarrow> (Some (''register tcp metrics: '' @ err), s1)
      | (None, s1) \<Rightarrow>
          (case registerGSCMetrics reg s1 of
             (Some err, s2) \<Rightarrow> (Some (''register gsc metrics: '' @ err), s2)
           | (None, s2) \<Rightarrow>
               (case registerSTUNMetrics reg s2 of
                  (Some err, s3) \<Rightarrow> (Some (''register stun metrics: '' @ err), s3)
                | (None, s3) \<Rightarrow> (None, s3))))"

section \<open>Measurements (storage.go)\<close>

type_synonym labels = "(string \<times> string) list"

datatype measurement =
    CounterAdd string int labels
  | GaugeAdd string int labels
  | GaugeSet string int labels
  | HistogramObserve string time labels "nat list"

text \<open>The registry as the calls it has seen.\<close>

type_synonym metric_storage = "measurement list option"

definition measure_call :: "measurement list \<Rightarrow> metric_storage \<Rightarrow> metric_storage" where
  "measure_call calls ms = (case ms of None \<Rightarrow> None | Some seen \<Rightarrow> Some (seen @ calls))"

definition NewStorage :: "'s registrar \<Rightarrow> 's \<Rightarrow> string + 's \<times> metric_storage" where
  "NewStorage reg s =
     (case RegisterCossacksdMetrics reg s of
        (Some err, _) \<Rightarrow> Inl err
      | (None, s') \<Rightarrow> Inr (s', measure_call [GaugeSet UpMetricName 1 []] (Some [])))"

definition TCPClientConnected :: "metric_storage \<Rightarrow> metric_storage" where
  "TCPClientConnected = measure_call [CounterAdd TCPConnectionsTotal 1 [], GaugeAdd TCPActiveClients 1 []]"

definition TCPClientDisconnected :: "metric_storage \<Rightarrow> metric_storage" where
  "TCPClientDisconnected = measure_call [CounterAdd TCPDisconnectionsTotal 1 [], GaugeAdd TCPActiveClients (- 1) []]"

definition IncGSCCommand :: "string \<Rightarrow> metric_storage \<Rightarrow> metric_storage" where
  "IncGSCCommand cmd = measure_call [CounterAdd GSCCommandsTotal 1 [(LabelCmd, cmd)]]"

definition ObserveGSCRequest :: "string \<Rightarrow> time \<Rightarrow> metric_storage \<Rightarrow> metric_storage" where
  "ObserveGSCRequest cmd seconds =
     measure_call [HistogramObserve GSCRequestDuration seconds [(LabelCmd, cmd)] gscRequestDurationBuckets]"

definition IncSTUNPacket :: "metric_storage \<Rightarrow> metric_storage" where
  "IncSTUNPacket = measure_call [CounterAdd STUNPacketsTotal 1 []]"

definition IncSTUNError :: "stun_reason \<Rightarrow> metric_storage \<Rightarrow> metric_storage" where
  "IncSTUNError reason = measure_call [CounterAdd STUNErrorsTotal 1 [(LabelReason, reason_text reason)]]"

section \<open>Who measures what (server.go, stun.go)\<close>

text \<open>
  A request is counted under the name of its first command once its handler returned, an empty one not at
  all; \<open>took\<close> is the time the handler took. A handler that panics is not counted: the program dies.
\<close>

definition measure_request :: "gsc_stream \<Rightarrow> time \<Rightarrow> metric_storage \<Rightarrow> metric_storage" where
  "measure_request req took ms =
     (case CmdSet req of [] \<Rightarrow> ms | cmd # _ \<Rightarrow> ObserveGSCRequest (Name cmd) took (IncGSCCommand (Name cmd) ms))"

definition measure_datagram ::
  "(time \<Rightarrow> string \<Rightarrow> string \<Rightarrow> int \<Rightarrow> 's \<Rightarrow> storage_error option \<times> 's) \<Rightarrow> endpoint_json \<Rightarrow> int \<Rightarrow>
   time \<Rightarrow> endpoint \<Rightarrow> bytes \<Rightarrow> 's \<Rightarrow> metric_storage \<Rightarrow> metric_storage" where
  "measure_datagram put json keepAliveMs now remote dgram s ms =
     (case ParsePacket (take 512 dgram) of
        None \<Rightarrow> IncSTUNError ParseErrorReason ms
      | Some pk \<Rightarrow>
          if \<not> supported pk then IncSTUNError UnsupportedPacket ms
          else
            (case put now (fmt_u32 (pk_PlayerID pk)) (json remote (pk_Version pk) (pk_AccessKey pk))
                (keep_alive_ttl keepAliveMs) s of
               (Some e, _) \<Rightarrow> IncSTUNError StorageErrorReason ms
             | (None, _) \<Rightarrow> IncSTUNPacket ms))"

fun measure_event ::
  "endpoint_json \<Rightarrow> time \<Rightarrow> env \<Rightarrow> event \<Rightarrow> server \<Rightarrow> metric_storage \<Rightarrow> metric_storage" where
  "measure_event json took e (Accepted c host port) st ms = TCPClientConnected ms"
| "measure_event json took e (Request c req) st ms = measure_request req took ms"
| "measure_event json took e (Disconnected c) st ms = TCPClientDisconnected ms"
| "measure_event json took e (TimerFired i) st ms = ms"
| "measure_event json took e (UDP remote dgram) st ms =
     measure_datagram SetPX json (gm_HoleInterval (ev_Game e)) (ev_Now e) remote dgram (st_storage st) ms"

text \<open>A run of the server with what it measures; \<open>took\<close> says how long the handler of an event takes.\<close>

fun measure_run ::
  "endpoint_json \<Rightarrow> (env \<Rightarrow> event \<Rightarrow> time) \<Rightarrow> (env \<times> event) list \<Rightarrow> server \<Rightarrow> metric_storage \<Rightarrow> metric_storage" where
  "measure_run json took [] st ms = ms"
| "measure_run json took ((e, ev) # evs) st ms =
     (case serve_event json e ev st of
        Ok st' \<Rightarrow> measure_run json took evs st' (measure_event json (took e ev) e ev st ms)
      | _ \<Rightarrow> ms)"

section \<open>Registered and measured\<close>

definition cossacksd_metrics :: "registration list" where
  "cossacksd_metrics = tcp_metrics @ gsc_metrics @ stun_metrics"

lemma register_in_order_append:
  "register_in_order reg (rs @ qs) s =
     (case register_in_order reg rs s of (Some err, s') \<Rightarrow> (Some err, s') | (None, s') \<Rightarrow> register_in_order reg qs s')"
  by (induction rs arbitrary: s) (auto split: prod.splits option.splits)

lemma register_in_order_all:
  "register_in_order reg rs s = (None, s') \<Longrightarrow> s' = fold (\<lambda>r s. snd (reg r s)) rs s"
  by (induction rs arbitrary: s) (auto split: prod.splits option.splits)

lemma RegisterCossacksdMetrics_all:
  "RegisterCossacksdMetrics reg s = (None, s') \<Longrightarrow> s' = fold (\<lambda>r s. snd (reg r s)) cossacksd_metrics s"
  by (rule register_in_order_all)
    (auto simp: RegisterCossacksdMetrics_def registerTCPMetrics_def registerGSCMetrics_def
      registerSTUNMetrics_def cossacksd_metrics_def register_in_order_append
      split: prod.splits option.splits)

lemma metric_names_distinct: "distinct (map rg_Name cossacksd_metrics)"
  by (simp add: cossacksd_metrics_def tcp_metrics_def gsc_metrics_def stun_metrics_def plain_def metric_names)

text \<open>Whether a registration is the one a measurement needs: its kind, its name, its labels, its bounds.\<close>

fun serves :: "registration \<Rightarrow> measurement \<Rightarrow> bool" where
  "serves r (CounterAdd n v ls) \<longleftrightarrow> r = \<lparr>rg_Kind = Counter, rg_Name = n, rg_Labels = map fst ls, rg_Buckets = []\<rparr>"
| "serves r (GaugeAdd n v ls) \<longleftrightarrow> r = \<lparr>rg_Kind = Gauge, rg_Name = n, rg_Labels = map fst ls, rg_Buckets = []\<rparr>"
| "serves r (GaugeSet n v ls) \<longleftrightarrow> r = \<lparr>rg_Kind = Gauge, rg_Name = n, rg_Labels = map fst ls, rg_Buckets = []\<rparr>"
| "serves r (HistogramObserve n v ls bs) \<longleftrightarrow>
     r = \<lparr>rg_Kind = Histogram, rg_Name = n, rg_Labels = map fst ls, rg_Buckets = bs\<rparr>"

definition served :: "measurement \<Rightarrow> bool" where
  "served m \<longleftrightarrow> (\<exists>r \<in> set cossacksd_metrics. serves r m)"

definition well_measured :: "metric_storage \<Rightarrow> bool" where
  "well_measured ms \<longleftrightarrow> (\<forall>m \<in> set (case ms of None \<Rightarrow> [] | Some seen \<Rightarrow> seen). served m)"

fun level_of :: "string \<Rightarrow> measurement list \<Rightarrow> int" where
  "level_of n [] = 0"
| "level_of n (GaugeAdd g v ls # ms) = (if g = n then v else 0) + level_of n ms"
| "level_of n (m # ms) = level_of n ms"

definition active :: "metric_storage \<Rightarrow> int" where
  "active ms = level_of TCPActiveClients (case ms of None \<Rightarrow> [] | Some seen \<Rightarrow> seen)"

lemma level_of_append [simp]: "level_of n (xs @ ys) = level_of n xs + level_of n ys"
  by (induction xs rule: level_of.induct) simp_all

lemmas measuring =
  TCPClientConnected_def TCPClientDisconnected_def IncGSCCommand_def ObserveGSCRequest_def
  IncSTUNPacket_def IncSTUNError_def measure_request_def measure_datagram_def

lemma well_measured_call:
  "well_measured ms \<Longrightarrow> (\<forall>m \<in> set calls. served m) \<Longrightarrow>
   well_measured (measure_call calls ms)"
  by (auto simp: well_measured_def measure_call_def split: option.splits)

lemma active_call [simp]:
  "active (measure_call calls (Some seen)) = active (Some seen) + level_of TCPActiveClients calls"
  by (simp add: active_def measure_call_def)

lemma served_calls:
  "served (GaugeSet UpMetricName 1 [])"
  "served (CounterAdd TCPConnectionsTotal 1 [])"
  "served (CounterAdd TCPDisconnectionsTotal 1 [])"
  "served (GaugeAdd TCPActiveClients v [])"
  "served (CounterAdd GSCCommandsTotal 1 [(LabelCmd, cmd)])"
  "served (HistogramObserve GSCRequestDuration t [(LabelCmd, cmd)] gscRequestDurationBuckets)"
  "served (CounterAdd STUNPacketsTotal 1 [])"
  "served (CounterAdd STUNErrorsTotal 1 [(LabelReason, why)])"
  by (simp_all add: served_def cossacksd_metrics_def tcp_metrics_def gsc_metrics_def stun_metrics_def plain_def)

lemma well_measured_event: "well_measured ms \<Longrightarrow> well_measured (measure_event json t e ev st ms)"
  by (cases ev) (auto simp: measuring served_calls intro!: well_measured_call split: list.splits option.splits prod.splits)

lemma well_measured_run: "well_measured ms \<Longrightarrow> well_measured (measure_run json took evs st ms)"
  by (induction json took evs st ms rule: measure_run.induct) (auto simp: well_measured_event split: outcome.splits)

text \<open>What the gauge of active clients has to show after a run.\<close>

fun clients_change :: "event \<Rightarrow> int" where
  "clients_change (Accepted c host port) = 1"
| "clients_change (Disconnected c) = - 1"
| "clients_change ev = 0"

lemma active_event:
  "\<exists>seen'. measure_event json t e ev st (Some seen) = Some seen' \<and>
     active (Some seen') = active (Some seen) + clients_change ev"
proof -
  have call: "\<exists>seen'. measure_call calls (Some seen) = Some seen' \<and>
      active (Some seen') = active (Some seen) + level_of TCPActiveClients calls" for calls seen
    by (simp add: measure_call_def active_def)
  have twice: "measure_call xs (measure_call ys ms) = measure_call (ys @ xs) ms" for xs ys ms
    by (simp add: measure_call_def split: option.splits)
  show ?thesis
    using call [of "[CounterAdd TCPConnectionsTotal 1 [], GaugeAdd TCPActiveClients 1 []]"]
      call [of "[CounterAdd TCPDisconnectionsTotal 1 [], GaugeAdd TCPActiveClients (- 1) []]"]
      call [of "[CounterAdd STUNPacketsTotal 1 []]"] call [of "[CounterAdd STUNErrorsTotal 1 [(LabelReason, why)]]" for why]
      call [of "[CounterAdd GSCCommandsTotal 1 [(LabelCmd, cmd)],
        HistogramObserve GSCRequestDuration t [(LabelCmd, cmd)] gscRequestDurationBuckets]" for cmd]
    by (cases ev) (auto simp: measuring twice split: list.splits option.splits prod.splits)
qed

lemma active_run:
  "run_events json evs st = Ok st' \<Longrightarrow>
   \<exists>seen'. measure_run json took evs st (Some seen) = Some seen' \<and>
     active (Some seen') = active (Some seen) + (\<Sum>ev\<leftarrow>evs. clients_change (snd ev))"
proof (induction evs arbitrary: st seen)
  case (Cons x evs)
  obtain e ev where x: "x = (e, ev)" by (cases x)
  from Cons.prems obtain st1 where st1: "serve_event json e ev st = Ok st1" and run: "run_events json evs st1 = Ok st'"
    by (cases "serve_event json e ev st") (simp_all add: x)
  obtain seen1 where "measure_event json (took e ev) e ev st (Some seen) = Some seen1"
    "active (Some seen1) = active (Some seen) + clients_change ev" using active_event by blast
  with Cons.IH [OF run, of seen1] show ?case by (auto simp: x st1)
qed simp

section \<open>Properties\<close>

text \<open>
  C39. When the registry could be set up, the eight metrics were registered, in order and each name once,
  and whatever the server serves afterwards, every measurement it makes is of a registered metric, with
  the kind, the label names and the bounds it was registered with. The gauge of active clients always
  shows the connections that were accepted less those that were disconnected.
\<close>

theorem measurements_are_registered:
  assumes "NewStorage reg s = Inr (s', ms)" and "run_events json evs st = Ok st'"
  shows "s' = fold (\<lambda>r s. snd (reg r s)) cossacksd_metrics s \<and> distinct (map rg_Name cossacksd_metrics) \<and>
    (\<exists>seen. measure_run json took evs st ms = Some seen \<and> list_all served seen \<and>
      level_of TCPActiveClients seen = (\<Sum>ev\<leftarrow>evs. clients_change (snd ev)))"
proof -
  have reg: "RegisterCossacksdMetrics reg s = (None, s')" and ms: "ms = Some [GaugeSet UpMetricName 1 []]"
    using assms(1) by (auto simp: NewStorage_def measure_call_def split: prod.splits option.splits)
  obtain seen where seen: "measure_run json took evs st ms = Some seen"
    and level: "active (Some seen) = active ms + (\<Sum>ev\<leftarrow>evs. clients_change (snd ev))"
    using active_run [OF assms(2)] unfolding ms by blast
  have "well_measured ms" by (simp add: ms well_measured_def served_calls)
  from well_measured_run [OF this, of json took evs st] have "list_all served seen"
    by (simp add: seen well_measured_def list_all_iff)
  with seen level show ?thesis
    using RegisterCossacksdMetrics_all [OF reg] metric_names_distinct by (simp add: active_def ms)
qed

theorem measurements_are_registered_witness:
  "\<exists>seen st'. run_events (\<lambda>_ _ _. []) [(demo_env, Accepted 0 ''10.0.0.1'' ''99''), (demo_env, Disconnected 0)]
     NewController = Ok st' \<and> list_all served seen \<and> level_of TCPActiveClients seen = 0"
proof -
  have "NewStorage (\<lambda>r rs. (None, rs @ [r])) [] = Inr (cossacksd_metrics, Some [GaugeSet UpMetricName 1 []])"
    by (simp add: NewStorage_def RegisterCossacksdMetrics_def registerTCPMetrics_def registerGSCMetrics_def
        registerSTUNMetrics_def tcp_metrics_def gsc_metrics_def stun_metrics_def cossacksd_metrics_def measure_call_def)
  from measurements_are_registered [OF this, of "\<lambda>_ _ _. []"
      "[(demo_env, Accepted 0 ''10.0.0.1'' ''99''), (demo_env, Disconnected 0)]" NewController _ "\<lambda>_ _. 0"]
  show ?thesis by auto
qed

end
