(* ===== verification/Listeners.thy ===== *)
theory Listeners
  imports Cossacksd Irc_Proxy Metrics
begin

text \<open>
  The services of the program as a whole: the accept loop of the game server
  (\<^verbatim>\<open>Server.ListenAndServe\<close> of \<^verbatim>\<open>transport/tcp/server.go\<close>), the loop of the endpoint discovery with what it
  answers, stores and measures (\<^verbatim>\<open>ServeUDP\<close> of \<^verbatim>\<open>adapter/stun/stun.go\<close>), and with what result each service
  of \<^verbatim>\<open>main.go\<close> ends when its socket fails or the context of the group is cancelled. The group itself is
  third-party code: of its \<^verbatim>\<open>Wait\<close> only the documented promise is used, that it returns after every function.
\<close>

section \<open>The game server (server.go)\<close>

text \<open>
  What \<^verbatim>\<open>Accept\<close> returns, in order, is an error or a connection. The result is \<open>None\<close> while the function
  runs and \<open>Some r\<close> when it has returned \<open>r\<close>; the context is handed on and not looked at.
\<close>

fun tcp_accept_loop :: "(string + 'c) list \<Rightarrow> 'c list \<times> string option option" where
  "tcp_accept_loop [] = ([], None)"
| "tcp_accept_loop (Inl err # as) = ([], Some (Some err))"
| "tcp_accept_loop (Inr nc # as) = (case tcp_accept_loop as of (ncs, r) \<Rightarrow> (nc # ncs, r))"

definition tcp_ListenAndServe :: "string option \<Rightarrow> (string + 'c) list \<Rightarrow> 'c list \<times> string option option" where
  "tcp_ListenAndServe listen_err as =
     (case listen_err of Some err \<Rightarrow> ([], Some (Some err)) | None \<Rightarrow> tcp_accept_loop as)"

section \<open>The endpoint discovery (stun.go)\<close>

type_synonym datagram = "time \<times> endpoint \<times> bytes"
type_synonym 's kv_put = "time \<Rightarrow> string \<Rightarrow> string \<Rightarrow> int \<Rightarrow> 's \<Rightarrow> storage_error option \<times> 's"

text \<open>What is written back and to whom, the store and the metrics, and the result as above.\<close>

type_synonym 's udp_served = "(endpoint \<times> bytes) list \<times> 's \<times> metric_storage \<times> string option option"

fun udp_loop ::
  "'s kv_put \<Rightarrow> endpoint_json \<Rightarrow> int \<Rightarrow> (string + datagram) list \<Rightarrow> 's \<Rightarrow> metric_storage \<Rightarrow> 's udp_served" where
  "udp_loop put json ka [] s ms = ([], s, ms, None)"
| "udp_loop put json ka (Inl err # rs) s ms = ([], s, ms, Some (Some err))"
| "udp_loop put json ka (Inr (now, remote, dgram) # rs) s ms =
     (case serve_datagram put json ka now remote dgram s of (out, s1) \<Rightarrow>
        (case udp_loop put json ka rs s1 (measure_datagram put json ka now remote dgram s ms) of (outs, x) \<Rightarrow>
           ((case out of None \<Rightarrow> outs | Some b \<Rightarrow> (remote, b) # outs), x)))"

text \<open>\<open>addr_err\<close> and \<open>listen_err\<close> are the errors of resolving the address and of opening the socket.\<close>

definition ServeUDP ::
  "string option \<Rightarrow> string option \<Rightarrow> 's kv_put \<Rightarrow> endpoint_json \<Rightarrow> int \<Rightarrow> (string + datagram) list \<Rightarrow>
   's \<Rightarrow> metric_storage \<Rightarrow> 's udp_served" where
  "ServeUDP addr_err listen_err put json ka reads s ms =
     (case addr_err of
        Some err \<Rightarrow> ([], s, ms, Some (Some err))
      | None \<Rightarrow>
          (case listen_err of
             Some err \<Rightarrow> ([], s, ms, Some (Some err))
           | None \<Rightarrow> udp_loop put json ka reads s ms))"

section \<open>How a service ends (main.go)\<close>

text \<open>
  What happens to the socket of a service: it cannot be opened, it breaks, or nothing but the end of the
  context happens to it.
\<close>

datatype socket_end = Refused string | Broken string | ContextDone

text \<open>The services that have a goroutine which closes their listener when the context is done.\<close>

fun closes_on_cancel :: "service \<Rightarrow> bool" where
  "closes_on_cancel (STUN _ _ _) = False"
| "closes_on_cancel (TCPServer _ _ _) = False"
| "closes_on_cancel (MetricsHTTP _) = True"
| "closes_on_cancel (ProbesHTTP _) = True"
| "closes_on_cancel (IRCProxy _ _) = True"

fun http_end :: "socket_end \<Rightarrow> listen_error" where
  "http_end (Refused err) = ListenError err"
| "http_end (Broken err) = ListenError err"
| "http_end ContextDone = ServerClosed"

text \<open>
  The result of a service, \<open>None\<close> while it runs; \<open>cancelled\<close> says whether the context is done. The texts
  of errors that are not returned do not matter.
\<close>

definition service_result :: "service \<Rightarrow> bool \<Rightarrow> socket_end \<Rightarrow> string option option" where
  "service_result s cancelled x =
     (case s of
        STUN host port ka \<Rightarrow>
          (let serve = (\<lambda>listen_err reads. snd (snd (snd
             (ServeUDP None listen_err (\<lambda>_ _ _ _ u. (None, u)) (\<lambda>_ _ _. []) ka reads () None))))
           in (case x of Refused err \<Rightarrow> serve (Some err) [] | Broken err \<Rightarrow> serve None [Inl err]
               | ContextDone \<Rightarrow> serve None []))
      | TCPServer host port limit \<Rightarrow>
          snd (case x of
              Refused err \<Rightarrow> tcp_ListenAndServe (Some err) ([] :: (string + unit) list)
            | Broken err \<Rightarrow> tcp_ListenAndServe None [Inl err]
            | ContextDone \<Rightarrow> tcp_ListenAndServe None [])
      | MetricsHTTP addr \<Rightarrow>
          (if cancelled \<or> addr \<noteq> [] \<and> x \<noteq> ContextDone
           then Some (snd (metrics_ListenAndServe addr None None (http_end x))) else None)
      | ProbesHTTP addr \<Rightarrow>
          (if cancelled \<or> x \<noteq> ContextDone then Some (snd (health_ListenAndServe None (http_end x))) else None)
      | IRCProxy listen addr \<Rightarrow>
          snd (case x of
              Refused err \<Rightarrow> ListenAndServe (Some err) ([] :: unit accepted list)
            | Broken err \<Rightarrow> ListenAndServe None [AcceptError err cancelled]
            | ContextDone \<Rightarrow> ListenAndServe None (if cancelled then [AcceptError [] cancelled] else [])))"

text \<open>The results in the order in which the services return; what happens to one that has returned is moot.\<close>

definition record_return ::
  "service \<times> bool \<times> socket_end \<Rightarrow> (service \<times> string option) list \<Rightarrow> (service \<times> string option) list" where
  "record_return ev rs =
     (case ev of (s, cancelled, x) \<Rightarrow>
        if s \<in> fst ` set rs then rs
        else (case service_result s cancelled x of None \<Rightarrow> rs | Some r \<Rightarrow> rs @ [(s, r)]))"

definition returned :: "(service \<times> bool \<times> socket_end) list \<Rightarrow> (service \<times> string option) list" where
  "returned evs = fold record_return evs []"

section \<open>Every datagram is accounted for\<close>

definition accepted_datagram :: "datagram \<Rightarrow> bool" where
  "accepted_datagram d =
     (case d of (now, remote, dgram) \<Rightarrow>
        (case ParsePacket (take 512 dgram) of None \<Rightarrow> False | Some pk \<Rightarrow> supported pk))"

fun datagram_event :: "datagram \<Rightarrow> kv_event" where
  "datagram_event (now, remote, dgram) = Datagram now remote dgram"

definition datagram_metric :: "datagram \<Rightarrow> measurement" where
  "datagram_metric d =
     (if accepted_datagram d then CounterAdd STUNPacketsTotal 1 []
      else CounterAdd STUNErrorsTotal 1 [(LabelReason, reason_text
        (case d of (now, remote, dgram) \<Rightarrow>
           if ParsePacket (take 512 dgram) = None then ParseErrorReason else UnsupportedPacket))])"

context key_value
begin

lemma datagram_served:
  assumes "usable s"
  shows "serve_datagram put json ka now remote dgram s =
      (if accepted_datagram (now, remote, dgram) then Some ''ok'' else None,
       kv_step get put json ka (Datagram now remote dgram) s)" (is ?serve)
    and "measure_datagram put json ka now remote dgram s (Some seen) =
      Some (seen @ [datagram_metric (now, remote, dgram)])" (is ?measure)
proof -
  have stored: "\<exists>s1. put t k v px s = (None, s1)" for t k v px
    using put_ok [OF assms, of t k v px] by (cases "put t k v px s") simp
  have "?serve \<and> ?measure"
  proof (cases "ParsePacket (take 512 dgram)")
    case (Some pk)
    obtain s1 where "put now (fmt_u32 (pk_PlayerID pk)) (json remote (pk_Version pk) (pk_AccessKey pk))
        (keep_alive_ttl ka) s = (None, s1)" using stored by blast
    with Some show ?thesis
      by (simp add: serve_datagram_def measure_datagram_def accepted_datagram_def datagram_metric_def
          IncSTUNError_def IncSTUNPacket_def measure_call_def)
  qed (simp add: serve_datagram_def measure_datagram_def accepted_datagram_def datagram_metric_def
      IncSTUNError_def measure_call_def)
  then show ?serve ?measure by blast+
qed

lemma udp_loop_serves:
  assumes "usable s"
  shows "udp_loop put json ka (map Inr ds @ rs) s (Some seen) =
    (case udp_loop put json ka rs (fold (kv_step get put json ka) (map datagram_event ds) s)
        (Some (seen @ map datagram_metric ds)) of (outs, x) \<Rightarrow>
       (map (\<lambda>(now, remote, dgram). (remote, ''ok'')) (filter accepted_datagram ds) @ outs, x))"
  using assms
proof (induction ds arbitrary: s seen)
  case (Cons d ds)
  obtain now remote dgram where d: "d = (now, remote, dgram)" by (cases d)
  from Cons.IH [OF kv_step_usable [OF Cons.prems, of json ka "Datagram now remote dgram"]]
  show ?case by (simp add: d datagram_served [OF Cons.prems] del: kv_step.simps split: prod.splits)
qed (simp split: prod.splits)

end

text \<open>
  C26. Until its socket fails, the endpoint discovery goes through all datagrams in the order they come:
  each makes one measurement, a packet or an error with its reason; exactly the accepted ones are answered,
  with two bytes to their sender; and the store ends as the lookups of players expect. It returns when
  reading fails, with that error, and never because the program is to end.
\<close>

theorem ServeUDP_accounts:
  "ServeUDP None None SetPX json ka
      (map Inr ds @ (case broken of None \<Rightarrow> [] | Some err \<Rightarrow> Inl err # later)) (Some NewRuntimeStorage) (Some seen) =
    (map (\<lambda>(now, remote, dgram). (remote, ''ok'')) (filter accepted_datagram ds),
     fold (kv_step Storage_Get SetPX json ka) (map datagram_event ds) (Some NewRuntimeStorage),
     Some (seen @ map datagram_metric ds), map_option Some broken)"
  by (simp add: ServeUDP_def kv.udp_loop_serves split: option.splits)

section \<open>A failure that is not reported\<close>

lemma service_fails: "x \<in> {Refused err, Broken err} \<Longrightarrow> s \<noteq> MetricsHTTP [] \<Longrightarrow>
    service_result s False x = Some (Some err)"
  by (cases s) (auto simp: service_result_def ServeUDP_def tcp_ListenAndServe_def ListenAndServe_def
      metrics_ListenAndServe_def health_ListenAndServe_def ListenAndServeMux_def)

lemma service_cancelled:
  "service_result s True ContextDone = (if closes_on_cancel s then Some None else None)"
  "\<not> closes_on_cancel s \<Longrightarrow> service_result s cancelled ContextDone = None"
  by (cases s; simp add: service_result_def ServeUDP_def tcp_ListenAndServe_def ListenAndServe_def
      metrics_ListenAndServe_def health_ListenAndServe_def ListenAndServeMux_def)+

lemma returned_snoc: "returned (evs @ [ev]) = record_return ev (returned evs)"
  by (simp add: returned_def)

lemma not_returned:
  "\<not> closes_on_cancel s \<Longrightarrow> \<forall>c x. (s, c, x) \<in> set evs \<longrightarrow> x = ContextDone \<Longrightarrow>
   s \<notin> fst ` set (returned evs)"
proof (induction evs rule: rev_induct)
  case (snoc ev evs)
  obtain t c x where ev: "ev = (t, c, x)" by (cases ev)
  have "s \<notin> fst ` set (returned evs)" using snoc by auto
  moreover have "t = s \<Longrightarrow> service_result t c x = None"
    using snoc.prems(2) [rule_format, of c x] snoc.prems(1) by (simp add: ev service_cancelled)
  ultimately show ?case
    by (auto simp: returned_snoc record_return_def ev split: option.splits)
qed (simp add: returned_def)

lemma record_grows: "set rs \<subseteq> set (record_return ev rs)"
  by (cases ev) (simp add: record_return_def subset_insertI split: option.split)

lemma returned_grows: "set (returned evs) \<subseteq> set (returned (evs @ later))"
proof (induction later rule: rev_induct)
  case (snoc ev later)
  then show ?case
    using record_grows [of "returned (evs @ later)" ev] returned_snoc [of "evs @ later" ev] by simp
qed simp

lemma services_start: "\<exists>host hole ka port limit rest.
    services fl cfg = STUN host hole ka # TCPServer host port limit # rest \<and>
    list_all (\<lambda>u. closes_on_cancel u \<and> u \<noteq> MetricsHTTP []) rest"
proof -
  have "list_all (\<lambda>u. closes_on_cancel u \<and> u \<noteq> MetricsHTTP []) (http_services a b)" for a b
    by (simp add: http_services_def)
  then show ?thesis by (simp add: services_def Let_def)
qed

text \<open>
  C16. The game server and the endpoint discovery run in every program, and neither looks at the context of
  the group. So when another service fails, because it cannot listen or its socket breaks, the failure cancels
  the context and every service with an HTTP or IRC listener ends without an error; but as long as the
  socket of one of the two stays intact, \<^verbatim>\<open>Wait\<close> does not return, and the error is neither logged nor does
  the process exit. In particular the program goes on without serving the game when its port is taken.
\<close>

theorem failure_goes_unreported:
  assumes run: "cossacksd logger_ok metrics_ok fl loaded = Runs opts svs"
    and documented: "\<And>rs r. wait rs = Some r \<Longrightarrow> set svs \<subseteq> fst ` set rs"
    and intact: "s \<in> set svs" "\<not> closes_on_cancel s" "\<forall>c x. (s, c, x) \<in> set evs \<longrightarrow> x = ContextDone"
    and failed: "t \<in> set svs" "t \<noteq> s" "t \<notin> fst ` set (returned before)" "evs = before @ (t, False, x) # later"
      "x \<in> {Refused err, Broken err}"
  shows "wait (returned evs) = None \<and> (t, Some err) \<in> set (returned evs) \<and>
    (\<exists>host hole ka port limit. {STUN host hole ka, TCPServer host port limit} =
      {u \<in> set svs. \<not> closes_on_cancel u}) \<and>
    list_all (\<lambda>u. service_result u True ContextDone = (if closes_on_cancel u then Some None else None)) svs"
proof -
  obtain cfg where svs: "svs = services fl (public_host cfg)"
    using run by (auto simp: cossacksd_def Let_def split: option.splits if_splits)
  have "s \<notin> fst ` set (returned evs)" using intact(2,3) by (rule not_returned)
  then have waits: "wait (returned evs) = None"
    using documented [of "returned evs"] intact(1) by (cases "wait (returned evs)") auto
  obtain host hole ka port limit rest where start: "svs = STUN host hole ka # TCPServer host port limit # rest"
    and rest: "list_all (\<lambda>u. closes_on_cancel u \<and> u \<noteq> MetricsHTTP []) rest"
    using services_start [of fl "public_host cfg"] svs by blast
  have "t \<noteq> MetricsHTTP []" using failed(1) rest by (auto simp: start list_all_iff)
  then have "(t, Some err) \<in> set (returned (before @ [(t, False, x)]))"
    using failed(3) by (simp add: returned_snoc record_return_def service_fails [OF failed(5)])
  then have reported: "(t, Some err) \<in> set (returned evs)"
    using returned_grows [of "before @ [(t, False, x)]" later] by (auto simp: failed(4))
  have "{STUN host hole ka, TCPServer host port limit} = {u \<in> set svs. \<not> closes_on_cancel u}"
    using rest by (auto simp: start list_all_iff)
  then have two: "\<exists>host hole ka port limit. {STUN host hole ka, TCPServer host port limit} =
      {u \<in> set svs. \<not> closes_on_cancel u}" by blast
  show ?thesis
    using waits reported two by (simp add: list_all_iff service_cancelled)
qed

text \<open>The port of the game is taken: the error is returned and the group waits for the other loop.\<close>

theorem failure_goes_unreported_witness:
  "\<exists>opts svs host port limit. cossacksd True True demo_flags (Some demo_config) = Runs opts svs \<and>
    (let tcp = TCPServer host port limit; rs = returned [(tcp, False, Refused ''address in use'')] in
      tcp \<in> set svs \<and> (tcp, Some ''address in use'') \<in> set rs \<and>
      (if set svs \<subseteq> fst ` set rs then Some (snd (hd rs)) else None) = None)"
proof -
  let ?svs = "services demo_flags (public_host demo_config)"
  obtain opts where run: "cossacksd True True demo_flags (Some demo_config) = Runs opts ?svs"
    using demo_flags_run by blast
  obtain host hole ka port limit rest where svs: "?svs = STUN host hole ka # TCPServer host port limit # rest"
    using services_start [of demo_flags "public_host demo_config"] by blast
  let ?tcp = "TCPServer host port limit" and ?stun = "STUN host hole ka"
  let ?evs = "[(?tcp, False, Refused ''address in use'')]"
  let ?wait = "\<lambda>rs :: (service \<times> string option) list. if set ?svs \<subseteq> fst ` set rs then Some (snd (hd rs)) else None"
  have documented: "set ?svs \<subseteq> fst ` set rs" if "?wait rs = Some r" for rs r using that by (simp split: if_splits)
  have members: "?stun \<in> set ?svs" "?tcp \<in> set ?svs" by (simp_all add: svs)
  have "?wait (returned ?evs) = None \<and> (?tcp, Some ''address in use'') \<in> set (returned ?evs)"
    using failure_goes_unreported [where wait = ?wait and evs = ?evs and before = "[]" and later = "[]"
        and err = "''address in use''" and x = "Refused ''address in use''", OF run documented members(1) _ _ members(2)]
    by (simp add: returned_def)
  with members(2) show ?thesis using run unfolding Let_def by blast
qed

end
