(* ===== verification/Errors.thy ===== *)
theory Errors
  imports Dispatcher
begin

text \<open>
  The texts of the errors that handlers report and the server logs: the \<^verbatim>\<open>Error\<close> methods of
  \<^verbatim>\<open>app/gsc/errors.go\<close>, of the commands and routes, and of \<^verbatim>\<open>app/identity/enterflow.go\<close>, with the wrapping of
  \<^verbatim>\<open>fmt.Errorf\<close>. What a client sent is quoted in them by \<^verbatim>\<open>%q\<close>, so what a client sent
  cannot end the line or the quoted part of a message.
\<close>

section \<open>Quoting (strconv.Quote)\<close>

definition byte_in :: "bytes \<Rightarrow> nat \<Rightarrow> nat \<Rightarrow> nat \<Rightarrow> bool" where
  "byte_in s k lo hi \<longleftrightarrow> k < length s \<and> lo \<le> (of_char (s ! k) :: nat) \<and> of_char (s ! k) \<le> hi"

text \<open>\<^verbatim>\<open>utf8.DecodeRuneInString\<close>: the rune and its width; a byte that starts no rune counts as \<open>0xFFFD\<close> of width 1.\<close>

definition DecodeRune :: "bytes \<Rightarrow> nat \<times> nat" where
  "DecodeRune s =
     (let b = (\<lambda>k. of_char (s ! k) :: nat); bad = (0xFFFD, 1)
      in
        if s = [] then (0xFFFD, 0)
        else if b 0 < 0x80 then (b 0, 1)
        else if b 0 < 0xC2 then bad
        else if b 0 < 0xE0 then
          (if byte_in s 1 0x80 0xBF then ((b 0 - 0xC0) * 0x40 + (b 1 - 0x80), 2) else bad)
        else if b 0 < 0xF0 then
          (if byte_in s 1 (if b 0 = 0xE0 then 0xA0 else 0x80) (if b 0 = 0xED then 0x9F else 0xBF) \<and> byte_in s 2 0x80 0xBF
           then ((b 0 - 0xE0) * 0x1000 + (b 1 - 0x80) * 0x40 + (b 2 - 0x80), 3) else bad)
        else if b 0 \<le> 0xF4 then
          (if byte_in s 1 (if b 0 = 0xF0 then 0x90 else 0x80) (if b 0 = 0xF4 then 0x8F else 0xBF) \<and>
             byte_in s 2 0x80 0xBF \<and> byte_in s 3 0x80 0xBF
           then ((b 0 - 0xF0) * 0x40000 + (b 1 - 0x80) * 0x1000 + (b 2 - 0x80) * 0x40 + (b 3 - 0x80), 4) else bad)
        else bad)"

definition hex_digit :: "nat \<Rightarrow> char" where
  "hex_digit n = ''0123456789abcdef'' ! (n mod 16)"

text \<open>The last \<open>k\<close> hexadecimal digits of a number.\<close>

fun hex_digits :: "nat \<Rightarrow> nat \<Rightarrow> string" where
  "hex_digits 0 n = []"
| "hex_digits (Suc k) n = hex_digits k (n div 16) @ [hex_digit n]"

text \<open>\<open>is_print\<close> is \<^verbatim>\<open>strconv.IsPrint\<close> above the ASCII range, a table of the Unicode version.\<close>

definition escaped_rune :: "(nat \<Rightarrow> bool) \<Rightarrow> bytes \<Rightarrow> nat \<Rightarrow> string" where
  "escaped_rune is_print enc r =
     (let esc = (\<lambda>s. CHR 0x5C # s) in
      if r = 0x22 \<or> r = 0x5C then esc enc
      else if (if r < 0x80 then 0x20 \<le> r \<and> r < 0x7F else is_print r) then enc
      else if r = 7 then esc ''a''
      else if r = 8 then esc ''b''
      else if r = 12 then esc ''f''
      else if r = 10 then esc ''n''
      else if r = 13 then esc ''r''
      else if r = 9 then esc ''t''
      else if r = 11 then esc ''v''
      else if r < 0x20 \<or> r = 0x7F then esc (CHR ''x'' # hex_digits 2 r)
      else if r < 0x10000 then esc (CHR ''u'' # hex_digits 4 r)
      else esc (CHR ''U'' # hex_digits 8 r))"

function quote_body :: "(nat \<Rightarrow> bool) \<Rightarrow> bytes \<Rightarrow> string" where
  "quote_body is_print [] = []"
| "quote_body is_print (c # s) =
     (case DecodeRune (c # s) of (r, w) \<Rightarrow>
        (if w = 1 \<and> r = 0xFFFD then CHR 0x5C # CHR ''x'' # hex_digits 2 (of_char c)
         else escaped_rune is_print (take w (c # s)) r) @
        quote_body is_print (drop (w - 1) s))"
  by pat_completeness auto
termination
  by (relation "measure (length \<circ> snd)") (simp_all add: less_Suc_eq_le)

definition quote :: "(nat \<Rightarrow> bool) \<Rightarrow> string \<Rightarrow> string" where
  "quote is_print s = CHR 0x22 # quote_body is_print s @ [CHR 0x22]"

section \<open>The texts\<close>

fun enter_error_text :: "enter_error \<Rightarrow> string" where
  "enter_error_text (ErrEnterMissingNick t) = ''auth: try_enter: missing nick ('' @ t @ '')''"
| "enter_error_text (ErrEnterMissingPassword t) = ''auth: try_enter: missing password ('' @ t @ '')''"
| "enter_error_text (ErrEnterAuthFailed msg) = ''auth: try_enter: account auth failed: '' @ msg"
| "enter_error_text (ErrEnterIllegalNick msg) = ''auth: try_enter: illegal nick: '' @ msg"

fun handler_error_text :: "(nat \<Rightarrow> bool) \<Rightarrow> handler_error \<Rightarrow> string" where
  "handler_error_text q ErrURLNoArg = ''gsc: url: no argument''"
| "handler_error_text q (ErrProxyInvalidArgs reason) = ''gsc: proxy: invalid args: '' @ reason"
| "handler_error_text q ErrProxyUnauthorized = ''gsc: proxy: unauthorized''"
| "handler_error_text q ErrEndgameBadArgs = ''gsc: endgame: bad args''"
| "handler_error_text q ErrGETTBLBadArgs = ''handler: GETTBL: insufficient args''"
| "handler_error_text q ErrStartNoSession = ''handler: start: no session''"
| "handler_error_text q ErrStartNotHost = ''handler: start: caller is not a room host''"
| "handler_error_text q ErrStatsBadArgs = ''handler: stats: insufficient args''"
| "handler_error_text q (ErrStatsUnknownRoom i) = ''handler: stats: unknown room '' @ fmt_u32 i"
| "handler_error_text q ErrStatsNotInRoom = ''handler: stats: caller not in room''"
| "handler_error_text q ErrStatsNoSession = ''handler: session expired''"
| "handler_error_text q (ErrAlreadyInRoom i) = ''handler: player '' @ fmt_u32 i @ '' already in a room''"
| "handler_error_text q ErrSessionExpired = ''routes: session expired''"
| "handler_error_text q ErrIllegalRoomTitle = ''routes: illegal room title''"
| "handler_error_text q (ErrInvalidRoomID raw) = ''routes: invalid VE_RID: '' @ quote q raw"
| "handler_error_text q (ErrRoomNotFound i) = ''routes: room not found: '' @ fmt_u32 i"
| "handler_error_text q (ErrRoomStarted i) = ''routes: room already started: id='' @ fmt_u32 i"
| "handler_error_text q (ErrRoomFull i) = ''routes: room full: id='' @ fmt_u32 i"
| "handler_error_text q (ErrBadRoomPassword i) = ''routes: bad room password: id='' @ fmt_u32 i"
| "handler_error_text q (ErrJoinPlayerNoRoom i) = ''routes: join_pl_cmd: no room: host='' @ fmt_u32 i"
| "handler_error_text q (ErrInvalidPlayerArg raw) = ''routes: invalid player id '' @ quote q raw"
| "handler_error_text q (ErrPlayerNotFound i) = ''routes: player '' @ fmt_u32 i @ '' not found''"
| "handler_error_text q (ErrResizeBadHeight raw) = ''handler: resize: bad height '' @ quote q raw"
| "handler_error_text q ErrGGCupUnavailable = ''routes: gg cup info unavailable''"
| "handler_error_text q ErrLCNRankingUnavailable = ''routes: LCN ranking unavailable''"
| "handler_error_text q ErrUsersListUnimplemented = ''handler: users_list route not implemented''"
| "handler_error_text q (ErrEnter err) = enter_error_text err"
| "handler_error_text q (ErrUnknownCommand name) = ''handler: unknown command '' @ quote q name"
| "handler_error_text q (ErrUnknownOpenRoute m) = ''handler: unknown open route '' @ quote q m"

section \<open>What a client sent stays between the quotes\<close>

definition text_byte :: "char \<Rightarrow> bool" where
  "text_byte c \<longleftrightarrow> 0x20 \<le> (of_char c :: nat) \<and> c \<noteq> CHR 0x7F"

lemma hex_digits_text: "list_all text_byte (hex_digits k n)"
proof -
  have "text_byte (hex_digit n)" for n
  proof -
    have "list_all text_byte ''0123456789abcdef''" by code_simp
    then show ?thesis by (simp add: list_all_length hex_digit_def)
  qed
  then show ?thesis by (induction k arbitrary: n) simp_all
qed

text \<open>What follows the first quote that is not escaped.\<close>

fun after_quoted :: "string \<Rightarrow> string option" where
  "after_quoted [] = None"
| "after_quoted (c # s) =
     (if c = CHR 0x22 then Some s
      else if c = CHR 0x5C then (case s of [] \<Rightarrow> None | d # t \<Rightarrow> after_quoted t)
      else after_quoted s)"

text \<open>A piece of quoted text: it is text, and does not contain the end of the quoted part.\<close>

definition quoted_piece :: "string \<Rightarrow> bool" where
  "quoted_piece p \<longleftrightarrow> list_all text_byte p \<and> (\<forall>t. after_quoted (p @ t) = after_quoted t)"

lemma plain_piece: "list_all (\<lambda>c. text_byte c \<and> c \<noteq> CHR 0x22 \<and> c \<noteq> CHR 0x5C) p \<Longrightarrow> quoted_piece p"
  unfolding quoted_piece_def by (induction p) auto

lemma append_piece: "quoted_piece p \<Longrightarrow> quoted_piece q \<Longrightarrow> quoted_piece (p @ q)"
  by (simp add: quoted_piece_def)

lemma hex_digits_piece: "quoted_piece (hex_digits k n)"
proof (rule plain_piece)
  have "list_all (\<lambda>c. text_byte c \<and> c \<noteq> CHR 0x22 \<and> c \<noteq> CHR 0x5C) ''0123456789abcdef''" by code_simp
  then have "text_byte (hex_digit n) \<and> hex_digit n \<noteq> CHR 0x22 \<and> hex_digit n \<noteq> CHR 0x5C" for n
    by (simp add: list_all_length hex_digit_def)
  then show "list_all (\<lambda>c. text_byte c \<and> c \<noteq> CHR 0x22 \<and> c \<noteq> CHR 0x5C) (hex_digits k n)"
    by (induction k arbitrary: n) simp_all
qed

lemma escape_piece: "text_byte d \<Longrightarrow> quoted_piece p \<Longrightarrow> quoted_piece (CHR 0x5C # d # p)"
  by (simp add: quoted_piece_def text_byte_def)

lemma piece_Nil: "quoted_piece []"
  by (simp add: quoted_piece_def)

lemma DecodeRune_cases:
  assumes "DecodeRune (c # s) = (r, w)"
  shows "w = 1 \<and> r = of_char c \<and> r < 0x80 \<or> w = 1 \<and> r = 0xFFFD \<or>
    0x80 \<le> r \<and> list_all (\<lambda>b. 0x80 \<le> (of_char b :: nat)) (take w (c # s))"
proof -
  have "take (Suc (Suc 0)) (c # s) = [c, s ! 0]" if "0 < length s"
    using that by (cases s) auto
  moreover have "take (Suc (Suc (Suc 0))) (c # s) = [c, s ! 0, s ! 1]" if "1 < length s"
    using that by (cases s rule: list.exhaust; cases "tl s") auto
  moreover have "take (Suc (Suc (Suc (Suc 0)))) (c # s) = [c, s ! 0, s ! 1, s ! 2]" if "2 < length s"
    using that by (cases s; cases "tl s"; cases "tl (tl s)") auto
  ultimately show ?thesis
    using assms by (auto simp: DecodeRune_def Let_def byte_in_def numeral_2_eq_2 numeral_3_eq_3 split: if_splits)
qed

lemma escape_letter:
  "d \<in> set ''abfnrtvxuU'' \<Longrightarrow> quoted_piece p \<Longrightarrow> quoted_piece (CHR 0x5C # d # p)"
  by (rule escape_piece) (auto simp: text_byte_def)

lemma char_code: "n < 256 \<Longrightarrow> of_char c = n \<longleftrightarrow> c = char_of n" for n :: nat
  by (metis char_of_char of_char_of mod_less)

lemma special_chars:
  "of_char c = (0x22 :: nat) \<longleftrightarrow> c = CHR 0x22" "of_char c = (0x5C :: nat) \<longleftrightarrow> c = CHR 0x5C"
  "of_char c = (0x7F :: nat) \<longleftrightarrow> c = CHR 0x7F"
proof -
  have "char_of (0x22 :: nat) = CHR 0x22" "char_of (0x5C :: nat) = CHR 0x5C" "char_of (0x7F :: nat) = CHR 0x7F"
    by code_simp+
  then show "of_char c = (0x22 :: nat) \<longleftrightarrow> c = CHR 0x22" "of_char c = (0x5C :: nat) \<longleftrightarrow> c = CHR 0x5C"
    "of_char c = (0x7F :: nat) \<longleftrightarrow> c = CHR 0x7F" by (simp_all add: char_code)
qed

lemma escaped_piece:
  assumes "DecodeRune (c # s) = (r, w)" and "\<not> (w = 1 \<and> r = 0xFFFD)"
  shows "quoted_piece (escaped_rune is_print (take w (c # s)) r)"
proof (cases "r < 0x80")
  case True
  then have w: "w = 1" and r: "r = of_char c" using DecodeRune_cases [OF assms(1)] assms(2) by auto
  have special: "quoted_piece [CHR 0x5C, c]" if "r = 0x22 \<or> r = 0x5C"
    by (rule escape_piece) (use that in \<open>auto simp: text_byte_def r special_chars piece_Nil\<close>)
  have plain: "quoted_piece [c]" if "\<not> r < 0x20" "r \<noteq> 0x7F" "r \<noteq> 0x22" "r \<noteq> 0x5C"
    by (rule plain_piece) (use that in \<open>auto simp: text_byte_def r special_chars\<close>)
  show ?thesis
    using True by (simp add: escaped_rune_def Let_def w escape_letter hex_digits_piece piece_Nil special plain del: hex_digits.simps)
next
  case False
  then have "list_all (\<lambda>b. 0x80 \<le> (of_char b :: nat)) (take w (c # s))"
    using DecodeRune_cases [OF assms(1)] assms(2) by auto
  then have "list_all (\<lambda>c. text_byte c \<and> c \<noteq> CHR 0x22 \<and> c \<noteq> CHR 0x5C) (take w (c # s))"
    by (rule list.pred_mono_strong) (auto simp: text_byte_def)
  with False show ?thesis
    by (simp add: escaped_rune_def Let_def escape_letter hex_digits_piece plain_piece del: hex_digits.simps)
qed

lemma quote_body_piece: "quoted_piece (quote_body is_print s)"
proof (induction is_print s rule: quote_body.induct)
  case (2 is_print c s)
  obtain r w where rw: "DecodeRune (c # s) = (r, w)" by fastforce
  have "quoted_piece (quote_body is_print (drop (w - 1) s))" using "2.IH" rw by simp
  moreover have "quoted_piece (if w = 1 \<and> r = 0xFFFD then CHR 0x5C # CHR ''x'' # hex_digits 2 (of_char c)
      else escaped_rune is_print (take w (c # s)) r)"
    using escaped_piece [OF rw] by (simp add: escape_letter hex_digits_piece del: hex_digits.simps)
  ultimately show ?case by (simp only: quote_body.simps rw prod.case append_piece)
qed (simp add: piece_Nil)

text \<open>
  The text of an error is one line without control bytes, whatever the client sent, as long as the reasons
  for a refused proxy and the texts of a failed login are such lines; and a command name, a route or a
  value that is quoted in it ends at the closing quote and nowhere before.
\<close>

lemma quoted_values_end: "after_quoted (quote_body is_print s @ CHR 0x22 # t) = Some t"
  using quote_body_piece [of is_print s] by (simp add: quoted_piece_def)

lemma quote_text: "list_all text_byte (quote is_print s)"
  using quote_body_piece [of is_print s] by (simp add: quoted_piece_def quote_def text_byte_def)

lemma fmt_u32_text: "list_all text_byte (fmt_u32 i)"
  using list_all_is_digit_nat_dec [of "unat i"]
  by (auto simp: fmt_u32_def list_all_iff is_digit_def text_byte_def)

theorem error_texts_one_line:
  assumes "\<And>reason. err = ErrProxyInvalidArgs reason \<Longrightarrow> list_all text_byte reason"
    and "\<And>x. err = ErrEnter x \<Longrightarrow> list_all text_byte (enter_error_text x)"
  shows "list_all text_byte (handler_error_text is_print err)"
  using assms by (cases err) (simp_all add: quote_text fmt_u32_text, simp_all add: text_byte_def)

end
