(* ===== verification/Spec2Isabelle.thy ===== *)
theory Spec2Isabelle
  imports Server_Props Command_Props Answers Adapters Controller Logs Races Listeners Errors
begin

text \<open>
  A verification library for the Cossacks game server (Go, \<^verbatim>\<open>cmd/\<close> and \<^verbatim>\<open>internal/\<close>).

  \<^bold>\<open>The program.\<close> Game clients connect over TCP and send frames of the GSC protocol; every frame holds
  commands, of which the first is served. \<^verbatim>\<open>transport/tcp\<close> reads a frame with \<^verbatim>\<open>transport/gsc\<close>, hands the
  command to the controller \<^verbatim>\<open>app/gsc\<close>, and writes the commands of its answer back as a frame. The
  controller knows a registry of commands (\<^verbatim>\<open>app/gsc/commands\<close>); \<^verbatim>\<open>open\<close> and \<^verbatim>\<open>go\<close> lead to the pages and
  dialogs of \<^verbatim>\<open>app/gsc/routes\<close>. They act on players, rooms and three indexes of the rooms
  (\<^verbatim>\<open>adapter/rooms\<close>) through the lobby service (\<^verbatim>\<open>app/lobby\<close>), on match statistics (\<^verbatim>\<open>app/match\<close>), on
  sessions and alive timers (\<^verbatim>\<open>app/connectivity\<close>), and use accounts (\<^verbatim>\<open>app/identity\<close>), rankings
  (\<^verbatim>\<open>app/ranking\<close>), the expiring store (\<^verbatim>\<open>adapter/kvmemory\<close>) that the UDP endpoint discovery
  (\<^verbatim>\<open>adapter/stun\<close>) fills, and templates (\<^verbatim>\<open>render\<close>). \<^verbatim>\<open>cmd/cossacksd\<close> puts the services together.

  \<^bold>\<open>Go.\<close> \<open>Go_Prelude\<close> has strings as byte lists, words of 8 to 64 bits, little-endian codes, and the
  outcome of a call: a value, an error or a panic. \<open>Go_Strings\<close> has the functions of \<^verbatim>\<open>strings\<close>,
  \<^verbatim>\<open>strconv\<close> and \<^verbatim>\<open>fmt\<close> the server uses and their round trips, \<open>Go_Float\<close> finite doubles as rationals
  rounded to 53 bits, exact on the integers the server sums, \<open>Go_Net\<close> addresses, \<open>Go_Json\<close> decoded JSON.

  \<^bold>\<open>Components.\<close> Each definition bears the name of the function, method or type it translates.
  \<^item> \<open>Wire\<close> (\<^verbatim>\<open>transport/gsc\<close>): text and binary forms of command sets, the frame; round trips, the exact
    inputs on which reading panics, frames are consumed exactly.
  \<^item> \<open>Config\<close> (\<^verbatim>\<open>platform/config\<close>): both file formats, environment, defaults; \<open>Domain\<close> (\<^verbatim>\<open>domain/\<close>): the
    data, and the heap of rooms and players, since both are shared through pointers.
  \<^item> \<open>Rooms_Repo\<close> (\<^verbatim>\<open>adapter/rooms\<close>, the interface of \<^verbatim>\<open>app/lobby/service.go\<close>): the store, the in-memory
    repository, and the locale \<open>room_repository\<close>, the contract of a repository, interpreted for both.
  \<^item> \<open>Control_Sum\<close>, \<open>Lobby\<close> (\<^verbatim>\<open>app/lobby\<close>): the checksum of a row, which is Adler-32; create, register,
    join, leave, start, titles, levels. \<open>Lobby_Refine\<close> proves inside \<open>room_repository\<close> that every operation
    commutes with the abstraction of a repository to three finite maps; \<open>Lobby_Inv\<close> the invariant of the
    maps over all lobby steps, carried to the store; \<open>Lobby_Props\<close> the properties of the operations.
  \<^item> \<open>Match\<close>, \<open>Match_Props\<close> (\<^verbatim>\<open>app/match\<close>): the statistics payload, 16-bit counters continued over their
    wrap-around, rolling windows whose sums stay exact, start and end payloads.
  \<^item> \<open>Identity\<close> (\<^verbatim>\<open>app/identity\<close>): nicks, remote logins, the decision who enters under which name.
  \<^item> \<open>Runtime\<close> (\<^verbatim>\<open>adapter/kvmemory\<close>, \<^verbatim>\<open>adapter/stun\<close>, \<^verbatim>\<open>app/connectivity\<close>): the locale \<open>key_value\<close> with its
    interpretation; a lookup finds the last announced endpoint until it expires.
  \<^item> \<open>Render\<close>, \<open>Templates\<close> (\<^verbatim>\<open>render\<close>), \<open>Ranking\<close> (\<^verbatim>\<open>app/ranking\<close>): view models, bodies built in code, the
    choice of a template and the filters templates call; the two caches of ranking files.
  \<^item> \<open>Server_State\<close>, \<open>Commands\<close>, \<open>Routes\<close>, \<open>Dispatcher\<close> (\<^verbatim>\<open>app/gsc\<close>): the controller's state, every command
    and every route on all branches, dispatch, one round of the loop, and the events of the server.
  \<^item> \<open>Conn_Loop\<close> (\<^verbatim>\<open>transport/tcp\<close>): a connection from accept to disconnect, over the bytes it sends.
  \<^item> \<open>Adapters\<close> (\<^verbatim>\<open>adapter/rankingfile\<close>, \<^verbatim>\<open>adapter/accountprovider\<close>, \<^verbatim>\<open>app/connectivity/store.go\<close>): not wired into
    the server yet; compared with the code they are to replace.
  \<^item> \<open>Controller\<close> (\<^verbatim>\<open>app/gsc/controller_*.go\<close>, \<^verbatim>\<open>dispatch_routes.go\<close>): the entry points beside the dispatch, the
    uniform route handlers, the adapters and the copies of helpers; that they agree with what is served.
  \<^item> \<open>Cossacksd\<close> (\<^verbatim>\<open>cmd/cossacksd\<close>, \<^verbatim>\<open>platform/logging\<close>, \<^verbatim>\<open>platform/health\<close>): the services that run, their
    settings, what the HTTP listeners serve; \<open>Metrics\<close> (\<^verbatim>\<open>platform/metrics\<close>): what is registered and measured;
    \<open>Irc_Proxy\<close> (\<^verbatim>\<open>transport/ircproxy\<close>): the goroutines of a pipe as a step relation.
  \<^item> \<open>Listeners\<close>: the accept loop of the game server, the whole loop of the endpoint discovery, how each
    service ends and what happens to the others; \<open>Logs\<close> (\<^verbatim>\<open>platform/logging\<close>, \<^verbatim>\<open>deckhouse_zap.go\<close>): the logger,
    the forwarder of log lines, what is reported of a body; \<open>Errors\<close>: the texts of errors and their quoting.

  \<^bold>\<open>The whole server.\<close> \<open>Server_Inv\<close> shows that every handler keeps the lobby invariant, the filing of
  players and the ownership of sessions, most of them because they change nothing it mentions, and so in
  every reachable state. \<open>Server_Demo\<close> is a concrete run that the witnesses use. \<open>Server_Props\<close>,
  \<open>Command_Props\<close> and \<open>Answers\<close> hold the properties that span components: consistent rooms, owned players,
  idle players, synchronisation of the room list, the five shapes of an answer. \<open>Interleaving\<close> takes
  \<^verbatim>\<open>join_game\<close> apart into the steps between which other goroutines run: alone they are the handler, in
  some schedules they overfill a room or lose a count. \<open>Races\<close> runs them among leaves and starts of other
  players: none loses a member, but a room can be started or closed between its check and the join.

  \<^bold>\<open>Parameters.\<close> Code outside the repository is an argument: zlib (\<open>inflate\<close>, \<open>deflate\<close>), the YAML
  decoder, the HTTP client, JSON decoders and encoders, the files, the run of a template, the printed form
  of floats, the clock, the order in which Go walks a map, and the largest slice the runtime makes. What
  a theorem needs of them (\<open>inflate\<close> undoes \<open>deflate\<close>, an order lists every key once) is among its hypotheses.

  \<^bold>\<open>Termination and bounds.\<close> No definition needs fuel: the loop of a connection terminates because each
  frame consumes at least the header's bytes of a finite input, all other loops are over lists. Machine
  integers are words where the code's width shows; Go's \<^verbatim>\<open>int\<close> is an integer, wrapped to 64 bits where
  the code can overflow it. The chunk length of the checksum, 5552, is shown to keep its 32-bit sums exact.

  \<^bold>\<open>Not modelled.\<close> Handlers other than \<^verbatim>\<open>join_game\<close> are atomic, and Go gives no meaning to unsynchronised
  writes of one map: data races are out of the model, and locks only serialise what it takes as one step.
  Sockets beyond the bytes they carry, the HTTP server, the encoders of the logger, the metrics registry,
  the group of services, the parser of the command line and the engine of \<^verbatim>\<open>text/template\<close> with the texts of
  templates are third-party or library code behind the calls that are modelled. Log lines are not modelled
  beyond \<open>Logs\<close> and \<open>Errors\<close>; the interfaces of \<^verbatim>\<open>port/\<close> and one-line delegations carry no behaviour.
\<close>

end
